(* ===== verification/Rails_Prelude.thy ===== *)
theory Rails_Prelude imports Complex_Main "HOL-Library.Word" "HOL-Library.State_Monad" "HOL-Library.Sublist" begin

text \<open>
  Shared vocabulary of the development: the lemma collections, the result of a guarded
  database write, Go's conversions between big integers, fixed-width words and decimal text, the
  instants and durations of package time (counted in nanoseconds), and the two judgements
  on stateful operations the component theories reason with: \<open>keeps I m\<close> (the operation
  preserves an invariant) and \<open>hoare P m Q\<close> (a pre- and postcondition).
\<close>

named_theorems keeps_intros \<open>operations of the program that keep an invariant of the state\<close>

section \<open>Time\<close>

type_synonym instant = int
type_synonym duration = int

abbreviation second :: duration where "second \<equiv> 1000000000"
abbreviation minute :: duration where "minute \<equiv> 60 * second"
abbreviation hour :: duration where "hour \<equiv> 60 * minute"

section \<open>Lists\<close>

lemma find_map_same: "(\<And>x. p (h x) = p x) \<Longrightarrow> find p (map h xs) = map_option h (find p xs)"
  by (induction xs) auto

lemma list_all2_source: "list_all2 P xs ys \<Longrightarrow> y \<in> set ys \<Longrightarrow> \<exists>x \<in> set xs. P x y"
  by (induction rule: list_all2_induct) auto

section \<open>Big integers and machine words\<close>

type_synonym byte = "8 word"

text \<open>
  \<open>big.Int.IsUint64\<close> and \<open>big.Int.Uint64\<close>. The latter returns the low 64 bits of the
  magnitude for a value that does not fit.
\<close>

definition is_uint64 :: "int \<Rightarrow> bool" where
  "is_uint64 n \<longleftrightarrow> 0 \<le> n \<and> n < 2 ^ 64"

definition big_uint64 :: "int \<Rightarrow> 64 word" where
  "big_uint64 n = word_of_int \<bar>n\<bar>"

lemma is_uint64_iff [simp]: "is_uint64 n \<longleftrightarrow> 0 \<le> n \<and> n < 18446744073709551616"
  by (simp add: is_uint64_def)

lemma uint_big_uint64: "is_uint64 n \<Longrightarrow> uint (big_uint64 n) = n"
  by (simp add: big_uint64_def uint_word_of_int)

lemma uint_big_uint64_mod: "uint (big_uint64 n) = \<bar>n\<bar> mod 2 ^ 64"
  by (simp add: big_uint64_def uint_word_of_int)

text \<open>A product or sum of \<open>int64\<close> (and of durations) wraps.\<close>

definition int64 :: "int \<Rightarrow> int" where
  "int64 n = sint (word_of_int n :: 64 word)"

text \<open>\<open>big.Int.Quo\<close> truncates towards zero.\<close>

definition quo :: "int \<Rightarrow> int \<Rightarrow> int" where
  "quo a b = sgn a * sgn b * (\<bar>a\<bar> div \<bar>b\<bar>)"

lemma quo_nonneg [simp]: "0 \<le> a \<Longrightarrow> 0 < b \<Longrightarrow> quo a b = a div b"
  by (cases "a = 0") (auto simp: quo_def)

section \<open>Big-endian and little-endian byte strings\<close>

text \<open>The value of a byte string read most significant byte first.\<close>

definition be_val :: "byte list \<Rightarrow> nat" where
  "be_val bs = foldl (\<lambda>a b. 256 * a + unat b) 0 bs"

text \<open>The \<open>n\<close> bytes of a value, most significant first; higher bytes are dropped.\<close>

fun be_bytes :: "nat \<Rightarrow> nat \<Rightarrow> byte list" where
  "be_bytes 0 v = []"
| "be_bytes (Suc n) v = be_bytes n (v div 256) @ [word_of_nat (v mod 256)]"

lemma length_be_bytes [simp]: "length (be_bytes n v) = n"
  by (induction n arbitrary: v) auto

lemma be_val_Nil [simp]: "be_val [] = 0"
  by (simp add: be_val_def)

lemma be_val_snoc [simp]: "be_val (bs @ [b]) = 256 * be_val bs + unat b"
  by (simp add: be_val_def)

lemma be_val_be_bytes: "be_val (be_bytes n v) = v mod 256 ^ n"
proof (induction n arbitrary: v)
  case 0
  show ?case by simp
next
  case (Suc n)
  have "unat (word_of_nat (v mod 256) :: byte) = v mod 256"
    by (simp add: unat_of_nat)
  with Suc show ?case
    by (simp add: mod_mult2_eq)
qed

lemma be_val_less: "be_val bs < 256 ^ length bs"
proof (induction bs rule: rev_induct)
  case Nil
  show ?case by simp
next
  case (snoc b bs)
  have "unat b < 256" using unsigned_less [where ?'a=nat, of b] by simp
  with snoc show ?case by simp
qed

lemma be_bytes_be_val: "be_bytes (length bs) (be_val bs) = bs"
proof (induction bs rule: rev_induct)
  case Nil
  show ?case by simp
next
  case (snoc b bs)
  have b: "unat b < 256" using unsigned_less [where ?'a=nat, of b] by simp
  then have "(256 * be_val bs + unat b) div 256 = be_val bs"
    and "(256 * be_val bs + unat b) mod 256 = unat b" by simp_all
  with snoc show ?case by simp
qed


section \<open>Decimal text\<close>

definition digit_char :: "nat \<Rightarrow> char" where
  "digit_char d = char_of (48 + d)"

text \<open>Go's \<open>%d\<close> on a non-negative integer.\<close>

fun show_nat :: "nat \<Rightarrow> string" where
  "show_nat n = (if n < 10 then [digit_char n] else show_nat (n div 10) @ [digit_char (n mod 10)])"

declare show_nat.simps [simp del]

definition is_digit :: "char \<Rightarrow> bool" where
  "is_digit c \<longleftrightarrow> 48 \<le> (of_char c :: nat) \<and> (of_char c :: nat) \<le> 57"

definition digits_val :: "string \<Rightarrow> nat" where
  "digits_val cs = foldl (\<lambda>a c. 10 * a + (of_char c - 48)) 0 cs"

text \<open>
  \<open>new(big.Int).SetString(s, 10)\<close>: an optional sign and a non-empty run of digits;
  anything else is refused.
\<close>

definition parse_digits :: "string \<Rightarrow> nat option" where
  "parse_digits cs = (if cs \<noteq> [] \<and> list_all is_digit cs then Some (digits_val cs) else None)"

definition parse_int :: "string \<Rightarrow> int option" where
  "parse_int s = (case s of
       [] \<Rightarrow> None
     | c # cs \<Rightarrow> if c = CHR ''-'' then map_option (\<lambda>n. - int n) (parse_digits cs)
               else if c = CHR ''+'' then map_option int (parse_digits cs)
               else map_option int (parse_digits s))"

definition show_int :: "int \<Rightarrow> string" where
  "show_int n = (if n < 0 then CHR ''-'' # show_nat (nat \<bar>n\<bar>) else show_nat (nat n))"

lemma of_char_digit [simp]: "d < 10 \<Longrightarrow> (of_char (digit_char d) :: nat) = 48 + d"
  by (simp add: digit_char_def)

lemma is_digit_digit [simp]: "d < 10 \<Longrightarrow> is_digit (digit_char d)"
  by (simp add: is_digit_def)

lemma digits_val_Nil [simp]: "digits_val [] = 0"
  by (simp add: digits_val_def)

lemma digits_val_snoc [simp]: "digits_val (cs @ [c]) = 10 * digits_val cs + (of_char c - 48)"
  by (simp add: digits_val_def)

lemma show_nat_neq_Nil [simp]: "show_nat n \<noteq> []"
  by (subst show_nat.simps) auto

lemma show_nat_digits: "list_all is_digit (show_nat n)"
proof (induction n rule: show_nat.induct)
  case (1 n)
  then show ?case by (subst show_nat.simps) auto
qed

lemma digits_val_show_nat [simp]: "digits_val (show_nat n) = n"
proof (induction n rule: show_nat.induct)
  case (1 n)
  show ?case
  proof (cases "n < 10")
    case True
    then show ?thesis
      by (subst show_nat.simps) (simp add: digits_val_snoc [of "[]", simplified])
  next
    case False
    with 1 show ?thesis by (subst show_nat.simps) simp
  qed
qed

lemma show_nat_inject [simp]: "show_nat m = show_nat n \<longleftrightarrow> m = n"
  by (metis digits_val_show_nat)

lemma parse_digits_show_nat [simp]: "parse_digits (show_nat n) = Some n"
  by (simp add: parse_digits_def show_nat_digits)

lemma not_digit_sign: "\<not> is_digit CHR ''-''" "\<not> is_digit CHR ''+''"
  by (simp_all add: is_digit_def)

lemma parse_int_show_int [simp]: "parse_int (show_int n) = Some n"
proof (cases "n < 0")
  case True
  then show ?thesis by (simp add: show_int_def parse_int_def)
next
  case False
  obtain c cs where c: "show_nat (nat n) = c # cs" using show_nat_neq_Nil by (cases "show_nat (nat n)") auto
  then have "is_digit c" using show_nat_digits [of "nat n"] by simp
  then have "c \<noteq> CHR ''-''" "c \<noteq> CHR ''+''" using not_digit_sign by auto
  then have "parse_int (c # cs) = map_option int (parse_digits (c # cs))"
    by (simp add: parse_int_def)
  then show ?thesis using False by (simp add: show_int_def c [symmetric])
qed

section \<open>Operations on a state\<close>

abbreviation "return \<equiv> State_Monad.return"
abbreviation "fetch \<equiv> State_Monad.get"
abbreviation "modify \<equiv> State_Monad.update"

text \<open>Go's \<open>for _, x := range xs\<close> over a loaded slice.\<close>

primrec for_each :: "'a list \<Rightarrow> ('a \<Rightarrow> ('s, unit) state) \<Rightarrow> ('s, unit) state" where
  "for_each [] f = return ()"
| "for_each (x # xs) f = do { f x; for_each xs f }"

definition only_if :: "bool \<Rightarrow> ('s, unit) state \<Rightarrow> ('s, unit) state" where
  "only_if b m = (if b then m else return ())"

lemma run_state_update [simp]: "run_state (modify f) s = ((), f s)"
  by (simp add: State_Monad.update_def)

definition keeps :: "('s \<Rightarrow> bool) \<Rightarrow> ('s, 'a) state \<Rightarrow> bool" where
  "keeps I m \<longleftrightarrow> (\<forall>s. I s \<longrightarrow> I (snd (run_state m s)))"

definition hoare :: "('s \<Rightarrow> bool) \<Rightarrow> ('s, 'a) state \<Rightarrow> ('a \<Rightarrow> 's \<Rightarrow> bool) \<Rightarrow> bool" where
  "hoare P m Q \<longleftrightarrow> (\<forall>s r s'. P s \<longrightarrow> run_state m s = (r, s') \<longrightarrow> Q r s')"

lemma keepsD: "keeps I m \<Longrightarrow> I s \<Longrightarrow> I (snd (run_state m s))"
  by (simp add: keeps_def)

lemma keeps_hoare: "keeps I m \<longleftrightarrow> hoare I m (\<lambda>_. I)"
  by (auto simp: keeps_def hoare_def) (metis prod.collapse)

lemma keeps_return [keeps_intros]: "keeps I (return x)"
  by (simp add: keeps_def)

lemma keeps_get [keeps_intros]: "keeps I fetch"
  by (simp add: keeps_def)

lemma keeps_bind [keeps_intros]:
  "keeps I m \<Longrightarrow> (\<And>r. keeps I (f r)) \<Longrightarrow> keeps I (m \<bind> f)"
  by (simp add: keeps_def split: prod.split) (metis snd_conv)

lemma keeps_bind_result:
  "keeps I m \<Longrightarrow> (\<And>s. ok (fst (run_state m s))) \<Longrightarrow> (\<And>r. ok r \<Longrightarrow> keeps I (f r)) \<Longrightarrow> keeps I (m \<bind> f)"
  by (simp add: keeps_def split: prod.split) (metis fst_conv snd_conv)

lemma keeps_if [keeps_intros]:
  "(c \<Longrightarrow> keeps I m) \<Longrightarrow> (\<not> c \<Longrightarrow> keeps I n) \<Longrightarrow> keeps I (if c then m else n)"
  by simp

lemma keeps_only_if [keeps_intros]: "(c \<Longrightarrow> keeps I m) \<Longrightarrow> keeps I (only_if c m)"
  by (simp add: only_if_def keeps_return)

lemma keeps_update: "(\<And>s. I s \<Longrightarrow> I (f s)) \<Longrightarrow> keeps I (modify f)"
  by (simp add: keeps_def)

lemma keeps_for_each [keeps_intros]:
  "(\<And>x. x \<in> set xs \<Longrightarrow> keeps I (f x)) \<Longrightarrow> keeps I (for_each xs f)"
  by (induction xs) (auto intro!: keeps_intros)

lemma keeps_option [keeps_intros]:
  "keeps I m \<Longrightarrow> (\<And>x. keeps I (f x)) \<Longrightarrow> keeps I (case x of None \<Rightarrow> m | Some x \<Rightarrow> f x)"
  by (cases x) auto

lemma keeps_option_eq:
  "(x = None \<Longrightarrow> keeps I m) \<Longrightarrow> (\<And>y. x = Some y \<Longrightarrow> keeps I (f y)) \<Longrightarrow>
   keeps I (case x of None \<Rightarrow> m | Some y \<Rightarrow> f y)"
  by (cases x) auto

lemma keeps_sum [keeps_intros]:
  "(\<And>x. keeps I (f x)) \<Longrightarrow> (\<And>x. keeps I (g x)) \<Longrightarrow> keeps I (case x of Inl a \<Rightarrow> f a | Inr b \<Rightarrow> g b)"
  by (cases x) auto

lemma keeps_prod [keeps_intros]:
  "(\<And>a b. keeps I (f a b)) \<Longrightarrow> keeps I (case x of (a, b) \<Rightarrow> f a b)"
  by (cases x) auto

lemma keeps_Let [keeps_intros]: "keeps I (f x) \<Longrightarrow> keeps I (Let x f)"
  by simp

lemma hoareD: "hoare P m Q \<Longrightarrow> P s \<Longrightarrow> run_state m s = (r, s') \<Longrightarrow> Q r s'"
  unfolding hoare_def by blast

lemma hoare_bind:
  "hoare P m Q \<Longrightarrow> (\<And>r. hoare (Q r) (f r) R) \<Longrightarrow> hoare P (m \<bind> f) R"
  unfolding hoare_def by (auto split: prod.splits)

lemma hoare_return: "(\<And>s. P s \<Longrightarrow> Q x s) \<Longrightarrow> hoare P (return x) Q"
  by (simp add: hoare_def)

lemma hoare_get: "hoare P fetch (\<lambda>r s. r = s \<and> P s)"
  by (simp add: hoare_def)

lemma hoare_if:
  "(c \<Longrightarrow> hoare P m Q) \<Longrightarrow> (\<not> c \<Longrightarrow> hoare P n Q) \<Longrightarrow> hoare P (if c then m else n) Q"
  by simp

lemma hoare_weaken:
  "hoare P' m Q' \<Longrightarrow> (\<And>s. P s \<Longrightarrow> P' s) \<Longrightarrow> (\<And>r s. Q' r s \<Longrightarrow> Q r s) \<Longrightarrow> hoare P m Q"
  unfolding hoare_def by blast

lemma hoare_conj:
  "hoare P m Q \<Longrightarrow> hoare P' m Q' \<Longrightarrow> hoare (\<lambda>s. P s \<and> P' s) m (\<lambda>r s. Q r s \<and> Q' r s)"
  unfolding hoare_def by blast

end
