(* ===== verification/Money.thy ===== *)
theory Money imports Rails_Prelude begin

text \<open>
  Amounts of money. A \<open>decimal.Decimal\<close> is an exact decimal fraction, kept here as a rational:
  \<open>Add\<close>, \<open>Sub\<close>, \<open>Mul\<close>, \<open>Cmp\<close> and \<open>Shift\<close> are exact, \<open>Truncate(0)\<close> drops the fraction.
  The two operations of the decimal package that round, \<open>Div\<close> (16 digits) and \<open>Round(2)\<close>,
  are parameters with their documented error bounds (locale \<open>decimal_library\<close>).
  Below them the conversions and the arithmetic of the dispatcher: subunit conversions,
  the fit-guard of the LiFi fallback and the split of bridged USDC into the merchant's
  payout and the sender fee.
\<close>

section \<open>The decimal package\<close>

type_synonym decimal = rat

definition shift :: "decimal \<Rightarrow> nat \<Rightarrow> decimal" where
  "shift d n = d * 10 ^ n"

definition unshift :: "decimal \<Rightarrow> nat \<Rightarrow> decimal" where
  "unshift d n = d / 10 ^ n"

definition trunc :: "decimal \<Rightarrow> int" where
  "trunc d = (if d < 0 then - \<lfloor>- d\<rfloor> else \<lfloor>d\<rfloor>)"

record declib =
  dl_div :: "decimal \<Rightarrow> decimal \<Rightarrow> decimal"
  dl_round2 :: "decimal \<Rightarrow> decimal"

definition declib_ok :: "declib \<Rightarrow> bool" where
  "declib_ok D \<longleftrightarrow>
     (\<forall>a b. b \<noteq> 0 \<longrightarrow> \<bar>dl_div D a b - a / b\<bar> \<le> 1 / (2 * 10 ^ 16)) \<and>
     (\<forall>a. (\<exists>n. dl_round2 D a = of_int n / 100) \<and> \<bar>dl_round2 D a - a\<bar> \<le> 1 / 200)"

text \<open>Rounding half away from zero to \<open>n\<close> places, as the package documents it.\<close>

definition round_away :: "nat \<Rightarrow> decimal \<Rightarrow> decimal" where
  "round_away n d = (if d < 0 then - (of_int \<lfloor>- d * 10 ^ n + 1 / 2\<rfloor> / 10 ^ n)
                     else of_int \<lfloor>d * 10 ^ n + 1 / 2\<rfloor> / 10 ^ n)"

definition std_dec :: declib where
  "std_dec = \<lparr>dl_div = (\<lambda>a b. round_away 16 (a / b)), dl_round2 = round_away 2\<rparr>"

lemma round_half_error: "\<bar>of_int \<lfloor>x + 1 / 2\<rfloor> - x\<bar> \<le> (1 / 2 :: rat)"
  by linarith

lemma round_pos_error:
  "\<bar>of_int \<lfloor>d * 10 ^ n + 1 / 2\<rfloor> / 10 ^ n - d\<bar> \<le> 1 / (2 * 10 ^ n)" for d :: rat
proof -
  have "\<bar>of_int \<lfloor>d * 10 ^ n + 1 / 2\<rfloor> - d * 10 ^ n\<bar> / 10 ^ n \<le> (1 / 2) / (10 ^ n :: rat)"
    by (rule divide_right_mono [OF round_half_error]) simp
  moreover have "of_int \<lfloor>d * 10 ^ n + 1 / 2\<rfloor> / 10 ^ n - d
      = (of_int \<lfloor>d * 10 ^ n + 1 / 2\<rfloor> - d * 10 ^ n) / (10 ^ n :: rat)"
    by (simp add: diff_divide_distrib)
  ultimately show ?thesis by (simp add: abs_divide)
qed

lemma round_away_error: "\<bar>round_away n d - d\<bar> \<le> 1 / (2 * 10 ^ n)"
  using round_pos_error [of "- d" n] round_pos_error [of d n]
  by (auto simp: round_away_def)

lemma round_away_grid: "\<exists>k. round_away n d = of_int k / 10 ^ n"
proof (cases "d < 0")
  case True
  then show ?thesis
    by (intro exI [of _ "- \<lfloor>- d * 10 ^ n + 1 / 2\<rfloor>"]) (simp add: round_away_def)
next
  case False
  then show ?thesis by (auto simp: round_away_def)
qed

locale decimal_library =
  fixes D :: declib
  assumes library: "declib_ok D"
begin

lemma div_bounds:
  assumes "b \<noteq> 0"
  shows "dl_div D a b \<le> a / b + 1 / (2 * 10 ^ 16)" "a / b - 1 / (2 * 10 ^ 16) \<le> dl_div D a b"
proof -
  have "\<bar>dl_div D a b - a / b\<bar> \<le> 1 / (2 * 10 ^ 16)"
    using library assms by (simp add: declib_ok_def)
  then show "dl_div D a b \<le> a / b + 1 / (2 * 10 ^ 16)" "a / b - 1 / (2 * 10 ^ 16) \<le> dl_div D a b"
    unfolding abs_le_iff by linarith+
qed

lemma round2_bounds: "dl_round2 D a \<le> a + 1 / 200" "a - 1 / 200 \<le> dl_round2 D a"
proof -
  have "\<bar>dl_round2 D a - a\<bar> \<le> 1 / 200"
    using library by (simp add: declib_ok_def)
  then show "dl_round2 D a \<le> a + 1 / 200" "a - 1 / 200 \<le> dl_round2 D a"
    unfolding abs_le_iff by linarith+
qed

end

lemma std_dec_ok: "declib_ok std_dec"
  unfolding declib_ok_def std_dec_def
  using round_away_error [of 16] round_away_error [of 2] round_away_grid [of 2]
  by simp

interpretation std: decimal_library std_dec
  by unfold_locales (rule std_dec_ok)

lemma trunc_of_int [simp]: "trunc (of_int n) = n"
  by (simp add: trunc_def)

lemma trunc_le: "0 \<le> d \<Longrightarrow> of_int (trunc d) \<le> d"
  by (simp add: trunc_def)

lemma trunc_nonneg [simp]: "0 \<le> d \<Longrightarrow> 0 \<le> trunc d"
  by (simp add: trunc_def)

lemma trunc_ge: "of_int n \<le> d \<Longrightarrow> 0 \<le> d \<Longrightarrow> n \<le> trunc d"
  by (simp add: trunc_def le_floor_iff)

lemma trunc_pos_iff: "0 < trunc d \<longleftrightarrow> 1 \<le> d"
  by (auto simp: trunc_def)

lemma shift_unshift [simp]: "shift (unshift d n) n = d"
  by (simp add: shift_def unshift_def)

lemma shift_nonneg [simp]: "0 \<le> d \<Longrightarrow> 0 \<le> shift d n"
  by (simp add: shift_def)

section \<open>Subunit conversions\<close>

definition decimalToSubunit :: "decimal \<Rightarrow> nat \<Rightarrow> int" where
  "decimalToSubunit d decimals = trunc (shift d decimals)"

definition parseAmountToDecimal :: "(string \<Rightarrow> decimal option) \<Rightarrow> string \<Rightarrow> nat \<Rightarrow> decimal option" where
  "parseAmountToDecimal parse amount decimals =
     (case parse amount of None \<Rightarrow> None | Some d \<Rightarrow> Some (unshift d decimals))"

definition usdcSubunitsUint64 :: "decimal \<Rightarrow> nat \<Rightarrow> 64 word option" where
  "usdcSubunitsUint64 amount decimals =
     (let n = trunc (shift amount decimals) in
      if n \<le> 0 \<or> \<not> is_uint64 n then None else Some (big_uint64 n))"

lemma usdcSubunitsUint64_Some_iff:
  "usdcSubunitsUint64 a d = Some w \<longleftrightarrow>
     0 < trunc (shift a d) \<and> trunc (shift a d) < 2 ^ 64 \<and> uint w = trunc (shift a d)"
  by (auto simp: usdcSubunitsUint64_def Let_def uint_big_uint64 word_uint_eq_iff)

section \<open>The fit-guard of the LiFi fallback\<close>

definition lifiCoversQuote :: "declib \<Rightarrow> decimal \<Rightarrow> decimal \<Rightarrow> int \<Rightarrow> decimal \<Rightarrow> bool" where
  "lifiCoversQuote D targetNGN liveRate senderFeeBPS minDelivery =
     (if \<not> 0 < liveRate \<or> \<not> 0 < targetNGN then False
      else let required = dl_div D (dl_div D targetNGN liveRate * of_int (10000 + senderFeeBPS)) 10000
           in minDelivery \<ge> required)"

section \<open>Splitting the bridged USDC\<close>

text \<open>
  The amounts \<open>dispatchLP\<close> computes: the payout that converts to the merchant's NGN at the
  live rate, the fee trimmed to what fits, and the bounded shortfall the wallet float may
  absorb. The wallet balance is read only when there is a shortfall.
\<close>

definition maxDispatchShortfallBPS :: int where "maxDispatchShortfallBPS = 200"

datatype split_error = ShortfallTooBig | WalletUnreadable | WalletTooLow

definition fee_split :: "int \<Rightarrow> int \<Rightarrow> int \<Rightarrow> int" where
  "fee_split bps bridged amount =
     (let senderFee = quo (amount * bps) 10000 in
      if amount + senderFee > bridged
      then (let senderFee = bridged - amount in if senderFee < 0 then 0 else senderFee)
      else senderFee)"

definition shortfall_check :: "int \<Rightarrow> int \<Rightarrow> int option \<Rightarrow> split_error option" where
  "shortfall_check bridged amount wallet =
     (if amount > bridged
      then (let shortfall = amount - bridged;
                maxShort = quo (amount * maxDispatchShortfallBPS) 10000 in
            if shortfall > maxShort then Some ShortfallTooBig
            else case wallet of None \<Rightarrow> Some WalletUnreadable
                 | Some bal \<Rightarrow> if bal < amount then Some WalletTooLow else None)
      else None)"

definition dispatch_amounts ::
  "int \<Rightarrow> int \<Rightarrow> int \<Rightarrow> int option \<Rightarrow> split_error + int \<times> int" where
  "dispatch_amounts bps bridged amount wallet =
     (case shortfall_check bridged amount wallet of
        Some e \<Rightarrow> Inl e
      | None \<Rightarrow> Inr (amount, fee_split bps bridged amount))"

lemma bps_div_le: "x \<le> y div 10000 \<Longrightarrow> x * 10000 \<le> (y :: int)"
  by linarith

lemma fee_split_bounds:
  assumes "0 \<le> bps" "0 \<le> amount"
  shows "0 \<le> fee_split bps bridged amount"
    and "fee_split bps bridged amount \<le> amount * bps div 10000"
    and "amount \<le> bridged \<Longrightarrow> amount + fee_split bps bridged amount \<le> bridged"
    and "bridged < amount \<Longrightarrow> fee_split bps bridged amount = 0"
  using assms by (auto simp: fee_split_def Let_def pos_imp_zdiv_nonneg_iff)

text \<open>C4. Splitting the bridged USDC never touches the merchant's payout: the amount is the
  one asked for; the fee is non-negative, at most the configured basis points, and the total
  fits the bridged USDC, unless the fee is zero and the missing part is within 200 bps of the
  payout and covered by the wallet balance that was read.\<close>

theorem dispatch_amounts_sound:
  assumes "0 \<le> bps" "0 \<le> amount" "dispatch_amounts bps bridged amount wallet = Inr (a, fee)"
  shows "a = amount \<and> 0 \<le> fee \<and> fee * 10000 \<le> amount * bps \<and>
    (a + fee \<le> bridged \<or>
     fee = 0 \<and> (a - bridged) * 10000 \<le> a * 200 \<and> (\<exists>bal. wallet = Some bal \<and> a \<le> bal))"
proof -
  have a: "a = amount" and fee: "fee = fee_split bps bridged amount"
    and ok: "shortfall_check bridged amount wallet = None"
    using assms(3) by (auto simp: dispatch_amounts_def split: option.splits)
  have "fee \<le> amount * bps div 10000"
    using fee_split_bounds(2) [OF assms(1,2)] fee by simp
  then have cap: "fee * 10000 \<le> amount * bps" by (rule bps_div_le)
  show ?thesis
  proof (cases "amount \<le> bridged")
    case True
    then show ?thesis
      using a fee cap fee_split_bounds(1,3) [OF assms(1,2)] by auto
  next
    case False
    then have "amount - bridged \<le> amount * 200 div 10000"
      and bal: "\<exists>bal. wallet = Some bal \<and> amount \<le> bal"
      using ok assms(2)
      by (auto simp: shortfall_check_def maxDispatchShortfallBPS_def Let_def
          split: if_splits option.splits)
    then have "(amount - bridged) * 10000 \<le> amount * 200" by (intro bps_div_le)
    then show ?thesis
      using False a fee cap bal fee_split_bounds(1,4) [OF assms(1,2)] by auto
  qed
qed

theorem dispatch_amounts_sound_witness:
  "(1000 :: int) = 1000 \<and> 0 \<le> (0::int) \<and> (0::int) * 10000 \<le> 1000 * 50 \<and>
    (1000 + 0 \<le> (990::int) \<or>
     (0::int) = 0 \<and> (1000 - 990) * 10000 \<le> (1000::int) * 200 \<and>
       (\<exists>bal. Some (5000::int) = Some bal \<and> 1000 \<le> bal))"
  by (rule dispatch_amounts_sound [of 50 1000 990 "Some 5000" 1000 0])
    (simp_all add: dispatch_amounts_def shortfall_check_def fee_split_def
      maxDispatchShortfallBPS_def)

lemma quotient_nonneg:
  assumes "declib_ok D" "0 < target" "0 < rate"
  shows "0 \<le> decimalToSubunit (dl_div D target rate) 6"
proof -
  have "target / rate - 1 / (2 * 10 ^ 16) \<le> dl_div D target rate"
    using decimal_library.div_bounds(2) [OF decimal_library.intro, OF assms(1), of rate] assms by simp
  moreover have "0 < target / rate" using assms by simp
  ultimately have "- (1 / (2 * 10 ^ 16)) < dl_div D target rate" by linarith
  then have "- (shift (dl_div D target rate) 6) < 1" by (simp add: shift_def field_simps)
  then show ?thesis by (simp add: decimalToSubunit_def trunc_def)
qed

lemma fee_total_le:
  assumes "0 \<le> bps" "0 \<le> a" "of_int a * of_int (10000 + bps) / 10000 \<le> of_int m + (1 / 2 :: rat)"
  shows "a + a * bps div 10000 \<le> m"
proof -
  have "a * bps div 10000 * 10000 \<le> a * bps" by simp
  then have "(a + a * bps div 10000) * 10000 \<le> a * (10000 + bps)" by (simp add: algebra_simps)
  then have "of_int (a + a * bps div 10000) * 10000 \<le> (of_int a * of_int (10000 + bps) :: rat)"
    by (metis of_int_le_iff of_int_mult of_int_numeral)
  moreover have "of_int a * of_int (10000 + bps) \<le> (of_int m + 1 / 2) * (10000 :: rat)"
    using assms(3) by (simp only: pos_divide_le_eq)
  ultimately have "of_int (a + a * bps div 10000) * 10000 \<le> (of_int m + 1 / 2) * (10000 :: rat)"
    by (rule order_trans)
  then have "of_int (a + a * bps div 10000) \<le> of_int m + (1 / 2 :: rat)"
    by (simp only: mult_le_cancel_right_pos zero_less_numeral)
  then show ?thesis by linarith
qed

text \<open>The fit-guard is sound: when it accepts a guaranteed positive delivery of a whole
  number of USDC subunits, then a dispatch of at least that delivery at the same live rate
  fits the payout and the full sender fee, with no trimming and no shortfall.\<close>

theorem lifiCoversQuote_sound:
  assumes "declib_ok D" "0 \<le> bps" "0 < m"
    and guard: "lifiCoversQuote D target rate bps (unshift (of_int m) 6)"
    and "m \<le> bridged" and amount: "amount = decimalToSubunit (dl_div D target rate) 6"
  shows "dispatch_amounts bps bridged amount wallet = Inr (amount, amount * bps div 10000)"
proof -
  define q where "q = dl_div D target rate"
  have pos: "0 < target" "0 < rate" using guard by (simp_all add: lifiCoversQuote_def split: if_splits)
  have a0: "0 \<le> amount" using quotient_nonneg [OF assms(1) pos] amount by simp
  have "dl_div D (q * of_int (10000 + bps)) 10000 \<le> unshift (of_int m) 6"
    using guard pos by (simp add: lifiCoversQuote_def q_def Let_def)
  moreover have "q * of_int (10000 + bps) / 10000 - 1 / (2 * 10 ^ 16)
      \<le> dl_div D (q * of_int (10000 + bps)) 10000"
    using decimal_library.div_bounds(2) [OF decimal_library.intro, OF assms(1), of 10000] by simp
  ultimately have hi: "shift q 6 * of_int (10000 + bps) / 10000 \<le> of_int m + 1 / 2"
    by (simp add: unshift_def shift_def field_simps)
  have "of_int amount * of_int (10000 + bps) / 10000 \<le> of_int m + (1 / 2 :: rat)"
  proof (cases "0 \<le> q")
    case True
    then have "of_int amount \<le> shift q 6"
      using trunc_le [of "shift q 6"] amount by (simp add: decimalToSubunit_def q_def)
    then have "of_int amount * of_int (10000 + bps) \<le> shift q 6 * of_int (10000 + bps)"
      using assms(2) by (intro mult_right_mono) simp_all
    with hi show ?thesis by linarith
  next
    case False
    then have "shift q 6 < 0" by (simp add: shift_def)
    then have "amount \<le> 0" by (simp add: amount decimalToSubunit_def trunc_def q_def)
    with a0 \<open>0 < m\<close> show ?thesis by simp
  qed
  then have total: "amount + amount * bps div 10000 \<le> bridged"
    using fee_total_le [OF assms(2) a0] \<open>m \<le> bridged\<close> by fastforce
  moreover have "0 \<le> amount * bps div 10000" using a0 assms(2) by (simp add: pos_imp_zdiv_nonneg_iff)
  ultimately show ?thesis
    using a0 assms(2) by (auto simp: dispatch_amounts_def shortfall_check_def fee_split_def Let_def)
qed

theorem lifiCoversQuote_sound_witness:
  "dispatch_amounts 50 1010000 1000000 None = Inr (1000000, 1000000 * 50 div 10000)"
proof (rule lifiCoversQuote_sound [of std_dec 50 1010000 1500 1500])
  have d: "dl_div std_dec 1500 1500 = 1"
    "dl_div std_dec (1 * of_int (10000 + 50)) 10000 = 10050 / 10000"
    by (simp_all add: std_dec_def round_away_def floor_eq_iff)
  show "lifiCoversQuote std_dec 1500 1500 50 (unshift (of_int 1010000) 6)"
    using d(2) by (simp add: lifiCoversQuote_def d(1) unshift_def)
  show "1000000 = decimalToSubunit (dl_div std_dec 1500 1500) 6"
    by (simp add: d decimalToSubunit_def shift_def trunc_def)
qed (simp_all add: std_dec_ok)

end
