(* ===== verification/Sui_Coins.thy ===== *)
theory Sui_Coins imports Money begin

text \<open>
  Choosing the aggregator's coin objects: the inputs of a CCTP burn (services/cctp/sui_burn.go),
  the gas coin of the burn, and the inputs of an LP's USDC delivery
  (services/route_a_lp_network.go). A coin is its object id and its balance as the node
  returns it, decimal text.
\<close>

type_synonym coin = "string \<times> string"

datatype coin_error = BadBalance string | TooFragmented | InsufficientUsdc int | NoGasCoin | GasTooLow int

definition maxBurnInputCoins :: nat where "maxBurnInputCoins = 20"
definition burnGasBudgetMist :: int where "burnGasBudgetMist = 50000000"

text \<open>The loop of \<open>selectCoins\<close>, with the coins selected so far and their tot.\<close>

fun select_loop :: "int \<Rightarrow> coin list \<Rightarrow> (coin \<times> int) list \<Rightarrow> int \<Rightarrow> coin_error + (coin \<times> int) list \<times> int" where
  "select_loop amount [] selected tot = Inr (selected, tot)"
| "select_loop amount (c # cs) selected tot =
     (case parse_int (snd c) of
        None \<Rightarrow> Inl (BadBalance (fst c))
      | Some bal \<Rightarrow>
          if bal \<le> 0 then select_loop amount cs selected tot
          else let selected' = selected @ [(c, bal)]; tot' = tot + bal in
            if tot' \<ge> amount then Inr (selected', tot')
            else if length selected' \<ge> maxBurnInputCoins then Inl TooFragmented
            else select_loop amount cs selected' tot')"

definition selectCoins :: "coin list \<Rightarrow> int \<Rightarrow> coin_error + (coin \<times> int) list" where
  "selectCoins coins amount =
     (case select_loop amount coins [] 0 of
        Inl e \<Rightarrow> Inl e
      | Inr (selected, tot) \<Rightarrow> if tot < amount then Inl (InsufficientUsdc tot) else Inr selected)"

text \<open>The loop of \<open>suiTransferUSDC\<close>: unreadable balances are skipped, no cap on the inputs.\<close>

fun transfer_loop :: "int \<Rightarrow> coin list \<Rightarrow> (coin \<times> int) list \<Rightarrow> int \<Rightarrow> (coin \<times> int) list \<times> int" where
  "transfer_loop need [] selected tot = (selected, tot)"
| "transfer_loop need (c # cs) selected tot =
     (case parse_int (snd c) of
        None \<Rightarrow> transfer_loop need cs selected tot
      | Some bal \<Rightarrow>
          if bal \<le> 0 then transfer_loop need cs selected tot
          else if tot + bal \<ge> need then (selected @ [(c, bal)], tot + bal)
          else transfer_loop need cs (selected @ [(c, bal)]) (tot + bal))"

definition transfer_coins :: "coin list \<Rightarrow> int \<Rightarrow> coin_error + (coin \<times> int) list" where
  "transfer_coins coins need =
     (case transfer_loop need coins [] 0 of (selected, tot) \<Rightarrow>
        if tot < need then Inl (InsufficientUsdc tot) else Inr selected)"

text \<open>\<open>largestGasCoin\<close>: the first coin of the largest positive balance.\<close>

fun gas_loop :: "coin list \<Rightarrow> (coin \<times> int) option \<Rightarrow> (coin \<times> int) option" where
  "gas_loop [] best = best"
| "gas_loop (c # cs) best =
     (case parse_int (snd c) of
        None \<Rightarrow> gas_loop cs best
      | Some bal \<Rightarrow>
          if bal > (case best of None \<Rightarrow> 0 | Some b \<Rightarrow> snd b) then gas_loop cs (Some (c, bal))
          else gas_loop cs best)"

definition largestGasCoin :: "coin list \<Rightarrow> coin_error + coin" where
  "largestGasCoin coins =
     (case gas_loop coins None of
        None \<Rightarrow> Inl NoGasCoin
      | Some (c, bal) \<Rightarrow> if bal < burnGasBudgetMist then Inl (GasTooLow bal) else Inr c)"

section \<open>What a selection guarantees\<close>

abbreviation sum_sel :: "(coin \<times> int) list \<Rightarrow> int" where
  "sum_sel sel \<equiv> sum_list (map snd sel)"

text \<open>Every selected coin has a readable positive balance, the coins are taken in the
  node's order, and the selection without its last coin does not reach the amount.\<close>

definition good_selection :: "coin list \<Rightarrow> int \<Rightarrow> (coin \<times> int) list \<Rightarrow> bool" where
  "good_selection coins amount sel \<longleftrightarrow>
     subseq (map fst sel) coins \<and>
     list_all (\<lambda>(c, b). parse_int (snd c) = Some b \<and> 0 < b) sel \<and>
     amount \<le> sum_sel sel \<and> (sel \<noteq> [] \<longrightarrow> sum_sel (butlast sel) < amount)"

definition partial_selection :: "coin list \<Rightarrow> int \<Rightarrow> (coin \<times> int) list \<Rightarrow> bool" where
  "partial_selection coins amount sel \<longleftrightarrow>
     subseq (map fst sel) coins \<and>
     list_all (\<lambda>(c, b). parse_int (snd c) = Some b \<and> 0 < b) sel \<and>
     (sel \<noteq> [] \<longrightarrow> sum_sel (butlast sel) < amount)"

lemma partial_snoc:
  assumes "partial_selection done amount sel" "parse_int (snd c) = Some b" "0 < b" "sum_sel sel < amount"
  shows "partial_selection (done @ [c]) amount (sel @ [(c, b)])"
  using assms by (auto simp: partial_selection_def intro: list_emb_append_mono)

lemma partial_skip:
  "partial_selection done amount sel \<Longrightarrow> partial_selection (done @ [c]) amount sel"
  by (auto simp: partial_selection_def)

lemma partial_extend:
  "partial_selection done amount sel \<Longrightarrow> partial_selection (done @ cs) amount sel"
  by (auto simp: partial_selection_def)

lemma select_loop_ok:
  assumes "partial_selection done amount sel" "tot = sum_sel sel" "tot < amount"
    "length sel < maxBurnInputCoins" "select_loop amount cs sel tot = Inr (res, t)"
  shows "partial_selection (done @ cs) amount res \<and> t = sum_sel res \<and>
    length res \<le> maxBurnInputCoins"
  using assms
proof (induction amount cs sel tot arbitrary: "done" rule: select_loop.induct)
  case (1 amount selected tot)
  then show ?case by auto
next
  case (2 amount c cs selected tot)
  show ?case
  proof (cases "parse_int (snd c)")
    case None
    with 2 show ?thesis by simp
  next
    case (Some bal)
    show ?thesis
    proof (cases "bal \<le> 0")
      case True
      with 2(1) [OF Some True, of "done @ [c]"] 2(3-) Some show ?thesis
        by (simp add: partial_skip)
    next
      case False
      then have p: "partial_selection (done @ [c]) amount (selected @ [(c, bal)])"
        using partial_snoc [OF 2(3) Some] 2(4,5) by simp
      show ?thesis
        using 2(2) [OF Some False refl refl, of "done @ [c]"] 2(3-) Some False p
          partial_extend [OF p, of cs]
        by (auto simp: Let_def split: if_splits)
    qed
  qed
qed

text \<open>C6. A burn's coin selection covers the amount with at most 20 coins that the node listed
  with readable positive balances, in the node's order, and takes no coin beyond the one that
  reaches the amount.\<close>

theorem selectCoins_sound:
  assumes "selectCoins coins amount = Inr sel" "0 < amount"
  shows "good_selection coins amount sel \<and> sel \<noteq> [] \<and> length sel \<le> maxBurnInputCoins"
proof -
  obtain tot where loop: "select_loop amount coins [] 0 = Inr (sel, tot)" and "\<not> tot < amount"
    using assms(1) by (auto simp: selectCoins_def split: sum.splits prod.splits if_splits)
  have "partial_selection coins amount sel \<and> tot = sum_sel sel \<and> length sel \<le> maxBurnInputCoins"
    using select_loop_ok [of "[]" amount "[]" 0 coins sel tot] loop assms(2)
    by (simp add: partial_selection_def maxBurnInputCoins_def)
  with \<open>\<not> tot < amount\<close> assms(2) show ?thesis
    by (auto simp: good_selection_def partial_selection_def)
qed

theorem selectCoins_sound_witness:
  "good_selection [(''a'', ''5''), (''b'', ''0''), (''c'', ''7''), (''d'', ''9'')] 10
     [((''a'', ''5''), 5), ((''c'', ''7''), 7)] \<and>
   [((''a'', ''5''), 5 :: int), ((''c'', ''7''), 7)] \<noteq> [] \<and>
   length [((''a'', ''5''), 5 :: int), ((''c'', ''7''), 7)] \<le> maxBurnInputCoins"
  by (rule selectCoins_sound) code_simp+

lemma transfer_loop_ok:
  assumes "partial_selection done amount sel" "tot = sum_sel sel" "tot < amount"
    "transfer_loop amount cs sel tot = (res, t)"
  shows "partial_selection (done @ cs) amount res \<and> t = sum_sel res"
  using assms
proof (induction amount cs sel tot arbitrary: "done" rule: transfer_loop.induct)
  case (1 need selected tot)
  then show ?case by auto
next
  case (2 need c cs selected tot)
  show ?case
  proof (cases "parse_int (snd c)")
    case None
    with 2(1) [OF None, of "done @ [c]"] 2(4-) show ?thesis by (simp add: partial_skip)
  next
    case (Some bal)
    show ?thesis
    proof (cases "bal \<le> 0")
      case True
      with 2(2) [OF Some True, of "done @ [c]"] 2(4-) Some show ?thesis
        by (simp add: partial_skip)
    next
      case False
      then have p: "partial_selection (done @ [c]) need (selected @ [(c, bal)])"
        using partial_snoc [OF 2(4) Some] 2(5,6) by simp
      show ?thesis
        using 2(3) [OF Some False, of "done @ [c]"] 2(4-) Some False p partial_extend [OF p, of cs]
        by (auto simp: Let_def split: if_splits)
    qed
  qed
qed

lemma transfer_coins_sound:
  assumes "transfer_coins coins amount = Inr sel" "0 < amount"
  shows "good_selection coins amount sel \<and> sel \<noteq> []"
proof -
  obtain tot where loop: "transfer_loop amount coins [] 0 = (sel, tot)" and "\<not> tot < amount"
    using assms(1) by (auto simp: transfer_coins_def split: prod.splits if_splits)
  have "partial_selection coins amount sel \<and> tot = sum_sel sel"
    using transfer_loop_ok [of "[]" amount "[]" 0 coins sel tot] loop assms(2)
    by (simp add: partial_selection_def)
  with \<open>\<not> tot < amount\<close> assms(2) show ?thesis
    by (auto simp: good_selection_def partial_selection_def)
qed

lemma gas_loop_ge:
  "gas_loop cs best = Some (c, b) \<Longrightarrow>
     (\<forall>x bal. x \<in> set cs \<and> parse_int (snd x) = Some bal \<longrightarrow> bal \<le> b) \<and>
     (case best of None \<Rightarrow> 0 | Some y \<Rightarrow> snd y) \<le> b"
proof (induction cs best rule: gas_loop.induct)
  case (1 best)
  then show ?case by simp
next
  case (2 x cs best)
  then show ?case
    by (auto split: option.splits if_splits)
qed

end
