(* ===== verification/Cctp_Message.thy ===== *)
theory Cctp_Message imports Rails_Prelude begin

text \<open>
  The decoder of Circle's CCTP v1 burn messages (services/cctp/message.go): the fixed
  248-byte layout, the decoded subset the dispatcher acts on, and the encoder of the
  documented layout the decoder is the inverse of.
\<close>

section \<open>The decoded message\<close>

record cctp_msg =
  msg_src_domain :: "32 word"
  msg_dst_domain :: "32 word"
  msg_nonce :: "64 word"
  msg_mint_recipient :: "byte list"
  msg_amount :: nat

datatype cctp_error = BadLength nat | BadVersion "32 word"

definition headerLen :: nat where "headerLen = 116"
definition burnBodyLen :: nat where "burnBodyLen = 132"
definition burnMessageLen :: nat where "burnMessageLen = headerLen + burnBodyLen"

text \<open>Go's slice expression \<open>raw[a:b]\<close>, within bounds.\<close>

definition slice :: "nat \<Rightarrow> nat \<Rightarrow> 'a list \<Rightarrow> 'a list" where
  "slice a b xs = take (b - a) (drop a xs)"

definition ParseBurnMessage :: "byte list \<Rightarrow> cctp_error + cctp_msg" where
  "ParseBurnMessage raw =
     (if length raw \<noteq> burnMessageLen then Inl (BadLength (length raw))
      else let v = word_of_nat (be_val (slice 0 4 raw)) :: 32 word in
      if v \<noteq> 0 then Inl (BadVersion v)
      else Inr \<lparr>msg_src_domain = word_of_nat (be_val (slice 4 8 raw)),
                msg_dst_domain = word_of_nat (be_val (slice 8 12 raw)),
                msg_nonce = word_of_nat (be_val (slice 12 20 raw)),
                msg_mint_recipient = slice (headerLen + 36) (headerLen + 68) raw,
                msg_amount = be_val (slice (headerLen + 68) (headerLen + 100) raw)\<rparr>)"

text \<open>The EVM address is the last 20 of the 32 recipient bytes.\<close>

definition MintRecipientEVM :: "cctp_msg \<Rightarrow> byte list" where
  "MintRecipientEVM m = drop 12 (msg_mint_recipient m)"

section \<open>The documented wire layout\<close>

record burn_fields =
  bf_src :: "32 word"
  bf_dst :: "32 word"
  bf_nonce :: "64 word"
  bf_sender :: "byte list"
  bf_recipient :: "byte list"
  bf_dest_caller :: "byte list"
  bf_body_version :: "32 word"
  bf_burn_token :: "byte list"
  bf_mint_recipient :: "byte list"
  bf_amount :: nat
  bf_msg_sender :: "byte list"

definition wf_burn :: "burn_fields \<Rightarrow> bool" where
  "wf_burn f \<longleftrightarrow> length (bf_sender f) = 32 \<and> length (bf_recipient f) = 32 \<and>
     length (bf_dest_caller f) = 32 \<and> length (bf_burn_token f) = 32 \<and>
     length (bf_mint_recipient f) = 32 \<and> length (bf_msg_sender f) = 32 \<and>
     bf_amount f < 2 ^ 256"

definition encode_burn :: "32 word \<Rightarrow> burn_fields \<Rightarrow> byte list" where
  "encode_burn v f =
     be_bytes 4 (unat v) @ be_bytes 4 (unat (bf_src f)) @ be_bytes 4 (unat (bf_dst f)) @
     be_bytes 8 (unat (bf_nonce f)) @ bf_sender f @ bf_recipient f @ bf_dest_caller f @
     be_bytes 4 (unat (bf_body_version f)) @ bf_burn_token f @ bf_mint_recipient f @
     be_bytes 32 (bf_amount f) @ bf_msg_sender f"

lemmas layout_defs = headerLen_def burnBodyLen_def burnMessageLen_def slice_def

lemma length_encode_burn: "wf_burn f \<Longrightarrow> length (encode_burn v f) = burnMessageLen"
  by (simp add: wf_burn_def encode_burn_def layout_defs)

lemma word32_be_bytes: "word_of_nat (be_val (be_bytes 4 (unat (w :: 32 word)))) = w"
proof -
  have "unat w < 256 ^ 4" using unsigned_less [where ?'a=nat, of w] by simp
  then show ?thesis by (simp add: be_val_be_bytes)
qed

lemma word64_be_bytes: "word_of_nat (be_val (be_bytes 8 (unat (w :: 64 word)))) = w"
proof -
  have "unat w < 256 ^ 8" using unsigned_less [where ?'a=nat, of w] by simp
  then show ?thesis by (simp add: be_val_be_bytes)
qed

text \<open>C5. Decoding a well-formed version-0 burn message returns exactly the fields that
  were encoded; any other version is refused with that version.\<close>

theorem ParseBurnMessage_encode:
  assumes "wf_burn f"
  shows "ParseBurnMessage (encode_burn v f) =
    (if v \<noteq> 0 then Inl (BadVersion v)
     else Inr \<lparr>msg_src_domain = bf_src f, msg_dst_domain = bf_dst f, msg_nonce = bf_nonce f,
               msg_mint_recipient = bf_mint_recipient f, msg_amount = bf_amount f\<rparr>)"
proof -
  have "bf_amount f < 256 ^ 32" using assms by (simp add: wf_burn_def)
  then have amt: "be_val (be_bytes 32 (bf_amount f)) = bf_amount f"
    by (simp add: be_val_be_bytes)
  show ?thesis
    using assms length_encode_burn [OF assms, of v] amt
    by (simp add: ParseBurnMessage_def encode_burn_def layout_defs wf_burn_def Let_def
        word32_be_bytes word64_be_bytes)
qed

theorem ParseBurnMessage_encode_witness:
  "ParseBurnMessage (encode_burn 0 \<lparr>bf_src = 8, bf_dst = 6, bf_nonce = 17, bf_sender = replicate 32 1,
      bf_recipient = replicate 32 2, bf_dest_caller = replicate 32 3, bf_body_version = 0,
      bf_burn_token = replicate 32 4, bf_mint_recipient = replicate 32 5, bf_amount = 9900000,
      bf_msg_sender = replicate 32 6\<rparr>) =
    Inr \<lparr>msg_src_domain = 8, msg_dst_domain = 6, msg_nonce = 17,
      msg_mint_recipient = replicate 32 5, msg_amount = 9900000\<rparr>"
  by (subst ParseBurnMessage_encode) (simp_all add: wf_burn_def)


section \<open>Networks\<close>

record network =
  SuiDomain :: "32 word"
  BaseDomain :: "32 word"
  SuiUSDCCoinType :: string
  BaseMessageTransmitter :: string

definition mainnet :: network where
  "mainnet = \<lparr>SuiDomain = 8, BaseDomain = 6,
     SuiUSDCCoinType = ''0xdba34672e30cb065b1f93e3ab55318768fd6fef66c15942c9f7cb846e2f900e7::usdc::USDC'',
     BaseMessageTransmitter = ''0xAD09780d193884d503182aD4588450C416D6F9D4''\<rparr>"

definition testnet :: network where
  "testnet = \<lparr>SuiDomain = 8, BaseDomain = 6,
     SuiUSDCCoinType = ''0xa1ec7fc00a6f40db9693ad1415d0c193ad3906494428cf252621037bd7117e29::usdc::USDC'',
     BaseMessageTransmitter = ''0x7865fAfC2db2093669d92c0F33AeEF291086BEFD''\<rparr>"

definition ForBaseChainID :: "int \<Rightarrow> network option" where
  "ForBaseChainID baseChainID =
     (if baseChainID = 8453 then Some mainnet
      else if baseChainID = 84532 then Some testnet
      else None)"

end
