(* ===== verification/Go_Text.thy ===== *)
theory Go_Text imports Rails_Prelude "HOL-Library.Char_ord" begin

text \<open>
  The functions of Go's \<open>strings\<close> package that the controllers normalise their inputs with, on
  ASCII text: case mapping and \<open>TrimSpace\<close> (bytes outside ASCII are left alone, where Go also
  maps and trims the other Unicode letters and spaces), prefixes, and hexadecimal checks.
\<close>

section \<open>Case\<close>

definition lower_char :: "char \<Rightarrow> char" where
  "lower_char c = (let n = of_char c :: nat in if 65 \<le> n \<and> n \<le> 90 then char_of (n + 32) else c)"

definition upper_char :: "char \<Rightarrow> char" where
  "upper_char c = (let n = of_char c :: nat in if 97 \<le> n \<and> n \<le> 122 then char_of (n - 32) else c)"

definition to_lower :: "string \<Rightarrow> string" where "to_lower s = map lower_char s"
definition to_upper :: "string \<Rightarrow> string" where "to_upper s = map upper_char s"

lemma lower_char_idem [simp]: "lower_char (lower_char c) = lower_char c"
proof (cases "65 \<le> (of_char c :: nat) \<and> (of_char c :: nat) \<le> 90")
  case True
  then have "of_char (char_of (of_char c + 32 :: nat) :: char) = (of_char c + 32 :: nat)"
    by (simp add: of_char_of)
  with True show ?thesis by (simp add: lower_char_def Let_def)
qed (auto simp: lower_char_def Let_def)

lemma to_lower_idem [simp]: "to_lower (to_lower s) = to_lower s"
  by (simp add: to_lower_def)

lemma length_to_lower [simp]: "length (to_lower s) = length s"
  by (simp add: to_lower_def)

section \<open>Spaces\<close>

definition is_space :: "char \<Rightarrow> bool" where
  "is_space c = (let n = of_char c :: nat in n = 32 \<or> 9 \<le> n \<and> n \<le> 13)"

definition trim_space :: "string \<Rightarrow> string" where
  "trim_space s = rev (dropWhile is_space (rev (dropWhile is_space s)))"

lemma trim_space_clean: "list_all (\<lambda>c. \<not> is_space c) s \<Longrightarrow> trim_space s = s"
proof -
  assume clean: "list_all (\<lambda>c. \<not> is_space c) s"
  have "dropWhile is_space xs = xs" if "set xs \<subseteq> set s" for xs
    using clean that by (cases xs) (auto simp: list_all_iff)
  from this [of s] this [of "rev s"] show ?thesis by (simp add: trim_space_def)
qed

section \<open>Prefixes\<close>

text \<open>\<open>strings.TrimPrefix\<close>\<close>

definition trim_prefix :: "string \<Rightarrow> string \<Rightarrow> string" where
  "trim_prefix pre s = (if prefix pre s then drop (length pre) s else s)"

section \<open>Hexadecimal text\<close>

definition is_hex :: "char \<Rightarrow> bool" where
  "is_hex c = (let n = of_char c :: nat in
     48 \<le> n \<and> n \<le> 57 \<or> 97 \<le> n \<and> n \<le> 102 \<or> 65 \<le> n \<and> n \<le> 70)"

definition is_lower_hex :: "char \<Rightarrow> bool" where
  "is_lower_hex c \<longleftrightarrow> is_hex c \<and> lower_char c = c"

lemma hex_lower: "is_hex c \<Longrightarrow> is_lower_hex (lower_char c)"
proof (cases "65 \<le> (of_char c :: nat) \<and> (of_char c :: nat) \<le> 90")
  case True
  assume "is_hex c"
  with True have "(of_char c :: nat) \<le> 70" by (auto simp: is_hex_def Let_def)
  with True have "is_hex (lower_char c)"
    by (simp add: is_hex_def lower_char_def Let_def of_char_of)
  then show ?thesis by (simp add: is_lower_hex_def)
qed (auto simp: is_lower_hex_def lower_char_def Let_def)

end
