(* ===== verification/Route_Store.thy ===== *)
theory Route_Store imports Sui_Coins Cctp_Message Go_Text begin

text \<open>
  The tables Route A works on (route_a_orders, payment_orders with their edges, the audit
  log, LP accounts and their ledger), the dispatcher's in-memory state, the trace of its
  external money-moving calls, its configuration and one tick's environment; and the
  database operations of the handlers: eager-loading queries, the guarded single-row update
  (\<open>order.Update().Where(..).Save\<close>) and payment-order updates. A database statement may
  fail, or take effect and still report an error, as the environment decides per statement.
\<close>

section \<open>Rows\<close>

datatype bridge_status = Pending | AwaitingFunds | Bridging | BridgeUncertain | Bridged
  | Dispatching | Settled | Failed | Refunded

datatype order_mode = Lp | Treasury | LpNetwork

datatype po_status = PoInitiated | PoPending | PoExpired | PoCancelled | PoSettled | PoRefunded

text \<open>
  The failure reason is a formatted message; each constructor is one format string with its
  arguments, \<open>Text\<close> is text taken over verbatim (LiFi's message, an operator's note).
\<close>

datatype reason = Text string
  | ExpiredReason
  | BridgeStartFailed string nat
  | LifiNotFound string duration
  | LateLifiFailed string
  | LifiUncertainExpired
  | CctpUncertainExpired string
  | CircleNotIndexed string
  | CreateOrderUnconfirmed string
  | DeliveryAmbiguous string nat "64 word"

abbreviation "NoReason \<equiv> Text ''''"

record route_order =
  ord_id :: nat
  ord_mode :: order_mode
  lifi_quote_id :: string
  lifi_tool :: string
  bridge_provider :: string
  bridge_tx_sui :: string
  bridge_tx_dest :: string
  bridge_status :: bridge_status
  gateway_order_id :: string
  gateway_chain_id :: "64 word"
  sender_fee_subunit :: "decimal option"
  settlement_status :: string
  settlement_polled_at :: "instant option"
  treasury_payout_ref :: string
  bridged_amount :: "decimal option"
  failure_reason :: reason
  created_at :: instant
  updated_at :: instant
  ord_payment :: "nat option"

record token =
  tok_symbol :: string
  tok_contract :: string
  tok_decimals :: nat

record recipient =
  rcpt_institution :: string
  rcpt_account :: string
  rcpt_name :: string
  rcpt_memo :: string
  rcpt_provider :: string

record payment_order =
  po_id :: nat
  po_amount :: decimal
  po_rate :: decimal
  po_status :: po_status
  po_token :: "token option"
  po_recipient :: "recipient option"
  po_sender :: "nat option"

datatype lp_status = LpActive | LpSuspended

record lp_account =
  lp_id :: nat
  lp_reference :: string
  lp_status :: lp_status
  lp_balance :: decimal
  lp_sui_address :: string
  lp_account_number :: string
  lp_user :: nat

datatype entry_type = Deposit | Withdrawal | Adjustment | Fill
datatype entry_status = EntryPending | EntryConfirmed | EntryFailed

record ledger_entry =
  le_id :: string
  le_ref :: string
  le_type :: entry_type
  le_amount :: decimal
  le_status :: entry_status
  le_lp :: nat

datatype step = DepositCheck | DepositDetected | CreateOrder | OrderCreatedEvent | SelfSettle
  | AwaitingFundsStep | BridgeQuote | BridgeSubmit | BridgePoll | BridgeDone
  | BridgeUncertainStep | EvmApprove | EvmCreateOrder | SettlementPoll | SettlementTerminal
  | TreasuryPayout | FloatReload | RefundAttempt | RefundDone | ManualOverride

datatype event_status = Started | Succeeded | FailedEv | Skipped | Retrying

record event =
  ev_order :: nat
  ev_step :: step
  ev_status :: event_status

section \<open>External calls\<close>

text \<open>
  What became of a money-moving call: \<open>Refused\<close>, nothing was submitted; \<open>Lost\<close>, an error was
  reported but the submission may have taken effect; \<open>Done\<close>, it was accepted under an id.
\<close>

datatype outcome = Refused | Lost | Done string

datatype call =
    CallBridge nat outcome
  | CallBurn nat "64 word" outcome
  | CallTransfer nat string decimal outcome
  | PolledFailed nat string
  | CallGateway nat string int int outcome
  | PolledReturned nat string
  | CallReload nat string int outcome
  | CallDeliver nat "64 word" string outcome

text \<open>The transfer calls of LP withdrawals, with their reference.\<close>

datatype lp_call = CallWithdraw string decimal outcome

datatype sse_event = PaymentEvent nat string nat string

record float_account =
  fa_bank :: string
  fa_number :: string
  fa_name :: string

record world =
  orders :: "route_order list"
  pays :: "payment_order list"
  events :: "event list"
  lps :: "lp_account list"
  ledger :: "ledger_entry list"
  calls :: "call list"
  lp_calls :: "lp_call list"
  attempts :: "nat \<Rightarrow> step \<Rightarrow> nat"
  quote_fails :: "nat \<Rightarrow> nat"
  lifi_poll_at :: "nat \<Rightarrow> instant option"
  float_acct :: "(string \<times> float_account \<times> instant) option"
  burst_until :: instant
  sse :: "sse_event list"
  panicked :: bool

section \<open>Configuration and environment\<close>

record conf =
  c_signer :: bool
  c_chain_id :: int
  c_usdc_decimals :: nat
  c_fee_bps :: int
  c_validity :: duration
  c_cctp_enabled :: bool
  c_agg_address :: string
  c_hex_address :: "string \<Rightarrow> byte list"
  c_evm :: bool
  c_settlement :: bool
  c_treasury_rail :: "string option"
  c_rails :: "string list"
  c_default_rail :: "string option"
  c_korapay :: bool
  c_fintava :: bool
  c_dec :: declib
  c_parse_dec :: "string \<Rightarrow> decimal option"

datatype db_fault = DbOk | DbFail | DbLostAck

datatype site = SQuery | SLoad | SHasEvent step | SCountEvents | SEvent step event_status
  | SClaimBridge | SRevertBridge | SPersistDigest | SAwaiting | SMarkFailed | SUncertain | SBridged
  | SWindow | SClaimDispatch | SMarkAmbiguous | SRevertDispatch | SPersistGateway | SPoll
  | SPayStatus | STreasuryClaim | STreasuryRelease | SFallback | SRetire | SFinalize
  | SReloadPersist | SReloadStatus | SLpQuery | STxBegin | SDebit | SFillEntry | SFillOrder
  | SCommit | SEntryLookup | SEntryUpdate | SRecredit | SOrderReset | SPark | SDeliveryDigest
  | SConfirmEntry | SSettle | SCleanup | SActive

record lifi_req =
  lr_from_token :: string
  lr_from_amount :: string
  lr_slippage :: bool

record lifi_quote =
  q_id :: string
  q_tool :: string
  q_data :: string
  q_to_amount_min :: string

record receiving =
  rc_tx :: string
  rc_amount :: string
  rc_decimals :: nat

record lifi_status =
  ls_status :: string
  ls_substatus :: string
  ls_message :: string
  ls_receiving :: "receiving option"

datatype iris_res = AttestationPending | NotIndexed | IrisErr string
  | Attested "byte list" "byte list"

datatype burn_res = BurnOk string | BurnAmbiguous | BurnErr

datatype create_res = Created string string | SubmittedUnconfirmed string | CreateErr

datatype tf_status = TransferPending | TransferSuccess | TransferFailed

text \<open>A transfer call that returns an error: the flag is whether it took effect all the same,
  which the program cannot see.\<close>

datatype transfer_res = TransferOk tf_status | TransferErr bool

record transfer_req =
  tr_bank :: string
  tr_account :: string
  tr_amount :: decimal
  tr_ref :: string

record create_params =
  cp_amount :: int
  cp_rate :: int
  cp_fee :: int
  cp_recipient :: string

record sui_resp =
  sr_digest :: string
  sr_status :: string

record env =
  cf :: conf
  now :: instant
  dbf :: "site \<Rightarrow> nat \<Rightarrow> db_fault"
  sui_balance :: "nat \<Rightarrow> string \<Rightarrow> string option"
  lifi_get_quote :: "nat \<Rightarrow> lifi_req \<Rightarrow> lifi_quote option"
  sign_ok :: "nat \<Rightarrow> bool"
  sui_exec :: "nat \<Rightarrow> sui_resp option"
  lifi_get_status :: "nat \<Rightarrow> string \<Rightarrow> string \<Rightarrow> string + lifi_status"
  iris_message :: "nat \<Rightarrow> string \<Rightarrow> iris_res"
  nonce_used :: "32 word \<Rightarrow> 64 word \<Rightarrow> bool option"
  receive_message :: "nat \<Rightarrow> byte list \<Rightarrow> byte list \<Rightarrow> string option"
  burn_built :: "nat \<Rightarrow> bool"
  burn_exec :: "nat \<Rightarrow> sui_resp option"
  fetch_rate :: "nat \<Rightarrow> decimal \<Rightarrow> decimal option"
  pubkey_ok :: "nat \<Rightarrow> bool"
  encrypt_ok :: "nat \<Rightarrow> bool"
  allowance :: "nat \<Rightarrow> int option"
  approve_ok :: "nat \<Rightarrow> bool"
  wallet_balance :: "nat \<Rightarrow> int option"
  create_order :: "nat \<Rightarrow> create_params \<Rightarrow> create_res"
  order_status :: "int \<Rightarrow> string \<Rightarrow> string option"
  float_switch :: string
  rail_transfer :: "string \<Rightarrow> transfer_req \<Rightarrow> transfer_res"
  rail_status :: "string \<Rightarrow> string \<Rightarrow> tf_status option"
  new_uuid :: "nat \<Rightarrow> string"
  rail_accounts :: "string \<Rightarrow> (string \<times> decimal) list option"
  fintava_institution :: string
  merchant_wallet :: "(string \<times> string) option"
  kora_vba :: "float_account option"
  sui_coins :: "nat \<Rightarrow> string \<Rightarrow> coin list option"
  transfer_built :: "nat \<Rightarrow> bool"
  sui_transfer_exec :: "nat \<Rightarrow> sui_resp option"
  lease_setnx :: "bool option"
  lease_holder :: "string option"
  instance_id :: string
  no_active_flag :: bool

section \<open>Errors\<close>

datatype rerr = ErrAwaitingDepositAtAggregator
  | ErrBaseDispatcherNotConfigured
  | ErrTreasuryDispatcherNotWired
  | Err string

section \<open>Queries\<close>

definition find_order :: "nat \<Rightarrow> world \<Rightarrow> route_order option" where
  "find_order i w = find (\<lambda>r. ord_id r = i) (orders w)"

definition find_pay :: "nat \<Rightarrow> world \<Rightarrow> payment_order option" where
  "find_pay i w = find (\<lambda>p. po_id p = i) (pays w)"

datatype edge = TokenEdge | RecipientEdge | SenderEdge

text \<open>
  A loaded entity: the row as it was at the time of the query and the payment-order edge, with
  only the nested edges the query asked for. \<open>None\<close> asks for no payment-order edge.
\<close>

record loaded =
  row :: route_order
  po_edge :: "payment_order option"

definition only_edges :: "edge list \<Rightarrow> payment_order \<Rightarrow> payment_order" where
  "only_edges es p = p\<lparr>
     po_token := (if TokenEdge \<in> set es then po_token p else None),
     po_recipient := (if RecipientEdge \<in> set es then po_recipient p else None),
     po_sender := (if SenderEdge \<in> set es then po_sender p else None)\<rparr>"

definition load_row :: "edge list option \<Rightarrow> world \<Rightarrow> route_order \<Rightarrow> loaded" where
  "load_row es w r = \<lparr>row = r,
     po_edge = (case es of None \<Rightarrow> None | Some es \<Rightarrow>
       (case ord_payment r of None \<Rightarrow> None | Some p \<Rightarrow> map_option (only_edges es) (find_pay p w)))\<rparr>"

definition query_orders ::
  "env \<Rightarrow> edge list option \<Rightarrow> (route_order \<Rightarrow> bool) \<Rightarrow> (world, loaded list option) state" where
  "query_orders e es g = do {
     w \<leftarrow> fetch;
     return (if dbf e SQuery 0 = DbOk then Some (map (load_row es w) (filter g (orders w))) else None)
   }"

section \<open>Guarded updates\<close>

datatype saved = Saved | Stale | DbErr

definition put_order ::
  "instant \<Rightarrow> nat \<Rightarrow> (route_order \<Rightarrow> bool) \<Rightarrow> (route_order \<Rightarrow> route_order) \<Rightarrow> world \<Rightarrow> world" where
  "put_order t i g f w = w\<lparr>orders :=
     map (\<lambda>r. if ord_id r = i \<and> g r then (f r)\<lparr>updated_at := t\<rparr> else r) (orders w)\<rparr>"

text \<open>\<open>order.Update().Where(g).Set..(f).Save\<close>: no row with that id satisfying the guard is
  the NotFound the program calls a stale transition.\<close>

definition update_one ::
  "env \<Rightarrow> site \<Rightarrow> nat \<Rightarrow> (route_order \<Rightarrow> bool) \<Rightarrow> (route_order \<Rightarrow> route_order) \<Rightarrow> (world, saved) state" where
  "update_one e s i g f = do {
     w \<leftarrow> fetch;
     if dbf e s i = DbFail then return DbErr
     else case find_order i w of None \<Rightarrow> return Stale
     | Some r \<Rightarrow>
         if g r then do {
           modify (put_order (now e) i g f);
           return (if dbf e s i = DbLostAck then DbErr else Saved)
         } else return Stale
   }"

text \<open>\<open>isStaleTransition\<close>: the update found no row in a legal from-state.\<close>

definition isStaleTransition :: "saved \<Rightarrow> bool" where
  "isStaleTransition s \<longleftrightarrow> s = Stale"

definition set_po_status :: "env \<Rightarrow> nat \<Rightarrow> nat \<Rightarrow> po_status \<Rightarrow> (world, unit) state" where
  "set_po_status e i p st = only_if (dbf e SPayStatus i \<noteq> DbFail)
     (modify (\<lambda>w. w\<lparr>pays := map (\<lambda>q. if po_id q = p then q\<lparr>po_status := st\<rparr> else q) (pays w)\<rparr>))"

definition log_call :: "call \<Rightarrow> (world, unit) state" where
  "log_call x = modify (\<lambda>w. w\<lparr>calls := calls w @ [x]\<rparr>)"

definition publish :: "sse_event \<Rightarrow> (world, unit) state" where
  "publish x = modify (\<lambda>w. w\<lparr>sse := sse w @ [x]\<rparr>)"

abbreviation burstWindow :: duration where "burstWindow \<equiv> 90 * second"

definition ExtendBurst :: "env \<Rightarrow> (world, unit) state" where
  "ExtendBurst e = modify (\<lambda>w. w\<lparr>burst_until := now e + burstWindow\<rparr>)"


text \<open>
  A runtime panic (nil dereference, decimal division by zero). The handler returns at once,
  its deferred calls run, and the loops and phases above it stop; \<open>Tick\<close> recovers.
\<close>

definition panic :: "(world, unit) state" where
  "panic = modify (\<lambda>w. w\<lparr>panicked := True\<rparr>)"

definition unless_panicked :: "(world, unit) state \<Rightarrow> (world, unit) state" where
  "unless_panicked m = do { w \<leftarrow> fetch; only_if (\<not> panicked w) m }"

text \<open>\<open>rows, err := query; if err != nil return err; for each\<close>\<close>

definition for_orders ::
  "env \<Rightarrow> edge list option \<Rightarrow> (route_order \<Rightarrow> bool) \<Rightarrow> (loaded \<Rightarrow> (world, unit) state) \<Rightarrow> (world, unit) state" where
  "for_orders e es g f = do {
     q \<leftarrow> query_orders e es g;
     case q of None \<Rightarrow> return () | Some ls \<Rightarrow> for_each ls (\<lambda>l. unless_panicked (f l))
   }"

end
