(* ===== verification/Route_Events.thy ===== *)
theory Route_Events imports Route_Store begin

text \<open>
  The write side of the per-order audit log (services/route_a_events.go): single rows, the
  sampled timers of the retry and poll loops with their in-memory attempt counters, and the
  two reads the dispatcher bases decisions on. Payloads, durations and correlation ids are
  not modelled; nothing reads them back.
\<close>

definition LogOnce :: "env \<Rightarrow> nat \<Rightarrow> step \<Rightarrow> event_status \<Rightarrow> (world, unit) state" where
  "LogOnce e i s st = only_if (dbf e (SEvent s st) i \<noteq> DbFail)
     (modify (\<lambda>w. w\<lparr>events := events w @ [\<lparr>ev_order = i, ev_step = s, ev_status = st\<rparr>]\<rparr>))"

definition count_events :: "nat \<Rightarrow> step \<Rightarrow> event_status \<Rightarrow> world \<Rightarrow> nat" where
  "count_events i s st w =
     length (filter (\<lambda>v. ev_order v = i \<and> ev_step v = s \<and> ev_status v = st) (events w))"

definition hasSuccessfulRouteAEvent :: "env \<Rightarrow> nat \<Rightarrow> step \<Rightarrow> (world, bool) state" where
  "hasSuccessfulRouteAEvent e i s = do {
     w \<leftarrow> fetch;
     return (dbf e (SHasEvent s) i = DbOk \<and> 0 < count_events i s Succeeded w)
   }"

text \<open>\<open>order.QueryEvents().Where(step, started).Count\<close>; \<open>None\<close> is a failed query.\<close>

definition count_started :: "env \<Rightarrow> nat \<Rightarrow> step \<Rightarrow> (world, nat option) state" where
  "count_started e i s = do {
     w \<leftarrow> fetch;
     return (if dbf e SCountEvents i = DbOk then Some (count_events i s Started w) else None)
   }"

record timer =
  t_order :: nat
  t_step :: step
  t_lazy :: bool
  t_force :: bool
  t_poll :: bool

definition set_attempts :: "nat \<Rightarrow> step \<Rightarrow> nat \<Rightarrow> world \<Rightarrow> world" where
  "set_attempts i s n w = w\<lparr>attempts := (attempts w)(i := (attempts w i)(s := n))\<rparr>"

definition nextAttempt :: "nat \<Rightarrow> step \<Rightarrow> (world, nat) state" where
  "nextAttempt i s = do {
     w \<leftarrow> fetch;
     modify (set_attempts i s (Suc (attempts w i s)));
     return (Suc (attempts w i s))
   }"

definition resetAttempts :: "nat \<Rightarrow> step \<Rightarrow> (world, unit) state" where
  "resetAttempts i s = modify (set_attempts i s 0)"

definition Time :: "env \<Rightarrow> nat \<Rightarrow> step \<Rightarrow> (world, timer) state" where
  "Time e i s = do {
     LogOnce e i s Started;
     return \<lparr>t_order = i, t_step = s, t_lazy = False, t_force = False, t_poll = False\<rparr>
   }"

definition TimeSampled :: "env \<Rightarrow> nat \<Rightarrow> step \<Rightarrow> (world, timer) state" where
  "TimeSampled e i s = do {
     n \<leftarrow> nextAttempt i s;
     if n \<le> 3 \<or> n mod 10 = 0 then Time e i s
     else return \<lparr>t_order = i, t_step = s, t_lazy = True, t_force = False, t_poll = False\<rparr>
   }"

definition TimePollSampled :: "env \<Rightarrow> nat \<Rightarrow> step \<Rightarrow> (world, timer) state" where
  "TimePollSampled e i s = do {
     n \<leftarrow> nextAttempt i s;
     if n \<le> 1 \<or> n mod 30 = 0 then do { t \<leftarrow> Time e i s; return (t\<lparr>t_poll := True\<rparr>) }
     else return \<lparr>t_order = i, t_step = s, t_lazy = True, t_force = False, t_poll = True\<rparr>
   }"

definition Milestone :: "timer \<Rightarrow> timer" where
  "Milestone t = t\<lparr>t_force := True\<rparr>"

definition IsSkipSentinel :: "rerr \<Rightarrow> bool" where
  "IsSkipSentinel x \<longleftrightarrow> x = ErrAwaitingDepositAtAggregator"

definition end_status :: "rerr option \<Rightarrow> event_status" where
  "end_status err = (case err of None \<Rightarrow> Succeeded
     | Some x \<Rightarrow> if IsSkipSentinel x then Skipped else FailedEv)"

definition End :: "env \<Rightarrow> timer \<Rightarrow> rerr option \<Rightarrow> (world, unit) state" where
  "End e t err = do {
     let st = end_status err;
     only_if (\<not> t_poll t \<and> st = Succeeded) (resetAttempts (t_order t) (t_step t));
     only_if (\<not> (t_lazy t \<and> \<not> t_force t \<and> (t_poll t \<or> st \<noteq> Succeeded)))
       (LogOnce e (t_order t) (t_step t) st)
   }"

text \<open>\<open>timer := TimeSampled(..); defer timer.End(&err)\<close> around the rest of a function.\<close>

definition sampled :: "env \<Rightarrow> nat \<Rightarrow> step \<Rightarrow> (world, rerr option) state \<Rightarrow> (world, rerr option) state" where
  "sampled e i s body = do {
     t \<leftarrow> TimeSampled e i s;
     err \<leftarrow> body;
     End e t err;
     return err
   }"

end
