(* ===== verification/Route_Bridge.thy ===== *)
theory Route_Bridge imports Route_Events begin

text \<open>
  The LiFi rail of Route A (services/route_a_dispatcher.go): the claim an order is put under
  before its funds move, its revert, the submission of the bridge transaction, the status
  poll, and the recovery of orders whose transaction LiFi cannot find.
\<close>

section \<open>Constants and helpers\<close>

definition maxQuoteRetries :: nat where "maxQuoteRetries = 10"
abbreviation uncertainRecoveryWindow :: duration where "uncertainRecoveryWindow \<equiv> 24 * hour"
abbreviation minLifiPollGap :: duration where "minLifiPollGap \<equiv> 10 * second"

definition routeAProviderCCTP :: string where "routeAProviderCCTP = ''cctp''"
definition routeAProviderLiFi :: string where "routeAProviderLiFi = ''lifi''"

definition NativeSuiCoinType :: string where "NativeSuiCoinType = ''0x2::sui::SUI''"
definition NativeSuiDecimals :: nat where "NativeSuiDecimals = 9"
definition NativeSuiGasReservation :: decimal where "NativeSuiGasReservation = 10000000"

definition IsNativeSui :: "string \<Rightarrow> bool" where
  "IsNativeSui contractAddress \<longleftrightarrow> contractAddress = NativeSuiCoinType"

definition bridgeStaleTimeouts :: "(string \<times> duration) list" where
  "bridgeStaleTimeouts =
     [(''allbridge'', 60 * minute), (''wormhole'', 30 * minute), (''cctp'', 20 * minute),
      (''mayan'', 15 * minute), (''stargate'', 25 * minute), ('''', 45 * minute)]"

definition bridgeStaleTimeoutFor :: "string \<Rightarrow> duration" where
  "bridgeStaleTimeoutFor tool =
     (case map_of bridgeStaleTimeouts (to_lower tool) of
        Some d \<Rightarrow> d
      | None \<Rightarrow> the (map_of bridgeStaleTimeouts ''''))"

text \<open>\<open>strings.Contains\<close>\<close>

definition contains :: "string \<Rightarrow> string \<Rightarrow> bool" where
  "contains s sub \<longleftrightarrow> list_ex (prefix sub) (suffixes s)"

section \<open>The claim\<close>

definition waiting :: "route_order \<Rightarrow> bool" where
  "waiting r \<longleftrightarrow> bridge_status r \<in> {Pending, AwaitingFunds}"

text \<open>The claim's result: claimed, already moved by another writer, or a database error.\<close>

datatype claim = Claimed | NotClaimed | ClaimError

definition claimForBridging :: "env \<Rightarrow> nat \<Rightarrow> string \<Rightarrow> string \<Rightarrow> (world, claim) state" where
  "claimForBridging e i provider tool = do {
     s \<leftarrow> update_one e SClaimBridge i waiting
       (\<lambda>r. r\<lparr>bridge_provider := provider, lifi_tool := tool, bridge_status := Bridging\<rparr>);
     return (if s = Saved then Claimed else if isStaleTransition s then NotClaimed else ClaimError)
   }"

definition revertBridgingClaim :: "env \<Rightarrow> nat \<Rightarrow> (world, unit) state" where
  "revertBridgingClaim e i = do {
     _ \<leftarrow> update_one e SRevertBridge i (\<lambda>r. bridge_status r = Bridging \<and> bridge_tx_sui r = '''')
       (\<lambda>r. r\<lparr>bridge_status := Pending\<rparr>);
     return ()
   }"

section \<open>Submitting a LiFi bridge\<close>

text \<open>The amount sent, in the source coin's smallest unit; \<open>None\<close> below the gas reservation.\<close>

definition bridge_amount :: "payment_order \<Rightarrow> token \<Rightarrow> decimal option" where
  "bridge_amount p tok =
     (if IsNativeSui (tok_contract tok)
      then (let a = po_amount p - unshift NativeSuiGasReservation NativeSuiDecimals in
            if a \<le> 0 then None else Some a)
      else Some (po_amount p))"

text \<open>The pre-flight check both rails make: the aggregator holds the funds, and an order that
  waits for its deposit has seen its self-settlement.\<close>

definition funds_ready :: "env \<Rightarrow> loaded \<Rightarrow> string \<Rightarrow> int \<Rightarrow> (world, rerr option) state" where
  "funds_ready e l coin need =
     (case sui_balance e (ord_id (row l)) coin of
        None \<Rightarrow> return (Some (Err ''check aggregator balance''))
      | Some bal \<Rightarrow> (case parse_int bal of
          None \<Rightarrow> return (Some (Err ''parse aggregator balance''))
        | Some have_bal \<Rightarrow> do {
            settled \<leftarrow> hasSuccessfulRouteAEvent e (ord_id (row l)) SelfSettle;
            if bridge_status (row l) = AwaitingFunds \<and> \<not> settled
            then return (Some ErrAwaitingDepositAtAggregator)
            else if have_bal < need then return (Some ErrAwaitingDepositAtAggregator)
            else return None
          }))"

text \<open>From the claim on: sign, submit, and persist the digest.\<close>

definition submit_lifi :: "env \<Rightarrow> nat \<Rightarrow> lifi_quote \<Rightarrow> (world, rerr option) state" where
  "submit_lifi e i quote = do {
     c \<leftarrow> claimForBridging e i routeAProviderLiFi (q_tool quote);
     case c of
       ClaimError \<Rightarrow> return (Some (Err ''claim for bridging''))
     | NotClaimed \<Rightarrow> return None
     | Claimed \<Rightarrow>
         if \<not> sign_ok e i then do {
           revertBridgingClaim e i;
           return (Some (Err ''sign bridge tx''))
         } else do {
           let resp = sui_exec e i;
           let digest = (case resp of None \<Rightarrow> '''' | Some r \<Rightarrow> sr_digest r);
           log_call (CallBridge i (if digest = '''' then Lost else Done digest));
           if digest = '''' then return (Some (Err ''submit bridge tx (ambiguous; order parked)''))
           else do {
             s \<leftarrow> update_one e SPersistDigest i (\<lambda>r. bridge_status r = Bridging)
               (\<lambda>r. r\<lparr>lifi_quote_id := q_id quote, bridge_tx_sui := digest\<rparr>);
             if s \<noteq> Saved then return (Some (Err ''persist bridge digest''))
             else do { ExtendBurst e; return None }
           }
         }
   }"

definition lifi_request :: "token \<Rightarrow> string \<Rightarrow> lifi_req" where
  "lifi_request tok fromAmount =
     \<lparr>lr_from_token = tok_contract tok, lr_from_amount = fromAmount,
      lr_slippage = IsNativeSui (tok_contract tok)\<rparr>"

definition startBridge :: "env \<Rightarrow> loaded \<Rightarrow> (world, rerr option) state" where
  "startBridge e l = (let i = ord_id (row l) in sampled e i BridgeSubmit
     (case po_edge l of
        None \<Rightarrow> return (Some (Err ''no payment_order edge''))
      | Some p \<Rightarrow> (case po_token p of
          None \<Rightarrow> return (Some (Err ''no token edge''))
        | Some tok \<Rightarrow> (case bridge_amount p tok of
            None \<Rightarrow> return (Some (Err ''below gas reservation''))
          | Some amt \<Rightarrow> do {
              let need = trunc (shift amt (tok_decimals tok));
              err \<leftarrow> funds_ready e l (tok_contract tok) need;
              case err of
                Some x \<Rightarrow> return (Some x)
              | None \<Rightarrow> (case lifi_get_quote e i (lifi_request tok (show_int need)) of
                  None \<Rightarrow> return (Some (Err ''get quote''))
                | Some quote \<Rightarrow>
                    if q_data quote = ''''
                    then return (Some (Err ''quote returned no transactionRequest.data''))
                    else submit_lifi e i quote)
            }))))"

section \<open>Polling\<close>

text \<open>\<open>SetBridgeTxDest\<close>/\<open>SetBridgedAmount\<close> of a DONE status, when it carries them.\<close>

definition apply_receiving :: "env \<Rightarrow> lifi_status \<Rightarrow> route_order \<Rightarrow> route_order" where
  "apply_receiving e st r = (case ls_receiving st of None \<Rightarrow> r
     | Some rc \<Rightarrow>
        let r1 = (if rc_tx rc \<noteq> '''' then r\<lparr>bridge_tx_dest := rc_tx rc\<rparr> else r) in
        if rc_amount rc \<noteq> ''''
        then (case parseAmountToDecimal (c_parse_dec (cf e)) (rc_amount rc) (rc_decimals rc) of
                Some amt \<Rightarrow> r1\<lparr>bridged_amount := Some amt\<rparr> | None \<Rightarrow> r1)
        else r1)"

definition lifi_reason :: "lifi_status \<Rightarrow> string" where
  "lifi_reason st = (if ls_message st = '''' then ls_substatus st else ls_message st)"

text \<open>The body of a poll; it returns the error its timer records and whether it was a
  milestone.\<close>

definition polled :: "env \<Rightarrow> nat \<Rightarrow> step \<Rightarrow> (world, rerr option \<times> bool) state \<Rightarrow> (world, unit) state" where
  "polled e i s body = do {
     t \<leftarrow> TimePollSampled e i s;
     (err, ms) \<leftarrow> body;
     End e (if ms then Milestone t else t) err
   }"

definition poll_not_found :: "env \<Rightarrow> route_order \<Rightarrow> string \<Rightarrow> (world, rerr option \<times> bool) state" where
  "poll_not_found e r lerr = (let i = ord_id r; staleAfter = bridgeStaleTimeoutFor (lifi_tool r) in
     if contains lerr ''not found'' \<and> now e - updated_at r > staleAfter then do {
       s \<leftarrow> update_one e SUncertain i (\<lambda>r. bridge_status r = Bridging)
         (\<lambda>x. x\<lparr>bridge_status := BridgeUncertain,
                failure_reason := LifiNotFound (bridge_tx_sui r) staleAfter\<rparr>);
       if isStaleTransition s then return (None, False)
       else if s = DbErr then return (Some (Err ''persist bridge_uncertain''), False)
       else do {
         LogOnce e i BridgeUncertainStep Started;
         return (None, True)
       }
     } else return (Some (Err lerr), False))"

definition poll_status :: "env \<Rightarrow> route_order \<Rightarrow> lifi_status \<Rightarrow> (world, rerr option \<times> bool) state" where
  "poll_status e r st = (let i = ord_id r in
     if ls_status st = ''DONE'' then do {
       s \<leftarrow> update_one e SBridged i (\<lambda>r. bridge_status r = Bridging)
         (\<lambda>r. apply_receiving e st (r\<lparr>bridge_status := Bridged\<rparr>));
       if isStaleTransition s then return (None, True)
       else if s = DbErr then return (Some (Err ''persist DONE''), True)
       else do {
         ExtendBurst e;
         LogOnce e i BridgeDone Succeeded;
         return (None, True)
       }
     } else if ls_status st = ''FAILED'' then do {
       s \<leftarrow> update_one e SMarkFailed i (\<lambda>r. bridge_status r = Bridging)
         (\<lambda>r. r\<lparr>bridge_status := Failed, failure_reason := Text (lifi_reason st)\<rparr>);
       if isStaleTransition s then return (None, True)
       else if s = DbErr then return (Some (Err ''persist FAILED''), True)
       else return (Some (Err ''lifi FAILED''), True)
     } else return (None, False))"

definition pollOneBridge :: "env \<Rightarrow> loaded \<Rightarrow> (world, unit) state" where
  "pollOneBridge e l = (let r = row l; i = ord_id r in do {
     w \<leftarrow> fetch;
     if (case lifi_poll_at w i of Some t0 \<Rightarrow> now e - t0 < minLifiPollGap | None \<Rightarrow> False)
     then return ()
     else do {
       modify (\<lambda>w. w\<lparr>lifi_poll_at := (lifi_poll_at w)(i := Some (now e))\<rparr>);
       polled e i BridgePoll
         (case lifi_get_status e i (bridge_tx_sui r) (lifi_tool r) of
            Inl lerr \<Rightarrow> poll_not_found e r lerr
          | Inr st \<Rightarrow> poll_status e r st)
     }
   })"

section \<open>Orders LiFi cannot find\<close>

definition markBridgedFromStatus :: "env \<Rightarrow> loaded \<Rightarrow> lifi_status \<Rightarrow> (world, bool) state" where
  "markBridgedFromStatus e l st = (let i = ord_id (row l) in do {
     s \<leftarrow> update_one e SBridged i (\<lambda>r. bridge_status r \<in> {Bridging, BridgeUncertain})
       (\<lambda>r. apply_receiving e st (r\<lparr>bridge_status := Bridged, failure_reason := NoReason\<rparr>));
     if s \<noteq> Saved then return False
     else do { LogOnce e i BridgeDone Succeeded; return True }
   })"

definition expire_uncertain :: "env \<Rightarrow> route_order \<Rightarrow> reason \<Rightarrow> (world, bool) state" where
  "expire_uncertain e r why =
     (if now e - updated_at r > uncertainRecoveryWindow then do {
        _ \<leftarrow> update_one e SWindow (ord_id r) (\<lambda>r. bridge_status r = BridgeUncertain)
          (\<lambda>r. r\<lparr>bridge_status := Failed, failure_reason := why\<rparr>);
        return True
      } else return False)"

text \<open>One order of \<open>advanceUncertain\<close> on the LiFi rail. The timer's error stays nil on every
  path.\<close>

definition recoverUncertainLiFi :: "env \<Rightarrow> loaded \<Rightarrow> (world, unit) state" where
  "recoverUncertainLiFi e l = (let r = row l; i = ord_id r in
     polled e i BridgeUncertainStep
       (case lifi_get_status e i (bridge_tx_sui r) (lifi_tool r) of
          Inl lerr \<Rightarrow> do { ms \<leftarrow> expire_uncertain e r LifiUncertainExpired; return (None, ms) }
        | Inr st \<Rightarrow>
            if ls_status st = ''DONE'' then do {
              ok \<leftarrow> markBridgedFromStatus e l st;
              if ok then return (None, True)
              else do { ms \<leftarrow> expire_uncertain e r LifiUncertainExpired; return (None, ms) }
            } else if ls_status st = ''FAILED'' then do {
              _ \<leftarrow> update_one e SMarkFailed i (\<lambda>r. bridge_status r = BridgeUncertain)
                (\<lambda>r. r\<lparr>bridge_status := Failed, failure_reason := LateLifiFailed (lifi_reason st)\<rparr>);
              return (None, True)
            } else do { ms \<leftarrow> expire_uncertain e r LifiUncertainExpired; return (None, ms) }))"

end
