(* ===== verification/Route_Cctp.thy ===== *)
theory Route_Cctp imports Route_Bridge begin

text \<open>
  The direct CCTP rail (services/route_a_cctp.go, services/cctp/sui_burn.go) and the loops
  that choose between the rails: which orders start on CCTP, the burn, the fallbacks in both
  directions, the attestation poll and mint, and \<open>advancePending\<close>, \<open>advanceBridging\<close> and
  \<open>advanceUncertain\<close>.
\<close>

definition bridgeFallbackAfter :: nat where "bridgeFallbackAfter = 3"

section \<open>Eligibility\<close>

definition cctpNet :: "env \<Rightarrow> network option" where
  "cctpNet e = ForBaseChainID (c_chain_id (cf e))"

definition cctpReady :: "env \<Rightarrow> bool" where
  "cctpReady e \<longleftrightarrow> c_cctp_enabled (cf e) \<and> cctpNet e \<noteq> None \<and> c_evm (cf e) \<and>
     c_agg_address (cf e) \<noteq> ''''"

definition is_sui_usdc :: "env \<Rightarrow> string \<Rightarrow> bool" where
  "is_sui_usdc e contractAddress =
     (case cctpNet e of None \<Rightarrow> False | Some net \<Rightarrow> contractAddress = SuiUSDCCoinType net)"

definition cctpPrimaryEligible :: "env \<Rightarrow> loaded \<Rightarrow> bool" where
  "cctpPrimaryEligible e l = (cctpReady e \<and>
     (case po_edge l of None \<Rightarrow> False | Some p \<Rightarrow>
       (case po_token p of None \<Rightarrow> False | Some tok \<Rightarrow> is_sui_usdc e (tok_contract tok))))"

section \<open>The burn\<close>

text \<open>\<open>SubmitBurn\<close>: everything up to the signature fails without a submission; a transport
  error or an empty digest is ambiguous; an effects status other than success is a known
  abort.\<close>

definition SubmitBurn :: "env \<Rightarrow> nat \<Rightarrow> network \<Rightarrow> 64 word \<Rightarrow> burn_res" where
  "SubmitBurn e i net amount =
     (if amount = 0 then BurnErr
      else case sui_coins e i (SuiUSDCCoinType net) of None \<Rightarrow> BurnErr
      | Some coins \<Rightarrow> (case selectCoins coins (uint amount) of Inl _ \<Rightarrow> BurnErr
        | Inr selected \<Rightarrow> (case sui_coins e i NativeSuiCoinType of None \<Rightarrow> BurnErr
          | Some gas \<Rightarrow> (case largestGasCoin gas of Inl _ \<Rightarrow> BurnErr
            | Inr _ \<Rightarrow>
                if \<not> burn_built e i then BurnErr
                else case burn_exec e i of None \<Rightarrow> BurnAmbiguous
                | Some resp \<Rightarrow>
                    if sr_digest resp = '''' then BurnAmbiguous
                    else if sr_status resp \<noteq> '''' \<and> sr_status resp \<noteq> ''success'' then BurnErr
                    else BurnOk (sr_digest resp)))))"

text \<open>From the claim on.\<close>

definition submit_cctp :: "env \<Rightarrow> nat \<Rightarrow> network \<Rightarrow> 64 word \<Rightarrow> (world, rerr option) state" where
  "submit_cctp e i net amount = do {
     c \<leftarrow> claimForBridging e i routeAProviderCCTP ''cctp'';
     case c of
       ClaimError \<Rightarrow> return (Some (Err ''claim for bridging''))
     | NotClaimed \<Rightarrow> return None
     | Claimed \<Rightarrow>
         (case SubmitBurn e i net amount of
            BurnAmbiguous \<Rightarrow> do {
              log_call (CallBurn i amount Lost);
              return (Some (Err ''cctp burn (ambiguous; order parked)''))
            }
          | BurnErr \<Rightarrow> do {
              log_call (CallBurn i amount Refused);
              revertBridgingClaim e i;
              return (Some (Err ''cctp burn''))
            }
          | BurnOk digest \<Rightarrow> do {
              log_call (CallBurn i amount (Done digest));
              s \<leftarrow> update_one e SPersistDigest i (\<lambda>r. bridge_status r = Bridging)
                (\<lambda>r. r\<lparr>bridge_tx_sui := digest\<rparr>);
              if s \<noteq> Saved then return (Some (Err ''persist cctp burn digest''))
              else do { ExtendBurst e; return None }
            })
   }"

definition startCCTPBridge :: "env \<Rightarrow> loaded \<Rightarrow> (world, rerr option) state" where
  "startCCTPBridge e l = (let i = ord_id (row l) in
     if \<not> cctpReady e then return (Some (Err ''cctp fallback unavailable''))
     else case po_edge l of
       None \<Rightarrow> return (Some (Err ''missing payment_order/token edge''))
     | Some p \<Rightarrow> (case (po_token p, cctpNet e) of
         (Some tok, Some net) \<Rightarrow>
           if tok_contract tok \<noteq> SuiUSDCCoinType net
           then return (Some (Err ''not native Sui USDC''))
           else sampled e i BridgeSubmit
             (case usdcSubunitsUint64 (po_amount p) (tok_decimals tok) of
                None \<Rightarrow> return (Some (Err ''amount''))
              | Some amount \<Rightarrow> do {
                  err \<leftarrow> funds_ready e l (tok_contract tok) (uint amount);
                  case err of
                    Some x \<Rightarrow> return (Some x)
                  | None \<Rightarrow> submit_cctp e i net amount
                })
       | _ \<Rightarrow> return (Some (Err ''missing payment_order/token edge''))))"

section \<open>Choosing the rail\<close>

definition on_cctp :: "env \<Rightarrow> loaded \<Rightarrow> bool" where
  "on_cctp e l \<longleftrightarrow> bridge_provider (row l) = routeAProviderCCTP \<or> cctpPrimaryEligible e l"

definition startBridgeForProvider :: "env \<Rightarrow> loaded \<Rightarrow> (world, rerr option) state" where
  "startBridgeForProvider e l = (if on_cctp e l then startCCTPBridge e l else startBridge e l)"

definition tryCCTPFallback :: "env \<Rightarrow> loaded \<Rightarrow> (world, rerr option) state" where
  "tryCCTPFallback e l = startCCTPBridge e l"

text \<open>The probe before the hand-over to LiFi: \<open>None\<close> when LiFi's guaranteed minimum still
  honours the order's quote.\<close>

definition lifi_fit :: "env \<Rightarrow> loaded \<Rightarrow> rerr option" where
  "lifi_fit e l = (let i = ord_id (row l) in
     case po_edge l of
       None \<Rightarrow> Some (Err ''missing payment_order/token edge'')
     | Some p \<Rightarrow> (case po_token p of
         None \<Rightarrow> Some (Err ''missing payment_order/token edge'')
       | Some tok \<Rightarrow>
           if \<not> c_settlement (cf e) then Some (Err ''settlement client not configured'')
           else case lifi_get_quote e i \<lparr>lr_from_token = tok_contract tok,
               lr_from_amount = show_int (trunc (shift (po_amount p) (tok_decimals tok))),
               lr_slippage = False\<rparr> of
             None \<Rightarrow> Some (Err ''lifi probe quote'')
           | Some quote \<Rightarrow>
               (case parseAmountToDecimal (c_parse_dec (cf e)) (q_to_amount_min quote)
                       (c_usdc_decimals (cf e)) of
                  None \<Rightarrow> Some (Err ''lifi probe: unusable ToAmountMin'')
                | Some minDelivery \<Rightarrow>
                    if \<not> 0 < minDelivery then Some (Err ''lifi probe: unusable ToAmountMin'')
                    else case fetch_rate e i minDelivery of
                      None \<Rightarrow> Some (Err ''settlement rate for fit check'')
                    | Some rate \<Rightarrow>
                        if lifiCoversQuote (c_dec (cf e)) (po_amount p * po_rate p) rate
                             (c_fee_bps (cf e)) minDelivery
                        then None
                        else Some (Err ''LiFi min delivery cannot honor the quote''))))"

definition tryLiFiFallback :: "env \<Rightarrow> loaded \<Rightarrow> (world, rerr option) state" where
  "tryLiFiFallback e l = (case lifi_fit e l of Some x \<Rightarrow> return (Some x) | None \<Rightarrow> startBridge e l)"

definition set_quote_fails :: "nat \<Rightarrow> nat \<Rightarrow> (world, unit) state" where
  "set_quote_fails i n = modify (\<lambda>w. w\<lparr>quote_fails := (quote_fails w)(i := n)\<rparr>)"

text \<open>The body of \<open>advancePending\<close>'s loop after a failed start.\<close>

definition start_failed :: "env \<Rightarrow> loaded \<Rightarrow> rerr \<Rightarrow> (world, unit) state" where
  "start_failed e l err = (let r = row l; i = ord_id r in
     if err = ErrAwaitingDepositAtAggregator then
       only_if (bridge_status r \<noteq> AwaitingFunds) (do {
         _ \<leftarrow> update_one e SAwaiting i (\<lambda>r. bridge_status r = Pending)
           (\<lambda>r. r\<lparr>bridge_status := AwaitingFunds\<rparr>);
         return ()
       })
     else do {
       w \<leftarrow> fetch;
       let count = Suc (quote_fails w i);
       set_quote_fails i count;
       ferr \<leftarrow> (if count \<ge> bridgeFallbackAfter
                then (if on_cctp e l then tryLiFiFallback e l else tryCCTPFallback e l)
                else return (Some err));
       if ferr = None then set_quote_fails i 0
       else only_if (count \<ge> maxQuoteRetries) (do {
         _ \<leftarrow> update_one e SMarkFailed i waiting
           (\<lambda>x. x\<lparr>bridge_status := Failed,
                  failure_reason := BridgeStartFailed (bridge_provider r) count\<rparr>);
         set_quote_fails i 0
       })
     })"

definition advance_pending_order :: "env \<Rightarrow> loaded \<Rightarrow> (world, unit) state" where
  "advance_pending_order e l = do {
     err \<leftarrow> startBridgeForProvider e l;
     case err of None \<Rightarrow> set_quote_fails (ord_id (row l)) 0 | Some x \<Rightarrow> start_failed e l x
   }"

definition advancePending :: "env \<Rightarrow> (world, unit) state" where
  "advancePending e = for_orders e (Some [TokenEdge])
     (\<lambda>r. waiting r \<and> ord_mode r \<noteq> LpNetwork) (advance_pending_order e)"

section \<open>Attestation and mint\<close>

definition mint_checks :: "env \<Rightarrow> network \<Rightarrow> byte list \<Rightarrow> rerr + cctp_msg" where
  "mint_checks e net raw = (case ParseBurnMessage raw of
     Inl _ \<Rightarrow> Inl (Err ''parse burn message'')
   | Inr msg \<Rightarrow>
       if msg_dst_domain msg \<noteq> BaseDomain net then Inl (Err ''destination domain - refusing to mint'')
       else if MintRecipientEVM msg \<noteq> c_hex_address (cf e) (c_agg_address (cf e))
       then Inl (Err ''mint recipient - refusing to mint'')
       else Inr msg)"

text \<open>The mint itself: nothing to submit when the nonce is used already; the destination
  hash is empty then.\<close>

definition mint :: "env \<Rightarrow> nat \<Rightarrow> cctp_msg \<Rightarrow> byte list \<Rightarrow> byte list \<Rightarrow> rerr + string" where
  "mint e i msg raw att = (case nonce_used e (msg_src_domain msg) (msg_nonce msg) of
     None \<Rightarrow> Inl (Err ''usedNonces'')
   | Some True \<Rightarrow> Inr ''''
   | Some False \<Rightarrow> (case receive_message e i raw att of
       None \<Rightarrow> Inl (Err ''receiveMessage'') | Some tx \<Rightarrow> Inr tx))"

definition finishCCTPMint ::
  "env \<Rightarrow> loaded \<Rightarrow> network \<Rightarrow> byte list \<Rightarrow> byte list \<Rightarrow> (world, rerr option) state" where
  "finishCCTPMint e l net raw att = (let i = ord_id (row l) in
     case mint_checks e net raw of
       Inl x \<Rightarrow> return (Some x)
     | Inr msg \<Rightarrow>
       if \<not> c_evm (cf e) then do { panic; return None }
       else (case mint e i msg raw att of
         Inl x \<Rightarrow> return (Some x)
       | Inr destTxHash \<Rightarrow> do {
           s \<leftarrow> update_one e SBridged i (\<lambda>r. bridge_status r \<in> {Bridging, BridgeUncertain})
             (\<lambda>r. (if destTxHash \<noteq> '''' then (\<lambda>x. x\<lparr>bridge_tx_dest := destTxHash\<rparr>) else id)
                (r\<lparr>bridge_status := Bridged,
                   bridged_amount := Some (unshift (of_nat (msg_amount msg)) (c_usdc_decimals (cf e))),
                   failure_reason := NoReason\<rparr>));
           if isStaleTransition s then return None
           else if s = DbErr then return (Some (Err ''persist bridged''))
           else do {
             ExtendBurst e;
             LogOnce e i BridgeDone Succeeded;
             return None
           }
         }))"

definition pollOneCCTP :: "env \<Rightarrow> loaded \<Rightarrow> (world, unit) state" where
  "pollOneCCTP e l = (let r = row l; i = ord_id r in
     polled e i BridgePoll
       (case cctpNet e of None \<Rightarrow> do { panic; return (None, False) } | Some net \<Rightarrow>
        case iris_message e i (bridge_tx_sui r) of
          AttestationPending \<Rightarrow> return (None, False)
        | NotIndexed \<Rightarrow>
            if now e - updated_at r > bridgeStaleTimeoutFor ''cctp'' then do {
              s \<leftarrow> update_one e SUncertain i (\<lambda>r. bridge_status r = Bridging)
                (\<lambda>x. x\<lparr>bridge_status := BridgeUncertain,
                       failure_reason := CircleNotIndexed (bridge_tx_sui r)\<rparr>);
              if isStaleTransition s then return (None, False)
              else if s = DbErr then return (Some (Err ''persist bridge_uncertain''), False)
              else return (None, True)
            } else return (None, False)
        | IrisErr x \<Rightarrow> return (Some (Err x), False)
        | Attested raw att \<Rightarrow> do {
            err \<leftarrow> finishCCTPMint e l net raw att;
            return (err, True)
          }))"

definition recoverUncertainCCTP :: "env \<Rightarrow> loaded \<Rightarrow> (world, unit) state" where
  "recoverUncertainCCTP e l = (let r = row l; i = ord_id r in
     polled e i BridgeUncertainStep
       (case cctpNet e of None \<Rightarrow> do { panic; return (None, False) } | Some net \<Rightarrow>
        case iris_message e i (bridge_tx_sui r) of
          Attested raw att \<Rightarrow> do {
            err \<leftarrow> finishCCTPMint e l net raw att;
            return (err, True)
          }
        | _ \<Rightarrow> do {
            ms \<leftarrow> expire_uncertain e r (CctpUncertainExpired (bridge_tx_sui r));
            return (None, ms)
          }))"

definition advanceBridging :: "env \<Rightarrow> (world, unit) state" where
  "advanceBridging e = for_orders e None (\<lambda>r. bridge_status r = Bridging)
     (\<lambda>l. if bridge_tx_sui (row l) = '''' then return ()
          else if bridge_provider (row l) = routeAProviderCCTP then pollOneCCTP e l
          else pollOneBridge e l)"

definition advanceUncertain :: "env \<Rightarrow> (world, unit) state" where
  "advanceUncertain e = for_orders e None (\<lambda>r. bridge_status r = BridgeUncertain)
     (\<lambda>l. if bridge_provider (row l) = routeAProviderCCTP then recoverUncertainCCTP e l
          else recoverUncertainLiFi e l)"

end
