(* ===== verification/Route_Dispatch.thy ===== *)
theory Route_Dispatch imports Route_Cctp begin

text \<open>
  The last hop of Route A in mode lp (services/route_a_dispatcher.go): re-entering the
  settlement gateway on Base for an order whose USDC has arrived (\<open>dispatchLP\<close>), and polling
  the settlement aggregator until the order settles or comes back (\<open>advanceDispatching\<close>).
\<close>

section \<open>dispatchLP\<close>

text \<open>The payout amount and the sender fee at the live rate; the caller has excluded a zero
  rate, on which the decimal division panics.\<close>

definition lp_amounts :: "env \<Rightarrow> nat \<Rightarrow> payment_order \<Rightarrow> decimal \<Rightarrow> decimal \<Rightarrow> split_error + int \<times> int" where
  "lp_amounts e i p bridged rate =
     (let amount = decimalToSubunit (dl_div (c_dec (cf e)) (po_amount p * po_rate p) rate)
            (c_usdc_decimals (cf e)) in
      dispatch_amounts (c_fee_bps (cf e)) (decimalToSubunit bridged (c_usdc_decimals (cf e)))
        amount (wallet_balance e i))"

definition scaled_rate :: "decimal \<Rightarrow> int" where
  "scaled_rate rate = trunc (rate * 100)"

text \<open>The allowance check, with its own audit timer around an approval.\<close>

definition ensure_allowance :: "env \<Rightarrow> nat \<Rightarrow> int \<Rightarrow> (world, rerr option) state" where
  "ensure_allowance e i need = (case allowance e i of
     None \<Rightarrow> return (Some (Err ''approve USDC''))
   | Some current \<Rightarrow>
       if current \<ge> need then return None
       else do {
         t \<leftarrow> Time e i EvmApprove;
         let err = (if approve_ok e i then None else Some (Err ''approve USDC''));
         End e t err;
         return err
       })"

text \<open>Claim, submit \<open>createOrder\<close>, and persist the gateway order id.\<close>

definition persist_gateway :: "env \<Rightarrow> int \<Rightarrow> string \<Rightarrow> string \<Rightarrow> route_order \<Rightarrow> route_order" where
  "persist_gateway e fee gid tx r = r\<lparr>gateway_order_id := gid,
     gateway_chain_id := word_of_int (c_chain_id (cf e)),
     sender_fee_subunit := Some (unshift (of_int fee) (c_usdc_decimals (cf e))),
     bridge_tx_dest := tx\<rparr>"

definition submit_gateway :: "env \<Rightarrow> nat \<Rightarrow> recipient \<Rightarrow> int \<Rightarrow> int \<Rightarrow> int \<Rightarrow> (world, rerr option) state" where
  "submit_gateway e i rcpt amount fee rate = do {
     c \<leftarrow> update_one e SClaimDispatch i (\<lambda>r. bridge_status r = Bridged)
       (\<lambda>r. r\<lparr>bridge_status := Dispatching\<rparr>);
     if isStaleTransition c then return None
     else if c = DbErr then return (Some (Err ''claim for dispatching''))
     else case create_order e i \<lparr>cp_amount = amount, cp_rate = rate, cp_fee = fee,
                                 cp_recipient = rcpt_account rcpt\<rparr> of
       SubmittedUnconfirmed tx \<Rightarrow> do {
         log_call (CallGateway i (rcpt_account rcpt) amount fee Lost);
         _ \<leftarrow> update_one e SMarkAmbiguous i (\<lambda>r. bridge_status r = Dispatching)
           (\<lambda>r. r\<lparr>failure_reason := CreateOrderUnconfirmed tx\<rparr>);
         return (Some (Err ''createOrder (ambiguous; order parked)''))
       }
     | CreateErr \<Rightarrow> do {
         log_call (CallGateway i (rcpt_account rcpt) amount fee Refused);
         _ \<leftarrow> update_one e SRevertDispatch i
           (\<lambda>r. bridge_status r = Dispatching \<and> gateway_order_id r = '''')
           (\<lambda>r. r\<lparr>bridge_status := Bridged\<rparr>);
         return (Some (Err ''createOrder''))
       }
     | Created gid tx \<Rightarrow> do {
         log_call (CallGateway i (rcpt_account rcpt) amount fee (Done (to_lower gid)));
         s \<leftarrow> update_one e SPersistGateway i (\<lambda>r. bridge_status r = Dispatching)
           (persist_gateway e fee (to_lower gid) tx);
         if s \<noteq> Saved then return (Some (Err ''persist gateway order id (already on-chain!)''))
         else do { ExtendBurst e; return None }
       }
   }"

definition dispatchLP :: "env \<Rightarrow> loaded \<Rightarrow> (world, rerr option) state" where
  "dispatchLP e l = (let i = ord_id (row l) in sampled e i EvmCreateOrder
     (if \<not> c_evm (cf e) \<or> \<not> c_settlement (cf e)
      then return (Some ErrBaseDispatcherNotConfigured)
      else case po_edge l of
        None \<Rightarrow> return (Some (Err ''missing payment_order edge''))
      | Some p \<Rightarrow> (case po_recipient p of
          None \<Rightarrow> return (Some (Err ''missing recipient edge''))
        | Some rcpt \<Rightarrow> (case bridged_amount (row l) of
            None \<Rightarrow> return (Some (Err ''zero/nil bridged_amount''))
          | Some bridged \<Rightarrow>
              if bridged = 0 then return (Some (Err ''zero/nil bridged_amount''))
              else (case fetch_rate e i bridged of
                None \<Rightarrow> return (Some (Err ''fetch live the aggregator rate''))
              | Some rate \<Rightarrow>
                  if rate = 0 then do { panic; return None }
                  else (case lp_amounts e i p bridged rate of
                    Inl _ \<Rightarrow> return (Some (Err ''insufficient bridged USDC''))
                  | Inr (amount, fee) \<Rightarrow>
                      if \<not> pubkey_ok e i then return (Some (Err ''settlement pubkey''))
                      else if \<not> encrypt_ok e i then return (Some (Err ''encrypt recipient''))
                      else do {
                        err \<leftarrow> ensure_allowance e i (amount + fee);
                        case err of
                          Some x \<Rightarrow> return (Some x)
                        | None \<Rightarrow> submit_gateway e i rcpt amount fee (scaled_rate rate)
                      }))))))"

section \<open>Polling settlement\<close>

definition publishOrderEvent ::
  "loaded \<Rightarrow> string \<Rightarrow> bridge_status option \<Rightarrow> (world, unit) state" where
  "publishOrderEvent l pcStatus bridgeFlipped = (case po_edge l of
     None \<Rightarrow> return ()
   | Some p \<Rightarrow> (case po_sender p of
       None \<Rightarrow> return ()
     | Some sender \<Rightarrow> publish (PaymentEvent sender
         (if bridgeFlipped = Some Settled then ''payment.settled''
          else if bridgeFlipped = Some Refunded then ''payment.refunded''
          else ''payment.processing'')
         (ord_id (row l)) pcStatus)))"

definition set_po :: "env \<Rightarrow> loaded \<Rightarrow> po_status \<Rightarrow> (world, unit) state" where
  "set_po e l st = (case po_edge l of None \<Rightarrow> return ()
     | Some p \<Rightarrow> set_po_status e (ord_id (row l)) (po_id p) st)"

definition maxDispatchAttempts :: nat where "maxDispatchAttempts = 3"

text \<open>What a polled status does to the row, and the states it flips to.\<close>

definition returned_status :: "string \<Rightarrow> bool" where
  "returned_status st \<longleftrightarrow> st = ''refunded'' \<or> st = ''expired''"

definition poll_outcome :: "env \<Rightarrow> loaded \<Rightarrow> string \<Rightarrow>
    (world, (route_order \<Rightarrow> route_order) \<times> bridge_status option) state" where
  "poll_outcome e l st = (let i = ord_id (row l) in
     if st = ''settled'' then do {
       set_po e l PoSettled;
       return (\<lambda>r. r\<lparr>bridge_status := Settled\<rparr>, Some Settled)
     } else if returned_status st then do {
       log_call (PolledReturned i (gateway_order_id (row l)));
       n \<leftarrow> count_started e i EvmCreateOrder;
       let tried = (case n of None \<Rightarrow> 1 | Some k \<Rightarrow> k);
       if tried < maxDispatchAttempts then do {
         LogOnce e i SettlementTerminal Retrying;
         return (\<lambda>r. r\<lparr>bridge_status := Bridged, settlement_status := '''', gateway_order_id := ''''\<rparr>, None)
       } else do {
         set_po e l PoRefunded;
         return (\<lambda>r. r\<lparr>bridge_status := Refunded\<rparr>, Some Refunded)
       }
     } else return (id, None))"

definition poll_dispatching :: "env \<Rightarrow> loaded \<Rightarrow> (world, unit) state" where
  "poll_dispatching e l = (let r = row l; i = ord_id r in
     if gateway_order_id r = '''' \<or> gateway_chain_id r = 0 then return ()
     else case order_status e (sint (gateway_chain_id r)) (gateway_order_id r) of
       None \<Rightarrow> return ()
     | Some st \<Rightarrow> do {
         (upd, flipped) \<leftarrow> poll_outcome e l st;
         s \<leftarrow> update_one e SPoll i (\<lambda>r. bridge_status r = Dispatching)
           (\<lambda>r. upd (r\<lparr>settlement_status := st, settlement_polled_at := Some (now e)\<rparr>));
         only_if (\<not> isStaleTransition s \<and> settlement_status r \<noteq> st) (publishOrderEvent l st flipped)
       })"

definition advanceDispatching :: "env \<Rightarrow> (world, unit) state" where
  "advanceDispatching e = only_if (c_settlement (cf e))
     (for_orders e (Some [SenderEdge]) (\<lambda>r. bridge_status r = Dispatching \<and> ord_mode r = Lp)
        (poll_dispatching e))"

end
