(* ===== verification/Route_Treasury.thy ===== *)
theory Route_Treasury imports Route_Dispatch begin

text \<open>
  Route C (services/route_a_treasury.go): paying the merchant from the platform's NGN float,
  confirming the payout, and the reload of the float through the gateway, aimed at the
  platform's own account.
\<close>

section \<open>Rails and references\<close>

definition treasuryRefPrefix :: string where "treasuryRefPrefix = ''rctp-''"
definition korapayMinPayoutNGN :: decimal where "korapayMinPayoutNGN = 1000"

definition attempt_ref :: "string \<Rightarrow> nat \<Rightarrow> nat \<Rightarrow> string" where
  "attempt_ref pre i n = pre @ show_nat i @ ''-'' @ show_nat n"

definition CurrentFloatRail :: "env \<Rightarrow> string" where
  "CurrentFloatRail e = (if float_switch e \<noteq> '''' then float_switch e else ''korapay'')"

definition floatRail :: "env \<Rightarrow> string option" where
  "floatRail e = (case c_treasury_rail (cf e) of
     Some p \<Rightarrow> Some p
   | None \<Rightarrow> if CurrentFloatRail e \<in> set (c_rails (cf e)) then Some (CurrentFloatRail e)
             else c_default_rail (cf e))"

text \<open>\<open>strings.EqualFold(a.Currency, "NGN") || a.Currency == ""\<close>: the first such account.\<close>

definition treasuryFloatBalance :: "env \<Rightarrow> string \<Rightarrow> decimal option" where
  "treasuryFloatBalance e rail = (case rail_accounts e rail of
     None \<Rightarrow> None
   | Some accts \<Rightarrow> map_option snd (find (\<lambda>(ccy, _). to_lower ccy = ''ngn'' \<or> ccy = '''') accts))"

text \<open>The merchant's entitlement, fixed at quote time.\<close>

definition entitlement :: "env \<Rightarrow> payment_order \<Rightarrow> decimal" where
  "entitlement e p = dl_round2 (c_dec (cf e)) (po_amount p * po_rate p)"

text \<open>\<open>time.Now().Unix() % 1000\<close>, the reference suffix when the attempts cannot be counted.\<close>

definition attempt_number :: "env \<Rightarrow> nat \<Rightarrow> step \<Rightarrow> (world, nat) state" where
  "attempt_number e i s = do {
     n \<leftarrow> count_started e i s;
     return (case n of Some k \<Rightarrow> k | None \<Rightarrow> nat ((now e div second) mod 1000))
   }"

section \<open>The payout\<close>

definition fallbackToLp :: "env \<Rightarrow> nat \<Rightarrow> (world, unit) state" where
  "fallbackToLp e i = do {
     s \<leftarrow> update_one e SFallback i (\<lambda>r. bridge_status r = Bridged \<and> ord_mode r = Treasury)
       (\<lambda>r. r\<lparr>ord_mode := Lp\<rparr>);
     only_if (s \<noteq> DbErr) (LogOnce e i TreasuryPayout Skipped)
   }"

definition finalizeTreasuryPayout :: "env \<Rightarrow> nat \<Rightarrow> (world, unit) state" where
  "finalizeTreasuryPayout e i = do {
     w \<leftarrow> fetch;
     case (if dbf e SLoad i = DbOk then find_order i w else None) of
       None \<Rightarrow> return ()
     | Some r \<Rightarrow> (let l = load_row (Some [SenderEdge]) w r in do {
         s \<leftarrow> update_one e SFinalize i (\<lambda>r. bridge_status r = Dispatching)
           (\<lambda>r. r\<lparr>bridge_status := Settled\<rparr>);
         only_if (s = Saved) (do {
           set_po e l PoSettled;
           LogOnce e i TreasuryPayout Succeeded;
           publishOrderEvent l ''settled'' (Some Settled)
         })
       })
   }"

text \<open>The outcome of a transfer call as the trace records it.\<close>

definition transfer_outcome :: "string \<Rightarrow> transfer_res \<Rightarrow> outcome" where
  "transfer_outcome ref res = (case res of TransferOk _ \<Rightarrow> Done ref
     | TransferErr landed \<Rightarrow> if landed then Lost else Refused)"

text \<open>Claim with the reference, submit the transfer, release the claim on an error.\<close>

definition submit_payout :: "env \<Rightarrow> nat \<Rightarrow> string \<Rightarrow> recipient \<Rightarrow> decimal \<Rightarrow> string \<Rightarrow> (world, rerr option) state" where
  "submit_payout e i rail rcpt amountNGN payRef = do {
     c \<leftarrow> update_one e STreasuryClaim i (\<lambda>r. bridge_status r = Bridged \<and> ord_mode r = Treasury)
       (\<lambda>r. r\<lparr>treasury_payout_ref := payRef, bridge_status := Dispatching\<rparr>);
     if isStaleTransition c then return None
     else if c = DbErr then return (Some (Err ''claim treasury dispatch''))
     else do {
       let res = rail_transfer e rail \<lparr>tr_bank = rcpt_institution rcpt, tr_account = rcpt_account rcpt,
                                       tr_amount = amountNGN, tr_ref = payRef\<rparr>;
       log_call (CallTransfer i payRef amountNGN (transfer_outcome payRef res));
       case res of
         TransferErr _ \<Rightarrow> do {
           _ \<leftarrow> update_one e STreasuryRelease i
             (\<lambda>r. bridge_status r = Dispatching \<and> treasury_payout_ref r = payRef)
             (\<lambda>r. r\<lparr>bridge_status := Bridged\<rparr>);
           return (Some (Err ''treasury payout submit''))
         }
       | TransferOk st \<Rightarrow> do {
           only_if (st = TransferSuccess) (finalizeTreasuryPayout e i);
           ExtendBurst e;
           return None
         }
     }
   }"

definition dispatchTreasury :: "env \<Rightarrow> loaded \<Rightarrow> (world, rerr option) state" where
  "dispatchTreasury e l = (let i = ord_id (row l) in case floatRail e of
     None \<Rightarrow> return (Some ErrTreasuryDispatcherNotWired)
   | Some rail \<Rightarrow> (case po_edge l of
       None \<Rightarrow> return (Some (Err ''missing payment_order/recipient edge''))
     | Some p \<Rightarrow> (case po_recipient p of
         None \<Rightarrow> return (Some (Err ''missing payment_order/recipient edge''))
       | Some rcpt \<Rightarrow> (let amountNGN = entitlement e p in
           if \<not> 0 < amountNGN then return (Some (Err ''non-positive NGN amount''))
           else sampled e i TreasuryPayout
             (if rail = ''korapay'' \<and> amountNGN < korapayMinPayoutNGN
              then do { fallbackToLp e i; return None }
              else case treasuryFloatBalance e rail of
                None \<Rightarrow> return (Some (Err ''float balance''))
              | Some floatBal \<Rightarrow>
                  if floatBal < amountNGN then do { fallbackToLp e i; return None }
                  else do {
                    n \<leftarrow> attempt_number e i TreasuryPayout;
                    submit_payout e i rail rcpt amountNGN (attempt_ref treasuryRefPrefix i n)
                  })))))"

definition advanceBridged :: "env \<Rightarrow> (world, unit) state" where
  "advanceBridged e = for_orders e (Some [RecipientEdge, TokenEdge]) (\<lambda>r. bridge_status r = Bridged)
     (\<lambda>l. case ord_mode (row l) of
        Lp \<Rightarrow> do { _ \<leftarrow> dispatchLP e l; return () }
      | Treasury \<Rightarrow> do { _ \<leftarrow> dispatchTreasury e l; return () }
      | LpNetwork \<Rightarrow> return ())"

section \<open>Confirming payouts\<close>

definition poll_treasury :: "env \<Rightarrow> string \<Rightarrow> loaded \<Rightarrow> (world, unit) state" where
  "poll_treasury e rail l = (let r = row l; i = ord_id r in
     case rail_status e rail (treasury_payout_ref r) of
       None \<Rightarrow> return ()
     | Some TransferPending \<Rightarrow> return ()
     | Some TransferSuccess \<Rightarrow> finalizeTreasuryPayout e i
     | Some TransferFailed \<Rightarrow> do {
         log_call (PolledFailed i (treasury_payout_ref r));
         LogOnce e i TreasuryPayout FailedEv;
         _ \<leftarrow> update_one e SRetire i (\<lambda>r. bridge_status r = Dispatching)
           (\<lambda>r. r\<lparr>bridge_status := Bridged, treasury_payout_ref := ''''\<rparr>);
         return ()
       })"

definition advanceTreasuryPayouts :: "env \<Rightarrow> (world, unit) state" where
  "advanceTreasuryPayouts e = (case floatRail e of None \<Rightarrow> return ()
   | Some rail \<Rightarrow> for_orders e (Some [SenderEdge])
       (\<lambda>r. ord_mode r = Treasury \<and> bridge_status r = Dispatching \<and> treasury_payout_ref r \<noteq> '''')
       (poll_treasury e rail))"

section \<open>Reloading the float\<close>

text \<open>\<open>resolveFloatAccount\<close>: the current rail's own account, cached for an hour per rail.\<close>

definition lookup_float :: "env \<Rightarrow> string \<Rightarrow> float_account option" where
  "lookup_float e rail =
     (if rail = ''fintava'' then
        (if \<not> c_fintava (cf e) \<or> fintava_institution e = '''' then None
         else case merchant_wallet e of None \<Rightarrow> None
         | Some (number, name) \<Rightarrow>
             if number = '''' then None
             else Some \<lparr>fa_bank = fintava_institution e, fa_number = number, fa_name = name\<rparr>)
      else if \<not> c_korapay (cf e) then None else kora_vba e)"

definition resolveFloatAccount :: "env \<Rightarrow> (world, float_account option) state" where
  "resolveFloatAccount e = do {
     w \<leftarrow> fetch;
     let rail = CurrentFloatRail e;
     let cached = (case float_acct w of None \<Rightarrow> None
       | Some (rl, a, at_time) \<Rightarrow> if rl = rail \<and> now e - at_time < hour then Some a else None);
     case cached of Some a \<Rightarrow> return (Some a)
     | None \<Rightarrow> (case lookup_float e rail of
         None \<Rightarrow> return None
       | Some a \<Rightarrow> do {
           modify (\<lambda>w. w\<lparr>float_acct := Some (rail, a, now e)\<rparr>);
           return (Some a)
         })
   }"

text \<open>\<open>createGatewayOrder\<close>: the whole bridged amount, no fee, to the given account.\<close>

definition createGatewayOrder :: "env \<Rightarrow> nat \<Rightarrow> decimal \<Rightarrow> float_account \<Rightarrow> (world, rerr + string \<times> string) state" where
  "createGatewayOrder e i bridged acct = (let amount = decimalToSubunit bridged (c_usdc_decimals (cf e)) in
     case fetch_rate e i bridged of
       None \<Rightarrow> return (Inl (Err ''reload rate''))
     | Some rate \<Rightarrow>
         if \<not> pubkey_ok e i then return (Inl (Err ''settlement pubkey''))
         else if \<not> encrypt_ok e i then return (Inl (Err ''encrypt reload recipient''))
         else (case allowance e i of
           None \<Rightarrow> return (Inl (Err ''reload allowance''))
         | Some current \<Rightarrow>
             if current < amount \<and> \<not> approve_ok e i then return (Inl (Err ''reload approve''))
             else (case create_order e i \<lparr>cp_amount = amount, cp_rate = scaled_rate rate, cp_fee = 0,
                                          cp_recipient = fa_number acct\<rparr> of
               SubmittedUnconfirmed tx \<Rightarrow> do {
                 log_call (CallReload i (fa_number acct) amount Lost);
                 return (Inl (Err ''reload createOrder ambiguous''))
               }
             | CreateErr \<Rightarrow> do {
                 log_call (CallReload i (fa_number acct) amount Refused);
                 return (Inl (Err ''reload createOrder''))
               }
             | Created gid tx \<Rightarrow> do {
                 log_call (CallReload i (fa_number acct) amount (Done (to_lower gid)));
                 return (Inr (to_lower gid, tx))
               })))"

definition submitFloatReload :: "env \<Rightarrow> float_account \<Rightarrow> loaded \<Rightarrow> (world, unit) state" where
  "submitFloatReload e acct l = (let i = ord_id (row l) in do {
     _ \<leftarrow> sampled e i FloatReload
       (case bridged_amount (row l) of
          None \<Rightarrow> return (Some (Err ''no bridged_amount to reload''))
        | Some bridged \<Rightarrow>
            if bridged = 0 then return (Some (Err ''no bridged_amount to reload''))
            else do {
              res \<leftarrow> createGatewayOrder e i bridged acct;
              case res of
                Inl x \<Rightarrow> return (Some x)
              | Inr (gid, tx) \<Rightarrow> do {
                  s \<leftarrow> update_one e SReloadPersist i (\<lambda>r. gateway_order_id r = '''')
                    (\<lambda>r. r\<lparr>gateway_order_id := gid,
                           gateway_chain_id := word_of_int (c_chain_id (cf e)),
                           bridge_tx_dest := tx\<rparr>);
                  if isStaleTransition s then return None
                  else if s = DbErr then return (Some (Err ''persist reload gateway id (on-chain!)''))
                  else do { ExtendBurst e; return None }
                }
            });
     return ()
   })"

definition pollFloatReload :: "env \<Rightarrow> loaded \<Rightarrow> (world, unit) state" where
  "pollFloatReload e l = (let r = row l; i = ord_id r in
     case order_status e (sint (gateway_chain_id r)) (gateway_order_id r) of
       None \<Rightarrow> return ()
     | Some st \<Rightarrow>
         if st = settlement_status r then return ()
         else do {
           s \<leftarrow> update_one e SReloadStatus i (\<lambda>_. True)
             (\<lambda>r. r\<lparr>settlement_status := st, settlement_polled_at := Some (now e)\<rparr>);
           only_if (s = Saved \<and> st = ''settled'') (LogOnce e i FloatReload Succeeded)
         })"

definition reload_due :: "route_order \<Rightarrow> bool" where
  "reload_due r \<longleftrightarrow> ord_mode r = Treasury \<and> bridge_status r \<in> {Dispatching, Settled} \<and>
     settlement_status r \<noteq> ''settled''"

definition advanceFloatReload :: "env \<Rightarrow> (world, unit) state" where
  "advanceFloatReload e = only_if (c_evm (cf e) \<and> c_settlement (cf e)) (do {
     q \<leftarrow> query_orders e (Some [TokenEdge]) reload_due;
     case q of None \<Rightarrow> return ()
     | Some ls \<Rightarrow>
         if ls = [] then return ()
         else do {
           acct \<leftarrow> resolveFloatAccount e;
           for_each ls (\<lambda>l. unless_panicked
             (case acct of
                None \<Rightarrow> only_if (gateway_order_id (row l) \<noteq> '''') (pollFloatReload e l)
              | Some a \<Rightarrow> if gateway_order_id (row l) = '''' then submitFloatReload e a l
                          else pollFloatReload e l))
         }
   })"

end
