(* ===== verification/Route_Lp_Network.thy ===== *)
theory Route_Lp_Network imports Route_Treasury begin

text \<open>
  Route B (services/route_a_lp_network.go): an order filled by one of the platform's own
  liquidity providers. The match and the three-legged claim transaction, the payout from the
  pooled balance, its unwinding, the delivery of the customer's USDC to the LP and the
  settlement.
\<close>

section \<open>References\<close>

definition lpNetPayRefPrefix :: string where "lpNetPayRefPrefix = ''rbpay-''"
definition lpNetFillRefPrefix :: string where "lpNetFillRefPrefix = ''lpfill-''"
definition deliveryParkedMarker :: string where "deliveryParkedMarker = ''usdc delivery ambiguous''"

text \<open>\<open>strings.HasPrefix(order.FailureReason, deliveryParkedMarker)\<close>\<close>

definition is_parked :: "reason \<Rightarrow> bool" where
  "is_parked why = (case why of DeliveryAmbiguous _ _ _ \<Rightarrow> True
     | Text s \<Rightarrow> prefix deliveryParkedMarker s | _ \<Rightarrow> False)"

definition fill_ref_of :: "string \<Rightarrow> string" where
  "fill_ref_of payRef = lpNetFillRefPrefix @ trim_prefix lpNetPayRefPrefix payRef"

section \<open>LP accounts and ledger\<close>

definition add_balance :: "nat \<Rightarrow> decimal \<Rightarrow> world \<Rightarrow> world" where
  "add_balance k d w = w\<lparr>lps :=
     map (\<lambda>a. if lp_id a = k then a\<lparr>lp_balance := lp_balance a + d\<rparr> else a) (lps w)\<rparr>"

definition set_entry :: "string \<Rightarrow> entry_status \<Rightarrow> world \<Rightarrow> world" where
  "set_entry ref st w = w\<lparr>ledger :=
     map (\<lambda>x. if le_ref x = ref \<and> le_status x = EntryPending then x\<lparr>le_status := st\<rparr> else x) (ledger w)\<rparr>"

definition find_entry :: "string \<Rightarrow> world \<Rightarrow> ledger_entry option" where
  "find_entry ref w = find (\<lambda>x. le_ref x = ref) (ledger w)"

definition find_lp :: "nat \<Rightarrow> world \<Rightarrow> lp_account option" where
  "find_lp k w = find (\<lambda>a. lp_id a = k) (lps w)"

text \<open>The richest active LP that covers the amount and can receive USDC.\<close>

definition lp_eligible :: "decimal \<Rightarrow> lp_account \<Rightarrow> bool" where
  "lp_eligible target a \<longleftrightarrow>
     lp_status a = LpActive \<and> target \<le> lp_balance a \<and> lp_sui_address a \<noteq> ''''"

fun richest :: "lp_account list \<Rightarrow> lp_account option" where
  "richest [] = None"
| "richest (a # as) = (case richest as of None \<Rightarrow> Some a
     | Some b \<Rightarrow> if lp_balance a \<ge> lp_balance b then Some a else Some b)"

definition match_lp :: "env \<Rightarrow> nat \<Rightarrow> decimal \<Rightarrow> world \<Rightarrow> lp_account option" where
  "match_lp e i target w =
     (if dbf e SLpQuery i = DbOk then richest (filter (lp_eligible target) (lps w)) else None)"

section \<open>The claim transaction\<close>

datatype claim_tx = TxError | TxStale | TxCommitted

text \<open>The three writes of the transaction on a private copy of the tables.\<close>

definition debit_lp :: "nat \<Rightarrow> decimal \<Rightarrow> world \<Rightarrow> world option" where
  "debit_lp k target w =
     (if \<exists>a \<in> set (lps w). lp_id a = k \<and> target \<le> lp_balance a then Some (add_balance k (- target) w)
      else None)"

definition insert_fill :: "string \<Rightarrow> string \<Rightarrow> decimal \<Rightarrow> nat \<Rightarrow> world \<Rightarrow> world option" where
  "insert_fill uid ref target k w =
     (if \<exists>x \<in> set (ledger w). le_ref x = ref \<or> le_id x = uid then None
      else Some (w\<lparr>ledger := ledger w @
        [\<lparr>le_id = uid, le_ref = ref, le_type = Fill, le_amount = target, le_status = EntryPending, le_lp = k\<rparr>]\<rparr>))"

definition claim_order :: "instant \<Rightarrow> nat \<Rightarrow> string \<Rightarrow> world \<Rightarrow> world option" where
  "claim_order t i payRef w =
     (case find_order i w of None \<Rightarrow> None
      | Some r \<Rightarrow>
          if waiting r
          then Some (put_order t i waiting (\<lambda>r. r\<lparr>bridge_status := Dispatching, treasury_payout_ref := payRef\<rparr>) w)
          else None)"

definition claim_fill ::
  "env \<Rightarrow> nat \<Rightarrow> nat \<Rightarrow> decimal \<Rightarrow> string \<Rightarrow> string \<Rightarrow> (world, claim_tx) state" where
  "claim_fill e i k target payRef fillRef = do {
     w \<leftarrow> fetch;
     if dbf e STxBegin i \<noteq> DbOk then return TxError
     else case (if dbf e SDebit i = DbOk then debit_lp k target w else None) of
       None \<Rightarrow> return TxError
     | Some w1 \<Rightarrow> (case (if dbf e SFillEntry i = DbOk then insert_fill (new_uuid e i) fillRef target k w1 else None) of
         None \<Rightarrow> return TxError
       | Some w2 \<Rightarrow> (case (if dbf e SFillOrder i = DbOk then claim_order (now e) i payRef w2 else None) of
           None \<Rightarrow> return TxStale
         | Some w3 \<Rightarrow>
             if dbf e SCommit i = DbFail then return TxError
             else do {
               State_Monad.set w3;
               return (if dbf e SCommit i = DbOk then TxCommitted else TxError)
             }))
   }"

section \<open>Unwinding a fill\<close>

definition reset_order :: "instant \<Rightarrow> nat \<Rightarrow> world \<Rightarrow> world" where
  "reset_order t i = put_order t i (\<lambda>r. bridge_status r = Dispatching)
     (\<lambda>r. r\<lparr>bridge_status := Pending, treasury_payout_ref := ''''\<rparr>)"

definition releaseLpFill :: "env \<Rightarrow> nat \<Rightarrow> string \<Rightarrow> (world, unit) state" where
  "releaseLpFill e i fillRef = do {
     w \<leftarrow> fetch;
     case (if dbf e SEntryLookup i = DbOk then find_entry fillRef w else None) of
       None \<Rightarrow> return ()
     | Some x \<Rightarrow>
         if dbf e STxBegin i = DbOk \<and> dbf e SEntryUpdate i = DbOk \<and> le_status x = EntryPending \<and>
            (find_lp (le_lp x) w \<noteq> None \<longrightarrow> dbf e SRecredit i = DbOk) \<and>
            dbf e SOrderReset i = DbOk \<and> dbf e SCommit i \<noteq> DbFail
         then modify (\<lambda>w. reset_order (now e) i
                (add_balance (le_lp x) (le_amount x) (set_entry fillRef EntryFailed w)))
         else return ()
   }"

section \<open>Delivery and settlement\<close>

datatype sui_send = SendOk string | SendAmbiguous | SendFailed

definition suiTransferUSDC :: "env \<Rightarrow> nat \<Rightarrow> string \<Rightarrow> 64 word \<Rightarrow> sui_send" where
  "suiTransferUSDC e i coinType amount =
     (case sui_coins e i coinType of None \<Rightarrow> SendFailed
      | Some coins \<Rightarrow> (case transfer_coins coins (uint amount) of Inl _ \<Rightarrow> SendFailed
        | Inr selected \<Rightarrow> (case sui_coins e i NativeSuiCoinType of None \<Rightarrow> SendFailed
          | Some gas \<Rightarrow>
              if gas = [] \<or> \<not> transfer_built e i then SendFailed
              else case sui_transfer_exec e i of None \<Rightarrow> SendAmbiguous
              | Some resp \<Rightarrow>
                  if sr_digest resp = '''' then SendAmbiguous
                  else if sr_status resp \<noteq> '''' \<and> sr_status resp \<noteq> ''success'' then SendFailed
                  else SendOk (sr_digest resp))))"

definition settleLpFill :: "env \<Rightarrow> loaded \<Rightarrow> (world, unit) state" where
  "settleLpFill e l = (let r = row l; i = ord_id r in do {
     only_if (dbf e SConfirmEntry i \<noteq> DbFail)
       (modify (set_entry (fill_ref_of (treasury_payout_ref r)) EntryConfirmed));
     s \<leftarrow> update_one e SSettle i (\<lambda>r. bridge_status r = Dispatching)
       (\<lambda>r. r\<lparr>bridge_status := Settled\<rparr>);
     only_if (s = Saved) (do {
       set_po e l PoSettled;
       LogOnce e i TreasuryPayout Succeeded;
       publishOrderEvent l ''settled'' (Some Settled);
       ExtendBurst e
     })
   })"

definition send_outcome :: "sui_send \<Rightarrow> outcome" where
  "send_outcome s = (case s of SendOk d \<Rightarrow> Done d | SendAmbiguous \<Rightarrow> Lost | SendFailed \<Rightarrow> Refused)"

text \<open>The delivery's digest; \<open>None\<close> when nothing was sent, the order was parked or the digest
  could not be persisted.\<close>

definition deliver_usdc :: "env \<Rightarrow> loaded \<Rightarrow> payment_order \<Rightarrow> token \<Rightarrow> (world, string option) state" where
  "deliver_usdc e l p tok = (let r = row l; i = ord_id r in do {
     w \<leftarrow> fetch;
     case (if dbf e SEntryLookup i = DbOk then find_entry (fill_ref_of (treasury_payout_ref r)) w else None) of
       None \<Rightarrow> return None
     | Some x \<Rightarrow> (case find_lp (le_lp x) w of
         None \<Rightarrow> return None
       | Some a \<Rightarrow>
           if lp_sui_address a = '''' then return None
           else (case usdcSubunitsUint64 (po_amount p) (tok_decimals tok) of
             None \<Rightarrow> return None
           | Some amount \<Rightarrow> do {
               let sent = suiTransferUSDC e i (tok_contract tok) amount;
               log_call (CallDeliver i amount (lp_sui_address a) (send_outcome sent));
               case sent of
                 SendOk digest \<Rightarrow> do {
                   s \<leftarrow> update_one e SDeliveryDigest i (\<lambda>r. bridge_status r = Dispatching)
                     (\<lambda>r. r\<lparr>bridge_tx_sui := digest\<rparr>);
                   if s = DbErr then return None
                   else return (Some digest)
                 }
               | _ \<Rightarrow> do {
                   _ \<leftarrow> update_one e SPark i (\<lambda>r. bridge_status r = Dispatching)
                     (\<lambda>r. r\<lparr>failure_reason := DeliveryAmbiguous (lp_sui_address a) (lp_id a) amount\<rparr>);
                   return None
                 }
             }))
   })"

definition finalizeLpFill :: "env \<Rightarrow> nat \<Rightarrow> (world, unit) state" where
  "finalizeLpFill e i = do {
     w \<leftarrow> fetch;
     case (if dbf e SLoad i = DbOk then find_order i w else None) of
       None \<Rightarrow> return ()
     | Some r \<Rightarrow> (let l = load_row (Some [TokenEdge, SenderEdge]) w r in
         case po_edge l of None \<Rightarrow> return ()
         | Some p \<Rightarrow> (case po_token p of None \<Rightarrow> return ()
           | Some tok \<Rightarrow>
               if bridge_tx_sui r = '''' then do {
                 d \<leftarrow> deliver_usdc e l p tok;
                 case d of None \<Rightarrow> return ()
                 | Some digest \<Rightarrow> settleLpFill e (l\<lparr>row := r\<lparr>bridge_tx_sui := digest\<rparr>\<rparr>)
               } else settleLpFill e l))
   }"

section \<open>Filling\<close>

definition lpNetworkFallback :: "env \<Rightarrow> nat \<Rightarrow> (world, unit) state" where
  "lpNetworkFallback e i = do {
     s \<leftarrow> update_one e SFallback i (\<lambda>r. ord_mode r = LpNetwork \<and> waiting r)
       (\<lambda>r. r\<lparr>ord_mode := Lp\<rparr>);
     only_if (s \<noteq> DbErr) (LogOnce e i TreasuryPayout Skipped)
   }"

definition submit_fill ::
  "env \<Rightarrow> nat \<Rightarrow> string \<Rightarrow> recipient \<Rightarrow> decimal \<Rightarrow> nat \<Rightarrow> string \<Rightarrow> string \<Rightarrow> (world, rerr option) state" where
  "submit_fill e i rail rcpt target k payRef fillRef = do {
     c \<leftarrow> claim_fill e i k target payRef fillRef;
     case c of
       TxError \<Rightarrow> return (Some (Err ''claim''))
     | TxStale \<Rightarrow> return None
     | TxCommitted \<Rightarrow> do {
         let res = rail_transfer e rail \<lparr>tr_bank = rcpt_institution rcpt, tr_account = rcpt_account rcpt,
                                         tr_amount = target, tr_ref = payRef\<rparr>;
         log_call (CallTransfer i payRef target (transfer_outcome payRef res));
         case res of
           TransferErr _ \<Rightarrow> do {
             releaseLpFill e i fillRef;
             return (Some (Err ''lp-network payout submit''))
           }
         | TransferOk st \<Rightarrow> do {
             only_if (st = TransferSuccess) (finalizeLpFill e i);
             ExtendBurst e;
             return None
           }
       }
   }"

definition fillViaLpNetwork :: "env \<Rightarrow> loaded \<Rightarrow> (world, rerr option) state" where
  "fillViaLpNetwork e l = (let i = ord_id (row l) in case floatRail e of
     None \<Rightarrow> return (Some ErrTreasuryDispatcherNotWired)
   | Some rail \<Rightarrow> (case po_edge l of
       None \<Rightarrow> return (Some (Err ''missing edges''))
     | Some p \<Rightarrow> (case (po_token p, po_recipient p) of
         (Some tok, Some rcpt) \<Rightarrow> (let target = entitlement e p in
           if \<not> 0 < target then return (Some (Err ''non-positive NGN target''))
           else sampled e i TreasuryPayout
             (case usdcSubunitsUint64 (po_amount p) (tok_decimals tok) of
                None \<Rightarrow> return (Some (Err ''amount''))
              | Some usdc \<Rightarrow> do {
                  err \<leftarrow> funds_ready e l (tok_contract tok) (uint usdc);
                  case err of
                    Some x \<Rightarrow> return (Some x)
                  | None \<Rightarrow>
                      if rail = ''korapay'' \<and> target < korapayMinPayoutNGN
                      then do { lpNetworkFallback e i; return None }
                      else do {
                        w \<leftarrow> fetch;
                        case match_lp e i target w of
                          None \<Rightarrow> do { lpNetworkFallback e i; return None }
                        | Some a \<Rightarrow> do {
                            n \<leftarrow> attempt_number e i TreasuryPayout;
                            submit_fill e i rail rcpt target (lp_id a)
                              (attempt_ref lpNetPayRefPrefix i n) (attempt_ref lpNetFillRefPrefix i n)
                          }
                      }
                }))
       | _ \<Rightarrow> return (Some (Err ''missing edges'')))))"

definition advanceLpNetwork :: "env \<Rightarrow> (world, unit) state" where
  "advanceLpNetwork e = for_orders e (Some [TokenEdge, RecipientEdge])
     (\<lambda>r. ord_mode r = LpNetwork \<and> waiting r)
     (\<lambda>l. do { _ \<leftarrow> fillViaLpNetwork e l; return () })"

section \<open>Confirming\<close>

definition poll_lp_payout :: "env \<Rightarrow> string \<Rightarrow> loaded \<Rightarrow> (world, unit) state" where
  "poll_lp_payout e rail l = (let r = row l; i = ord_id r in
     if is_parked (failure_reason r) then return ()
     else if bridge_tx_sui r \<noteq> '''' then settleLpFill e l
     else (case rail_status e rail (treasury_payout_ref r) of
       None \<Rightarrow> return ()
     | Some TransferPending \<Rightarrow> return ()
     | Some TransferSuccess \<Rightarrow> finalizeLpFill e i
     | Some TransferFailed \<Rightarrow> do {
         log_call (PolledFailed i (treasury_payout_ref r));
         releaseLpFill e i (fill_ref_of (treasury_payout_ref r))
       }))"

definition advanceLpNetworkPayouts :: "env \<Rightarrow> (world, unit) state" where
  "advanceLpNetworkPayouts e = (case floatRail e of None \<Rightarrow> return ()
   | Some rail \<Rightarrow> for_orders e None
       (\<lambda>r. ord_mode r = LpNetwork \<and> bridge_status r = Dispatching \<and> treasury_payout_ref r \<noteq> '''')
       (poll_lp_payout e rail))"

end
