(* ===== verification/Route_Tick.thy ===== *)
theory Route_Tick imports Route_Lp_Network begin

text \<open>
  One tick of the dispatcher (services/route_a_dispatcher.go, \<open>Tick\<close>): the lease, the cleanup
  of expired orders, the nine phases in their order, and the burst extension. Each phase has
  an environment of its own.
\<close>

datatype phase = PhStart | PhPending | PhBridging | PhUncertain | PhBridged | PhDispatching
  | PhTreasuryPayouts | PhFloatReload | PhLpNetwork | PhLpPayouts | PhEnd

text \<open>\<open>acquireLease\<close>: fails open when Redis cannot be asked. The first argument of the
  environment is the answer of SETNX, the second the current holder.\<close>

definition acquireLease :: "env \<Rightarrow> bool" where
  "acquireLease e = (case lease_setnx e of
     None \<Rightarrow> True
   | Some ok \<Rightarrow> ok \<or> lease_holder e = Some (instance_id e))"

definition in_flight :: "route_order \<Rightarrow> bool" where
  "in_flight r \<longleftrightarrow> bridge_status r \<notin> {Settled, Failed, Refunded}"

definition cleanup_stale :: "env \<Rightarrow> (world, unit) state" where
  "cleanup_stale e = only_if (c_validity (cf e) > 0 \<and> dbf e SCleanup 0 \<noteq> DbFail)
     (modify (\<lambda>w. w\<lparr>orders := map (\<lambda>r.
        if waiting r \<and> created_at r < now e - c_validity (cf e)
        then r\<lparr>bridge_status := Failed, failure_reason := ExpiredReason, updated_at := now e\<rparr>
        else r) (orders w)\<rparr>))"

definition extend_if_active :: "env \<Rightarrow> (world, unit) state" where
  "extend_if_active e = do {
     w \<leftarrow> fetch;
     only_if (dbf e SActive 0 = DbOk \<and>
         (\<exists>r \<in> set (orders w). bridge_status r \<in> {Bridging, BridgeUncertain, Bridged, Dispatching}))
       (ExtendBurst e)
   }"

definition phases :: "(phase \<Rightarrow> env) \<Rightarrow> (world, unit) state list" where
  "phases E = [
     advancePending (E PhPending),
     advanceBridging (E PhBridging),
     advanceUncertain (E PhUncertain),
     advanceBridged (E PhBridged),
     advanceDispatching (E PhDispatching),
     advanceTreasuryPayouts (E PhTreasuryPayouts),
     advanceFloatReload (E PhFloatReload),
     advanceLpNetwork (E PhLpNetwork),
     advanceLpNetworkPayouts (E PhLpPayouts),
     extend_if_active (E PhEnd)]"

definition Tick :: "(phase \<Rightarrow> env) \<Rightarrow> (world, unit) state" where
  "Tick E = (let e = E PhStart in
     if \<not> c_signer (cf e) \<or> \<not> acquireLease e then return ()
     else do {
       cleanup_stale e;
       w \<leftarrow> fetch;
       only_if (\<not> no_active_flag e \<and> dbf e SQuery 0 = DbOk \<and> (\<exists>r \<in> set (orders w). in_flight r)) (do {
         for_each (phases E) unless_panicked;
         modify (\<lambda>w. w\<lparr>panicked := False\<rparr>)
       })
     })"

end
