(* ===== verification/Route_Laws.thy ===== *)
theory Route_Laws imports Route_Tick begin

text \<open>
  The contracts between the dispatcher's handlers and what is proved about them. A
  \<open>row_relation\<close> is a relation on rows and a class of external calls; an operation on order
  \<open>i\<close> obeys it when it changes only rows of order \<open>i\<close>, along the relation, and adds only calls of
  that class and order to the trace. The extensions name the row updates of one group of
  handlers (starting a bridge, following it, mode lp, Route C, Route B) and derive that every
  handler of the group obeys the relation, for any answers of the environment and any failing
  database statements.
\<close>

section \<open>Case analysis for invariants\<close>

lemma keeps_claim [keeps_intros]:
  "keeps I m \<Longrightarrow> keeps I n \<Longrightarrow> keeps I k \<Longrightarrow>
   keeps I (case c of Claimed \<Rightarrow> m | NotClaimed \<Rightarrow> n | ClaimError \<Rightarrow> k)"
  by (cases c) auto

lemma keeps_burn_res [keeps_intros]:
  "keeps I m \<Longrightarrow> keeps I n \<Longrightarrow> (\<And>d. keeps I (f d)) \<Longrightarrow>
   keeps I (case b of BurnAmbiguous \<Rightarrow> m | BurnErr \<Rightarrow> n | BurnOk d \<Rightarrow> f d)"
  by (cases b) auto

lemma keeps_iris_res [keeps_intros]:
  "keeps I m \<Longrightarrow> keeps I n \<Longrightarrow> (\<And>x. keeps I (f x)) \<Longrightarrow> (\<And>a b. keeps I (g a b)) \<Longrightarrow>
   keeps I (case v of AttestationPending \<Rightarrow> m | NotIndexed \<Rightarrow> n | IrisErr x \<Rightarrow> f x | Attested a b \<Rightarrow> g a b)"
  by (cases v) auto

lemma keeps_create_res [keeps_intros]:
  "(\<And>t. keeps I (f t)) \<Longrightarrow> keeps I m \<Longrightarrow> (\<And>a b. keeps I (g a b)) \<Longrightarrow>
   keeps I (case c of SubmittedUnconfirmed t \<Rightarrow> f t | CreateErr \<Rightarrow> m | Created a b \<Rightarrow> g a b)"
  by (cases c) auto

lemma keeps_transfer_res [keeps_intros]:
  "(\<And>b. keeps I (f b)) \<Longrightarrow> (\<And>st. keeps I (g st)) \<Longrightarrow>
   keeps I (case res of TransferErr b \<Rightarrow> f b | TransferOk st \<Rightarrow> g st)"
  by (cases res) auto

lemma keeps_mode [keeps_intros]:
  "keeps I m \<Longrightarrow> keeps I n \<Longrightarrow> keeps I k \<Longrightarrow>
   keeps I (case c of Lp \<Rightarrow> m | Treasury \<Rightarrow> n | LpNetwork \<Rightarrow> k)"
  by (cases c) auto

lemma keeps_tf_status [keeps_intros]:
  "keeps I m \<Longrightarrow> keeps I n \<Longrightarrow> keeps I k \<Longrightarrow>
   keeps I (case c of TransferPending \<Rightarrow> m | TransferSuccess \<Rightarrow> n | TransferFailed \<Rightarrow> k)"
  by (cases c) auto

lemma keeps_sui_send [keeps_intros]:
  "(\<And>d. keeps I (f d)) \<Longrightarrow> keeps I m \<Longrightarrow> keeps I n \<Longrightarrow>
   keeps I (case x of SendOk d \<Rightarrow> f d | SendAmbiguous \<Rightarrow> m | SendFailed \<Rightarrow> n)"
  by (cases x) auto

lemma keeps_claim_tx [keeps_intros]:
  "keeps I m \<Longrightarrow> keeps I n \<Longrightarrow> keeps I k \<Longrightarrow>
   keeps I (case c of TxError \<Rightarrow> m | TxStale \<Rightarrow> n | TxCommitted \<Rightarrow> k)"
  by (cases c) auto

lemma find_order_id: "find_order i w = Some r \<Longrightarrow> ord_id r = i"
  by (auto simp: find_order_def find_Some_iff)

lemma row_load_row [simp]: "row (load_row es w r) = r"
  by (simp add: load_row_def)

lemma frame_lp_tables [simp]:
  "orders (add_balance k d w) = orders w" "orders (set_entry ref st w) = orders w"
  "calls (add_balance k d w) = calls w" "calls (set_entry ref st w) = calls w"
  by (simp_all add: add_balance_def set_entry_def)

lemma claim_legs_frame:
  "debit_lp k t w = Some w1 \<Longrightarrow> insert_fill u f t k w1 = Some w2 \<Longrightarrow> orders w2 = orders w \<and> calls w2 = calls w"
  by (auto simp: debit_lp_def insert_fill_def split: if_splits)

section \<open>External calls by order\<close>

fun call_order :: "call \<Rightarrow> nat" where
  "call_order (CallBridge i _) = i"
| "call_order (CallBurn i _ _) = i"
| "call_order (CallTransfer i _ _ _) = i"
| "call_order (PolledFailed i _) = i"
| "call_order (CallGateway i _ _ _ _) = i"
| "call_order (PolledReturned i _) = i"
| "call_order (CallReload i _ _ _) = i"
| "call_order (CallDeliver i _ _ _) = i"

named_theorems law_intros \<open>operations that obey a row relation\<close>

section \<open>Operations outside the order table and the trace\<close>

locale frame_law =
  fixes I :: "world \<Rightarrow> bool"
  assumes frame: "orders w' = orders w \<Longrightarrow> calls w' = calls w \<Longrightarrow> I w \<Longrightarrow> I w'"
begin

lemma keeps_frame:
  "(\<And>w. orders (f w) = orders w) \<Longrightarrow> (\<And>w. calls (f w) = calls w) \<Longrightarrow> keeps I (modify f)"
  unfolding keeps_def using frame by fastforce

lemma LogOnce_law [law_intros]: "keeps I (LogOnce e i s st)"
  by (auto simp: LogOnce_def intro!: keeps_intros keeps_frame)

lemma small_laws [law_intros]:
  "keeps I (publish x)"
  "keeps I (ExtendBurst e)"
  "keeps I panic"
  "keeps I (set_quote_fails i n)"
  "keeps I (modify (set_attempts i s n))"
  unfolding publish_def ExtendBurst_def panic_def set_quote_fails_def
  by (intro keeps_frame; simp add: set_attempts_def)+

lemma set_po_law [law_intros]:
  "keeps I (set_po_status e i p st)" "keeps I (set_po e l st)"
  by (auto simp: set_po_status_def set_po_def intro!: keeps_intros keeps_frame)

lemma publishOrderEvent_law [law_intros]: "keeps I (publishOrderEvent l st fl)"
  unfolding publishOrderEvent_def by (intro keeps_intros law_intros)

lemma timers_law [law_intros]:
  "keeps I (Time e i s)"
  "keeps I (TimeSampled e i s)"
  "keeps I (TimePollSampled e i s)"
  "keeps I (End e t err)"
  by (auto simp: Time_def TimeSampled_def TimePollSampled_def nextAttempt_def End_def resetAttempts_def
      intro!: keeps_intros law_intros)

lemma reads_law [law_intros]:
  "keeps I (hasSuccessfulRouteAEvent e i s)"
  "keeps I (count_started e i s)"
  "keeps I (attempt_number e i s)"
  by (auto simp: hasSuccessfulRouteAEvent_def count_started_def attempt_number_def
      intro!: keeps_intros)

lemma funds_ready_law [law_intros]: "keeps I (funds_ready e l coin need)"
  unfolding funds_ready_def by (intro keeps_intros law_intros)

lemma ensure_allowance_law [law_intros]: "keeps I (ensure_allowance e i n)"
  unfolding ensure_allowance_def Let_def by (intro keeps_intros law_intros)

lemma resolveFloatAccount_law [law_intros]: "keeps I (resolveFloatAccount e)"
  unfolding resolveFloatAccount_def Let_def
  by (intro keeps_intros law_intros keeps_frame) simp_all

lemma timed_law [law_intros]:
  "keeps I body \<Longrightarrow> keeps I (sampled e i s body)"
  "keeps I body' \<Longrightarrow> keeps I (polled e i s body')"
  unfolding sampled_def polled_def by (intro keeps_intros law_intros; assumption)+

end

section \<open>Relations on rows, lifted to states\<close>

locale row_relation =
  fixes R :: "route_order \<Rightarrow> route_order \<Rightarrow> bool"
    and C :: "call \<Rightarrow> bool"
  assumes rel_refl: "R r r"
    and rel_trans: "R r s \<Longrightarrow> R s t \<Longrightarrow> R r t"
    and rel_touch: "R r (r\<lparr>updated_at := stamp\<rparr>)"
    and rel_id: "R r s \<Longrightarrow> ord_id s = ord_id r"
begin

definition only_row :: "nat \<Rightarrow> route_order \<Rightarrow> route_order \<Rightarrow> bool" where
  "only_row i r s \<longleftrightarrow> (if ord_id r = i then R r s else s = r)"

definition lifted :: "nat \<Rightarrow> world \<Rightarrow> world \<Rightarrow> bool" where
  "lifted i w w' \<longleftrightarrow> list_all2 (only_row i) (orders w) (orders w') \<and>
     (\<exists>cs. calls w' = calls w @ cs \<and> (\<forall>c \<in> set cs. call_order c = i \<and> C c))"

definition lifted_all :: "world \<Rightarrow> world \<Rightarrow> bool" where
  "lifted_all w w' \<longleftrightarrow> list_all2 R (orders w) (orders w') \<and>
     (\<exists>cs. calls w' = calls w @ cs \<and> (\<forall>c \<in> set cs. C c))"

lemma only_row_refl: "only_row i r r"
  by (simp add: only_row_def rel_refl)

lemma only_row_trans: "only_row i r s \<Longrightarrow> only_row i s t \<Longrightarrow> only_row i r t"
  by (auto simp: only_row_def dest: rel_id intro: rel_trans split: if_splits)

lemma only_row_rel: "only_row i r s \<Longrightarrow> R r s"
  by (auto simp: only_row_def rel_refl split: if_splits)

lemma lifted_refl: "lifted i w w"
  by (simp add: lifted_def list.rel_refl only_row_refl)

lemma lifted_all_refl: "lifted_all w w"
  by (simp add: lifted_all_def list.rel_refl rel_refl)

lemma lifted_all_step:
  assumes "lifted_all w0 w" "lifted i w w'"
  shows "lifted_all w0 w'"
proof -
  have "list_all2 R (orders w) (orders w')"
    using assms(2) by (auto simp: lifted_def intro: list_all2_mono only_row_rel)
  then have "list_all2 R (orders w0) (orders w')"
    using assms(1) by (auto simp: lifted_all_def intro: list_all2_trans [of R R R] rel_trans)
  then show ?thesis using assms by (auto simp: lifted_all_def lifted_def)
qed

lemma lifted_all_map:
  assumes "lifted_all w0 w" "\<And>r. R r (h r)"
  shows "lifted_all w0 (w\<lparr>orders := map h (orders w)\<rparr>)"
proof -
  have "list_all2 R (orders w) (map h (orders w))"
    by (simp add: list_all2_map2 list.rel_refl assms(2))
  then show ?thesis
    using assms(1) by (auto simp: lifted_all_def intro: list_all2_trans [of R R R] rel_trans)
qed

lemma lifted_frame:
  "orders w' = orders w \<Longrightarrow> calls w' = calls w \<Longrightarrow> lifted i w0 w \<Longrightarrow> lifted i w0 w'"
  by (simp add: lifted_def)

lemma lifted_put:
  assumes "lifted i w0 w" "\<And>r. g r \<Longrightarrow> R r (f r)"
  shows "lifted i w0 (put_order t i g f w)"
proof -
  have "list_all2 (only_row i) (orders w) (orders (put_order t i g f w))"
    unfolding put_order_def
    by (auto simp: list_all2_map2 only_row_def intro!: list.rel_refl_strong rel_refl
        intro: rel_trans [OF assms(2) rel_touch])
  then show ?thesis
    using assms(1) by (auto simp: lifted_def put_order_def
        intro: list_all2_trans [of "only_row i" "only_row i" "only_row i"] only_row_trans)
qed

lemma keeps_log_call [law_intros]:
  "C x \<Longrightarrow> call_order x = i \<Longrightarrow> keeps (lifted i w0) (log_call x)"
  by (auto simp: keeps_def lifted_def log_call_def)

lemma keeps_update_one:
  "(\<And>r. g r \<Longrightarrow> R r (f r)) \<Longrightarrow> keeps (lifted i w0) (update_one e s i g f)"
  by (auto simp: update_one_def keeps_def lifted_put split: option.split)

lemma keeps_all:
  assumes "\<And>w. keeps (lifted i w) m"
  shows "keeps (lifted_all w0) m"
  using assms unfolding keeps_def by (blast intro: lifted_all_step lifted_refl)

lemma keeps_for_orders:
  assumes "\<And>l w. keeps (lifted (ord_id (row l)) w) (f l)"
  shows "keeps (lifted_all w0) (for_orders e es g f)"
proof -
  have "keeps (lifted_all w0) (unless_panicked (f l))" for l
    unfolding unless_panicked_def by (intro keeps_intros keeps_all [where i = "ord_id (row l)"] assms)
  then show ?thesis unfolding for_orders_def query_orders_def by (intro keeps_intros)
qed

end

sublocale row_relation \<subseteq> lifted: frame_law "lifted i w0" for i w0
  by unfold_locales (rule lifted_frame)

declare call_order.simps [law_intros]

section \<open>Starting a bridge\<close>

locale start_relation = row_relation +
  assumes rel_claim_bridge: "waiting r \<Longrightarrow>
      R r (r\<lparr>bridge_provider := p, lifi_tool := tool, bridge_status := Bridging\<rparr>)"
    and rel_revert_bridge: "bridge_status r = Bridging \<Longrightarrow> bridge_tx_sui r = '''' \<Longrightarrow>
      R r (r\<lparr>bridge_status := Pending\<rparr>)"
    and rel_digest: "bridge_status r = Bridging \<Longrightarrow> R r (r\<lparr>lifi_quote_id := q, bridge_tx_sui := d\<rparr>)"
    and rel_await: "bridge_status r = Pending \<Longrightarrow> R r (r\<lparr>bridge_status := AwaitingFunds\<rparr>)"
    and rel_give_up: "waiting r \<Longrightarrow> R r (r\<lparr>bridge_status := Failed, failure_reason := why\<rparr>)"
    and call_bridge: "C (CallBridge i oc)"
    and call_burn: "C (CallBurn i a oc)"
begin

lemma rel_burn_digest: "bridge_status r = Bridging \<Longrightarrow> R r (r\<lparr>bridge_tx_sui := d\<rparr>)"
  using rel_digest [where q = "lifi_quote_id r" and d = d] by fastforce

lemma claimForBridging_law [law_intros]: "keeps (lifted i w0) (claimForBridging e i p tool)"
  unfolding claimForBridging_def by (intro keeps_intros keeps_update_one rel_claim_bridge)

lemma revertBridgingClaim_law [law_intros]: "keeps (lifted i w0) (revertBridgingClaim e i)"
  unfolding revertBridgingClaim_def by (intro keeps_intros keeps_update_one rel_revert_bridge) auto

lemma submit_lifi_law [law_intros]: "keeps (lifted i w0) (submit_lifi e i q)"
  unfolding submit_lifi_def
  by (intro keeps_intros law_intros keeps_update_one rel_digest call_bridge)

lemma submit_cctp_law [law_intros]: "keeps (lifted i w0) (submit_cctp e i net a)"
  unfolding submit_cctp_def
  by (intro keeps_intros law_intros keeps_update_one rel_burn_digest call_burn)

lemma start_law [law_intros]:
  "keeps (lifted (ord_id (row l)) w0) (startBridge e l)"
  "keeps (lifted (ord_id (row l)) w0) (startCCTPBridge e l)"
  unfolding startBridge_def startCCTPBridge_def Let_def
  by (auto split: option.splits intro!: keeps_intros law_intros)

lemma start_any_law [law_intros]:
  "keeps (lifted (ord_id (row l)) w0) (startBridgeForProvider e l)"
  "keeps (lifted (ord_id (row l)) w0) (tryCCTPFallback e l)"
  "keeps (lifted (ord_id (row l)) w0) (tryLiFiFallback e l)"
  unfolding startBridgeForProvider_def tryCCTPFallback_def tryLiFiFallback_def
  by (intro keeps_intros law_intros)+

lemma start_failed_law [law_intros]: "keeps (lifted (ord_id (row l)) w0) (start_failed e l x)"
  unfolding start_failed_def Let_def
  by (intro keeps_intros law_intros keeps_update_one rel_give_up rel_await)

lemma advance_pending_order_law [law_intros]:
  "keeps (lifted (ord_id (row l)) w0) (advance_pending_order e l)"
  unfolding advance_pending_order_def by (intro keeps_intros law_intros)

end

section \<open>Following a bridge\<close>

definition poll_bridging :: "env \<Rightarrow> loaded \<Rightarrow> (world, unit) state" where
  "poll_bridging e l = (if bridge_tx_sui (row l) = '''' then return ()
     else if bridge_provider (row l) = routeAProviderCCTP then pollOneCCTP e l
     else pollOneBridge e l)"

definition poll_uncertain :: "env \<Rightarrow> loaded \<Rightarrow> (world, unit) state" where
  "poll_uncertain e l = (if bridge_provider (row l) = routeAProviderCCTP then recoverUncertainCCTP e l
     else recoverUncertainLiFi e l)"

lemma advance_polls:
  "advanceBridging e = for_orders e None (\<lambda>r. bridge_status r = Bridging) (poll_bridging e)"
  "advanceUncertain e = for_orders e None (\<lambda>r. bridge_status r = BridgeUncertain) (poll_uncertain e)"
  unfolding advanceBridging_def advanceUncertain_def poll_bridging_def poll_uncertain_def by simp_all

locale arrival_relation = row_relation +
  assumes rel_uncertain: "bridge_status r = Bridging \<Longrightarrow>
      R r (r\<lparr>bridge_status := BridgeUncertain, failure_reason := why\<rparr>)"
    and rel_arrive: "bridge_status r \<in> {Bridging, BridgeUncertain} \<Longrightarrow>
      R r (r\<lparr>bridge_status := Bridged, failure_reason := why, bridge_tx_dest := tx, bridged_amount := amt\<rparr>)"
    and rel_bridge_fail: "bridge_status r \<in> {Bridging, BridgeUncertain} \<Longrightarrow>
      R r (r\<lparr>bridge_status := Failed, failure_reason := why\<rparr>)"
begin

lemma rel_receiving:
  assumes "bridge_status r \<in> {Bridging, BridgeUncertain}"
  shows "R r (apply_receiving e st (r\<lparr>bridge_status := Bridged\<rparr>))"
    and "R r (apply_receiving e st (r\<lparr>bridge_status := Bridged, failure_reason := NoReason\<rparr>))"
proof -
  have "\<exists>tx amt. apply_receiving e st (r\<lparr>bridge_status := Bridged, failure_reason := why\<rparr>) =
      r\<lparr>bridge_status := Bridged, failure_reason := why, bridge_tx_dest := tx, bridged_amount := amt\<rparr>" for why
    by (cases r) (auto simp: apply_receiving_def Let_def split: option.splits)
  then have any: "R r (apply_receiving e st (r\<lparr>bridge_status := Bridged, failure_reason := why\<rparr>))" for why
    using rel_arrive [OF assms] by metis
  from any [of "failure_reason r"]
  show "R r (apply_receiving e st (r\<lparr>bridge_status := Bridged\<rparr>))" by simp
  show "R r (apply_receiving e st (r\<lparr>bridge_status := Bridged, failure_reason := NoReason\<rparr>))"
    by (rule any)
qed

lemma rel_mint:
  assumes "bridge_status r \<in> {Bridging, BridgeUncertain}"
  shows "R r ((if tx \<noteq> '''' then \<lambda>x. x\<lparr>bridge_tx_dest := tx\<rparr> else id)
      (r\<lparr>bridge_status := Bridged, bridged_amount := amt, failure_reason := why\<rparr>))"
proof -
  have "(if tx \<noteq> '''' then \<lambda>x. x\<lparr>bridge_tx_dest := tx\<rparr> else id)
      (r\<lparr>bridge_status := Bridged, bridged_amount := amt, failure_reason := why\<rparr>) =
    r\<lparr>bridge_status := Bridged, failure_reason := why,
      bridge_tx_dest := (if tx = '''' then bridge_tx_dest r else tx), bridged_amount := amt\<rparr>"
    by (cases r) simp
  then show ?thesis using rel_arrive [OF assms] by metis
qed

lemma poll_lifi_law [law_intros]:
  "keeps (lifted (ord_id r) w0) (poll_not_found e r lerr)"
  "keeps (lifted (ord_id r) w0) (poll_status e r st)"
  unfolding poll_not_found_def poll_status_def Let_def
  by (intro keeps_intros law_intros keeps_update_one rel_uncertain rel_receiving rel_bridge_fail; simp)+

lemma pollOneBridge_law [law_intros]: "keeps (lifted (ord_id (row l)) w0) (pollOneBridge e l)"
  unfolding pollOneBridge_def Let_def by (intro keeps_intros law_intros lifted.keeps_frame) simp_all

lemma recover_lifi_law [law_intros]:
  "keeps (lifted (ord_id (row l)) w0) (markBridgedFromStatus e l st)"
  "keeps (lifted (ord_id r) w0) (expire_uncertain e r why)"
  unfolding markBridgedFromStatus_def expire_uncertain_def Let_def
  by (intro keeps_intros law_intros keeps_update_one rel_receiving rel_bridge_fail; simp)+

lemma recoverUncertainLiFi_law [law_intros]:
  "keeps (lifted (ord_id (row l)) w0) (recoverUncertainLiFi e l)"
  unfolding recoverUncertainLiFi_def Let_def
  by (intro keeps_intros law_intros keeps_update_one rel_bridge_fail) auto

lemma finishCCTPMint_law [law_intros]:
  "keeps (lifted (ord_id (row l)) w0) (finishCCTPMint e l net raw att)"
  unfolding finishCCTPMint_def Let_def by (intro keeps_intros law_intros keeps_update_one rel_mint)

lemma pollOneCCTP_law [law_intros]: "keeps (lifted (ord_id (row l)) w0) (pollOneCCTP e l)"
  unfolding pollOneCCTP_def Let_def
  by (intro keeps_intros law_intros keeps_update_one rel_uncertain)

lemma recoverUncertainCCTP_law [law_intros]:
  "keeps (lifted (ord_id (row l)) w0) (recoverUncertainCCTP e l)"
  unfolding recoverUncertainCCTP_def Let_def by (intro keeps_intros law_intros)

lemma polls_law [law_intros]:
  "keeps (lifted (ord_id (row l)) w0) (poll_bridging e l)"
  "keeps (lifted (ord_id (row l)) w0) (poll_uncertain e l)"
  unfolding poll_bridging_def poll_uncertain_def by (intro keeps_intros law_intros)+

end

section \<open>Settling, falling back, observing\<close>

locale settle_relation = row_relation +
  assumes rel_settle: "bridge_status r = Dispatching \<Longrightarrow> R r (r\<lparr>bridge_status := Settled\<rparr>)"
begin

lemma finalizeTreasuryPayout_law [law_intros]: "keeps (lifted i w0) (finalizeTreasuryPayout e i)"
  unfolding finalizeTreasuryPayout_def Let_def
  by (intro keeps_intros law_intros keeps_update_one rel_settle)

end

locale delivery_relation = settle_relation +
  assumes rel_deliver: "bridge_status r = Dispatching \<Longrightarrow> R r (r\<lparr>bridge_tx_sui := d\<rparr>)"
    and rel_mark: "bridge_status r = Dispatching \<Longrightarrow> R r (r\<lparr>failure_reason := why\<rparr>)"
    and call_deliver: "C (CallDeliver i n addr oc)"
begin

lemma settleLpFill_law [law_intros]: "keeps (lifted (ord_id (row l)) w0) (settleLpFill e l)"
  unfolding settleLpFill_def Let_def
  by (intro keeps_intros law_intros lifted.keeps_frame keeps_update_one rel_settle frame_lp_tables)

lemma deliver_usdc_law [law_intros]: "keeps (lifted (ord_id (row l)) w0) (deliver_usdc e l p tok)"
  unfolding deliver_usdc_def Let_def
  by (intro keeps_intros law_intros keeps_update_one rel_deliver rel_mark call_deliver)

lemma finalizeLpFill_law [law_intros]: "keeps (lifted i w0) (finalizeLpFill e i)"
  unfolding finalizeLpFill_def Let_def
proof (intro keeps_bind keeps_get keeps_option_eq keeps_return)
  fix w r
  assume "(if dbf e SLoad i = DbOk then find_order i w else None) = Some r"
  then have r: "ord_id r = i" by (auto dest: find_order_id split: if_splits)
  let ?l = "load_row (Some [TokenEdge, SenderEdge]) w r"
  have s: "keeps (lifted i w0) (settleLpFill e (?l\<lparr>row := r\<lparr>bridge_tx_sui := d\<rparr>\<rparr>))"
    "keeps (lifted i w0) (settleLpFill e ?l)" "keeps (lifted i w0) (deliver_usdc e ?l p tok)" for d p tok
    using settleLpFill_law [of "?l\<lparr>row := r\<lparr>bridge_tx_sui := d\<rparr>\<rparr>" w0 e]
      settleLpFill_law [of ?l w0 e] deliver_usdc_law [of ?l w0 e p tok] by (simp_all add: r)
  show "keeps (lifted i w0) (if bridge_tx_sui r = [] then deliver_usdc e ?l p tok \<bind>
      case_option (return ()) (\<lambda>d. settleLpFill e (?l\<lparr>row := r\<lparr>bridge_tx_sui := d\<rparr>\<rparr>))
      else settleLpFill e ?l)" for p tok
    by (intro keeps_intros s)
qed

end

locale fallback_relation = row_relation +
  assumes rel_fall_back: "bridge_status r = Bridged \<Longrightarrow> ord_mode r = Treasury \<Longrightarrow> R r (r\<lparr>ord_mode := Lp\<rparr>)"
    and rel_leave_network: "ord_mode r = LpNetwork \<Longrightarrow> waiting r \<Longrightarrow> R r (r\<lparr>ord_mode := Lp\<rparr>)"
begin

lemma fallbackToLp_law [law_intros]: "keeps (lifted i w0) (fallbackToLp e i)"
  unfolding fallbackToLp_def by (intro keeps_intros law_intros keeps_update_one rel_fall_back) auto

lemma lpNetworkFallback_law [law_intros]: "keeps (lifted i w0) (lpNetworkFallback e i)"
  unfolding lpNetworkFallback_def
  by (intro keeps_intros law_intros keeps_update_one rel_leave_network) auto

end

locale observe_relation = row_relation +
  assumes rel_observe: "R r (r\<lparr>settlement_status := st, settlement_polled_at := t\<rparr>)"
begin

lemma pollFloatReload_law [law_intros]: "keeps (lifted (ord_id (row l)) w0) (pollFloatReload e l)"
  unfolding pollFloatReload_def Let_def
  by (intro keeps_intros law_intros keeps_update_one rel_observe)

end

section \<open>Mode lp\<close>

locale lp_relation = settle_relation + observe_relation +
  assumes rel_claim_gateway: "bridge_status r = Bridged \<Longrightarrow> R r (r\<lparr>bridge_status := Dispatching\<rparr>)"
    and rel_revert_gateway: "bridge_status r = Dispatching \<Longrightarrow> R r (r\<lparr>bridge_status := Bridged\<rparr>)"
    and rel_ambiguous: "bridge_status r = Dispatching \<Longrightarrow> R r (r\<lparr>failure_reason := why\<rparr>)"
    and rel_gateway: "bridge_status r = Dispatching \<Longrightarrow>
      R r (r\<lparr>gateway_order_id := g, gateway_chain_id := c, sender_fee_subunit := fee, bridge_tx_dest := tx\<rparr>)"
    and rel_retry: "bridge_status r = Dispatching \<Longrightarrow>
      R r (r\<lparr>bridge_status := Bridged, settlement_status := '''', gateway_order_id := ''''\<rparr>)"
    and rel_refund: "bridge_status r = Dispatching \<Longrightarrow> R r (r\<lparr>bridge_status := Refunded\<rparr>)"
    and call_gateway: "C (CallGateway i a n f oc)"
    and call_returned: "C (PolledReturned i g)"
begin

lemma submit_gateway_law [law_intros]: "keeps (lifted i w0) (submit_gateway e i rc a fee rate)"
  unfolding submit_gateway_def persist_gateway_def
  by (intro keeps_intros law_intros keeps_update_one rel_claim_gateway rel_revert_gateway rel_ambiguous
      rel_gateway call_gateway) auto

lemma dispatchLP_law [law_intros]: "keeps (lifted (ord_id (row l)) w0) (dispatchLP e l)"
  unfolding dispatchLP_def Let_def by (intro keeps_intros law_intros)

lemma poll_outcome_law: "keeps (lifted (ord_id (row l)) w0) (poll_outcome e l st)"
  unfolding poll_outcome_def Let_def by (intro keeps_intros law_intros call_returned)

lemma poll_outcome_rel:
  "bridge_status r = Dispatching \<Longrightarrow> R r (fst (fst (run_state (poll_outcome e l st) w)) r)"
  unfolding poll_outcome_def Let_def
  by (auto intro: rel_settle rel_retry rel_refund rel_refl split: prod.splits option.splits)

lemma poll_dispatching_law [law_intros]: "keeps (lifted (ord_id (row l)) w0) (poll_dispatching e l)"
proof -
  have upd: "keeps (lifted i w0) (update_one e SPoll i (\<lambda>r. bridge_status r = Dispatching)
      (\<lambda>r. upd (r\<lparr>settlement_status := st, settlement_polled_at := t\<rparr>)))"
    if ok: "\<forall>r. bridge_status r = Dispatching \<longrightarrow> R r (upd r)" for upd i st t
  proof (rule keeps_update_one)
    fix r :: route_order
    assume "bridge_status r = Dispatching"
    then show "R r (upd (r\<lparr>settlement_status := st, settlement_polled_at := t\<rparr>))"
      using ok by (intro rel_trans [OF rel_observe [where r = r and st = st and t = t]]) simp
  qed
  show ?thesis
    unfolding poll_dispatching_def Let_def
    by (intro keeps_if keeps_option keeps_return
        keeps_bind_result [where ok = "\<lambda>x. \<forall>r. bridge_status r = Dispatching \<longrightarrow> R r (fst x r)"]
        poll_outcome_law)
      (auto simp: poll_outcome_rel intro!: keeps_intros law_intros upd)
qed

end

section \<open>Route C\<close>

locale treasury_relation = settle_relation + fallback_relation + observe_relation +
  assumes rel_claim_treasury: "bridge_status r = Bridged \<Longrightarrow> ord_mode r = Treasury \<Longrightarrow>
      R r (r\<lparr>treasury_payout_ref := ref, bridge_status := Dispatching\<rparr>)"
    and rel_release: "bridge_status r = Dispatching \<Longrightarrow>
      R r (r\<lparr>bridge_status := Bridged, treasury_payout_ref := ref\<rparr>)"
    and rel_reload: "gateway_order_id r = '''' \<Longrightarrow>
      R r (r\<lparr>gateway_order_id := g, gateway_chain_id := c, bridge_tx_dest := tx\<rparr>)"
    and call_payout: "C (CallTransfer i ref a oc)"
    and call_failed: "C (PolledFailed i ref)"
    and call_reload: "C (CallReload i acct n oc)"
begin

lemma rel_release_ref: "bridge_status r = Dispatching \<Longrightarrow> R r (r\<lparr>bridge_status := Bridged\<rparr>)"
  using rel_release [of r "treasury_payout_ref r"] by simp

lemma submit_payout_law [law_intros]: "keeps (lifted i w0) (submit_payout e i rail rc a ref)"
  unfolding submit_payout_def Let_def
  by (intro keeps_intros law_intros keeps_update_one rel_release_ref rel_claim_treasury call_payout) auto

lemma dispatchTreasury_law [law_intros]: "keeps (lifted (ord_id (row l)) w0) (dispatchTreasury e l)"
  unfolding dispatchTreasury_def Let_def by (intro keeps_intros law_intros)

lemma poll_treasury_law [law_intros]: "keeps (lifted (ord_id (row l)) w0) (poll_treasury e rail l)"
  unfolding poll_treasury_def Let_def
  by (intro keeps_intros law_intros keeps_update_one rel_release call_failed)

lemma createGatewayOrder_law [law_intros]: "keeps (lifted i w0) (createGatewayOrder e i b a)"
  unfolding createGatewayOrder_def Let_def by (intro keeps_intros law_intros call_reload)

lemma submitFloatReload_law [law_intros]:
  "keeps (lifted (ord_id (row l)) w0) (submitFloatReload e a l)"
  unfolding submitFloatReload_def Let_def
  by (intro keeps_intros law_intros keeps_update_one rel_reload)

end

section \<open>Route B\<close>

locale network_relation = delivery_relation + fallback_relation +
  assumes rel_claim_fill: "waiting r \<Longrightarrow>
      R r (r\<lparr>bridge_status := Dispatching, treasury_payout_ref := ref\<rparr>)"
    and rel_release_fill: "bridge_status r = Dispatching \<Longrightarrow>
      R r (r\<lparr>bridge_status := Pending, treasury_payout_ref := ''''\<rparr>)"
    and call_fill_payout: "C (CallTransfer i ref a oc)"
    and call_fill_failed: "C (PolledFailed i ref)"
begin

lemma claim_order_law: "lifted i w0 w \<Longrightarrow> claim_order t i p w = Some w' \<Longrightarrow> lifted i w0 w'"
  by (auto simp: claim_order_def intro!: lifted_put rel_claim_fill split: if_splits option.splits)

lemma claim_fill_law [law_intros]: "keeps (lifted i w0) (claim_fill e i k t p f)"
proof -
  have "lifted i w0 w3" if "lifted i w0 w" "debit_lp k t w = Some w1"
    "insert_fill u f t k w1 = Some w2" "claim_order (now e) i p w2 = Some w3" for u w w1 w2 w3
  proof (rule claim_order_law [OF _ that(4)])
    show "lifted i w0 w2"
      using claim_legs_frame [OF that(2,3)] lifted_frame [of w2 w i w0] that(1) by simp
  qed
  then show ?thesis
    by (auto simp: claim_fill_def keeps_def split: option.splits)
qed

lemma releaseLpFill_law [law_intros]: "keeps (lifted i w0) (releaseLpFill e i ref)"
proof -
  have "lifted i w0 (add_balance k d (set_entry ref st w))" if "lifted i w0 w" for k d st w
    by (rule lifted_frame [OF _ _ that]) simp_all
  then have m: "keeps (lifted i w0) (modify (\<lambda>w. reset_order t i (add_balance k d (set_entry ref st w))))"
    for t k d st
    unfolding reset_order_def by (intro keeps_update lifted_put rel_release_fill)
  show ?thesis
    unfolding releaseLpFill_def by (intro keeps_intros law_intros m)
qed

lemma submit_fill_law [law_intros]: "keeps (lifted i w0) (submit_fill e i rail rc t k p f)"
  unfolding submit_fill_def Let_def by (intro keeps_intros law_intros call_fill_payout)

lemma fillViaLpNetwork_law [law_intros]: "keeps (lifted (ord_id (row l)) w0) (fillViaLpNetwork e l)"
  unfolding fillViaLpNetwork_def Let_def
  by (auto split: option.splits prod.splits intro!: keeps_intros law_intros)

lemma poll_lp_payout_law [law_intros]: "keeps (lifted (ord_id (row l)) w0) (poll_lp_payout e rail l)"
  unfolding poll_lp_payout_def Let_def by (intro keeps_intros law_intros call_fill_failed)

end

end
