(* ===== verification/Route_Machine.thy ===== *)
theory Route_Machine imports Route_Laws begin

text \<open>
  The state machine of a Route A order, as an inductive step relation on its row, and the
  proof that the dispatcher's handlers implement it: whatever the environment answers and
  whichever database statements fail, every handler moves every order along steps of the
  machine. Properties of orders are then proved on the machine, by rule induction.
\<close>

section \<open>The machine\<close>

inductive row_move :: "route_order \<Rightarrow> route_order \<Rightarrow> bool" where
  touch: "row_move r (r\<lparr>updated_at := t\<rparr>)"
| give_up: "waiting r \<Longrightarrow> row_move r (r\<lparr>bridge_status := Failed, failure_reason := why\<rparr>)"
| await: "bridge_status r = Pending \<Longrightarrow> row_move r (r\<lparr>bridge_status := AwaitingFunds\<rparr>)"
| claim_bridge: "waiting r \<Longrightarrow>
    row_move r (r\<lparr>bridge_provider := p, lifi_tool := tool, bridge_status := Bridging\<rparr>)"
| revert_bridge: "bridge_status r = Bridging \<Longrightarrow> bridge_tx_sui r = '''' \<Longrightarrow>
    row_move r (r\<lparr>bridge_status := Pending\<rparr>)"
| digest: "bridge_status r = Bridging \<Longrightarrow> row_move r (r\<lparr>lifi_quote_id := q, bridge_tx_sui := d\<rparr>)"
| uncertain: "bridge_status r = Bridging \<Longrightarrow>
    row_move r (r\<lparr>bridge_status := BridgeUncertain, failure_reason := why\<rparr>)"
| arrive: "bridge_status r \<in> {Bridging, BridgeUncertain} \<Longrightarrow>
    row_move r (r\<lparr>bridge_status := Bridged, failure_reason := why, bridge_tx_dest := tx,
                  bridged_amount := amt\<rparr>)"
| bridge_fail: "bridge_status r \<in> {Bridging, BridgeUncertain} \<Longrightarrow>
    row_move r (r\<lparr>bridge_status := Failed, failure_reason := why\<rparr>)"
| claim_gateway: "bridge_status r = Bridged \<Longrightarrow> row_move r (r\<lparr>bridge_status := Dispatching\<rparr>)"
| claim_treasury: "bridge_status r = Bridged \<Longrightarrow> ord_mode r = Treasury \<Longrightarrow>
    row_move r (r\<lparr>treasury_payout_ref := ref, bridge_status := Dispatching\<rparr>)"
| release: "bridge_status r = Dispatching \<Longrightarrow>
    row_move r (r\<lparr>bridge_status := Bridged, treasury_payout_ref := ref\<rparr>)"
| mark: "bridge_status r = Dispatching \<Longrightarrow> row_move r (r\<lparr>failure_reason := why\<rparr>)"
| gateway: "bridge_status r = Dispatching \<Longrightarrow>
    row_move r (r\<lparr>gateway_order_id := g, gateway_chain_id := c, sender_fee_subunit := fee,
                  bridge_tx_dest := tx\<rparr>)"
| observe: "row_move r (r\<lparr>settlement_status := st, settlement_polled_at := t\<rparr>)"
| settle: "bridge_status r = Dispatching \<Longrightarrow> row_move r (r\<lparr>bridge_status := Settled\<rparr>)"
| retry: "bridge_status r = Dispatching \<Longrightarrow>
    row_move r (r\<lparr>bridge_status := Bridged, settlement_status := '''', gateway_order_id := ''''\<rparr>)"
| refund: "bridge_status r = Dispatching \<Longrightarrow> row_move r (r\<lparr>bridge_status := Refunded\<rparr>)"
| fall_back: "bridge_status r = Bridged \<Longrightarrow> ord_mode r = Treasury \<Longrightarrow> row_move r (r\<lparr>ord_mode := Lp\<rparr>)"
| reload: "gateway_order_id r = '''' \<Longrightarrow>
    row_move r (r\<lparr>gateway_order_id := g, gateway_chain_id := c, bridge_tx_dest := tx\<rparr>)"
| claim_fill: "waiting r \<Longrightarrow>
    row_move r (r\<lparr>bridge_status := Dispatching, treasury_payout_ref := ref\<rparr>)"
| release_fill: "bridge_status r = Dispatching \<Longrightarrow>
    row_move r (r\<lparr>bridge_status := Pending, treasury_payout_ref := ''''\<rparr>)"
| deliver: "bridge_status r = Dispatching \<Longrightarrow> row_move r (r\<lparr>bridge_tx_sui := d\<rparr>)"
| leave_network: "ord_mode r = LpNetwork \<Longrightarrow> waiting r \<Longrightarrow> row_move r (r\<lparr>ord_mode := Lp\<rparr>)"

inductive_cases row_moveE: "row_move r r'"

abbreviation moves :: "route_order \<Rightarrow> route_order \<Rightarrow> bool" where
  "moves \<equiv> row_move\<^sup>*\<^sup>*"

section \<open>The handlers implement the machine\<close>

lemma moves_touch: "moves r (r\<lparr>updated_at := t\<rparr>)"
  by (rule r_into_rtranclp) (rule touch)

lemma row_move_id: "row_move r s \<Longrightarrow> ord_id s = ord_id r"
  by (induction rule: row_move.induct) simp_all

lemma moves_id: "moves r s \<Longrightarrow> ord_id s = ord_id r"
  by (induction rule: rtranclp_induct) (simp_all add: row_move_id)

lemma once: "row_move r s \<Longrightarrow> moves r s"
  by (rule r_into_rtranclp)

lemmas move = row_move.intros [THEN once]

lemma move_release: "bridge_status r = Dispatching \<Longrightarrow> moves r (r\<lparr>bridge_status := Bridged\<rparr>)"
  using once [OF release [of r "treasury_payout_ref r"]] by simp

interpretation machine: row_relation moves "\<lambda>_. True"
  by unfold_locales (auto intro: moves_touch dest: moves_id)

interpretation machine: start_relation moves "\<lambda>_. True"
  by unfold_locales (auto intro: move)

interpretation machine: arrival_relation moves "\<lambda>_. True"
  by unfold_locales (auto intro: move)

interpretation machine: lp_relation moves "\<lambda>_. True"
  by unfold_locales (auto intro: move move_release)

interpretation machine: treasury_relation moves "\<lambda>_. True"
  by unfold_locales (auto intro: move)

interpretation machine: network_relation moves "\<lambda>_. True"
  by unfold_locales (auto intro: move)

abbreviation evolves :: "nat \<Rightarrow> world \<Rightarrow> world \<Rightarrow> bool" where
  "evolves \<equiv> machine.lifted"

abbreviation evolves_all :: "world \<Rightarrow> world \<Rightarrow> bool" where
  "evolves_all \<equiv> machine.lifted_all"

named_theorems evolves_intros \<open>phases that follow the machine\<close>

lemma advanceBridged_order_evolves:
  "keeps (evolves (ord_id (row l)) w0) (case ord_mode (row l) of
     Lp \<Rightarrow> do { _ \<leftarrow> dispatchLP e l; return () }
   | Treasury \<Rightarrow> do { _ \<leftarrow> dispatchTreasury e l; return () }
   | LpNetwork \<Rightarrow> return ())"
  by (intro keeps_intros law_intros)

lemma phases_for_orders_evolve [evolves_intros]:
  "keeps (evolves_all w0) (advancePending e)"
  "keeps (evolves_all w0) (advanceBridging e)"
  "keeps (evolves_all w0) (advanceUncertain e)"
  "keeps (evolves_all w0) (advanceBridged e)"
  "keeps (evolves_all w0) (advanceDispatching e)"
  "keeps (evolves_all w0) (advanceTreasuryPayouts e)"
  "keeps (evolves_all w0) (advanceLpNetwork e)"
  "keeps (evolves_all w0) (advanceLpNetworkPayouts e)"
  unfolding advancePending_def advance_polls advanceBridged_def advanceDispatching_def
    advanceTreasuryPayouts_def advanceLpNetwork_def advanceLpNetworkPayouts_def
  by (intro keeps_option keeps_only_if keeps_return machine.keeps_for_orders
      advanceBridged_order_evolves keeps_bind law_intros)+

lemma advanceFloatReload_evolves [evolves_intros]: "keeps (evolves_all w0) (advanceFloatReload e)"
proof -
  have "keeps (evolves_all w0) (resolveFloatAccount e)"
    by (rule machine.keeps_all) (rule machine.lifted.resolveFloatAccount_law)
  moreover have "keeps (evolves_all w0) (pollFloatReload e l)" "keeps (evolves_all w0) (submitFloatReload e a l)" for a l
    by (rule machine.keeps_all, rule machine.pollFloatReload_law machine.submitFloatReload_law)+
  ultimately show ?thesis
    unfolding advanceFloatReload_def unless_panicked_def query_orders_def by (intro keeps_intros)
qed

lemma moves_twice: "row_move r s \<Longrightarrow> row_move s t \<Longrightarrow> moves r t"
  by (meson converse_rtranclp_into_rtranclp once)

lemma cleanup_evolves [evolves_intros]: "keeps (evolves_all w0) (cleanup_stale e)"
proof -
  have "moves r (if waiting r \<and> c then r\<lparr>bridge_status := Failed, failure_reason := why, updated_at := t\<rparr> else r)"
    for r c why t
    using moves_twice [OF give_up [of r why] touch [of _ t]] by auto
  then show ?thesis
    unfolding cleanup_stale_def
    by (intro keeps_intros keeps_update machine.lifted_all_map)
qed

lemma extend_if_active_evolves [evolves_intros]: "keeps (evolves_all w0) (extend_if_active e)"
  unfolding extend_if_active_def
  by (intro keeps_intros machine.keeps_all [OF machine.lifted.small_laws(2)])

lemma phases_evolve: "m \<in> set (phases E) \<Longrightarrow> keeps (evolves_all w0) (unless_panicked m)"
  unfolding phases_def unless_panicked_def by (auto intro!: keeps_intros evolves_intros)

lemma Tick_keeps: "keeps (evolves_all w0) (Tick E)"
proof -
  have "keeps (evolves_all w0) (modify (panicked_update (\<lambda>_. False)))"
    by (intro machine.keeps_all machine.lifted.keeps_frame) simp_all
  then show ?thesis
    unfolding Tick_def Let_def by (intro keeps_intros evolves_intros phases_evolve)
qed

text \<open>C3. Refinement: whatever the external services answer and whichever database statements
  fail, one tick of the dispatcher moves every order along steps of the order state machine,
  keeps the set and sequence of orders, and only appends to the trace of external calls.\<close>

theorem Tick_refines_machine:
  "list_all2 row_move\<^sup>*\<^sup>* (orders w) (orders (snd (run_state (Tick E) w))) \<and>
   take (length (calls w)) (calls (snd (run_state (Tick E) w))) = calls w"
proof -
  have "evolves_all w (snd (run_state (Tick E) w))"
    by (rule keepsD [OF Tick_keeps machine.lifted_all_refl])
  then show ?thesis by (auto simp: machine.lifted_all_def)
qed

section \<open>Properties of the machine\<close>

definition legal_step :: "bridge_status \<Rightarrow> bridge_status \<Rightarrow> bool" where
  "legal_step a b = (case a of
     Pending \<Rightarrow> b \<in> {AwaitingFunds, Bridging, Failed, Dispatching}
   | AwaitingFunds \<Rightarrow> b \<in> {Bridging, Failed, Dispatching}
   | Bridging \<Rightarrow> b \<in> {Pending, BridgeUncertain, Bridged, Failed}
   | BridgeUncertain \<Rightarrow> b \<in> {Bridged, Failed}
   | Bridged \<Rightarrow> b = Dispatching
   | Dispatching \<Rightarrow> b \<in> {Pending, Bridged, Settled, Refunded}
   | Settled \<Rightarrow> False | Failed \<Rightarrow> False | Refunded \<Rightarrow> False)"

lemma row_move_legal:
  "row_move r s \<Longrightarrow> bridge_status s = bridge_status r \<or> legal_step (bridge_status r) (bridge_status s)"
  by (induction rule: row_move.induct) (auto simp: legal_step_def waiting_def)

lemma moves_legal: "moves r s \<Longrightarrow> legal_step\<^sup>*\<^sup>* (bridge_status r) (bridge_status s)"
proof (induction rule: rtranclp_induct)
  case (step s t)
  then show ?case using row_move_legal [OF step(2)] by (metis rtranclp.rtrancl_into_rtrancl)
qed simp

text \<open>Every tick takes every order along legal status transitions only; no transition
  leaves settled, failed or refunded, failed is reached only before the USDC has arrived on
  Base, and settled and refunded only from dispatching.\<close>

theorem Tick_legal:
  "list_all2 (\<lambda>r s. legal_step\<^sup>*\<^sup>* (bridge_status r) (bridge_status s))
     (orders w) (orders (snd (run_state (Tick E) w)))"
  using Tick_keeps [of w E, THEN keepsD, OF machine.lifted_all_refl]
  by (auto simp: machine.lifted_all_def intro: list_all2_mono moves_legal)

definition terminal :: "route_order \<Rightarrow> bool" where
  "terminal r \<longleftrightarrow> bridge_status r \<in> {Settled, Failed, Refunded}"

text \<open>What never changes once an order is terminal. The gateway id and the settlement status
  may: the float reload of a settled treasury order goes on.\<close>

definition outcome_of :: "route_order \<Rightarrow> _" where
  "outcome_of r = (bridge_status r, ord_mode r, treasury_payout_ref r, bridged_amount r,
     failure_reason r, bridge_tx_sui r, bridge_provider r, sender_fee_subunit r)"

definition frozen :: "route_order \<Rightarrow> route_order \<Rightarrow> bool" where
  "frozen r s \<longleftrightarrow> (terminal r \<longrightarrow> outcome_of s = outcome_of r)"

lemma row_move_frozen: "row_move r s \<Longrightarrow> frozen r s"
  by (induction rule: row_move.induct) (auto simp: frozen_def terminal_def outcome_of_def waiting_def)

lemma moves_frozen: "moves r s \<Longrightarrow> frozen r s"
proof (induction rule: rtranclp_induct)
  case (step s t)
  then show ?case using row_move_frozen [OF step(2)] by (auto simp: frozen_def terminal_def outcome_of_def)
qed (simp add: frozen_def)

text \<open>The outcome of an order that is settled, failed or refunded (its status, mode, payout
  reference, delivered amount, reason, source digest, rail and fee) is never touched again by
  any tick.\<close>

theorem Tick_frozen:
  "list_all2 frozen (orders w) (orders (snd (run_state (Tick E) w)))"
  using Tick_keeps [of w E, THEN keepsD, OF machine.lifted_all_refl]
  by (auto simp: machine.lifted_all_def intro: list_all2_mono moves_frozen)

lemma waiting_in_flight: "waiting r \<Longrightarrow> in_flight r"
  by (auto simp: waiting_def in_flight_def)

text \<open>C9. A tick with no order in flight makes no external call and changes no order, even when
  settled treasury orders still wait for their float reload: the reload of the last settled order
  does not proceed until another order is placed.\<close>

theorem Tick_idle:
  assumes "\<forall>r \<in> set (orders w). \<not> in_flight r"
  shows "orders (snd (run_state (Tick E) w)) = orders w \<and> calls (snd (run_state (Tick E) w)) = calls w"
proof -
  let ?h = "\<lambda>r. if waiting r \<and> created_at r < now (E PhStart) - c_validity (cf (E PhStart))
        then r\<lparr>bridge_status := Failed, failure_reason := ExpiredReason, updated_at := now (E PhStart)\<rparr> else r"
  have "map ?h (orders w) = orders w"
    using assms waiting_in_flight by (intro map_idI) auto
  then have "snd (run_state (cleanup_stale (E PhStart)) w) = w"
    by (simp add: cleanup_stale_def only_if_def)
  moreover have "snd (run_state (Tick E) w) \<in> {w, snd (run_state (cleanup_stale (E PhStart)) w)}"
    using assms calculation
    by (cases "run_state (cleanup_stale (E PhStart)) w") (auto simp: Tick_def Let_def only_if_def)
  ultimately show ?thesis by simp
qed

end
