(* ===== verification/Route_Contract.thy ===== *)
theory Route_Contract imports Route_Machine begin

text \<open>
  From single orders to the tick. A property of one order that depends only on its row and its
  own external calls, and that every per-order handler keeps when it runs on a fresh row, is
  kept for all orders by a whole tick: handlers leave the other orders alone, so the rows a
  phase loaded are still current when their turn comes. The locale states what a handler has
  to guarantee; its interpretations discharge it for the code's handlers.
\<close>

section \<open>The view of one order\<close>

definition trace :: "nat \<Rightarrow> world \<Rightarrow> call list" where
  "trace i w = filter (\<lambda>c. call_order c = i) (calls w)"

definition fresh :: "loaded \<Rightarrow> world \<Rightarrow> bool" where
  "fresh l w \<longleftrightarrow> find_order (ord_id (row l)) w = Some (row l)"

definition uniq :: "world \<Rightarrow> bool" where
  "uniq w \<longleftrightarrow> distinct (map ord_id (orders w))"

lemma find_order_put [simp]:
  assumes "\<And>r. ord_id (f r) = ord_id r"
  shows "find_order i (put_order t i g f w) =
     map_option (\<lambda>r. if g r then (f r)\<lparr>updated_at := t\<rparr> else r) (find_order i w)"
proof -
  have "find_order i (put_order t i g f w) =
      map_option (\<lambda>r. if ord_id r = i \<and> g r then (f r)\<lparr>updated_at := t\<rparr> else r) (find_order i w)"
    by (simp add: find_order_def put_order_def find_map_same assms)
  also have "\<dots> = map_option (\<lambda>r. if g r then (f r)\<lparr>updated_at := t\<rparr> else r) (find_order i w)"
    by (cases "find_order i w") (auto dest: find_order_id)
  finally show ?thesis .
qed

lemma trace_put [simp]: "trace i (put_order t j g f w) = trace i w"
  by (simp add: trace_def put_order_def)

lemma view_frame:
  "orders w' = orders w \<Longrightarrow> find_order i w' = find_order i w"
  "calls w' = calls w \<Longrightarrow> trace i w' = trace i w"
  by (simp_all add: find_order_def trace_def)

lemma view_log [simp]:
  "find_order i (w\<lparr>calls := cs\<rparr>) = find_order i w"
  "trace i (w\<lparr>calls := calls w @ cs\<rparr>) = trace i w @ filter (\<lambda>c. call_order c = i) cs"
  by (simp_all add: find_order_def trace_def)

lemma find_list_all2:
  "list_all2 Q xs ys \<Longrightarrow> (\<And>x y. Q x y \<Longrightarrow> p y = p x) \<Longrightarrow> rel_option Q (find p xs) (find p ys)"
  by (induction rule: list_all2_induct) auto

context row_relation
begin

lemma lifted_view:
  assumes "lifted i w w'"
  shows "rel_option R (find_order i w) (find_order i w')"
    and "\<exists>cs. trace i w' = trace i w @ cs \<and> (\<forall>c \<in> set cs. C c)"
    and "j \<noteq> i \<Longrightarrow> find_order j w' = find_order j w"
    and "j \<noteq> i \<Longrightarrow> trace j w' = trace j w"
    and "map ord_id (orders w') = map ord_id (orders w)"
proof -
  have rows: "list_all2 (only_row i) (orders w) (orders w')"
    using assms by (simp add: lifted_def)
  have ids: "only_row i r s \<Longrightarrow> ord_id s = ord_id r" for r s
    by (auto simp: only_row_def dest: rel_id split: if_splits)
  show "rel_option R (find_order i w) (find_order i w')"
    unfolding find_order_def
    using find_list_all2 [OF rows, of "\<lambda>r. ord_id r = i"] ids
    by (auto elim!: option.rel_mono_strong intro: only_row_rel)
  show "\<exists>cs. trace i w' = trace i w @ cs \<and> (\<forall>c \<in> set cs. C c)"
    using assms by (auto simp: lifted_def trace_def)
  obtain cs where cs: "calls w' = calls w @ cs" "\<forall>c \<in> set cs. call_order c = i"
    using assms by (auto simp: lifted_def)
  show "trace j w' = trace j w" if "j \<noteq> i"
    using cs that by (auto simp: trace_def filter_empty_conv)
  show "find_order j w' = find_order j w" if "j \<noteq> i"
  proof -
    have "rel_option (only_row i) (find_order j w) (find_order j w')"
      unfolding find_order_def using find_list_all2 [OF rows, of "\<lambda>r. ord_id r = j"] ids by auto
    moreover have "ord_id x = j" if "find_order j w = Some x" for x
      using that by (rule find_order_id)
    ultimately show ?thesis
      using that by (cases "find_order j w"; cases "find_order j w'") (auto simp: only_row_def)
  qed
  show "map ord_id (orders w') = map ord_id (orders w)"
    using rows ids by (auto simp: list_all2_conv_all_nth intro: nth_equalityI)
qed

end

lemma run_unless_panicked [simp]:
  "run_state (unless_panicked m) w = (if panicked w then ((), w) else run_state m w)"
  by (simp add: unless_panicked_def only_if_def)

section \<open>Runs of the dispatcher\<close>

text \<open>The life of the dispatcher: orders are created with an id that was never used, ticks run
  one at a time, and everything outside the order table and the trace changes freely (webhooks,
  deposits, the audit log's readers). The parameter is what is assumed of the environment.\<close>

inductive dispatcher_run :: "(env \<Rightarrow> bool) \<Rightarrow> world \<Rightarrow> bool" for ok where
  init: "orders w = [] \<Longrightarrow> calls w = [] \<Longrightarrow> dispatcher_run ok w"
| create: "dispatcher_run ok w \<Longrightarrow> bridge_status r = Pending \<Longrightarrow> gateway_order_id r = '''' \<Longrightarrow>
    find_order (ord_id r) w = None \<Longrightarrow> trace (ord_id r) w = [] \<Longrightarrow>
    dispatcher_run ok (w\<lparr>orders := orders w @ [r]\<rparr>)"
| tick: "dispatcher_run ok w \<Longrightarrow> (\<And>ph. ok (E ph)) \<Longrightarrow>
    dispatcher_run ok (snd (run_state (Tick E) w))"
| outside: "dispatcher_run ok w \<Longrightarrow> orders w' = orders w \<Longrightarrow> calls w' = calls w \<Longrightarrow>
    dispatcher_run ok w'"

lemma find_snoc: "find P (xs @ [y]) =
    (case find P xs of Some x \<Rightarrow> Some x | None \<Rightarrow> if P y then Some y else None)"
  by (induction xs) auto

lemma view_snoc [simp]:
  "find_order i (w\<lparr>orders := orders w @ [r]\<rparr>) =
     (case find_order i w of Some x \<Rightarrow> Some x | None \<Rightarrow> if ord_id r = i then Some r else None)"
  "trace i (w\<lparr>orders := os\<rparr>) = trace i w"
  by (simp_all add: find_order_def find_snoc trace_def)

section \<open>What a handler has to keep\<close>

locale order_contract =
  fixes P :: "nat \<Rightarrow> world \<Rightarrow> bool"
    and ok :: "env \<Rightarrow> bool"
  assumes view: "find_order i w' = find_order i w \<Longrightarrow> trace i w' = trace i w \<Longrightarrow> P i w \<Longrightarrow> P i w'"
    and absent: "find_order i w = None \<Longrightarrow> P i w"
    and created: "bridge_status r = Pending \<Longrightarrow> gateway_order_id r = '''' \<Longrightarrow>
      find_order i w = Some r \<Longrightarrow> trace i w = [] \<Longrightarrow> P i w"
    and expire: "P i w \<Longrightarrow> P i (snd (run_state (cleanup_stale e) w))"
    and pending: "ok e \<Longrightarrow> fresh l w \<Longrightarrow> P (ord_id (row l)) w \<Longrightarrow> waiting (row l) \<Longrightarrow>
      ord_mode (row l) \<noteq> LpNetwork \<Longrightarrow>
      P (ord_id (row l)) (snd (run_state (advance_pending_order e l) w))"
    and bridging: "ok e \<Longrightarrow> fresh l w \<Longrightarrow> P (ord_id (row l)) w \<Longrightarrow> bridge_status (row l) = Bridging \<Longrightarrow>
      P (ord_id (row l)) (snd (run_state (poll_bridging e l) w))"
    and uncertain: "ok e \<Longrightarrow> fresh l w \<Longrightarrow> P (ord_id (row l)) w \<Longrightarrow>
      bridge_status (row l) = BridgeUncertain \<Longrightarrow>
      P (ord_id (row l)) (snd (run_state (poll_uncertain e l) w))"
    and dispatch_lp: "ok e \<Longrightarrow> fresh l w \<Longrightarrow> P (ord_id (row l)) w \<Longrightarrow>
      bridge_status (row l) = Bridged \<Longrightarrow> ord_mode (row l) = Lp \<Longrightarrow>
      P (ord_id (row l)) (snd (run_state (dispatchLP e l) w))"
    and dispatch_treasury: "ok e \<Longrightarrow> fresh l w \<Longrightarrow> P (ord_id (row l)) w \<Longrightarrow>
      bridge_status (row l) = Bridged \<Longrightarrow> ord_mode (row l) = Treasury \<Longrightarrow>
      P (ord_id (row l)) (snd (run_state (dispatchTreasury e l) w))"
    and dispatching: "ok e \<Longrightarrow> fresh l w \<Longrightarrow> P (ord_id (row l)) w \<Longrightarrow>
      bridge_status (row l) = Dispatching \<Longrightarrow> ord_mode (row l) = Lp \<Longrightarrow>
      P (ord_id (row l)) (snd (run_state (poll_dispatching e l) w))"
    and treasury_payout: "ok e \<Longrightarrow> fresh l w \<Longrightarrow> P (ord_id (row l)) w \<Longrightarrow>
      bridge_status (row l) = Dispatching \<Longrightarrow> ord_mode (row l) = Treasury \<Longrightarrow>
      P (ord_id (row l)) (snd (run_state (poll_treasury e rail l) w))"
    and submit_reload: "ok e \<Longrightarrow> fresh l w \<Longrightarrow> P (ord_id (row l)) w \<Longrightarrow> reload_due (row l) \<Longrightarrow>
      gateway_order_id (row l) = '''' \<Longrightarrow>
      P (ord_id (row l)) (snd (run_state (submitFloatReload e a l) w))"
    and poll_reload: "ok e \<Longrightarrow> fresh l w \<Longrightarrow> P (ord_id (row l)) w \<Longrightarrow> reload_due (row l) \<Longrightarrow>
      P (ord_id (row l)) (snd (run_state (pollFloatReload e l) w))"
    and fill: "ok e \<Longrightarrow> fresh l w \<Longrightarrow> P (ord_id (row l)) w \<Longrightarrow> waiting (row l) \<Longrightarrow>
      ord_mode (row l) = LpNetwork \<Longrightarrow>
      P (ord_id (row l)) (snd (run_state (fillViaLpNetwork e l) w))"
    and fill_payout: "ok e \<Longrightarrow> fresh l w \<Longrightarrow> P (ord_id (row l)) w \<Longrightarrow>
      bridge_status (row l) = Dispatching \<Longrightarrow> ord_mode (row l) = LpNetwork \<Longrightarrow>
      P (ord_id (row l)) (snd (run_state (poll_lp_payout e rail l) w))"
begin

definition all_orders :: "world \<Rightarrow> bool" where
  "all_orders w \<longleftrightarrow> uniq w \<and> (\<forall>i. P i w)"

text \<open>The handler of an order keeps the property of all orders, and what is fresh about the
  others.\<close>

lemma one_order:
  assumes "all_orders w" "evolves i w w'" "P i w'"
  shows "all_orders w'"
    and "fresh l w \<Longrightarrow> ord_id (row l) \<noteq> i \<Longrightarrow> fresh l w'"
proof -
  note v = machine.lifted_view [OF assms(2)]
  have "P j w'" for j
  proof (cases "j = i")
    case True
    with assms(3) show ?thesis by simp
  next
    case False
    then show ?thesis using view [OF v(3,4)] assms(1) by (simp add: all_orders_def)
  qed
  then show "all_orders w'"
    using assms(1) v(5) by (simp add: all_orders_def uniq_def)
  show "fresh l w'" if "fresh l w" "ord_id (row l) \<noteq> i"
    using that v(3) by (simp add: fresh_def)
qed

lemma frame_orders: "all_orders w \<Longrightarrow> orders w' = orders w \<Longrightarrow> calls w' = calls w \<Longrightarrow> all_orders w'"
  unfolding all_orders_def uniq_def using view view_frame by metis

lemma loop:
  assumes "all_orders w" "distinct (map (\<lambda>l. ord_id (row l)) ls)"
    and "\<And>l. l \<in> set ls \<Longrightarrow> fresh l w"
    and "\<And>l w. l \<in> set ls \<Longrightarrow> fresh l w \<Longrightarrow> P (ord_id (row l)) w \<Longrightarrow>
          P (ord_id (row l)) (snd (run_state (f l) w))"
    and "\<And>l w. keeps (evolves (ord_id (row l)) w) (f l)"
  shows "all_orders (snd (run_state (for_each ls (\<lambda>l. unless_panicked (f l))) w))"
  using assms(1-4)
proof (induction ls arbitrary: w)
  case (Cons l ls)
  show ?case
  proof (cases "panicked w")
    case True
    have "all_orders (snd (run_state (for_each ls (\<lambda>l. unless_panicked (f l))) w))"
      using Cons.prems by (intro Cons.IH) auto
    with True show ?thesis by simp
  next
    case False
    let ?w = "snd (run_state (f l) w)"
    have P: "P (ord_id (row l)) ?w"
      using Cons.prems by (auto simp: all_orders_def)
    have ev: "evolves (ord_id (row l)) w ?w"
      by (rule keepsD [OF assms(5) machine.lifted_refl])
    have other: "ord_id (row m) \<noteq> ord_id (row l)" if "m \<in> set ls" for m
      using Cons.prems(2) that by (auto simp: image_iff)
    have "all_orders (snd (run_state (for_each ls (\<lambda>l. unless_panicked (f l))) ?w))"
    proof (rule Cons.IH)
      show "fresh m ?w" if "m \<in> set ls" for m
        using that Cons.prems(3) other one_order(2) [OF Cons.prems(1) ev P] by simp
    qed (use Cons.prems one_order(1) [OF Cons.prems(1) ev P] in auto)
    with False show ?thesis by (cases "run_state (f l) w") simp
  qed
qed simp

lemma fresh_query:
  assumes "uniq w" "r \<in> set (orders w)"
  shows "fresh (load_row es w r) w"
proof -
  have "find (\<lambda>x. ord_id x = ord_id r) xs = Some r" if "distinct (map ord_id xs)" "r \<in> set xs" for xs
    using that by (induction xs) (auto simp: rev_image_eqI)
  with assms show ?thesis by (simp add: fresh_def find_order_def uniq_def)
qed

lemma orders_loop:
  assumes "\<And>l w. fresh l w \<Longrightarrow> P (ord_id (row l)) w \<Longrightarrow> g (row l) \<Longrightarrow>
          P (ord_id (row l)) (snd (run_state (f l) w))"
    and "\<And>l w. keeps (evolves (ord_id (row l)) w) (f l)"
  shows "keeps all_orders (for_orders e es g f)"
  unfolding keeps_def
proof (intro allI impI)
  fix w
  assume w: "all_orders w"
  let ?ls = "map (load_row es w) (filter g (orders w))"
  have "all_orders (snd (run_state (for_each ?ls (\<lambda>l. unless_panicked (f l))) w))"
  proof (rule loop [OF w _ _ _ assms(2)])
    show "distinct (map (\<lambda>l. ord_id (row l)) ?ls)"
      using w by (simp add: all_orders_def uniq_def comp_def distinct_map_filter)
    show "fresh l w" if "l \<in> set ?ls" for l
      using that w fresh_query by (auto simp: all_orders_def)
    show "P (ord_id (row l)) (snd (run_state (f l) w'))"
      if "l \<in> set ?ls" "fresh l w'" "P (ord_id (row l)) w'" for l w'
      using that by (intro assms(1)) auto
  qed
  with w show "all_orders (snd (run_state (for_orders e es g f) w))"
    by (auto simp: for_orders_def query_orders_def split: prod.splits option.splits)
qed

lemma drop_result: "snd (run_state (do { _ \<leftarrow> m; return () }) w) = snd (run_state m w)"
  by (simp split: prod.splits)

lemma bridged_order:
  assumes "ok e" "fresh l w" "P (ord_id (row l)) w" "bridge_status (row l) = Bridged"
  shows "P (ord_id (row l)) (snd (run_state (case ord_mode (row l) of
     Lp \<Rightarrow> do { _ \<leftarrow> dispatchLP e l; return () }
   | Treasury \<Rightarrow> do { _ \<leftarrow> dispatchTreasury e l; return () }
   | LpNetwork \<Rightarrow> return ()) w))"
  using assms dispatch_lp [of e l w] dispatch_treasury [of e l w]
  by (cases "ord_mode (row l)") (simp_all del: run_state_bind add: drop_result)

lemma simple_phases:
  assumes "ok e"
  shows "keeps all_orders (advancePending e)"
    and "keeps all_orders (advanceBridging e)"
    and "keeps all_orders (advanceUncertain e)"
    and "keeps all_orders (advanceBridged e)"
    and "keeps all_orders (advanceDispatching e)"
  unfolding advancePending_def advance_polls advanceBridged_def advanceDispatching_def
  using assms
  by (auto intro!: orders_loop keeps_only_if intro: pending bridging uncertain bridged_order dispatching
      advanceBridged_order_evolves law_intros)

lemma rail_phases:
  assumes "ok e"
  shows "keeps all_orders (advanceTreasuryPayouts e)"
    and "keeps all_orders (advanceLpNetwork e)"
    and "keeps all_orders (advanceLpNetworkPayouts e)"
proof -
  have "keeps all_orders (for_orders e es (\<lambda>r. ord_mode r = LpNetwork \<and> waiting r)
      (\<lambda>l. do { _ \<leftarrow> fillViaLpNetwork e l; return () }))" for es
  proof (rule orders_loop)
    show "P (ord_id (row l)) (snd (run_state (do { _ \<leftarrow> fillViaLpNetwork e l; return () }) w))"
      if "fresh l w" "P (ord_id (row l)) w" "ord_mode (row l) = LpNetwork \<and> waiting (row l)" for l w
      using fill [OF assms that(1,2)] that(3) by (simp only: drop_result)
    show "keeps (evolves (ord_id (row l)) w) (do { _ \<leftarrow> fillViaLpNetwork e l; return () })" for l w
      by (intro keeps_bind keeps_return law_intros)
  qed
  then show "keeps all_orders (advanceLpNetwork e)" by (simp add: advanceLpNetwork_def)
  show "keeps all_orders (advanceTreasuryPayouts e)" "keeps all_orders (advanceLpNetworkPayouts e)"
    unfolding advanceTreasuryPayouts_def advanceLpNetworkPayouts_def
    using assms
    by (auto intro!: orders_loop keeps_option keeps_return
        intro: treasury_payout fill_payout law_intros)
qed

lemma frame_keeps:
  "(\<And>w. orders (snd (run_state m w)) = orders w \<and> calls (snd (run_state m w)) = calls w) \<Longrightarrow>
   keeps all_orders m"
  unfolding keeps_def using frame_orders by blast

lemma resolve_frame:
  "orders (snd (run_state (resolveFloatAccount e) w)) = orders w"
  "calls (snd (run_state (resolveFloatAccount e) w)) = calls w"
  by (auto simp: resolveFloatAccount_def Let_def split: option.splits prod.splits)

lemma reload_order:
  assumes "ok e" "fresh l w" "P (ord_id (row l)) w" "reload_due (row l)"
  shows "P (ord_id (row l)) (snd (run_state (case acct of
      None \<Rightarrow> only_if (gateway_order_id (row l) \<noteq> []) (pollFloatReload e l)
    | Some a \<Rightarrow> if gateway_order_id (row l) = [] then submitFloatReload e a l
                else pollFloatReload e l) w))"
  using assms submit_reload [OF assms] poll_reload [OF assms]
  by (cases acct) (auto simp: only_if_def)

lemma reload_phase:
  assumes "ok e"
  shows "keeps all_orders (advanceFloatReload e)"
  unfolding keeps_def
proof (intro allI impI)
  fix w
  assume w: "all_orders w"
  let ?ls = "map (load_row (Some [TokenEdge]) w) (filter reload_due (orders w))"
  obtain acct w' where acct: "run_state (resolveFloatAccount e) w = (acct, w')"
    by (cases "run_state (resolveFloatAccount e) w")
  have same: "orders w' = orders w" "calls w' = calls w"
    using resolve_frame [of e w] by (simp_all add: acct)
  then have w': "all_orders w'" using frame_orders w by blast
  have "all_orders (snd (run_state (for_each ?ls (\<lambda>l. unless_panicked (case acct of
      None \<Rightarrow> only_if (gateway_order_id (row l) \<noteq> []) (pollFloatReload e l)
    | Some a \<Rightarrow> if gateway_order_id (row l) = [] then submitFloatReload e a l
                else pollFloatReload e l))) w'))"
  proof (rule loop [OF w'])
    show "distinct (map (\<lambda>l. ord_id (row l)) ?ls)"
      using w by (simp add: all_orders_def uniq_def comp_def distinct_map_filter)
    show "fresh l w'" if "l \<in> set ?ls" for l
      using that w fresh_query view_frame(1) [OF same(1)] by (auto simp: all_orders_def fresh_def)
    show "keeps (evolves (ord_id (row l)) w0) (case acct of
        None \<Rightarrow> only_if (gateway_order_id (row l) \<noteq> []) (pollFloatReload e l)
      | Some a \<Rightarrow> if gateway_order_id (row l) = [] then submitFloatReload e a l
                  else pollFloatReload e l)" for l w0
      by (intro keeps_intros law_intros)
  qed (rule reload_order [OF assms]; (assumption | auto))
  with w acct show "all_orders (snd (run_state (advanceFloatReload e) w))"
    by (auto simp: advanceFloatReload_def query_orders_def only_if_def split: prod.splits)
qed

lemma cleanup_phase: "keeps all_orders (cleanup_stale e)"
  unfolding keeps_def
proof (intro allI impI)
  fix w
  assume w: "all_orders w"
  have "list_all2 moves (orders w) (orders (snd (run_state (cleanup_stale e) w)))"
    using keepsD [OF cleanup_evolves machine.lifted_all_refl] by (simp add: machine.lifted_all_def)
  then have "map ord_id (orders (snd (run_state (cleanup_stale e) w))) = map ord_id (orders w)"
    by (auto simp: list_all2_conv_all_nth moves_id intro!: nth_equalityI)
  with w show "all_orders (snd (run_state (cleanup_stale e) w))"
    by (simp add: all_orders_def uniq_def expire)
qed

theorem tick_keeps:
  assumes "\<And>ph. ok (E ph)"
  shows "keeps all_orders (Tick E)"
proof -
  have ext: "keeps all_orders (extend_if_active e)" for e
    by (rule frame_keeps) (simp add: extend_if_active_def ExtendBurst_def only_if_def)
  have reset: "keeps all_orders (modify (panicked_update (\<lambda>_. False)))"
    by (rule frame_keeps) simp
  have "keeps all_orders (unless_panicked m)" if "m \<in> set (phases E)" for m
  proof -
    have "keeps all_orders m"
      using that assms simple_phases rail_phases reload_phase ext by (auto simp: phases_def)
    then show ?thesis by (simp add: keeps_def)
  qed
  then show ?thesis
    unfolding Tick_def Let_def
    by (intro keeps_intros cleanup_phase reset)
qed

lemma new_order:
  assumes "all_orders w" "bridge_status r = Pending" "gateway_order_id r = ''''"
    "find_order (ord_id r) w = None" "trace (ord_id r) w = []"
  shows "all_orders (w\<lparr>orders := orders w @ [r]\<rparr>)"
proof -
  let ?w = "w\<lparr>orders := orders w @ [r]\<rparr>"
  have "P i ?w" for i
  proof (cases "i = ord_id r")
    case True
    then show ?thesis using assms by (intro created [of r]) simp_all
  next
    case False
    then have "find_order i ?w = find_order i w" by (simp split: option.split)
    then show ?thesis using view [of i ?w w] assms(1) by (simp add: all_orders_def)
  qed
  moreover have "ord_id r \<notin> ord_id ` set (orders w)"
    using assms(4) by (auto simp: find_order_def find_None_iff)
  ultimately show ?thesis using assms(1) by (auto simp: all_orders_def uniq_def)
qed

theorem run: "dispatcher_run ok w \<Longrightarrow> all_orders w"
proof (induction rule: dispatcher_run.induct)
  case (init w)
  then have "P i w" for i by (intro absent) (simp add: find_order_def)
  with init show ?case by (simp add: all_orders_def uniq_def)
next
  case (create w r)
  then show ?case by (intro new_order)
next
  case (tick w E)
  then show ?case using tick_keeps [of E] by (simp add: keeps_def)
next
  case (outside w w')
  then show ?case using frame_orders by blast
qed

end

end
