(* ===== verification/Route_Focus.thy ===== *)
theory Route_Focus imports Route_Contract begin

text \<open>
  Reasoning about one handler at a time: assertions on the row and the trace of one order, the
  rule of the guarded update and of an external call, and the operations that cannot affect
  such an assertion.
\<close>

definition at_order :: "nat \<Rightarrow> (route_order option \<Rightarrow> call list \<Rightarrow> bool) \<Rightarrow> world \<Rightarrow> bool" where
  "at_order i F w \<longleftrightarrow> F (find_order i w) (trace i w)"

interpretation focus: frame_law "at_order i F" for i F
  by unfold_locales (simp add: at_order_def find_order_def trace_def)

lemma hoare_focus: "keeps (at_order i F) m \<Longrightarrow> hoare (at_order i F) m (\<lambda>_. at_order i F)"
  by (simp add: keeps_hoare)

lemma hoare_update:
  assumes id: "\<And>r. ord_id (f r) = ord_id r"
    and some: "\<And>r tr. F (Some r) tr \<Longrightarrow> g r \<Longrightarrow>
        Q Saved (Some ((f r)\<lparr>updated_at := now e\<rparr>)) tr \<and> Q DbErr (Some ((f r)\<lparr>updated_at := now e\<rparr>)) tr"
    and stale: "\<And>r tr. F (Some r) tr \<Longrightarrow> \<not> g r \<Longrightarrow> Q Stale (Some r) tr"
    and none: "\<And>tr. F None tr \<Longrightarrow> Q Stale None tr"
    and err: "\<And>r tr. F r tr \<Longrightarrow> Q DbErr r tr"
  shows "hoare (at_order i F) (update_one e s i g f) (\<lambda>x. at_order i (Q x))"
proof -
  have "at_order i (Q x) w'" if F: "at_order i F w" and run: "run_state (update_one e s i g f) w = (x, w')" for w x w'
  proof (cases "dbf e s i = DbFail")
    case True
    then show ?thesis using F run err by (auto simp: update_one_def at_order_def)
  next
    case False
    show ?thesis
    proof (cases "find_order i w")
      case None
      then show ?thesis using False F run none by (auto simp: update_one_def at_order_def)
    next
      case (Some r)
      then show ?thesis
        using False F run some [of r "trace i w"] stale [of r "trace i w"]
        by (cases "g r") (auto simp: update_one_def at_order_def id)
    qed
  qed
  then show ?thesis by (auto simp: hoare_def)
qed

text \<open>The common case: the assertion is kept whatever the update reports.\<close>

lemma hoare_update_any:
  assumes "\<And>r. ord_id (f r) = ord_id r"
    and "\<And>r tr. F (Some r) tr \<Longrightarrow> g r \<Longrightarrow> F (Some ((f r)\<lparr>updated_at := now e\<rparr>)) tr"
  shows "hoare (at_order i F) (update_one e s i g f) (\<lambda>x. at_order i F)"
  by (rule hoare_update [where Q = "\<lambda>_. F"]) (use assms in auto)

lemma hoare_call:
  assumes "call_order c = i" "\<And>r tr. F r tr \<Longrightarrow> Q r (tr @ [c])"
  shows "hoare (at_order i F) (log_call c) (\<lambda>_. at_order i Q)"
  using assms by (auto simp: hoare_def log_call_def at_order_def)

lemma hoare_sampled:
  assumes "hoare (at_order i F) body (\<lambda>_. at_order i Q)"
  shows "hoare (at_order i F) (sampled e j s body) (\<lambda>_. at_order i Q)"
  unfolding sampled_def
  by (rule hoare_bind [OF hoare_focus], rule focus.timers_law,
      rule hoare_bind [OF assms], rule hoare_bind [OF hoare_focus], rule focus.timers_law,
      rule hoare_return)

lemma hoare_then:
  "hoare P m (\<lambda>_. P') \<Longrightarrow> hoare P' n Q \<Longrightarrow> hoare P (do { _ \<leftarrow> m; n }) Q"
  by (rule hoare_bind)

lemma hoare_only_if:
  "(b \<Longrightarrow> hoare P m (\<lambda>_. Q)) \<Longrightarrow> (\<And>w. P w \<Longrightarrow> Q w) \<Longrightarrow> hoare P (only_if b m) (\<lambda>_. Q)"
  by (auto simp: only_if_def hoare_return)

lemma at_order_weaken: "(\<And>r tr. F r tr \<Longrightarrow> G r tr) \<Longrightarrow> at_order i F w \<Longrightarrow> at_order i G w"
  by (simp add: at_order_def)

end
