(* ===== verification/Route_Payout.thy ===== *)
theory Route_Payout imports Route_Focus begin

text \<open>
  The merchant is never paid twice. A payout of an order is open from the call that may have
  submitted it (a rail transfer, a gateway order) until the rail or the settlement aggregator
  has reported that it failed or came back. The invariant ties the open payout to the row:
  which states may have one, and that the row still names it. It is kept by every handler on
  a fresh row, hence by every tick, hence along every run of the dispatcher.
\<close>

section \<open>Open payouts\<close>

datatype payout = ByTransfer string | ByGateway string

fun pay_step :: "call \<Rightarrow> payout list \<Rightarrow> payout list" where
  "pay_step (CallTransfer _ ref _ oc) op = (if oc = Refused then op else op @ [ByTransfer ref])"
| "pay_step (PolledFailed _ ref) op = removeAll (ByTransfer ref) op"
| "pay_step (CallGateway _ _ _ _ oc) op = (case oc of Refused \<Rightarrow> op
     | Lost \<Rightarrow> op @ [ByGateway ''''] | Done g \<Rightarrow> op @ [ByGateway g])"
| "pay_step (PolledReturned _ g) op = removeAll (ByGateway g) op"
| "pay_step _ op = op"

definition open_payouts :: "call list \<Rightarrow> payout list" where
  "open_payouts tr = fold pay_step tr []"

text \<open>At no point of the trace are two payouts of the order open.\<close>

definition never_twice :: "call list \<Rightarrow> bool" where
  "never_twice tr = list_all (\<lambda>p. length (open_payouts p) \<le> 1) (prefixes tr)"

text \<open>A float reload has been submitted for the order.\<close>

fun is_reload :: "call \<Rightarrow> bool" where
  "is_reload (CallReload _ _ _ oc) = (oc \<noteq> Refused)"
| "is_reload _ = False"

definition reloaded :: "call list \<Rightarrow> bool" where
  "reloaded tr = list_ex is_reload tr"

lemma open_snoc [simp]: "open_payouts (tr @ [c]) = pay_step c (open_payouts tr)"
  by (simp add: open_payouts_def)

lemma open_Nil [simp]: "open_payouts [] = []"
  by (simp add: open_payouts_def)

lemma never_twice_snoc [simp]:
  "never_twice (tr @ [c]) \<longleftrightarrow> never_twice tr \<and> length (pay_step c (open_payouts tr)) \<le> 1"
  by (auto simp: never_twice_def)

lemma never_twice_Nil [simp]: "never_twice []"
  by (simp add: never_twice_def)

lemma reloaded_snoc [simp]: "reloaded (tr @ [c]) \<longleftrightarrow> reloaded tr \<or> is_reload c"
  by (simp add: reloaded_def)

lemma reloaded_Cons [simp]: "reloaded (c # tr) \<longleftrightarrow> is_reload c \<or> reloaded tr"
  by (simp add: reloaded_def)

lemma reloaded_Nil [simp]: "\<not> reloaded []"
  by (simp add: reloaded_def)

section \<open>The invariant of one order\<close>

definition pays_right :: "payout list \<Rightarrow> bool \<Rightarrow> route_order \<Rightarrow> bool" where
  "pays_right op rel r \<longleftrightarrow> (case ord_mode r of
     Lp \<Rightarrow> (if bridge_status r \<in> {Settled, Refunded} then True
            else if bridge_status r = Dispatching
            then op = [] \<or> (\<exists>g. op = [ByGateway g] \<and> (gateway_order_id r = '''' \<or> gateway_order_id r = g))
            else op = [] \<and> gateway_order_id r = [])
   | Treasury \<Rightarrow> (gateway_order_id r \<noteq> '''' \<longrightarrow> rel) \<and>
           (if bridge_status r \<in> {Settled, Refunded} then True
            else if bridge_status r = Dispatching
            then op = [] \<or> op = [ByTransfer (treasury_payout_ref r)]
            else op = [])
   | LpNetwork \<Rightarrow> gateway_order_id r = '''' \<and>
           (if bridge_status r \<in> {Settled, Refunded} then True
            else if bridge_status r = Dispatching
            then op = [] \<or> op = [ByTransfer (treasury_payout_ref r)]
            else op = []))"

text \<open>An order that left Route C after its float reload was submitted is not covered: its row
  then carries the reload's gateway id, which the lp poller takes for the merchant's.\<close>

definition derailed :: "call list \<Rightarrow> route_order \<Rightarrow> bool" where
  "derailed tr r \<longleftrightarrow> ord_mode r = Lp \<and> reloaded tr"

definition pay_safe :: "call list \<Rightarrow> route_order \<Rightarrow> bool" where
  "pay_safe tr r \<longleftrightarrow> derailed tr r \<or>
     never_twice tr \<and> pays_right (open_payouts tr) (reloaded tr) r"

definition paid_once :: "nat \<Rightarrow> world \<Rightarrow> bool" where
  "paid_once i w \<longleftrightarrow> (\<forall>r. find_order i w = Some r \<longrightarrow> pay_safe (trace i w) r)"

text \<open>What the code assumes of the rails: a transfer call that returns an error has not been
  carried out.\<close>

definition errors_unsubmitted :: "env \<Rightarrow> bool" where
  "errors_unsubmitted e \<longleftrightarrow> (\<forall>rail req. rail_transfer e rail req \<noteq> TransferErr True)"

lemmas safe_defs = pay_safe_def pays_right_def derailed_def waiting_def

section \<open>Handlers that do not touch payouts\<close>

definition pay_neutral :: "call \<Rightarrow> bool" where
  "pay_neutral c \<longleftrightarrow> (\<forall>op. pay_step c op = op) \<and> \<not> is_reload c"

definition keeps_safe :: "route_order \<Rightarrow> route_order \<Rightarrow> bool" where
  "keeps_safe r s \<longleftrightarrow> ord_id s = ord_id r \<and> (\<forall>tr. pay_safe tr r \<longrightarrow> pay_safe tr s)"

lemma safe_neutral:
  "pay_safe tr r \<Longrightarrow> \<forall>c \<in> set cs. pay_neutral c \<Longrightarrow> pay_safe (tr @ cs) r"
proof (induction cs rule: rev_induct)
  case (snoc c cs)
  then have safe: "pay_safe (tr @ cs) r" and c: "\<And>op. pay_step c op = op" "\<not> is_reload c"
    by (simp_all add: pay_neutral_def)
  have "never_twice tr' \<Longrightarrow> length (open_payouts tr') \<le> Suc 0" for tr'
    by (simp add: never_twice_def list_all_iff)
  with safe c have "pay_safe ((tr @ cs) @ [c]) r"
    by (auto simp: pay_safe_def derailed_def simp del: append_assoc)
  then show ?case by simp
qed simp

text \<open>Rows that differ only where the invariant does not look, and rows outside dispatch.\<close>

definition quiet :: "route_order \<Rightarrow> bool" where
  "quiet r \<longleftrightarrow> bridge_status r \<notin> {Dispatching, Settled, Refunded}"

definition same_key :: "route_order \<Rightarrow> route_order \<Rightarrow> bool" where
  "same_key r s \<longleftrightarrow> ord_id s = ord_id r \<and> ord_mode s = ord_mode r \<and> gateway_order_id s = gateway_order_id r"

lemma pays_right_quiet:
  "quiet r \<Longrightarrow> pays_right op rel r \<longleftrightarrow>
     op = [] \<and> (gateway_order_id r = [] \<or> ord_mode r = Treasury \<and> rel)"
  by (cases "ord_mode r") (auto simp: quiet_def pays_right_def)

lemma keeps_safeI:
  "ord_id s = ord_id r \<Longrightarrow> ord_mode s = ord_mode r \<Longrightarrow>
   (\<And>op rel. pays_right op rel r \<Longrightarrow> pays_right op rel s) \<Longrightarrow> keeps_safe r s"
  by (auto simp: keeps_safe_def pay_safe_def derailed_def)

lemma keeps_safe_same:
  "same_key r s \<Longrightarrow> bridge_status s = bridge_status r \<Longrightarrow>
   treasury_payout_ref s = treasury_payout_ref r \<Longrightarrow> keeps_safe r s"
  by (rule keeps_safeI) (auto simp: same_key_def pays_right_def split: order_mode.splits if_splits)

lemma keeps_safe_quiet: "quiet r \<Longrightarrow> quiet s \<Longrightarrow> same_key r s \<Longrightarrow> keeps_safe r s"
  by (rule keeps_safeI) (simp_all add: pays_right_quiet same_key_def)

lemma keeps_safe_enter:
  "quiet r \<Longrightarrow> bridge_status s = Dispatching \<Longrightarrow> same_key r s \<Longrightarrow> keeps_safe r s"
proof (rule keeps_safeI)
  fix op rel
  assume s: "bridge_status s = Dispatching" "same_key r s" and "quiet r" "pays_right op rel r"
  then have "op = [] \<and> (gateway_order_id r = [] \<or> ord_mode r = Treasury \<and> rel)"
    using pays_right_quiet by blast
  with s show "pays_right op rel s"
    by (auto simp: pays_right_def same_key_def split: order_mode.split)
qed (simp_all add: same_key_def)

lemma keeps_safe_done:
  "bridge_status s \<in> {Settled, Refunded} \<Longrightarrow> same_key r s \<Longrightarrow> keeps_safe r s"
  by (rule keeps_safeI) (auto simp: same_key_def pays_right_def split: order_mode.splits)

lemma keeps_safe_leave:
  assumes "quiet r" "s = r\<lparr>ord_mode := Lp\<rparr>"
  shows "keeps_safe r s"
proof -
  have "quiet s" using assms by (simp add: quiet_def)
  then show ?thesis
    using assms by (auto simp: keeps_safe_def pay_safe_def derailed_def pays_right_quiet)
qed

interpretation plain: row_relation keeps_safe pay_neutral
proof unfold_locales
  show "keeps_safe r s" if "keeps_safe r t" "keeps_safe t s" for r s t
    using that by (simp add: keeps_safe_def)
  show "keeps_safe r (r\<lparr>updated_at := t\<rparr>)" for r t
    by (rule keeps_safe_same) (simp_all add: same_key_def)
qed (simp_all add: keeps_safe_def)

interpretation plain: start_relation keeps_safe pay_neutral
  by unfold_locales
    (auto simp: waiting_def quiet_def same_key_def pay_neutral_def intro: keeps_safe_quiet keeps_safe_same)

interpretation plain: arrival_relation keeps_safe pay_neutral
  by unfold_locales (auto simp: quiet_def same_key_def intro: keeps_safe_quiet)

interpretation plain: delivery_relation keeps_safe pay_neutral
  by unfold_locales
    (auto simp: same_key_def pay_neutral_def intro: keeps_safe_done keeps_safe_same)

interpretation plain: fallback_relation keeps_safe pay_neutral
  by unfold_locales (auto simp: quiet_def waiting_def intro: keeps_safe_leave)

interpretation plain: observe_relation keeps_safe pay_neutral
  by unfold_locales (auto simp: same_key_def intro: keeps_safe_same)

lemma plain_keeps:
  assumes "\<And>w. keeps (plain.lifted i w) m" "paid_once i w"
  shows "paid_once i (snd (run_state m w))"
proof -
  have "plain.lifted i w (snd (run_state m w))"
    by (rule keepsD [OF assms(1) plain.lifted_refl])
  note v = plain.lifted_view(1,2) [OF this]
  then obtain cs where cs: "trace i (snd (run_state m w)) = trace i w @ cs" "\<forall>c \<in> set cs. pay_neutral c"
    by auto
  show ?thesis
    unfolding paid_once_def
  proof (intro allI impI)
    fix s
    assume "find_order i (snd (run_state m w)) = Some s"
    then obtain r where "find_order i w = Some r" "keeps_safe r s"
      using v(1) by (cases "find_order i w") auto
    then show "pay_safe (trace i (snd (run_state m w))) s"
      using assms(2) cs safe_neutral by (auto simp: paid_once_def keeps_safe_def)
  qed
qed

section \<open>Handlers that pay\<close>

lemma mode_stays_lp: "moves r s \<Longrightarrow> ord_mode r = Lp \<Longrightarrow> ord_mode s = Lp"
proof (induction rule: rtranclp_induct)
  case (step s t)
  have "row_move s t \<Longrightarrow> ord_mode s = Lp \<Longrightarrow> ord_mode t = Lp"
    by (induction rule: row_move.induct) simp_all
  with step show ?case by simp
qed simp

lemma reloaded_append [simp]: "reloaded (tr @ cs) \<longleftrightarrow> reloaded tr \<or> reloaded cs"
  by (simp add: reloaded_def)

lemma derailed_stays:
  assumes "evolves i w w'" "find_order i w = Some r" "derailed (trace i w) r"
  shows "paid_once i w'"
proof -
  note v = machine.lifted_view(1,2) [OF assms(1)]
  then obtain cs where "trace i w' = trace i w @ cs" by auto
  moreover obtain s where "find_order i w' = Some s" "moves r s"
    using v(1) assms(2) by (auto simp: option_rel_Some1)
  ultimately show ?thesis
    using assms(3) mode_stays_lp by (auto simp: paid_once_def pay_safe_def derailed_def)
qed

text \<open>Assertions on an order in one mode: nothing open, or one payout open and claimed.\<close>

definition idle :: "order_mode \<Rightarrow> bridge_status set \<Rightarrow> route_order option \<Rightarrow> call list \<Rightarrow> bool" where
  "idle m S o_row tr \<longleftrightarrow> (case o_row of None \<Rightarrow> True | Some r \<Rightarrow>
     ord_mode r = m \<and> bridge_status r \<in> S \<and> never_twice tr \<and> open_payouts tr = [] \<and>
     (gateway_order_id r = [] \<or> m = Treasury \<and> reloaded tr))"

definition safe_row :: "route_order option \<Rightarrow> call list \<Rightarrow> bool" where
  "safe_row o_row tr \<longleftrightarrow> (case o_row of None \<Rightarrow> True | Some r \<Rightarrow> pay_safe tr r)"

lemma paid_once_at: "paid_once i w = at_order i safe_row w"
  by (auto simp: paid_once_def at_order_def safe_row_def split: option.split)

lemma idle_safe: "idle m S r tr \<Longrightarrow> safe_row r tr"
  by (auto simp: idle_def safe_row_def pay_safe_def pays_right_def split: option.splits order_mode.splits)

lemma safe_idle:
  assumes "paid_once i w" "find_order i w = Some r" "\<not> derailed (trace i w) r" "quiet r"
  shows "at_order i (idle (ord_mode r) {bridge_status r}) w"
  using assms pays_right_quiet [of r]
  by (auto simp: paid_once_def pay_safe_def at_order_def idle_def)

lemma idle_mono: "S \<subseteq> T \<Longrightarrow> idle m S r tr \<Longrightarrow> idle m T r tr"
  by (auto simp: idle_def split: option.splits)

text \<open>The gateway order: claimed, then open.\<close>

definition gateway_open :: "string \<Rightarrow> route_order option \<Rightarrow> call list \<Rightarrow> bool" where
  "gateway_open g o_row tr \<longleftrightarrow> (case o_row of None \<Rightarrow> True | Some r \<Rightarrow>
     ord_mode r = Lp \<and> bridge_status r = Dispatching \<and> never_twice tr \<and>
     open_payouts tr = [ByGateway g] \<and> (gateway_order_id r = [] \<or> gateway_order_id r = g))"

lemma gateway_open_safe: "gateway_open g r tr \<Longrightarrow> safe_row r tr"
  by (auto simp: gateway_open_def safe_row_def pay_safe_def pays_right_def split: option.splits)

lemma hoare_safe: "hoare P m (\<lambda>_. at_order i F) \<Longrightarrow> (\<And>r tr. F r tr \<Longrightarrow> safe_row r tr) \<Longrightarrow> hoare P m (\<lambda>_. at_order i safe_row)"
  by (erule hoare_weaken) (auto simp: at_order_def)

lemma gateway_created:
  "hoare (at_order i (idle Lp {Dispatching}))
     (log_call (CallGateway i acct a fee (Done g))) (\<lambda>_. at_order i (gateway_open g))"
  "hoare (at_order i (idle Lp {Dispatching}))
     (log_call (CallGateway i acct a fee Lost)) (\<lambda>_. at_order i (gateway_open []))"
  "hoare (at_order i (idle Lp {Dispatching}))
     (log_call (CallGateway i acct a fee Refused)) (\<lambda>_. at_order i (idle Lp {Dispatching}))"
  by (rule hoare_call, simp, simp add: idle_def gateway_open_def split: option.splits)+

lemma safe_return:
  "(\<And>r tr. F r tr \<Longrightarrow> safe_row r tr) \<Longrightarrow> hoare (at_order i F) (return x) (\<lambda>_. at_order i safe_row)"
  by (rule hoare_return) (simp add: at_order_def)

lemma safe_burst:
  "(\<And>r tr. F r tr \<Longrightarrow> safe_row r tr) \<Longrightarrow>
   hoare (at_order i F) (do { ExtendBurst e; return x }) (\<lambda>_. at_order i safe_row)"
  by (rule hoare_then [OF hoare_focus [OF focus.small_laws(2)]]) (rule safe_return)

text \<open>The three outcomes of \<open>createOrder\<close> on a claimed order.\<close>

lemma gateway_ambiguous:
  "hoare (at_order i (idle Lp {Dispatching})) (do {
      log_call (CallGateway i acct a fee Lost);
      _ \<leftarrow> update_one e SMarkAmbiguous i (\<lambda>r. bridge_status r = Dispatching)
        (\<lambda>r. r\<lparr>failure_reason := why\<rparr>);
      return x }) (\<lambda>_. at_order i safe_row)"
  by (rule hoare_then [OF gateway_created(2)], rule hoare_then, rule hoare_update_any,
      simp, simp add: gateway_open_def, rule safe_return, erule gateway_open_safe)

lemma gateway_refused:
  "hoare (at_order i (idle Lp {Dispatching})) (do {
      log_call (CallGateway i acct a fee Refused);
      _ \<leftarrow> update_one e SRevertDispatch i
        (\<lambda>r. bridge_status r = Dispatching \<and> gateway_order_id r = []) (\<lambda>r. r\<lparr>bridge_status := Bridged\<rparr>);
      return x }) (\<lambda>_. at_order i safe_row)"
  by (rule hoare_then [OF gateway_created(3)], rule hoare_then,
      rule hoare_update [where Q = "\<lambda>_. idle Lp {Bridged, Dispatching}"])
    (auto simp: idle_def split: option.splits intro!: safe_return [OF idle_safe])

lemma gateway_done:
  "hoare (at_order i (idle Lp {Dispatching})) (do {
      log_call (CallGateway i acct a fee (Done g));
      s \<leftarrow> update_one e SPersistGateway i (\<lambda>r. bridge_status r = Dispatching) (persist_gateway e fee' g tx);
      if s \<noteq> Saved then return x else do { ExtendBurst e; return y } }) (\<lambda>_. at_order i safe_row)"
  by (rule hoare_then [OF gateway_created(1)], rule hoare_bind, rule hoare_update_any,
      simp add: persist_gateway_def, simp add: gateway_open_def persist_gateway_def,
      rule hoare_if, rule safe_return, erule gateway_open_safe, rule safe_burst, erule gateway_open_safe)

lemma submit_gateway_idle:
  "hoare (at_order i (idle Lp {Bridged})) (submit_gateway e i rc a fee rate) (\<lambda>_. at_order i safe_row)"
  unfolding submit_gateway_def
proof (rule hoare_bind)
  let ?Q = "\<lambda>c. idle Lp (if c = Saved then {Dispatching} else {Bridged, Dispatching})"
  show "hoare (at_order i (idle Lp {Bridged}))
      (update_one e SClaimDispatch i (\<lambda>r. bridge_status r = Bridged) (\<lambda>r. r\<lparr>bridge_status := Dispatching\<rparr>))
      (\<lambda>c. at_order i (?Q c))"
    by (rule hoare_update) (auto simp: idle_def split: option.splits)
next
  fix c
  show "hoare (at_order i (idle Lp (if c = Saved then {Dispatching} else {Bridged, Dispatching})))
    (if isStaleTransition c then return None
     else if c = DbErr then return (Some (Err ''claim for dispatching''))
     else case create_order e i \<lparr>cp_amount = a, cp_rate = rate, cp_fee = fee, cp_recipient = rcpt_account rc\<rparr> of
       SubmittedUnconfirmed tx \<Rightarrow> do {
         log_call (CallGateway i (rcpt_account rc) a fee Lost);
         _ \<leftarrow> update_one e SMarkAmbiguous i (\<lambda>r. bridge_status r = Dispatching)
           (\<lambda>r. r\<lparr>failure_reason := CreateOrderUnconfirmed tx\<rparr>);
         return (Some (Err ''createOrder (ambiguous; order parked)''))
       }
     | CreateErr \<Rightarrow> do {
         log_call (CallGateway i (rcpt_account rc) a fee Refused);
         _ \<leftarrow> update_one e SRevertDispatch i
           (\<lambda>r. bridge_status r = Dispatching \<and> gateway_order_id r = [])
           (\<lambda>r. r\<lparr>bridge_status := Bridged\<rparr>);
         return (Some (Err ''createOrder''))
       }
     | Created gid tx \<Rightarrow> do {
         log_call (CallGateway i (rcpt_account rc) a fee (Done (to_lower gid)));
         s \<leftarrow> update_one e SPersistGateway i (\<lambda>r. bridge_status r = Dispatching)
           (persist_gateway e fee (to_lower gid) tx);
         if s \<noteq> Saved then return (Some (Err ''persist gateway order id (already on-chain!)''))
         else do { ExtendBurst e; return None }
       }) (\<lambda>_. at_order i safe_row)"
    using gateway_ambiguous gateway_refused gateway_done
    by (cases c) (auto simp: isStaleTransition_def split: create_res.split intro!: safe_return [OF idle_safe])
qed

lemma paid_hoare:
  assumes "hoare (at_order i F) m (\<lambda>_. at_order i safe_row)" "at_order i F w"
  shows "paid_once i (snd (run_state m w))"
  using assms by (cases "run_state m w") (auto simp: paid_once_at hoare_def)

lemma dispatchLP_paid:
  assumes "fresh l w" "paid_once (ord_id (row l)) w" "bridge_status (row l) = Bridged" "ord_mode (row l) = Lp"
  shows "paid_once (ord_id (row l)) (snd (run_state (dispatchLP e l) w))"
proof (cases "derailed (trace (ord_id (row l)) w) (row l)")
  case True
  then show ?thesis
    using assms by (intro derailed_stays [OF keepsD [OF machine.dispatchLP_law machine.lifted_refl]])
      (auto simp: fresh_def)
next
  case False
  let ?i = "ord_id (row l)"
  have "at_order ?i (idle Lp {Bridged}) w"
    using safe_idle [OF assms(2) _ False] assms by (simp add: fresh_def quiet_def)
  moreover have "hoare (at_order ?i (idle Lp {Bridged})) (dispatchLP e l) (\<lambda>_. at_order ?i safe_row)"
    unfolding dispatchLP_def Let_def
    by (auto split: option.splits sum.splits prod.splits
        intro!: hoare_sampled safe_return [OF idle_safe] submit_gateway_idle
          hoare_then [OF hoare_focus [OF focus.small_laws(3)]]
          hoare_bind [OF hoare_focus [OF focus.ensure_allowance_law]])
  ultimately show ?thesis by (rule paid_hoare [rotated])
qed

lemma hoare_prop: "(c \<Longrightarrow> hoare P m Q) \<Longrightarrow> hoare (\<lambda>w. c \<and> P w) m Q"
  by (auto simp: hoare_def)

text \<open>Handlers that obey the plain relation keep the assertion.\<close>

lemma hoare_plain:
  "(\<And>w. keeps (plain.lifted i w) m) \<Longrightarrow> hoare (at_order i safe_row) m (\<lambda>_. at_order i safe_row)"
  unfolding hoare_def paid_once_at [symmetric] using plain_keeps [of i m] by (metis snd_conv)

lemma hoare_plain_from:
  "(\<And>w. keeps (plain.lifted i w) m) \<Longrightarrow> (\<And>r tr. F r tr \<Longrightarrow> safe_row r tr) \<Longrightarrow>
   hoare (at_order i F) m (\<lambda>_. at_order i safe_row)"
  by (rule hoare_weaken [OF hoare_plain]) (auto simp: at_order_def)

lemmas safe_any = safe_return [where F = safe_row]

section \<open>Polling the gateway order\<close>

definition gateway_claimed :: "string \<Rightarrow> route_order option \<Rightarrow> call list \<Rightarrow> bool" where
  "gateway_claimed g o_row tr \<longleftrightarrow> (case o_row of None \<Rightarrow> True | Some r \<Rightarrow>
     ord_mode r = Lp \<and> bridge_status r = Dispatching \<and> gateway_order_id r = g \<and>
     never_twice tr \<and> (open_payouts tr = [] \<or> open_payouts tr = [ByGateway g]))"

text \<open>The polled status's update leads to a safe row.\<close>

definition poll_ready :: "(route_order \<Rightarrow> route_order) \<Rightarrow> route_order option \<Rightarrow> call list \<Rightarrow> bool" where
  "poll_ready upd o_row tr \<longleftrightarrow> safe_row o_row tr \<and> (case o_row of None \<Rightarrow> True | Some r \<Rightarrow>
     (\<forall>st t u. pay_safe tr ((upd (r\<lparr>settlement_status := st, settlement_polled_at := t\<rparr>))\<lparr>updated_at := u\<rparr>)))"

lemma gateway_returned:
  "g \<noteq> [] \<Longrightarrow> hoare (at_order i (gateway_claimed g)) (log_call (PolledReturned i g))
     (\<lambda>_. at_order i (\<lambda>o_row tr. gateway_claimed g o_row tr \<and> (o_row \<noteq> None \<longrightarrow> open_payouts tr = [])))"
  by (rule hoare_call) (auto simp: gateway_claimed_def split: option.splits)

lemma poll_ready_settled:
  "gateway_claimed g o_row tr \<Longrightarrow> poll_ready (\<lambda>r. r\<lparr>bridge_status := Settled\<rparr>) o_row tr"
  "gateway_claimed g o_row tr \<Longrightarrow> poll_ready (\<lambda>r. r\<lparr>bridge_status := Refunded\<rparr>) o_row tr"
  "gateway_claimed g o_row tr \<Longrightarrow> poll_ready id o_row tr"
  by (auto simp: poll_ready_def gateway_claimed_def safe_row_def pay_safe_def pays_right_def split: option.splits)

lemma poll_ready_retry:
  "gateway_claimed g o_row tr \<Longrightarrow> (o_row \<noteq> None \<Longrightarrow> open_payouts tr = []) \<Longrightarrow>
   poll_ready (\<lambda>r. r\<lparr>bridge_status := Bridged, settlement_status := '''', gateway_order_id := ''''\<rparr>) o_row tr"
  by (auto simp: poll_ready_def gateway_claimed_def safe_row_def pay_safe_def pays_right_def split: option.splits)

lemma return_ready:
  "(\<And>r. ord_id (upd r) = ord_id r) \<Longrightarrow> (\<And>o_row tr. F o_row tr \<Longrightarrow> poll_ready upd o_row tr) \<Longrightarrow>
   hoare (at_order i F) (return (upd, fl))
     (\<lambda>p w. (\<forall>r. ord_id (fst p r) = ord_id r) \<and> at_order i (poll_ready (fst p)) w)"
  by (rule hoare_return) (simp add: at_order_def)

lemma poll_outcome_ready:
  assumes "gateway_order_id (row l) = g" "g \<noteq> []"
  shows "hoare (at_order (ord_id (row l)) (gateway_claimed g)) (poll_outcome e l st)
     (\<lambda>p w. (\<forall>r. ord_id (fst p r) = ord_id r) \<and> at_order (ord_id (row l)) (poll_ready (fst p)) w)"
  unfolding poll_outcome_def Let_def assms(1)
  by (rule hoare_if, rule hoare_then [OF hoare_focus [OF focus.set_po_law(2)]],
      rule return_ready, simp, erule poll_ready_settled,
      rule hoare_if, rule hoare_then [OF gateway_returned [OF assms(2)]],
      rule hoare_bind [OF hoare_focus [OF focus.reads_law(2)]],
      rule hoare_if, rule hoare_then [OF hoare_focus [OF focus.LogOnce_law]],
      rule return_ready, simp, erule conjE, erule poll_ready_retry, simp,
      rule hoare_then [OF hoare_focus [OF focus.set_po_law(2)]],
      rule return_ready, simp, erule conjE, erule poll_ready_settled,
      rule return_ready, simp, erule poll_ready_settled)

lemma poll_dispatching_claimed:
  "hoare (at_order (ord_id (row l)) (gateway_claimed (gateway_order_id (row l)))) (poll_dispatching e l)
     (\<lambda>_. at_order (ord_id (row l)) safe_row)"
proof (cases "gateway_order_id (row l) = []")
  case True
  then show ?thesis
    by (auto simp: poll_dispatching_def intro!: safe_return)
      (auto simp: gateway_claimed_def safe_row_def pay_safe_def pays_right_def split: option.splits)
next
  case False
  let ?i = "ord_id (row l)"
  have claimed: "safe_row r tr" if "gateway_claimed (gateway_order_id (row l)) r tr" for r tr
    using that by (auto simp: gateway_claimed_def safe_row_def pay_safe_def pays_right_def split: option.splits)
  have upd: "hoare (\<lambda>w. (\<forall>r. ord_id (upd r) = ord_id r) \<and> at_order ?i (poll_ready upd) w)
      (update_one e SPoll ?i (\<lambda>r. bridge_status r = Dispatching)
        (\<lambda>r. upd (r\<lparr>settlement_status := st, settlement_polled_at := t\<rparr>)))
      (\<lambda>_. at_order ?i safe_row)" for upd st t
    by (rule hoare_prop, rule hoare_update) (auto simp: poll_ready_def safe_row_def)
  show ?thesis
    unfolding poll_dispatching_def Let_def
    using False
    by (auto split: option.split prod.split
        intro!: safe_return claimed hoare_bind [OF poll_outcome_ready [OF refl False]]
          hoare_bind [OF upd] hoare_plain keeps_only_if plain.lifted.publishOrderEvent_law)
qed

section \<open>Transfers\<close>

definition transfer_row :: "order_mode \<Rightarrow> string \<Rightarrow> payout list set \<Rightarrow> route_order option \<Rightarrow> call list \<Rightarrow> bool" where
  "transfer_row m ref ops o_row tr \<longleftrightarrow> (case o_row of None \<Rightarrow> True | Some r \<Rightarrow>
     ord_mode r = m \<and> m \<noteq> Lp \<and> bridge_status r = Dispatching \<and> treasury_payout_ref r = ref \<and>
     never_twice tr \<and> open_payouts tr \<in> ops \<and>
     (gateway_order_id r = [] \<or> m = Treasury \<and> reloaded tr))"

abbreviation "nothing_open \<equiv> {[]}"
abbreviation "opened ref \<equiv> {[ByTransfer ref]}"

lemma transfer_row_safe:
  "transfer_row m ref ops r tr \<Longrightarrow> ops \<subseteq> {[], [ByTransfer ref]} \<Longrightarrow> safe_row r tr"
  by (auto simp: transfer_row_def safe_row_def pay_safe_def pays_right_def split: option.splits order_mode.splits)

lemma transfer_called:
  assumes "oc = Refused \<and> ops = nothing_open \<or> oc \<noteq> Refused \<and> ops = opened ref"
  shows "hoare (at_order i (transfer_row m ref nothing_open)) (log_call (CallTransfer i ref a oc))
     (\<lambda>_. at_order i (transfer_row m ref ops))"
  by (rule hoare_call) (use assms in \<open>auto simp: transfer_row_def split: option.splits\<close>)

lemma transfer_failed:
  "hoare (at_order i (transfer_row m ref {[], [ByTransfer ref]})) (log_call (PolledFailed i ref))
     (\<lambda>_. at_order i (transfer_row m ref nothing_open))"
  by (rule hoare_call) (auto simp: transfer_row_def split: option.splits)

text \<open>What the row of a claimed order says about its open payouts.\<close>

lemma safe_transfer:
  assumes "paid_once i w" "find_order i w = Some r" "bridge_status r = Dispatching" "ord_mode r = m" "m \<noteq> Lp"
  shows "at_order i (transfer_row m (treasury_payout_ref r) {[], [ByTransfer (treasury_payout_ref r)]}) w"
  using assms
  by (auto simp: paid_once_def pay_safe_def derailed_def pays_right_def at_order_def transfer_row_def
      split: order_mode.splits)

lemma no_lost: "errors_unsubmitted e \<Longrightarrow> transfer_outcome ref (rail_transfer e rail req) =
    (case rail_transfer e rail req of TransferOk _ \<Rightarrow> Done ref | TransferErr _ \<Rightarrow> Refused)"
  by (auto simp: errors_unsubmitted_def transfer_outcome_def split: transfer_res.split)

lemma hoare_transfer_res:
  assumes "\<And>b. res = TransferErr b \<Longrightarrow> hoare P (f b) Q" "\<And>st. res = TransferOk st \<Longrightarrow> hoare P (g st) Q"
  shows "hoare P (case res of TransferErr b \<Rightarrow> f b | TransferOk st \<Rightarrow> g st) Q"
  using assms by (cases res) auto

subsection \<open>Route C\<close>

lemma payout_refused:
  "hoare (at_order i (transfer_row Treasury ref nothing_open)) (do {
      _ \<leftarrow> update_one e STreasuryRelease i
        (\<lambda>r. bridge_status r = Dispatching \<and> treasury_payout_ref r = ref) (\<lambda>r. r\<lparr>bridge_status := Bridged\<rparr>);
      return x }) (\<lambda>_. at_order i safe_row)"
  by (rule hoare_then, rule hoare_update [where Q = "\<lambda>_. idle Treasury {Bridged, Dispatching}"])
    (auto simp: idle_def transfer_row_def split: option.splits intro!: safe_return [OF idle_safe])

lemma payout_accepted:
  "hoare (at_order i (transfer_row Treasury ref (opened ref))) (do {
      only_if b (finalizeTreasuryPayout e i); ExtendBurst e; return x }) (\<lambda>_. at_order i safe_row)"
  by (rule hoare_weaken [OF hoare_then [OF hoare_plain safe_burst]])
    (auto simp: at_order_def intro: transfer_row_safe
      intro!: keeps_only_if plain.finalizeTreasuryPayout_law)

lemma submit_payout_idle:
  assumes "errors_unsubmitted e"
  shows "hoare (at_order i (idle Treasury {Bridged})) (submit_payout e i rail rc a ref) (\<lambda>_. at_order i safe_row)"
  unfolding submit_payout_def Let_def no_lost [OF assms]
proof (rule hoare_bind)
  let ?Q = "\<lambda>c. if c = Saved then transfer_row Treasury ref nothing_open
                else idle Treasury {Bridged, Dispatching}"
  show "hoare (at_order i (idle Treasury {Bridged}))
      (update_one e STreasuryClaim i (\<lambda>r. bridge_status r = Bridged \<and> ord_mode r = Treasury)
        (\<lambda>r. r\<lparr>treasury_payout_ref := ref, bridge_status := Dispatching\<rparr>))
      (\<lambda>c. at_order i (?Q c))"
    by (rule hoare_update) (auto simp: idle_def transfer_row_def split: option.splits)
next
  fix c
  let ?res = "rail_transfer e rail \<lparr>tr_bank = rcpt_institution rc, tr_account = rcpt_account rc, tr_amount = a, tr_ref = ref\<rparr>"
  have "hoare (at_order i (transfer_row Treasury ref nothing_open)) (do {
      log_call (CallTransfer i ref a (case ?res of TransferOk _ \<Rightarrow> Done ref | TransferErr _ \<Rightarrow> Refused));
      case ?res of
        TransferErr _ \<Rightarrow> do {
          _ \<leftarrow> update_one e STreasuryRelease i
            (\<lambda>r. bridge_status r = Dispatching \<and> treasury_payout_ref r = ref) (\<lambda>r. r\<lparr>bridge_status := Bridged\<rparr>);
          return (Some (Err ''treasury payout submit'')) }
      | TransferOk st \<Rightarrow> do {
          only_if (st = TransferSuccess) (finalizeTreasuryPayout e i);
          ExtendBurst e;
          return None } }) (\<lambda>_. at_order i safe_row)"
    by (cases ?res) (auto intro: hoare_then [OF transfer_called] payout_refused payout_accepted)
  then show "hoare (at_order i (if c = Saved then transfer_row Treasury ref nothing_open
                else idle Treasury {Bridged, Dispatching}))
    (if isStaleTransition c then return None
     else if c = DbErr then return (Some (Err ''claim treasury dispatch''))
     else do {
      log_call (CallTransfer i ref a (case ?res of TransferOk _ \<Rightarrow> Done ref | TransferErr _ \<Rightarrow> Refused));
      case ?res of
        TransferErr _ \<Rightarrow> do {
          _ \<leftarrow> update_one e STreasuryRelease i
            (\<lambda>r. bridge_status r = Dispatching \<and> treasury_payout_ref r = ref) (\<lambda>r. r\<lparr>bridge_status := Bridged\<rparr>);
          return (Some (Err ''treasury payout submit'')) }
      | TransferOk st \<Rightarrow> do {
          only_if (st = TransferSuccess) (finalizeTreasuryPayout e i);
          ExtendBurst e;
          return None } }) (\<lambda>_. at_order i safe_row)"
    by (cases c) (auto simp: isStaleTransition_def intro!: safe_return [OF idle_safe])
qed

lemma dispatchTreasury_idle:
  assumes "errors_unsubmitted e"
  shows "hoare (at_order (ord_id (row l)) (idle Treasury {Bridged})) (dispatchTreasury e l)
     (\<lambda>_. at_order (ord_id (row l)) safe_row)"
proof -
  have fall: "hoare (at_order i (idle Treasury {Bridged})) (do { fallbackToLp e i; return x })
      (\<lambda>_. at_order i safe_row)" for i x
    by (rule hoare_plain_from, intro keeps_bind keeps_return plain.fallbackToLp_law) (rule idle_safe)
  show ?thesis
    unfolding dispatchTreasury_def Let_def
    by (auto split: option.splits intro!: hoare_sampled safe_return [OF idle_safe] fall
        submit_payout_idle [OF assms] hoare_bind [OF hoare_focus [OF focus.reads_law(3)]])
qed

lemma poll_treasury_claimed:
  "hoare (at_order (ord_id (row l)) (transfer_row Treasury (treasury_payout_ref (row l))
      {[], [ByTransfer (treasury_payout_ref (row l))]})) (poll_treasury e rail l)
     (\<lambda>_. at_order (ord_id (row l)) safe_row)"
proof -
  let ?i = "ord_id (row l)" and ?ref = "treasury_payout_ref (row l)"
  have retire: "hoare (at_order i (transfer_row Treasury ref nothing_open)) (do {
      _ \<leftarrow> update_one e SRetire i (\<lambda>r. bridge_status r = Dispatching)
        (\<lambda>r. r\<lparr>bridge_status := Bridged, treasury_payout_ref := ''''\<rparr>);
      return () }) (\<lambda>_. at_order i safe_row)" for i ref
    by (rule hoare_then, rule hoare_update [where Q = "\<lambda>_. idle Treasury {Bridged, Dispatching}"])
      (auto simp: idle_def transfer_row_def split: option.splits intro!: safe_return [OF idle_safe])
  have failed: "hoare (at_order ?i (transfer_row Treasury ?ref {[], [ByTransfer ?ref]})) (do {
      log_call (PolledFailed ?i ?ref);
      LogOnce e ?i TreasuryPayout FailedEv;
      _ \<leftarrow> update_one e SRetire ?i (\<lambda>r. bridge_status r = Dispatching)
        (\<lambda>r. r\<lparr>bridge_status := Bridged, treasury_payout_ref := ''''\<rparr>);
      return () }) (\<lambda>_. at_order ?i safe_row)"
    by (rule hoare_then [OF transfer_failed], rule hoare_then [OF hoare_focus [OF focus.LogOnce_law]], rule retire)
  show ?thesis
    unfolding poll_treasury_def Let_def
    by (auto split: option.split tf_status.split intro!: safe_return hoare_plain_from failed
        plain.finalizeTreasuryPayout_law intro: transfer_row_safe)
qed

subsection \<open>The float reload\<close>

definition treasury_row :: "bool \<Rightarrow> route_order option \<Rightarrow> call list \<Rightarrow> bool" where
  "treasury_row rel o_row tr \<longleftrightarrow> safe_row o_row tr \<and> (case o_row of None \<Rightarrow> True | Some r \<Rightarrow>
     ord_mode r = Treasury \<and> (rel \<longrightarrow> reloaded tr))"

lemma treasury_row_safe: "treasury_row rel r tr \<Longrightarrow> safe_row r tr"
  by (simp add: treasury_row_def)

lemma treasury_row_any: "treasury_row True r tr \<Longrightarrow> treasury_row False r tr"
  by (auto simp: treasury_row_def split: option.splits)

lemma reload_called:
  "hoare (at_order i (treasury_row False)) (log_call (CallReload i acct n oc))
     (\<lambda>_. at_order i (treasury_row (oc \<noteq> Refused)))"
proof (rule hoare_call)
  fix r tr
  assume "treasury_row False r tr"
  moreover have "length (open_payouts tr) \<le> Suc 0" if "never_twice tr"
    using that by (simp add: never_twice_def list_all_iff)
  ultimately show "treasury_row (oc \<noteq> Refused) r (tr @ [CallReload i acct n oc])"
    by (auto simp: treasury_row_def safe_row_def pay_safe_def derailed_def pays_right_def split: option.splits)
qed simp

definition reload_post :: "nat \<Rightarrow> rerr + string \<times> string \<Rightarrow> world \<Rightarrow> bool" where
  "reload_post i res = at_order i (treasury_row (case res of Inl _ \<Rightarrow> False | Inr _ \<Rightarrow> True))"

lemma reload_return: "hoare (at_order i (treasury_row False)) (return (Inl x)) (reload_post i)"
  "hoare (at_order i (treasury_row True)) (return (Inl x)) (reload_post i)"
  "hoare (at_order i (treasury_row True)) (return (Inr y)) (reload_post i)"
  by (rule hoare_return, simp add: reload_post_def at_order_def treasury_row_any)+

lemma createGatewayOrder_post:
  "hoare (at_order i (treasury_row False)) (createGatewayOrder e i b a) (reload_post i)"
proof -
  have lost: "hoare (at_order i (treasury_row False))
      (do { log_call (CallReload i acct n Lost); return (Inl x) }) (reload_post i)"
    and refused: "hoare (at_order i (treasury_row False))
      (do { log_call (CallReload i acct n Refused); return (Inl x) }) (reload_post i)"
    and done_call: "hoare (at_order i (treasury_row False))
      (do { log_call (CallReload i acct n (Done g)); return (Inr y) }) (reload_post i)" for acct n x g y
    by (rule hoare_then [OF reload_called], simp add: reload_return)+
  show ?thesis
    unfolding createGatewayOrder_def Let_def
    by (auto split: option.split create_res.split intro: reload_return lost refused done_call)
qed

lemma submitFloatReload_safe:
  "hoare (at_order (ord_id (row l)) (treasury_row False)) (submitFloatReload e a l)
     (\<lambda>_. at_order (ord_id (row l)) safe_row)"
proof -
  let ?i = "ord_id (row l)"
  have persist: "hoare (at_order i (treasury_row True)) (do {
      s \<leftarrow> update_one e SReloadPersist i (\<lambda>r. gateway_order_id r = '''')
        (\<lambda>r. r\<lparr>gateway_order_id := g, gateway_chain_id := c, bridge_tx_dest := tx\<rparr>);
      if isStaleTransition s then return None
      else if s = DbErr then return x
      else do { ExtendBurst e; return None } }) (\<lambda>_. at_order i safe_row)" for i g c tx x
    by (rule hoare_bind, rule hoare_update_any, simp,
        force simp: treasury_row_def safe_row_def pay_safe_def derailed_def pays_right_def,
        (rule hoare_if safe_return treasury_row_safe safe_burst | assumption)+)
  have res: "hoare (reload_post i res) (case res of Inl x \<Rightarrow> return (Some x)
      | Inr (gid, tx) \<Rightarrow> do {
          s \<leftarrow> update_one e SReloadPersist i (\<lambda>r. gateway_order_id r = '''')
            (\<lambda>r. r\<lparr>gateway_order_id := gid, gateway_chain_id := word_of_int (c_chain_id (cf e)), bridge_tx_dest := tx\<rparr>);
          if isStaleTransition s then return None
          else if s = DbErr then return (Some (Err ''persist reload gateway id (on-chain!)''))
          else do { ExtendBurst e; return None } }) (\<lambda>_. at_order i safe_row)" for i res
    by (cases res) (auto simp: reload_post_def simp del: update_one_def
        intro!: safe_return treasury_row_safe persist)
  show ?thesis
    unfolding submitFloatReload_def Let_def
    by (rule hoare_then [OF hoare_sampled safe_any])
      (auto split: option.split intro!: safe_return treasury_row_safe hoare_bind [OF createGatewayOrder_post res])
qed

subsection \<open>Route B\<close>

lemma find_order_legs [simp]:
  "find_order i (add_balance k d w) = find_order i w" "find_order i (set_entry ref st w) = find_order i w"
  "trace i (add_balance k d w) = trace i w" "trace i (set_entry ref st w) = trace i w"
  by (simp_all add: add_balance_def set_entry_def find_order_def trace_def)

lemma claim_fill_cases:
  assumes "run_state (claim_fill e i k t ref f) w = (c, w')"
  shows "w' = w \<and> c \<noteq> TxCommitted \<or>
    (\<exists>w1 w2. debit_lp k t w = Some w1 \<and> insert_fill (new_uuid e i) f t k w1 = Some w2 \<and>
       claim_order (now e) i ref w2 = Some w')"
  using assms unfolding claim_fill_def
  by (simp split: option.split_asm if_split_asm)

lemma claim_fill_claimed:
  "hoare (at_order i (idle LpNetwork {Pending, AwaitingFunds})) (claim_fill e i k t ref f)
     (\<lambda>c. at_order i (case c of TxCommitted \<Rightarrow> transfer_row LpNetwork ref nothing_open | _ \<Rightarrow> safe_row))"
  unfolding hoare_def
proof (intro allI impI)
  fix w c w'
  assume pre: "at_order i (idle LpNetwork {Pending, AwaitingFunds}) w"
    and run: "run_state (claim_fill e i k t ref f) w = (c, w')"
  from claim_fill_cases [OF run]
  show "at_order i (case c of TxCommitted \<Rightarrow> transfer_row LpNetwork ref nothing_open | _ \<Rightarrow> safe_row) w'"
  proof (elim disjE conjE exE)
    assume "w' = w" "c \<noteq> TxCommitted"
    with pre show ?thesis by (cases c) (auto intro: at_order_weaken [OF idle_safe])
  next
    fix w1 w2
    assume legs: "debit_lp k t w = Some w1" "insert_fill (new_uuid e i) f t k w1 = Some w2"
      and cl: "claim_order (now e) i ref w2 = Some w'"
    have "find_order i w2 = find_order i w" "trace i w2 = trace i w"
      using claim_legs_frame [OF legs] view_frame by blast+
    then have "at_order i (transfer_row LpNetwork ref nothing_open) w'"
      using pre cl
      by (auto simp: at_order_def claim_order_def idle_def transfer_row_def split: option.splits if_splits)
    moreover have "at_order i safe_row w'"
      by (rule at_order_weaken [OF _ calculation]) (erule transfer_row_safe, simp)
    ultimately show ?thesis by (cases c) simp_all
  qed
qed

lemma releaseLpFill_safe:
  "hoare (at_order i (transfer_row LpNetwork ref nothing_open)) (releaseLpFill e i f) (\<lambda>_. at_order i safe_row)"
proof -
  have reset: "safe_row (map_option (\<lambda>r. if bridge_status r = Dispatching
        then r\<lparr>bridge_status := Pending, treasury_payout_ref := '''', updated_at := t\<rparr> else r) o_row) tr"
    if "transfer_row LpNetwork ref nothing_open o_row tr" for o_row tr t
    using that by (auto simp: transfer_row_def safe_row_def pay_safe_def pays_right_def split: option.splits)
  show ?thesis
    unfolding hoare_def releaseLpFill_def reset_order_def
    by (auto simp: at_order_def reset transfer_row_safe split: option.splits)
qed

lemma hoare_claim_tx:
  assumes "hoare (P TxError) a Q" "hoare (P TxStale) b Q" "hoare (P TxCommitted) k Q"
  shows "hoare (P c) (case c of TxError \<Rightarrow> a | TxStale \<Rightarrow> b | TxCommitted \<Rightarrow> k) Q"
  using assms by (cases c) simp_all

lemma submit_fill_idle:
  assumes "errors_unsubmitted e"
  shows "hoare (at_order i (idle LpNetwork {Pending, AwaitingFunds})) (submit_fill e i rail rc t k ref f)
     (\<lambda>_. at_order i safe_row)"
proof -
  let ?res = "rail_transfer e rail \<lparr>tr_bank = rcpt_institution rc, tr_account = rcpt_account rc, tr_amount = t, tr_ref = ref\<rparr>"
  have refused: "hoare (at_order i (transfer_row LpNetwork ref nothing_open)) (do { releaseLpFill e i f; return x })
      (\<lambda>_. at_order i safe_row)" for x
    by (rule hoare_then [OF releaseLpFill_safe safe_any])
  have accepted: "hoare (at_order i (transfer_row LpNetwork ref (opened ref)))
      (do { only_if b (finalizeLpFill e i); ExtendBurst e; return x }) (\<lambda>_. at_order i safe_row)" for b x
    by (rule hoare_weaken [OF hoare_then [OF hoare_plain safe_burst]])
      (auto simp: at_order_def intro: transfer_row_safe intro!: keeps_only_if plain.finalizeLpFill_law)
  have "hoare (at_order i (transfer_row LpNetwork ref nothing_open)) (do {
      log_call (CallTransfer i ref t (case ?res of TransferOk _ \<Rightarrow> Done ref | TransferErr _ \<Rightarrow> Refused));
      case ?res of
        TransferErr _ \<Rightarrow> do { releaseLpFill e i f; return (Some (Err ''lp-network payout submit'')) }
      | TransferOk st \<Rightarrow> do {
          only_if (st = TransferSuccess) (finalizeLpFill e i);
          ExtendBurst e;
          return None } }) (\<lambda>_. at_order i safe_row)"
    by (cases ?res) (auto intro: hoare_then [OF transfer_called] refused accepted)
  then show ?thesis
    unfolding submit_fill_def Let_def no_lost [OF assms]
    by (intro hoare_bind [OF claim_fill_claimed]
        hoare_claim_tx [where P = "\<lambda>c. at_order i (case c of TxCommitted \<Rightarrow> transfer_row LpNetwork ref nothing_open | _ \<Rightarrow> safe_row)"])
      (auto intro: safe_any)
qed

lemma fillViaLpNetwork_idle:
  assumes "errors_unsubmitted e"
  shows "hoare (at_order (ord_id (row l)) (idle LpNetwork {Pending, AwaitingFunds})) (fillViaLpNetwork e l)
     (\<lambda>_. at_order (ord_id (row l)) safe_row)"
proof -
  have fall: "hoare (at_order i (idle LpNetwork {Pending, AwaitingFunds})) (do { lpNetworkFallback e i; return x })
      (\<lambda>_. at_order i safe_row)" for i x
    by (rule hoare_plain_from, intro keeps_bind keeps_return plain.lpNetworkFallback_law) (rule idle_safe)
  show ?thesis
    unfolding fillViaLpNetwork_def Let_def
    by (auto split: option.splits prod.splits intro!: hoare_sampled safe_return [OF idle_safe] fall
        submit_fill_idle [OF assms] hoare_bind [OF hoare_focus [OF focus.reads_law(3)]]
        hoare_bind [OF hoare_focus [OF focus.funds_ready_law]] hoare_bind [OF hoare_focus [OF keeps_get]])
qed

lemma poll_lp_payout_claimed:
  "hoare (at_order (ord_id (row l)) (transfer_row LpNetwork (treasury_payout_ref (row l))
      {[], [ByTransfer (treasury_payout_ref (row l))]})) (poll_lp_payout e rail l)
     (\<lambda>_. at_order (ord_id (row l)) safe_row)"
  unfolding poll_lp_payout_def Let_def
  by (auto split: option.split tf_status.split
      intro!: safe_return hoare_plain_from plain.finalizeLpFill_law plain.settleLpFill_law
        hoare_then [OF transfer_failed releaseLpFill_safe]
      intro: transfer_row_safe)

section \<open>All orders, all ticks\<close>

lemma not_derailed: "ord_mode r \<noteq> Lp \<Longrightarrow> \<not> derailed tr r"
  by (simp add: derailed_def)

lemma dispatchTreasury_paid:
  assumes "errors_unsubmitted e" "fresh l w" "paid_once (ord_id (row l)) w"
    "bridge_status (row l) = Bridged" "ord_mode (row l) = Treasury"
  shows "paid_once (ord_id (row l)) (snd (run_state (dispatchTreasury e l) w))"
  using safe_idle [OF assms(3), of "row l"] assms
  by (intro paid_hoare [OF dispatchTreasury_idle]) (simp_all add: fresh_def quiet_def not_derailed)

lemma fillViaLpNetwork_paid:
  assumes "errors_unsubmitted e" "fresh l w" "paid_once (ord_id (row l)) w"
    "waiting (row l)" "ord_mode (row l) = LpNetwork"
  shows "paid_once (ord_id (row l)) (snd (run_state (fillViaLpNetwork e l) w))"
proof (rule paid_hoare [OF fillViaLpNetwork_idle [OF assms(1)]])
  have "at_order (ord_id (row l)) (idle LpNetwork {bridge_status (row l)}) w"
    using safe_idle [OF assms(3), of "row l"] assms
    by (auto simp: fresh_def quiet_def not_derailed waiting_def)
  then show "at_order (ord_id (row l)) (idle LpNetwork {Pending, AwaitingFunds}) w"
    by (rule at_order_weaken [rotated]) (rule idle_mono [of "{bridge_status (row l)}"], use assms(4) in \<open>auto simp: waiting_def\<close>)
qed

lemma poll_dispatching_paid:
  assumes "fresh l w" "paid_once (ord_id (row l)) w"
    "bridge_status (row l) = Dispatching" "ord_mode (row l) = Lp"
  shows "paid_once (ord_id (row l)) (snd (run_state (poll_dispatching e l) w))"
proof (cases "derailed (trace (ord_id (row l)) w) (row l)")
  case True
  then show ?thesis
    using assms by (intro derailed_stays [OF keepsD [OF machine.poll_dispatching_law machine.lifted_refl]])
      (auto simp: fresh_def)
next
  case False
  let ?g = "gateway_order_id (row l)"
  show ?thesis
  proof (cases "?g = []")
    case True
    then show ?thesis using assms(2) by (simp add: poll_dispatching_def)
  next
    case some_id: False
    have "at_order (ord_id (row l)) (gateway_claimed ?g) w"
      using assms False some_id
      by (auto simp: at_order_def gateway_claimed_def paid_once_def pay_safe_def pays_right_def fresh_def
          split: if_splits)
    then show ?thesis by (rule paid_hoare [OF poll_dispatching_claimed])
  qed
qed

lemma submitFloatReload_paid:
  assumes "fresh l w" "paid_once (ord_id (row l)) w" "reload_due (row l)"
  shows "paid_once (ord_id (row l)) (snd (run_state (submitFloatReload e a l) w))"
  by (rule paid_hoare [OF submitFloatReload_safe])
    (use assms in \<open>auto simp: at_order_def treasury_row_def safe_row_def paid_once_def fresh_def reload_due_def\<close>)

lemma claimed_paid:
  assumes "fresh l w" "paid_once (ord_id (row l)) w" "bridge_status (row l) = Dispatching"
  shows "ord_mode (row l) = Treasury \<Longrightarrow> paid_once (ord_id (row l)) (snd (run_state (poll_treasury e rail l) w))"
    and "ord_mode (row l) = LpNetwork \<Longrightarrow> paid_once (ord_id (row l)) (snd (run_state (poll_lp_payout e rail l) w))"
  using safe_transfer [OF assms(2), of "row l"] assms(1,3) 
  by (auto simp: fresh_def intro: paid_hoare [OF poll_treasury_claimed] paid_hoare [OF poll_lp_payout_claimed])

lemma cleanup_paid: "paid_once i w \<Longrightarrow> paid_once i (snd (run_state (cleanup_stale e) w))"
proof -
  assume paid: "paid_once i w"
  let ?h = "\<lambda>r. if waiting r \<and> created_at r < now e - c_validity (cf e)
        then r\<lparr>bridge_status := Failed, failure_reason := ExpiredReason, updated_at := now e\<rparr> else r"
  have h: "keeps_safe r (?h r)" for r
    by (auto simp: plain.rel_refl quiet_def waiting_def same_key_def intro!: keeps_safe_quiet)
  let ?w = "w\<lparr>orders := map ?h (orders w)\<rparr>"
  have "find_order i ?w = map_option ?h (find_order i w)"
    by (simp add: find_order_def find_map_same)
  moreover have "trace i ?w = trace i w" by (simp add: trace_def)
  moreover have "pay_safe tr (?h r)" if "pay_safe tr r" for tr r
    using h [of r] that unfolding keeps_safe_def by blast
  ultimately have "paid_once i ?w"
    using paid unfolding paid_once_def by (metis (no_types, lifting) option.map_disc_iff option.map_sel option.sel option.collapse)
  with paid show ?thesis by (simp add: cleanup_stale_def only_if_def)
qed

interpretation pay: order_contract paid_once errors_unsubmitted
proof unfold_locales
  show "paid_once i w'" if "find_order i w' = find_order i w" "trace i w' = trace i w" "paid_once i w" for i w w'
    using that by (simp add: paid_once_def)
  show "paid_once i w" if "bridge_status r = Pending" "gateway_order_id r = ''''"
    "find_order i w = Some r" "trace i w = []" for i r w
    using that by (simp add: paid_once_def pay_safe_def pays_right_quiet quiet_def)
  show "paid_once i w" if "find_order i w = None" for i w
    using that by (simp add: paid_once_def)
qed (simp_all add: cleanup_paid dispatchLP_paid dispatchTreasury_paid poll_dispatching_paid
    submitFloatReload_paid fillViaLpNetwork_paid claimed_paid plain_keeps [OF plain.advance_pending_order_law]
    plain_keeps [OF plain.polls_law(1)] plain_keeps [OF plain.polls_law(2)] plain_keeps [OF plain.pollFloatReload_law])

text \<open>C1. The merchant of an order is never paid twice: along every run of the dispatcher, for
  any answers of the external services and any failing database statements, no order ever has
  two payouts open (submitted and not reported failed or returned), provided a transfer call
  that returns an error was not carried out and the order did not fall back to mode lp after
  its float reload had been submitted.\<close>

theorem run_pays_once:
  assumes "dispatcher_run errors_unsubmitted w" "find_order i w = Some r" "\<not> derailed (trace i w) r"
  shows "never_twice (trace i w)"
  using pay.run [OF assms(1)] assms(2,3) by (auto simp: pay.all_orders_def paid_once_def pay_safe_def)

end
