(* ===== verification/Route_Once.thy ===== *)
theory Route_Once imports Route_Focus begin

text \<open>
  The customer's funds leave the aggregator's Sui wallet at most once: an order has at most one
  bridge transaction or CCTP burn that may have been submitted, whichever rail it started on and
  however often it fell back from one to the other.
\<close>

fun bridges :: "call \<Rightarrow> bool" where
  "bridges (CallBridge _ oc) \<longleftrightarrow> oc \<noteq> Refused"
| "bridges (CallBurn _ _ oc) \<longleftrightarrow> oc \<noteq> Refused"
| "bridges _ \<longleftrightarrow> False"

definition bridged_times :: "call list \<Rightarrow> nat" where
  "bridged_times tr = length (filter bridges tr)"

lemma bridged_snoc [simp]:
  "bridged_times (tr @ [c]) = bridged_times tr + (if bridges c then 1 else 0)"
  by (simp add: bridged_times_def)

lemma bridged_Nil [simp]: "bridged_times [] = 0"
  by (simp add: bridged_times_def)

lemma bridged_other: "\<forall>c \<in> set cs. \<not> bridges c \<Longrightarrow> bridged_times (tr @ cs) = bridged_times tr"
  by (simp add: bridged_times_def)

section \<open>The invariant of one order\<close>

definition bridge_safe :: "route_order option \<Rightarrow> call list \<Rightarrow> bool" where
  "bridge_safe o_row tr \<longleftrightarrow> (case o_row of None \<Rightarrow> True | Some r \<Rightarrow>
     bridged_times tr \<le> 1 \<and> (waiting r \<or> ord_mode r = LpNetwork \<longrightarrow> bridged_times tr = 0))"

definition bridged_once :: "nat \<Rightarrow> world \<Rightarrow> bool" where
  "bridged_once i w \<longleftrightarrow> at_order i bridge_safe w"

text \<open>Handlers that neither bridge nor return an order to the start.\<close>

definition onward :: "route_order \<Rightarrow> route_order \<Rightarrow> bool" where
  "onward r s \<longleftrightarrow> ord_id s = ord_id r \<and> (waiting s \<longrightarrow> waiting r) \<and>
     (ord_mode s = LpNetwork \<longrightarrow> ord_mode r = LpNetwork)"

interpretation onward: row_relation onward "\<lambda>c. \<not> bridges c"
  by unfold_locales (auto simp: onward_def waiting_def)

interpretation onward: arrival_relation onward "\<lambda>c. \<not> bridges c"
  by unfold_locales (auto simp: onward_def waiting_def)

interpretation onward: lp_relation onward "\<lambda>c. \<not> bridges c"
  by unfold_locales (auto simp: onward_def waiting_def)

interpretation onward: treasury_relation onward "\<lambda>c. \<not> bridges c"
  by unfold_locales (auto simp: onward_def waiting_def)

lemma onward_keeps:
  assumes "\<And>w. keeps (onward.lifted i w) m" "bridged_once i w"
  shows "bridged_once i (snd (run_state m w))"
proof -
  have "onward.lifted i w (snd (run_state m w))"
    by (rule keepsD [OF assms(1) onward.lifted_refl])
  note v = onward.lifted_view(1,2) [OF this]
  then have same: "bridged_times (trace i (snd (run_state m w))) = bridged_times (trace i w)"
    using bridged_other by auto
  show ?thesis
    using v(1) assms(2) same
    by (cases "find_order i w"; cases "find_order i (snd (run_state m w))")
      (auto simp: bridged_once_def at_order_def bridge_safe_def onward_def)
qed

text \<open>Handlers of Route B may return an order to the start, but it was never bridged.\<close>

definition same_order :: "route_order \<Rightarrow> route_order \<Rightarrow> bool" where
  "same_order r s \<longleftrightarrow> ord_id s = ord_id r"

interpretation unsent: row_relation same_order "\<lambda>c. \<not> bridges c"
  by unfold_locales (auto simp: same_order_def)

interpretation unsent: network_relation same_order "\<lambda>c. \<not> bridges c"
  by unfold_locales (auto simp: same_order_def)

lemma unsent_keeps:
  assumes "\<And>w. keeps (unsent.lifted i w) m" "bridged_once i w" "find_order i w = Some r" "ord_mode r = LpNetwork"
  shows "bridged_once i (snd (run_state m w))"
proof -
  have "unsent.lifted i w (snd (run_state m w))"
    by (rule keepsD [OF assms(1) unsent.lifted_refl])
  note v = unsent.lifted_view(1,2) [OF this]
  have "bridged_times (trace i (snd (run_state m w))) = bridged_times (trace i w)"
    using v(2) bridged_other by auto
  then show ?thesis
    using assms(2-4) by (auto simp: bridged_once_def at_order_def bridge_safe_def split: option.splits)
qed

section \<open>Starting a bridge\<close>

definition off_network :: "route_order option \<Rightarrow> call list \<Rightarrow> bool" where
  "off_network o_row tr \<longleftrightarrow> bridge_safe o_row tr \<and> (\<forall>r. o_row = Some r \<longrightarrow> ord_mode r \<noteq> LpNetwork)"

definition bridge_claimed :: "route_order option \<Rightarrow> call list \<Rightarrow> bool" where
  "bridge_claimed o_row tr \<longleftrightarrow> (case o_row of None \<Rightarrow> True | Some r \<Rightarrow>
     bridge_status r = Bridging \<and> ord_mode r \<noteq> LpNetwork \<and> bridged_times tr = 0)"

lemma claimed_off: "bridge_claimed r tr \<Longrightarrow> off_network r tr"
  by (auto simp: bridge_claimed_def off_network_def bridge_safe_def split: option.splits)

lemma off_return: "hoare (at_order i off_network) (return x) (\<lambda>_. at_order i off_network)"
  by (rule hoare_return)

lemma claim_off:
  "hoare (at_order i off_network) (claimForBridging e i p tool)
     (\<lambda>c. at_order i (if c = Claimed then bridge_claimed else off_network))"
proof -
  have "hoare (at_order i off_network) (update_one e SClaimBridge i waiting
      (\<lambda>r. r\<lparr>bridge_provider := p, lifi_tool := tool, bridge_status := Bridging\<rparr>))
      (\<lambda>s. at_order i (if s = Saved then bridge_claimed else off_network))"
    by (rule hoare_update)
      (auto simp: off_network_def bridge_claimed_def bridge_safe_def waiting_def split: option.splits)
  then show ?thesis
    unfolding claimForBridging_def
    by (rule hoare_bind) (auto intro!: hoare_return simp: isStaleTransition_def split: if_splits)
qed

lemma revert_off:
  "hoare (at_order i bridge_claimed) (do { revertBridgingClaim e i; return x }) (\<lambda>_. at_order i off_network)"
proof -
  have "hoare (at_order i bridge_claimed) (update_one e SRevertBridge i g (\<lambda>r. r\<lparr>bridge_status := Pending\<rparr>))
      (\<lambda>s. at_order i off_network)" for g
    by (rule hoare_update) (auto simp: off_network_def bridge_claimed_def bridge_safe_def split: option.splits)
  then show ?thesis
    unfolding revertBridgingClaim_def by (intro hoare_then [OF hoare_then]) (auto intro: off_return)
qed

lemma sent_off:
  assumes "call_order c = i"
  shows "hoare (at_order i bridge_claimed) (log_call c) (\<lambda>_. at_order i off_network)"
  by (rule hoare_call [OF assms])
    (auto simp: off_network_def bridge_claimed_def bridge_safe_def waiting_def split: option.splits)

lemma refused_off:
  "\<not> bridges c \<Longrightarrow> call_order c = i \<Longrightarrow>
   hoare (at_order i bridge_claimed) (log_call c) (\<lambda>_. at_order i bridge_claimed)"
  by (rule hoare_call) (auto simp: bridge_claimed_def split: option.splits)

lemma persist_off:
  assumes "\<And>r. bridge_status (f r) = bridge_status r" "\<And>r. ord_mode (f r) = ord_mode r" "\<And>r. ord_id (f r) = ord_id r"
  shows "hoare (at_order i off_network) (do {
      s \<leftarrow> update_one e SPersistDigest i (\<lambda>r. bridge_status r = Bridging) f;
      if s \<noteq> Saved then return x else do { ExtendBurst e; return None } }) (\<lambda>_. at_order i off_network)"
  by (rule hoare_bind, rule hoare_update_any [OF assms(3)],
      force simp: off_network_def bridge_safe_def waiting_def assms,
      auto intro!: off_return hoare_then [OF hoare_focus [OF focus.small_laws(2)]])

lemma submit_lifi_off:
  "hoare (at_order i off_network) (submit_lifi e i q) (\<lambda>_. at_order i off_network)"
  unfolding submit_lifi_def Let_def
  apply (rule hoare_bind [OF claim_off])
  subgoal for c
    by (cases c) (auto intro!: off_return revert_off hoare_then [OF sent_off] persist_off)
  done

lemma submit_cctp_off:
  "hoare (at_order i off_network) (submit_cctp e i net a) (\<lambda>_. at_order i off_network)"
proof -
  have refused: "hoare (at_order i bridge_claimed)
      (do { log_call (CallBurn i a Refused); revertBridgingClaim e i; return x }) (\<lambda>_. at_order i off_network)" for x
    by (rule hoare_then [OF refused_off revert_off]) simp_all
  show ?thesis
    unfolding submit_cctp_def Let_def
    apply (rule hoare_bind [OF claim_off])
    subgoal for c
      by (cases c) (auto intro!: off_return refused hoare_then [OF sent_off] persist_off split: burn_res.split)
    done
qed

abbreviation stays_off :: "nat \<Rightarrow> (world, 'a) state \<Rightarrow> bool" where
  "stays_off i m \<equiv> keeps (at_order i off_network) m"

lemma submits_off [law_intros]:
  "stays_off i (submit_lifi e i q)" "stays_off i (submit_cctp e i net a)"
  by (simp_all add: keeps_hoare submit_lifi_off submit_cctp_off)

lemma starts_off [law_intros]:
  "stays_off (ord_id (row l)) (startBridge e l)"
  "stays_off (ord_id (row l)) (startCCTPBridge e l)"
  unfolding startBridge_def startCCTPBridge_def Let_def
  by (auto split: option.splits intro!: keeps_intros law_intros)

lemma fallbacks_off [law_intros]:
  "stays_off (ord_id (row l)) (startBridgeForProvider e l)"
  "stays_off (ord_id (row l)) (tryCCTPFallback e l)"
  "stays_off (ord_id (row l)) (tryLiFiFallback e l)"
  unfolding startBridgeForProvider_def tryCCTPFallback_def tryLiFiFallback_def
  by (intro keeps_intros law_intros)+

lemma update_off:
  assumes "\<And>r. ord_id (f r) = ord_id r" "\<And>r. g r \<Longrightarrow> onward r (f r)"
  shows "stays_off i (update_one e s i g f)"
  unfolding keeps_hoare
proof (rule hoare_update_any [OF assms(1)])
  fix r tr
  assume "off_network (Some r) tr" "g r"
  with assms(2) [of r] show "off_network (Some ((f r)\<lparr>updated_at := now e\<rparr>)) tr"
    by (auto simp: off_network_def bridge_safe_def onward_def waiting_def)
qed

lemma start_failed_off [law_intros]: "stays_off (ord_id (row l)) (start_failed e l x)"
  unfolding start_failed_def Let_def
  by (intro keeps_intros law_intros update_off) (simp_all add: onward_def waiting_def)

lemma advance_pending_off: "stays_off (ord_id (row l)) (advance_pending_order e l)"
  unfolding advance_pending_order_def by (intro keeps_intros law_intros)

section \<open>All orders, all runs\<close>

lemma pending_once:
  assumes "fresh l w" "bridged_once (ord_id (row l)) w" "ord_mode (row l) \<noteq> LpNetwork"
  shows "bridged_once (ord_id (row l)) (snd (run_state (advance_pending_order e l) w))"
proof -
  have "at_order (ord_id (row l)) off_network w"
    using assms by (auto simp: at_order_def off_network_def bridged_once_def fresh_def)
  then have "at_order (ord_id (row l)) off_network (snd (run_state (advance_pending_order e l) w))"
    by (rule keepsD [OF advance_pending_off])
  then show ?thesis by (simp add: bridged_once_def at_order_def off_network_def)
qed

lemma cleanup_once:
  assumes "bridged_once i w"
  shows "bridged_once i (snd (run_state (cleanup_stale e) w))"
proof -
  let ?h = "\<lambda>r. if waiting r \<and> created_at r < now e - c_validity (cf e)
        then r\<lparr>bridge_status := Failed, failure_reason := ExpiredReason, updated_at := now e\<rparr> else r"
  let ?w = "w\<lparr>orders := map ?h (orders w)\<rparr>"
  have "find_order i ?w = map_option ?h (find_order i w)"
    by (simp add: find_order_def find_map_same)
  with assms have "bridged_once i ?w"
    by (cases "find_order i w") (auto simp: bridged_once_def at_order_def bridge_safe_def waiting_def)
  with assms show ?thesis by (simp add: cleanup_stale_def only_if_def)
qed

interpretation bridging: order_contract bridged_once "\<lambda>_. True"
proof unfold_locales
  show "bridged_once i w'" if "find_order i w' = find_order i w" "trace i w' = trace i w" "bridged_once i w" for i w w'
    using that by (simp add: bridged_once_def at_order_def)
  show "bridged_once i w" if "bridge_status r = Pending" "gateway_order_id r = []"
    "find_order i w = Some r" "trace i w = []" for i r w
    using that by (simp add: bridged_once_def at_order_def bridge_safe_def)
  show "bridged_once i w" if "find_order i w = None" for i w
    using that by (simp add: bridged_once_def at_order_def bridge_safe_def)
qed (simp_all add: pending_once cleanup_once onward_keeps [OF onward.polls_law(1)] onward_keeps [OF onward.polls_law(2)]
    onward_keeps [OF onward.dispatchLP_law] onward_keeps [OF onward.dispatchTreasury_law]
    onward_keeps [OF onward.poll_dispatching_law] onward_keeps [OF onward.poll_treasury_law]
    onward_keeps [OF onward.submitFloatReload_law] onward_keeps [OF onward.pollFloatReload_law]
    unsent_keeps [OF unsent.fillViaLpNetwork_law] unsent_keeps [OF unsent.poll_lp_payout_law] fresh_def)

text \<open>C2. The customer's funds are bridged at most once: along every run of the dispatcher, with
  no assumption on the services or the database, an order has at most one bridge transaction or
  CCTP burn that may have been submitted, and none while it is pending, awaiting its funds or
  with the LP network.\<close>

theorem run_bridges_once:
  assumes "dispatcher_run (\<lambda>_. True) w" "find_order i w = Some r"
  shows "bridged_times (trace i w) \<le> 1 \<and>
    (waiting r \<or> ord_mode r = LpNetwork \<longrightarrow> bridged_times (trace i w) = 0)"
proof -
  have "bridged_once i w"
    using bridging.run [OF assms(1)] by (simp add: bridging.all_orders_def)
  with assms(2) show ?thesis by (simp add: bridged_once_def at_order_def bridge_safe_def)
qed

end
