(* ===== verification/Route_Samples.thy ===== *)
theory Route_Samples imports Route_Payout Route_Once begin

text \<open>
  Concrete configurations, environments and worlds: the dispatcher run on them shows that the
  properties' hypotheses can hold and that the handlers do what they are for, and it exhibits
  the executions in which the program does not do what it means to.
\<close>

definition sample_conf :: conf where
  "sample_conf = \<lparr>c_signer = True, c_chain_id = 8453, c_usdc_decimals = 6, c_fee_bps = 50,
     c_validity = 0, c_cctp_enabled = False, c_agg_address = ''0xagg'', c_hex_address = (\<lambda>_. []),
     c_evm = True, c_settlement = True, c_treasury_rail = Some ''korapay'', c_rails = [''korapay''],
     c_default_rail = None, c_korapay = True, c_fintava = False, c_dec = std_dec,
     c_parse_dec = (\<lambda>s. map_option of_int (parse_int s))\<rparr>"

text \<open>An environment in which the database works and no external service answers.\<close>

definition calm :: env where
  "calm = \<lparr>cf = sample_conf, now = 0, dbf = (\<lambda>_ _. DbOk), sui_balance = (\<lambda>_ _. None),
     lifi_get_quote = (\<lambda>_ _. None), sign_ok = (\<lambda>_. True), sui_exec = (\<lambda>_. None),
     lifi_get_status = (\<lambda>_ _ _. Inl ''timeout''), iris_message = (\<lambda>_ _. AttestationPending),
     nonce_used = (\<lambda>_ _. None), receive_message = (\<lambda>_ _ _. None), burn_built = (\<lambda>_. True),
     burn_exec = (\<lambda>_. None), fetch_rate = (\<lambda>_ _. None), pubkey_ok = (\<lambda>_. True),
     encrypt_ok = (\<lambda>_. True), allowance = (\<lambda>_. None), approve_ok = (\<lambda>_. True),
     wallet_balance = (\<lambda>_. None), create_order = (\<lambda>_ _. CreateErr), order_status = (\<lambda>_ _. None),
     float_switch = '''', rail_transfer = (\<lambda>_ _. TransferErr False), rail_status = (\<lambda>_ _. None),
     new_uuid = (\<lambda>_. ''e1''), rail_accounts = (\<lambda>_. None), fintava_institution = '''', merchant_wallet = None, kora_vba = None,
     sui_coins = (\<lambda>_ _. None), transfer_built = (\<lambda>_. True), sui_transfer_exec = (\<lambda>_. None),
     lease_setnx = Some True, lease_holder = None, instance_id = ''a'', no_active_flag = False\<rparr>"

definition usdc :: token where
  "usdc = \<lparr>tok_symbol = ''USDC'', tok_contract = ''0xusdc'', tok_decimals = 6\<rparr>"

definition merchant :: recipient where
  "merchant = \<lparr>rcpt_institution = ''044'', rcpt_account = ''0123456789'', rcpt_name = ''A Shop'',
     rcpt_memo = '''', rcpt_provider = ''''\<rparr>"

text \<open>Ten USDC at 1500 naira.\<close>

definition sample_pay :: payment_order where
  "sample_pay = \<lparr>po_id = 1, po_amount = 10, po_rate = 1500, po_status = PoInitiated,
     po_token = Some usdc, po_recipient = Some merchant, po_sender = Some 3\<rparr>"

definition new_row :: "order_mode \<Rightarrow> route_order" where
  "new_row m = \<lparr>ord_id = 7, ord_mode = m, lifi_quote_id = '''', lifi_tool = '''', bridge_provider = '''',
     bridge_tx_sui = '''', bridge_tx_dest = '''', bridge_status = Pending, gateway_order_id = '''',
     gateway_chain_id = 0, sender_fee_subunit = None, settlement_status = '''', settlement_polled_at = None,
     treasury_payout_ref = '''', bridged_amount = None, failure_reason = NoReason, created_at = 0,
     updated_at = 0, ord_payment = Some 1\<rparr>"

definition sample_lp :: lp_account where
  "sample_lp = \<lparr>lp_id = 5, lp_reference = ''lp-2'', lp_status = LpActive, lp_balance = 50000, lp_sui_address = ''0xlp'',
     lp_account_number = ''9900'', lp_user = 2\<rparr>"

definition empty_world :: world where
  "empty_world = \<lparr>orders = [], pays = [sample_pay], events = [], lps = [sample_lp], ledger = [], calls = [], lp_calls = [],
     attempts = (\<lambda>_ _. 0), quote_fails = (\<lambda>_. 0), lifi_poll_at = (\<lambda>_. None), float_acct = None,
     burst_until = 0, sse = [], panicked = False\<rparr>"

definition with_order :: "order_mode \<Rightarrow> world" where
  "with_order m = empty_world\<lparr>orders := orders empty_world @ [new_row m]\<rparr>"

lemma with_order_run: "dispatcher_run ok (with_order m)"
  unfolding with_order_def
  by (rule dispatcher_run.create [OF dispatcher_run.init])
    (simp_all add: empty_world_def new_row_def find_order_def trace_def)

abbreviation after :: "env \<Rightarrow> world \<Rightarrow> world" where
  "after e w \<equiv> snd (run_state (Tick (\<lambda>_. e)) w)"

section \<open>Evaluation\<close>

text \<open>A handler is unfolded only where it runs on a state.\<close>

lemma run_eq: "m = n \<Longrightarrow> run_state m w = run_state n w"
  by simp

named_theorems running \<open>the handlers, applied to a state\<close>

lemmas run_handlers [running] =
  LogOnce_def [THEN run_eq]
  hasSuccessfulRouteAEvent_def [THEN run_eq]
  count_started_def [THEN run_eq]
  nextAttempt_def [THEN run_eq]
  resetAttempts_def [THEN run_eq]
  Time_def [THEN run_eq]
  TimeSampled_def [THEN run_eq]
  TimePollSampled_def [THEN run_eq]
  End_def [THEN run_eq]
  sampled_def [THEN run_eq]
  query_orders_def [THEN run_eq]
  update_one_def [THEN run_eq]
  set_po_status_def [THEN run_eq]
  log_call_def [THEN run_eq]
  publish_def [THEN run_eq]
  ExtendBurst_def [THEN run_eq]
  panic_def [THEN run_eq]
  unless_panicked_def [THEN run_eq]
  for_orders_def [THEN run_eq]
  claimForBridging_def [THEN run_eq]
  revertBridgingClaim_def [THEN run_eq]
  funds_ready_def [THEN run_eq]
  submit_lifi_def [THEN run_eq]
  startBridge_def [THEN run_eq]
  polled_def [THEN run_eq]
  poll_not_found_def [THEN run_eq]
  poll_status_def [THEN run_eq]
  pollOneBridge_def [THEN run_eq]
  markBridgedFromStatus_def [THEN run_eq]
  expire_uncertain_def [THEN run_eq]
  recoverUncertainLiFi_def [THEN run_eq]
  submit_cctp_def [THEN run_eq]
  startCCTPBridge_def [THEN run_eq]
  startBridgeForProvider_def [THEN run_eq]
  tryCCTPFallback_def [THEN run_eq]
  tryLiFiFallback_def [THEN run_eq]
  set_quote_fails_def [THEN run_eq]
  start_failed_def [THEN run_eq]
  advance_pending_order_def [THEN run_eq]
  advancePending_def [THEN run_eq]
  finishCCTPMint_def [THEN run_eq]
  pollOneCCTP_def [THEN run_eq]
  recoverUncertainCCTP_def [THEN run_eq]
  advanceBridging_def [THEN run_eq]
  advanceUncertain_def [THEN run_eq]
  ensure_allowance_def [THEN run_eq]
  submit_gateway_def [THEN run_eq]
  dispatchLP_def [THEN run_eq]
  publishOrderEvent_def [THEN run_eq]
  set_po_def [THEN run_eq]
  poll_dispatching_def [THEN run_eq]
  advanceDispatching_def [THEN run_eq]
  attempt_number_def [THEN run_eq]
  fallbackToLp_def [THEN run_eq]
  finalizeTreasuryPayout_def [THEN run_eq]
  submit_payout_def [THEN run_eq]
  dispatchTreasury_def [THEN run_eq]
  advanceBridged_def [THEN run_eq]
  poll_treasury_def [THEN run_eq]
  advanceTreasuryPayouts_def [THEN run_eq]
  resolveFloatAccount_def [THEN run_eq]
  createGatewayOrder_def [THEN run_eq]
  submitFloatReload_def [THEN run_eq]
  pollFloatReload_def [THEN run_eq]
  advanceFloatReload_def [THEN run_eq]
  claim_fill_def [THEN run_eq]
  releaseLpFill_def [THEN run_eq]
  settleLpFill_def [THEN run_eq]
  deliver_usdc_def [THEN run_eq]
  finalizeLpFill_def [THEN run_eq]
  lpNetworkFallback_def [THEN run_eq]
  submit_fill_def [THEN run_eq]
  fillViaLpNetwork_def [THEN run_eq]
  advanceLpNetwork_def [THEN run_eq]
  poll_lp_payout_def [THEN run_eq]
  advanceLpNetworkPayouts_def [THEN run_eq]
  cleanup_stale_def [THEN run_eq]
  extend_if_active_def [THEN run_eq]
  Tick_def [THEN run_eq]
  only_if_def [THEN run_eq]

text \<open>The fields of the calm environment, one by one.\<close>

lemma sample_conf_fields [running]:
  "c_signer sample_conf = True"
  "c_chain_id sample_conf = 8453"
  "c_usdc_decimals sample_conf = 6"
  "c_fee_bps sample_conf = 50"
  "c_validity sample_conf = 0"
  "c_cctp_enabled sample_conf = False"
  "c_agg_address sample_conf = ''0xagg''"
  "c_hex_address sample_conf = (\<lambda>_. [])"
  "c_evm sample_conf = True"
  "c_settlement sample_conf = True"
  "c_treasury_rail sample_conf = Some ''korapay''"
  "c_rails sample_conf = [''korapay'']"
  "c_default_rail sample_conf = None"
  "c_korapay sample_conf = True"
  "c_fintava sample_conf = False"
  "c_dec sample_conf = std_dec"
  "c_parse_dec sample_conf = (\<lambda>s. map_option of_int (parse_int s))"
  by (simp_all add: sample_conf_def)

lemma calm_fields [running]:
  "cf calm = sample_conf"
  "now calm = 0"
  "dbf calm = (\<lambda>_ _. DbOk)"
  "sui_balance calm = (\<lambda>_ _. None)"
  "lifi_get_quote calm = (\<lambda>_ _. None)"
  "sign_ok calm = (\<lambda>_. True)"
  "sui_exec calm = (\<lambda>_. None)"
  "lifi_get_status calm = (\<lambda>_ _ _. Inl ''timeout'')"
  "iris_message calm = (\<lambda>_ _. AttestationPending)"
  "nonce_used calm = (\<lambda>_ _. None)"
  "receive_message calm = (\<lambda>_ _ _. None)"
  "burn_built calm = (\<lambda>_. True)"
  "burn_exec calm = (\<lambda>_. None)"
  "fetch_rate calm = (\<lambda>_ _. None)"
  "pubkey_ok calm = (\<lambda>_. True)"
  "encrypt_ok calm = (\<lambda>_. True)"
  "allowance calm = (\<lambda>_. None)"
  "approve_ok calm = (\<lambda>_. True)"
  "wallet_balance calm = (\<lambda>_. None)"
  "create_order calm = (\<lambda>_ _. CreateErr)"
  "order_status calm = (\<lambda>_ _. None)"
  "float_switch calm = ''''"
  "rail_transfer calm = (\<lambda>_ _. TransferErr False)"
  "rail_status calm = (\<lambda>_ _. None)"
  "new_uuid calm = (\<lambda>_. ''e1'')"
  "rail_accounts calm = (\<lambda>_. None)"
  "fintava_institution calm = ''''"
  "merchant_wallet calm = None"
  "kora_vba calm = None"
  "sui_coins calm = (\<lambda>_ _. None)"
  "transfer_built calm = (\<lambda>_. True)"
  "sui_transfer_exec calm = (\<lambda>_. None)"
  "lease_setnx calm = Some True"
  "lease_holder calm = None"
  "instance_id calm = ''a''"
  "no_active_flag calm = False"
  by (simp_all add: calm_def)

lemmas sample_data [running] = with_order_def empty_world_def new_row_def sample_pay_def usdc_def merchant_def sample_lp_def

lemmas small_defs [running] = phases_def acquireLease_def waiting_def in_flight_def find_order_def
  load_row_def find_pay_def only_edges_def put_order_def isStaleTransition_def Let_def floatRail_def
  entitlement_def std_dec_def set_attempts_def count_events_def end_status_def find_lp_def debit_lp_def
  insert_fill_def claim_order_def match_lp_def transfer_outcome_def korapayMinPayoutNGN_def
  deliveryParkedMarker_def add_balance_def set_entry_def reset_order_def find_entry_def is_parked_def reload_due_def lp_eligible_def
  treasuryFloatBalance_def send_outcome_def suiTransferUSDC_def poll_outcome_def lp_amounts_def
  persist_gateway_def returned_status_def maxDispatchAttempts_def IsSkipSentinel_def Milestone_def
  bridge_amount_def IsNativeSui_def on_cctp_def cctpPrimaryEligible_def cctpReady_def cctpNet_def
  lifi_request_def lookup_float_def CurrentFloatRail_def NativeSuiCoinType_def routeAProviderCCTP_def
  routeAProviderLiFi_def apply_receiving_def parseAmountToDecimal_def decimalToSubunit_def scaled_rate_def
  dispatch_amounts_def shortfall_check_def fee_split_def maxQuoteRetries_def bridgeFallbackAfter_def

lemma sample_values [running]:
  "round_away 2 15000 = 15000"
  "usdcSubunitsUint64 10 6 = Some 10000000"
  "parse_int ''20000000'' = Some 20000000"
  "attempt_ref lpNetPayRefPrefix 7 (Suc 0) = ''rbpay-7-1''"
  "attempt_ref lpNetFillRefPrefix 7 (Suc 0) = ''lpfill-7-1''"
  by (simp_all add: round_away_def floor_eq_iff usdcSubunitsUint64_def shift_def is_uint64_def trunc_def
      big_uint64_def parse_int_def parse_digits_def is_digit_def digits_val_def)
    (code_simp+)

section \<open>An order filled by a liquidity provider\<close>

definition funded :: env where
  "funded = calm\<lparr>sui_balance := (\<lambda>_ _. Some ''20000000''),
     rail_transfer := (\<lambda>_ _. TransferOk TransferPending)\<rparr>"

abbreviation "filled \<equiv> after funded (with_order LpNetwork)"

lemma filled_row: "calls filled = [CallTransfer 7 ''rbpay-7-1'' 15000 (Done ''rbpay-7-1'')] \<and>
    map_option ord_mode (find_order 7 filled) = Some LpNetwork"
  by (simp add: running funded_def split del: if_split)

lemma run_pays_once_witness:
  "open_payouts (trace 7 filled) = [ByTransfer ''rbpay-7-1''] \<and> never_twice (trace 7 filled)"
proof -
  have "errors_unsubmitted funded" by (simp add: errors_unsubmitted_def funded_def)
  then have run: "dispatcher_run errors_unsubmitted filled"
    by (intro dispatcher_run.tick with_order_run)
  obtain r where "find_order 7 filled = Some r" "ord_mode r = LpNetwork"
    using filled_row by auto
  then have "never_twice (trace 7 filled)"
    using run_pays_once [OF run] not_derailed by simp
  then show ?thesis using filled_row by (simp add: trace_def open_payouts_def)
qed

section \<open>An ambiguous transfer\<close>

text \<open>The rail carries the transfer out but the call reports an error (a timeout).\<close>

definition timed_out :: env where
  "timed_out = funded\<lparr>new_uuid := (\<lambda>_. ''e0''), rail_transfer := (\<lambda>_ _. TransferErr True)\<rparr>"

abbreviation "retried \<equiv> after funded (after timed_out (with_order LpNetwork))"

lemma sample_refs [running]:
  "attempt_ref lpNetPayRefPrefix 7 2 = ''rbpay-7-2''"
  "attempt_ref lpNetFillRefPrefix 7 2 = ''lpfill-7-2''"
  by code_simp+

text \<open>C19. An ambiguous transfer error pays the merchant twice: when the rail carries a
  transfer out but the call reports an error, the claim is released and the next tick transfers
  again under a new reference, so the rail's idempotency does not catch it. The assumption of
  run_pays_once about transfer errors is needed.\<close>

theorem ambiguous_transfer_pays_twice:
  "dispatcher_run (\<lambda>_. True) retried \<and>
   open_payouts (trace 7 retried) = [ByTransfer ''rbpay-7-1'', ByTransfer ''rbpay-7-2'']"
proof -
  have "calls retried = [CallTransfer 7 ''rbpay-7-1'' 15000 Lost, CallTransfer 7 ''rbpay-7-2'' 15000 (Done ''rbpay-7-2'')]"
    by (simp add: running funded_def timed_out_def numeral_2_eq_2 [symmetric] split del: if_split)
  then show ?thesis
    by (auto simp: trace_def open_payouts_def intro!: dispatcher_run.tick with_order_run)
qed

section \<open>A delivery whose digest is lost\<close>

text \<open>The payout has gone through and the USDC reaches the LP, but the digest is not stored.\<close>

definition paid :: env where
  "paid = calm\<lparr>rail_status := (\<lambda>_ _. Some TransferSuccess),
     sui_coins := (\<lambda>_ _. Some [(''0xc'', ''20000000'')]),
     sui_transfer_exec := (\<lambda>_. Some \<lparr>sr_digest = ''Dg'', sr_status = ''success''\<rparr>)\<rparr>"

definition digest_lost :: env where
  "digest_lost = paid\<lparr>dbf := (\<lambda>s _. if s = SDeliveryDigest then DbFail else DbOk)\<rparr>"

lemma delivery_values [running]:
  "transfer_coins [(''0xc'', ''20000000'')] 10000000 = Inr [((''0xc'', ''20000000''), 20000000)]"
  "fill_ref_of ''rbpay-7-1'' = ''lpfill-7-1''"
  by (simp_all add: transfer_coins_def sample_values fill_ref_of_def trim_prefix_def lpNetPayRefPrefix_def
      lpNetFillRefPrefix_def)

text \<open>A delivery whose digest cannot be stored is not parked: the next tick sends the LP
  the same USDC again.\<close>

theorem lost_digest_delivers_twice:
  "filter (\<lambda>c. case c of CallDeliver _ _ _ oc \<Rightarrow> True | _ \<Rightarrow> False) (calls (after paid (after digest_lost filled))) =
    [CallDeliver 7 10000000 ''0xlp'' (Done ''Dg''), CallDeliver 7 10000000 ''0xlp'' (Done ''Dg'')]"
  by (simp add: running funded_def paid_def digest_lost_def split del: if_split)

section \<open>A fill settled by the poller\<close>

definition settle_failed :: env where
  "settle_failed = paid\<lparr>dbf := (\<lambda>s _. if s = SSettle then DbFail else DbOk)\<rparr>"

text \<open>A fill settled by the payout poller (its first settlement attempt failed after the
  delivery) leaves the customer's payment order unsettled: the poller loads no payment-order edge.\<close>

theorem settled_fill_leaves_payment_open:
  "map bridge_status (orders (after paid (after settle_failed filled))) = [Settled] \<and>
   map po_status (pays (after paid (after settle_failed filled))) = [PoInitiated]"
  by (simp add: running funded_def paid_def settle_failed_def split del: if_split)

section \<open>A bridged order\<close>

definition bridging_env :: env where
  "bridging_env = calm\<lparr>sui_balance := (\<lambda>_ _. Some ''20000000''),
     lifi_get_quote := (\<lambda>_ _. Some \<lparr>q_id = ''q'', q_tool = ''mayan'', q_data = ''00'', q_to_amount_min = ''9900000''\<rparr>),
     sui_exec := (\<lambda>_. Some \<lparr>sr_digest = ''B1'', sr_status = ''success''\<rparr>)\<rparr>"

lemma bridge_values [running]:
  "contains ''timeout'' ''not found'' \<longleftrightarrow> False"
  "trunc (shift 10 6) = 10000000"
  "parse_int ''9900000'' = Some 9900000"
  "unshift 9900000 6 = 99 / 10"
  "trunc (shift (99 / 10) 6) = 9900000"
  by (simp_all add: contains_def trunc_def shift_def unshift_def parse_int_def parse_digits_def is_digit_def digits_val_def)

abbreviation "sent \<equiv> after bridging_env (with_order Treasury)"

lemma sent_row: "calls sent = [CallBridge 7 (Done ''B1'')] \<and>
   map_option (\<lambda>r. (bridge_status r, ord_mode r)) (find_order 7 sent) = Some (Bridging, Treasury)"
  by (simp add: running bridging_env_def split del: if_split)

lemma run_bridges_once_witness: "bridged_times (trace 7 sent) = 1 \<and> bridged_times (trace 7 sent) \<le> 1"
proof -
  have run: "dispatcher_run (\<lambda>_. True) sent"
    by (intro dispatcher_run.tick with_order_run) simp
  obtain r where "find_order 7 sent = Some r"
    using sent_row by auto
  then have "bridged_times (trace 7 sent) \<le> 1"
    using run_bridges_once [OF run] by simp
  then show ?thesis using sent_row by (simp add: trace_def bridged_times_def)
qed

section \<open>A derailed order\<close>

text \<open>The USDC arrives, the float pays the merchant and the reload is submitted as gateway
  order g1; the payout fails; the float has run empty, so the order falls back to mode lp; the
  gateway refuses its order, the claim is not reverted because of g1, and the poller takes the
  settlement of g1, the platform's own, for the merchant's.\<close>

definition arrived :: env where
  "arrived = calm\<lparr>now := hour,
     lifi_get_status := (\<lambda>_ _ _. Inr \<lparr>ls_status = ''DONE'', ls_substatus = '''', ls_message = '''',
       ls_receiving = Some \<lparr>rc_tx = ''0xd'', rc_amount = ''9900000'', rc_decimals = 6\<rparr>\<rparr>),
     rail_accounts := (\<lambda>_. Some [(''NGN'', 20000)]),
     rail_transfer := (\<lambda>_ _. TransferOk TransferPending),
     kora_vba := Some \<lparr>fa_bank = ''035'', fa_number = ''1111'', fa_name = ''Float''\<rparr>,
     fetch_rate := (\<lambda>_ _. Some 1600), allowance := (\<lambda>_. Some 100000000),
     create_order := (\<lambda>_ _. Created ''G1'' ''0xt'')\<rparr>"

definition payout_failed :: env where
  "payout_failed = calm\<lparr>rail_status := (\<lambda>_ _. Some TransferFailed)\<rparr>"

definition float_empty :: env where
  "float_empty = calm\<lparr>rail_accounts := (\<lambda>_. Some [(''NGN'', 0)])\<rparr>"

definition gateway_refuses :: env where
  "gateway_refuses = calm\<lparr>fetch_rate := (\<lambda>_ _. Some 1600), allowance := (\<lambda>_. Some 100000000),
     wallet_balance := (\<lambda>_. Some 9900000), order_status := (\<lambda>_ _. Some ''settled'')\<rparr>"

abbreviation "reloading \<equiv> after arrived sent"
abbreviation "fallen_back \<equiv> after float_empty (after payout_failed reloading)"
abbreviation "settled_unpaid \<equiv> after gateway_refuses fallen_back"

lemmas derail_defs = bridging_env_def arrived_def payout_failed_def float_empty_def gateway_refuses_def

lemma sample_texts [running]:
  "to_lower ''NGN'' = ''ngn''" "to_lower ''G1'' = ''g1''"
  "attempt_ref treasuryRefPrefix 7 (Suc 0) = ''rctp-7-1''"
  by code_simp+

lemma sample_rate [running]: "round_away 16 (75 / 8) = 75 / 8" "trunc (shift (75 / 8) 6) = 9375000"
  "trunc 160000 = 160000"
  by (simp_all add: round_away_def floor_eq_iff trunc_def shift_def)

lemma reloading_row:
  "calls reloading = [CallBridge 7 (Done ''B1''), CallTransfer 7 ''rctp-7-1'' 15000 (Done ''rctp-7-1''),
     CallReload 7 ''1111'' 9900000 (Done ''g1'')]"
  by (simp add: running derail_defs split del: if_split)

lemma fallen_back_row:
  "map (\<lambda>r. (ord_mode r, bridge_status r, gateway_order_id r)) (orders fallen_back) = [(Lp, Bridged, ''g1'')] \<and>
   open_payouts (trace 7 fallen_back) = []"
  by (simp add: running derail_defs trace_def open_payouts_def split del: if_split)

text \<open>An order that falls back to mode lp after its float reload was submitted can be marked
  settled, and its payment order with it, although no payout to the merchant is open: the settlement
  poller takes the reload's gateway order for the merchant's. The exclusion of derailed orders in
  run_pays_once is needed.\<close>

theorem derailed_settles_unpaid:
  "dispatcher_run errors_unsubmitted settled_unpaid \<and>
   map bridge_status (orders settled_unpaid) = [Settled] \<and> open_payouts (trace 7 settled_unpaid) = [] \<and>
   map po_status (pays settled_unpaid) = [PoSettled]"
proof (intro conjI)
  show "dispatcher_run errors_unsubmitted settled_unpaid"
    by (intro dispatcher_run.tick with_order_run) (simp_all add: derail_defs errors_unsubmitted_def calm_fields)
qed (simp_all add: running derail_defs trace_def open_payouts_def split del: if_split)

section \<open>No order in flight\<close>

definition settled_row :: route_order where
  "settled_row = (new_row Treasury)\<lparr>bridge_status := Settled, treasury_payout_ref := ''rctp-7-1''\<rparr>"

lemma Tick_idle_witness:
  "reload_due settled_row \<and>
   orders (after funded (empty_world\<lparr>orders := [settled_row]\<rparr>)) = [settled_row] \<and>
   calls (after funded (empty_world\<lparr>orders := [settled_row]\<rparr>)) = []"
  using Tick_idle [of "empty_world\<lparr>orders := [settled_row]\<rparr>" "\<lambda>_. funded"]
  by (simp add: settled_row_def new_row_def reload_due_def in_flight_def empty_world_def)

section \<open>A zero rate\<close>

text \<open>Order 7 waits in mode lp for its dispatch, order 8 for a fill by a liquidity provider.\<close>

definition two_orders :: world where
  "two_orders = empty_world\<lparr>orders :=
     [(new_row Lp)\<lparr>bridge_status := Bridged, bridged_amount := Some 10\<rparr>, (new_row LpNetwork)\<lparr>ord_id := 8\<rparr>]\<rparr>"

definition zero_rate :: env where
  "zero_rate = funded\<lparr>fetch_rate := (\<lambda>_ _. Some 0)\<rparr>"

lemma two_refs [running]:
  "attempt_ref lpNetPayRefPrefix 8 (Suc 0) = ''rbpay-8-1''"
  "attempt_ref lpNetFillRefPrefix 8 (Suc 0) = ''lpfill-8-1''"
  by code_simp+

text \<open>A live rate of zero makes the decimal division panic: the rest of the tick is lost for
  every order (order 8 is not filled, with the rate unavailable it is), and the audit log records
  the dispatch as succeeded.\<close>

theorem zero_rate_aborts_tick:
  "calls (after zero_rate two_orders) = [] \<and>
   calls (after funded two_orders) = [CallTransfer 8 ''rbpay-8-1'' 15000 (Done ''rbpay-8-1'')] \<and>
   \<lparr>ev_order = 7, ev_step = EvmCreateOrder, ev_status = Succeeded\<rparr> \<in> set (events (after zero_rate two_orders))"
  by (simp add: running two_orders_def zero_rate_def funded_def split del: if_split)

end
