(* ===== verification/Lp_Books.thy ===== *)
theory Lp_Books imports Route_Laws begin

text \<open>
  The books of the liquidity providers: every account's balance is the sum of its confirmed
  deposits less its withdrawals and fills that have not failed, no balance is negative, and
  entries are identified by their ids and by their provider references. Every transaction on
  the two tables keeps the books; the ones of Route B do so whatever the database does, so
  every tick does. The transactions of the LP service are in \<open>Lp_Service\<close>.
\<close>

section \<open>The invariant\<close>

definition effect :: "ledger_entry \<Rightarrow> decimal" where
  "effect x = (case le_type x of
     Deposit \<Rightarrow> if le_status x = EntryConfirmed then le_amount x else 0
   | Adjustment \<Rightarrow> if le_status x = EntryConfirmed then le_amount x else 0
   | _ \<Rightarrow> if le_status x = EntryFailed then 0 else - le_amount x)"

definition account_sum :: "nat \<Rightarrow> ledger_entry list \<Rightarrow> decimal" where
  "account_sum k es = (\<Sum>x\<leftarrow>es. if le_lp x = k then effect x else 0)"

text \<open>A reserved amount waits for its finality; what was received is confirmed at once.\<close>

definition entry_ok :: "ledger_entry \<Rightarrow> bool" where
  "entry_ok x \<longleftrightarrow> 0 < le_amount x \<and>
     (le_type x \<in> {Deposit, Adjustment} \<longrightarrow> le_status x = EntryConfirmed)"

definition books_ok :: "lp_account list \<Rightarrow> ledger_entry list \<Rightarrow> bool" where
  "books_ok as es \<longleftrightarrow>
     distinct (map lp_id as) \<and> distinct (map le_id es) \<and> distinct (map le_ref es) \<and>
     list_all entry_ok es \<and> (\<forall>x \<in> set es. \<exists>a \<in> set as. lp_id a = le_lp x) \<and>
     (\<forall>a \<in> set as. 0 \<le> lp_balance a \<and> lp_balance a = account_sum (lp_id a) es)"

definition books :: "world \<Rightarrow> bool" where
  "books w \<longleftrightarrow> books_ok (lps w) (ledger w)"

section \<open>Entries and balances\<close>

lemma account_sum_simps [simp]:
  "account_sum k [] = 0"
  "account_sum k (x # es) = (if le_lp x = k then effect x else 0) + account_sum k es"
  "account_sum k (es @ fs) = account_sum k es + account_sum k fs"
  by (simp_all add: account_sum_def)

text \<open>\<open>AddBalance\<close> on one account.\<close>

definition credit :: "nat \<Rightarrow> decimal \<Rightarrow> lp_account list \<Rightarrow> lp_account list" where
  "credit k d as = map (\<lambda>a. if lp_id a = k then a\<lparr>lp_balance := lp_balance a + d\<rparr> else a) as"

text \<open>The status update of the pending entries a predicate selects.\<close>

definition mark :: "(ledger_entry \<Rightarrow> bool) \<Rightarrow> entry_status \<Rightarrow> ledger_entry list \<Rightarrow> ledger_entry list" where
  "mark p st es = map (\<lambda>x. if p x \<and> le_status x = EntryPending then x\<lparr>le_status := st\<rparr> else x) es"

lemma credit_ids [simp]: "map lp_id (credit k d as) = map lp_id as"
  by (simp add: credit_def comp_def if_distrib cong: if_cong)

lemma credit_set_ids [simp]: "lp_id ` set (credit k d as) = lp_id ` set as"
  by (metis credit_ids list.set_map)

lemma mark_keys [simp]:
  "map le_id (mark p st es) = map le_id es"
  "map le_ref (mark p st es) = map le_ref es"
  "map le_lp (mark p st es) = map le_lp es"
  by (simp_all add: mark_def comp_def if_distrib cong: if_cong)

lemma owners: "(\<forall>x \<in> set es. \<exists>a \<in> set as. lp_id a = le_lp x) \<longleftrightarrow> le_lp ` set es \<subseteq> lp_id ` set as"
  by force

lemma mark_owners: "le_lp ` set (mark p st es) = le_lp ` set es"
  by (metis list.set_map mark_keys(3))

lemma pending_effect: "entry_ok x \<Longrightarrow> le_status x = EntryPending \<Longrightarrow> effect x = - le_amount x"
  by (cases "le_type x") (auto simp: entry_ok_def effect_def)

lemma mark_entry_ok: "list_all entry_ok es \<Longrightarrow> list_all entry_ok (mark p st es)"
  by (auto simp: mark_def list_all_iff entry_ok_def)

lemma confirm_sum:
  "list_all entry_ok es \<Longrightarrow> account_sum k (mark p EntryConfirmed es) = account_sum k es"
proof (induction es)
  case (Cons x es)
  then have "effect (x\<lparr>le_status := EntryConfirmed\<rparr>) = effect x" if "le_status x = EntryPending"
    using that by (cases "le_type x") (auto simp: entry_ok_def effect_def)
  with Cons show ?case by (auto simp: mark_def)
qed (simp add: mark_def)

lemma mark_none: "(\<And>x. x \<in> set es \<Longrightarrow> \<not> p x) \<Longrightarrow> mark p st es = es"
  by (auto simp: mark_def intro: map_idI)

text \<open>Failing the one entry that is selected gives its amount back.\<close>

lemma mark_fail_one:
  assumes "entry_ok x" "p x" "le_status x = EntryPending"
  shows "account_sum k (mark p EntryFailed [x]) = account_sum k [x] + (if le_lp x = k then le_amount x else 0)"
proof -
  have "effect (x\<lparr>le_status := EntryFailed\<rparr>) = 0" "effect x = - le_amount x"
    using assms pending_effect [of x]
    by (auto simp: effect_def entry_ok_def split: entry_type.splits)
  with assms show ?thesis by (simp add: mark_def)
qed

lemma fail_sum:
  assumes "list_all entry_ok es" "x \<in> set es" "p x" "le_status x = EntryPending"
    and "\<forall>y \<in> set es. p y \<longrightarrow> y = x" "distinct es"
  shows "account_sum k (mark p EntryFailed es) = account_sum k es + (if le_lp x = k then le_amount x else 0)"
proof -
  obtain as bs where es: "es = as @ x # bs" by (meson assms(2) split_list)
  then have "mark p EntryFailed as = as" "mark p EntryFailed bs = bs"
    using assms(5,6) by (auto intro!: mark_none)
  moreover have "mark p EntryFailed es = mark p EntryFailed as @ mark p EntryFailed [x] @ mark p EntryFailed bs"
    by (simp add: es mark_def)
  moreover have "entry_ok x" using assms(1) es by simp
  ultimately show ?thesis
    using mark_fail_one [of x p k] assms(3,4) by (simp add: es)
qed

section \<open>Transactions that keep the books\<close>

lemma balances_credit:
  assumes "\<forall>a \<in> set as. 0 \<le> lp_balance a \<and> lp_balance a = account_sum (lp_id a) es"
    and "\<And>j. account_sum j es' = account_sum j es + (if j = k then d else 0)"
    and "0 \<le> d \<or> (\<forall>a \<in> set as. lp_id a = k \<longrightarrow> - d \<le> lp_balance a)"
  shows "\<forall>a \<in> set (credit k d as). 0 \<le> lp_balance a \<and> lp_balance a = account_sum (lp_id a) es'"
  using assms by (auto simp: credit_def)

lemma books_add:
  assumes "books_ok as es" "entry_ok x" "le_lp x \<in> lp_id ` set as"
    and "le_id x \<notin> le_id ` set es" "le_ref x \<notin> le_ref ` set es"
    and "0 \<le> effect x \<or> (\<forall>a \<in> set as. lp_id a = le_lp x \<longrightarrow> - effect x \<le> lp_balance a)"
  shows "books_ok (credit (le_lp x) (effect x) as) (es @ [x])"
proof -
  have "\<forall>a \<in> set (credit (le_lp x) (effect x) as).
      0 \<le> lp_balance a \<and> lp_balance a = account_sum (lp_id a) (es @ [x])"
    by (rule balances_credit [of as es]) (use assms in \<open>auto simp: books_ok_def\<close>)
  with assms show ?thesis
    unfolding books_ok_def owners by auto
qed

lemma books_confirm:
  assumes "books_ok as es"
  shows "books_ok as (mark p EntryConfirmed es)"
  using assms confirm_sum [of es] mark_entry_ok [of es]
  unfolding books_ok_def owners mark_owners mark_keys by metis

lemma books_fail:
  assumes "books_ok as es" "x \<in> set es" "p x" "le_status x = EntryPending"
    and "\<forall>y \<in> set es. p y \<longrightarrow> y = x"
  shows "books_ok (credit (le_lp x) (le_amount x) as) (mark p EntryFailed es)"
proof -
  have ok: "list_all entry_ok es" and "distinct es" "0 \<le> le_amount x"
    using assms(1,2) by (auto simp: books_ok_def distinct_map list_all_iff entry_ok_def)
  then have "\<forall>a \<in> set (credit (le_lp x) (le_amount x) as).
      0 \<le> lp_balance a \<and> lp_balance a = account_sum (lp_id a) (mark p EntryFailed es)"
    using assms(1) fail_sum [where p = p and x = x, OF ok assms(2-5)]
    by (intro balances_credit [of as es]) (auto simp: books_ok_def)
  with assms(1) ok show ?thesis
    unfolding books_ok_def owners mark_owners mark_keys credit_ids credit_set_ids
    using mark_entry_ok [OF ok] by blast
qed

section \<open>The tables under the order handlers\<close>

text \<open>
  A predicate on the two tables and the trace of withdrawals is kept by every operation that
  writes neither. What the handlers of Route B do to the tables are the confirmation of a
  pending entry, its release, and the claim of a fill.
\<close>

locale tables_law =
  fixes I :: "world \<Rightarrow> bool"
  assumes tables: "lps w' = lps w \<Longrightarrow> ledger w' = ledger w \<Longrightarrow> lp_calls w' = lp_calls w \<Longrightarrow> I w \<Longrightarrow> I w'"
begin

lemma keeps_tables:
  "(\<And>w. lps (f w) = lps w) \<Longrightarrow> (\<And>w. ledger (f w) = ledger w) \<Longrightarrow> (\<And>w. lp_calls (f w) = lp_calls w) \<Longrightarrow>
   keeps I (modify f)"
  unfolding keeps_def using tables by fastforce

lemma writes_law [law_intros]:
  "keeps I (LogOnce e i s st)" "keeps I (publish x)" "keeps I (ExtendBurst e)" "keeps I panic"
  "keeps I (set_quote_fails i n)" "keeps I (modify (set_attempts i s n))" "keeps I (log_call c)"
  "keeps I (set_po_status e i p po)" "keeps I (set_po e l po)"
  unfolding LogOnce_def publish_def ExtendBurst_def panic_def set_quote_fails_def log_call_def
    set_po_def set_po_status_def
  by (intro keeps_intros keeps_tables; simp add: set_attempts_def)+

lemma update_one_law [law_intros]: "keeps I (update_one e s i g f)"
proof -
  have "keeps I (modify (put_order t i g f))" for t
    by (rule keeps_tables) (simp_all add: put_order_def)
  then show ?thesis unfolding update_one_def by (intro keeps_intros)
qed

lemma timers_law [law_intros]:
  "keeps I (Time e i s)" "keeps I (TimeSampled e i s)" "keeps I (TimePollSampled e i s)"
  "keeps I (End e t err)" "keeps I (publishOrderEvent l st fl)"
  unfolding Time_def TimeSampled_def TimePollSampled_def nextAttempt_def End_def resetAttempts_def
    publishOrderEvent_def Let_def
  by (intro keeps_intros law_intros)+

lemma reads_law [law_intros]:
  "keeps I (hasSuccessfulRouteAEvent e i s)" "keeps I (count_started e i s)"
  "keeps I (attempt_number e i s)" "keeps I (funds_ready e l coin need)"
  "keeps I (ensure_allowance e i n)" "keeps I (resolveFloatAccount e)"
  unfolding hasSuccessfulRouteAEvent_def count_started_def attempt_number_def funds_ready_def
    ensure_allowance_def resolveFloatAccount_def Let_def
  by (intro keeps_intros law_intros keeps_tables; simp)+

lemma timed_law [law_intros]:
  "keeps I body \<Longrightarrow> keeps I (sampled e i s body)"
  "keeps I body' \<Longrightarrow> keeps I (polled e i s body')"
  unfolding sampled_def polled_def by (intro keeps_intros law_intros; assumption)+

lemma submits_law [law_intros]:
  "keeps I (claimForBridging e i p tool)" "keeps I (revertBridgingClaim e i)"
  "keeps I (submit_lifi e i q)" "keeps I (submit_cctp e i net a)"
  "keeps I (submit_gateway e i rc n fee rate)"
  "keeps I (createGatewayOrder e i b acct)"
  unfolding claimForBridging_def revertBridgingClaim_def submit_lifi_def submit_cctp_def
    submit_gateway_def persist_gateway_def createGatewayOrder_def Let_def
  by (intro keeps_intros law_intros)+

lemma start_law [law_intros]:
  "keeps I (startBridge e l)" "keeps I (startCCTPBridge e l)"
  unfolding startBridge_def startCCTPBridge_def Let_def
  by (auto split: option.splits intro!: keeps_intros law_intros)

lemma pending_law [law_intros]:
  "keeps I (startBridgeForProvider e l)" "keeps I (tryCCTPFallback e l)" "keeps I (tryLiFiFallback e l)"
  "keeps I (start_failed e l x)" "keeps I (advance_pending_order e l)"
  unfolding startBridgeForProvider_def tryCCTPFallback_def tryLiFiFallback_def start_failed_def
    advance_pending_order_def Let_def
  by (intro keeps_intros law_intros)+

lemma following_law [law_intros]:
  "keeps I (poll_not_found e r lerr)" "keeps I (poll_status e r st)" "keeps I (pollOneBridge e l)"
  "keeps I (markBridgedFromStatus e l st)" "keeps I (expire_uncertain e r why)"
  "keeps I (recoverUncertainLiFi e l)" "keeps I (finishCCTPMint e l net raw att)"
  "keeps I (pollOneCCTP e l)" "keeps I (recoverUncertainCCTP e l)"
  unfolding poll_not_found_def poll_status_def pollOneBridge_def markBridgedFromStatus_def
    expire_uncertain_def recoverUncertainLiFi_def finishCCTPMint_def pollOneCCTP_def
    recoverUncertainCCTP_def Let_def
  by (intro keeps_intros law_intros keeps_tables; simp)+

lemma fallbacks_law [law_intros]:
  "keeps I (fallbackToLp e i)" "keeps I (lpNetworkFallback e i)" "keeps I (finalizeTreasuryPayout e i)"
  unfolding fallbackToLp_def lpNetworkFallback_def finalizeTreasuryPayout_def Let_def
  by (intro keeps_intros law_intros)+

lemma dispatching_law [law_intros]:
  "keeps I (dispatchLP e l)" "keeps I (poll_outcome e l st)" "keeps I (poll_dispatching e l)"
  "keeps I (submit_payout e i rail rc a ref)" "keeps I (dispatchTreasury e l)"
  "keeps I (poll_treasury e rail l)" "keeps I (submitFloatReload e acct l)" "keeps I (pollFloatReload e l)"
  "keeps I (deliver_usdc e l p tok)"
  unfolding dispatchLP_def poll_outcome_def poll_dispatching_def submit_payout_def dispatchTreasury_def
    poll_treasury_def submitFloatReload_def pollFloatReload_def deliver_usdc_def Let_def
  by (intro keeps_intros law_intros)+

lemma cleanup_law [law_intros]:
  "keeps I (cleanup_stale e)" "keeps I (extend_if_active e)" "keeps I (modify (\<lambda>w. w\<lparr>panicked := b\<rparr>))"
  unfolding cleanup_stale_def extend_if_active_def
  by (intro keeps_intros law_intros keeps_tables; simp)+

end

section \<open>What Route B does to the tables\<close>

locale ledger_law = tables_law +
  assumes confirm: "I w \<Longrightarrow> I (set_entry ref EntryConfirmed w)"
    and release: "I w \<Longrightarrow> find_entry ref w = Some x \<Longrightarrow> le_status x = EntryPending \<Longrightarrow>
      I (add_balance (le_lp x) (le_amount x) (set_entry ref EntryFailed w))"
    and claim: "I w \<Longrightarrow> 0 < target \<Longrightarrow> debit_lp k target w = Some w1 \<Longrightarrow>
      insert_fill uid ref target k w1 = Some w2 \<Longrightarrow> I w2"
begin

lemma claim_fill_law [law_intros]:
  assumes "0 < target"
  shows "keeps I (claim_fill e i k target p f)"
proof -
  have "I w3" if "I w" "debit_lp k target w = Some w1" "insert_fill u f target k w1 = Some w2"
    "claim_order t i p w2 = Some w3" for t u w w1 w2 w3
    using claim [OF that(1) assms that(2,3)] that(4) tables [of w3 w2]
    by (auto simp: claim_order_def put_order_def split: option.splits if_splits)
  then show ?thesis
    by (auto simp: claim_fill_def keeps_def split: option.splits)
qed

lemma releaseLpFill_law [law_intros]: "keeps I (releaseLpFill e i ref)"
proof -
  have "I (reset_order t i (add_balance (le_lp x) (le_amount x) (set_entry ref EntryFailed w)))"
    if "I w" "find_entry ref w = Some x" "le_status x = EntryPending" for t w x
    by (rule tables [OF _ _ _ release [OF that]]) (simp_all add: reset_order_def put_order_def)
  then show ?thesis
    by (auto simp: releaseLpFill_def keeps_def split: option.splits)
qed

lemma settleLpFill_law [law_intros]: "keeps I (settleLpFill e l)"
  unfolding settleLpFill_def Let_def by (intro keeps_intros law_intros keeps_update confirm)

lemma finalizeLpFill_law [law_intros]: "keeps I (finalizeLpFill e i)"
  unfolding finalizeLpFill_def Let_def by (intro keeps_intros law_intros)

lemma submit_fill_law [law_intros]:
  "0 < target \<Longrightarrow> keeps I (submit_fill e i rail rc target k p f)"
  unfolding submit_fill_def Let_def by (intro keeps_intros law_intros)

lemma fillViaLpNetwork_law [law_intros]: "keeps I (fillViaLpNetwork e l)"
  unfolding fillViaLpNetwork_def Let_def
  by (auto split: option.splits prod.splits intro!: keeps_intros law_intros)

lemma poll_lp_payout_law [law_intros]: "keeps I (poll_lp_payout e rail l)"
  unfolding poll_lp_payout_def Let_def by (intro keeps_intros law_intros)

lemma for_orders_law [law_intros]: "(\<And>l. keeps I (f l)) \<Longrightarrow> keeps I (for_orders e es g f)"
  unfolding for_orders_def query_orders_def unless_panicked_def by (intro keeps_intros)

lemma bridged_law:
  "keeps I (case ord_mode (row l) of
     Lp \<Rightarrow> do { _ \<leftarrow> dispatchLP e l; return () }
   | Treasury \<Rightarrow> do { _ \<leftarrow> dispatchTreasury e l; return () }
   | LpNetwork \<Rightarrow> return ())"
  by (intro keeps_intros law_intros)

lemma advances_law [law_intros]:
  "keeps I (advancePending e)" "keeps I (advanceBridging e)" "keeps I (advanceUncertain e)"
  "keeps I (advanceBridged e)" "keeps I (advanceDispatching e)" "keeps I (advanceTreasuryPayouts e)"
  "keeps I (advanceLpNetwork e)" "keeps I (advanceLpNetworkPayouts e)"
  unfolding advancePending_def advance_polls advanceBridged_def advanceDispatching_def
    advanceTreasuryPayouts_def advanceLpNetwork_def advanceLpNetworkPayouts_def
    poll_bridging_def poll_uncertain_def
  by (intro for_orders_law bridged_law keeps_option keeps_only_if keeps_return keeps_bind keeps_if law_intros)+

lemma advanceFloatReload_law [law_intros]: "keeps I (advanceFloatReload e)"
  unfolding advanceFloatReload_def unless_panicked_def query_orders_def
  by (intro keeps_intros law_intros)

lemma phases_law: "m \<in> set (phases E) \<Longrightarrow> keeps I (unless_panicked m)"
  unfolding phases_def unless_panicked_def by (auto intro!: keeps_intros law_intros)

lemma Tick_law [law_intros]: "keeps I (Tick E)"
  unfolding Tick_def Let_def by (intro keeps_intros law_intros phases_law)

end

section \<open>Route B keeps the books\<close>

lemma lps_table_ops [simp]:
  "lps (add_balance k d w) = credit k d (lps w)" "ledger (add_balance k d w) = ledger w"
  "ledger (set_entry ref st w) = mark (\<lambda>x. le_ref x = ref) st (ledger w)" "lps (set_entry ref st w) = lps w"
  by (simp_all add: add_balance_def credit_def set_entry_def mark_def)

lemma distinct_key:
  "distinct (map f xs) \<Longrightarrow> x \<in> set xs \<Longrightarrow> y \<in> set xs \<Longrightarrow> f x = f y \<Longrightarrow> x = y"
  by (auto simp: distinct_map dest: inj_onD)

text \<open>Reserving an amount: the debit and the pending entry of one transaction.\<close>

lemma books_reserve:
  assumes "books_ok as es" "a \<in> set as" "lp_id a = k" "d \<le> lp_balance a" "0 < d"
    and "ty \<in> {Withdrawal, Fill}" "uid \<notin> le_id ` set es" "ref \<notin> le_ref ` set es"
  shows "books_ok (credit k (- d) as)
    (es @ [\<lparr>le_id = uid, le_ref = ref, le_type = ty, le_amount = d, le_status = EntryPending, le_lp = k\<rparr>])"
    (is "books_ok _ (es @ [?x])")
proof -
  have one: "b = a" if "b \<in> set as" "lp_id b = k" for b
    using distinct_key [of lp_id as b a] that assms(1-3) unfolding books_ok_def by simp
  have eff: "effect ?x = - d" using assms(6) by (auto simp: effect_def)
  have "books_ok (credit (le_lp ?x) (effect ?x) as) (es @ [?x])"
  proof (rule books_add [OF assms(1)])
    show "entry_ok ?x" using assms(5,6) by (auto simp: entry_ok_def)
    show "le_lp ?x \<in> lp_id ` set as" using assms(2,3) by force
    show "0 \<le> effect ?x \<or> (\<forall>a \<in> set as. lp_id a = le_lp ?x \<longrightarrow> - effect ?x \<le> lp_balance a)"
      using one assms(4) eff by auto
  qed (use assms(7,8) in simp_all)
  then show ?thesis by (simp add: eff)
qed

lemma books_claim:
  assumes "books w" "0 < target" "debit_lp k target w = Some w1"
    and "insert_fill uid ref target k w1 = Some w2"
  shows "books w2"
proof -
  obtain a where a: "a \<in> set (lps w)" "lp_id a = k" "target \<le> lp_balance a"
    and w1: "w1 = add_balance k (- target) w"
    using assms(3) by (auto simp: debit_lp_def split: if_splits)
  have "uid \<notin> le_id ` set (ledger w)" "ref \<notin> le_ref ` set (ledger w)"
    using assms(4) by (auto simp: w1 insert_fill_def split: if_splits)
  from books_reserve [of "lps w" "ledger w" a k target Fill, OF _ a(1-3) assms(2) _ this] assms(1,4)
  show ?thesis by (auto simp: books_def w1 insert_fill_def split: if_splits)
qed

interpretation lp_books: ledger_law books
proof unfold_locales
  show "books w'" if "lps w' = lps w" "ledger w' = ledger w" "books w" for w w'
    using that by (simp add: books_def)
  show "books (set_entry ref EntryConfirmed w)" if "books w" for w ref
    using that books_confirm by (simp add: books_def)
  show "books (add_balance (le_lp x) (le_amount x) (set_entry ref EntryFailed w))"
    if "books w" "find_entry ref w = Some x" "le_status x = EntryPending" for w ref x
  proof -
    have "x \<in> set (ledger w)" "le_ref x = ref"
      using that(2) by (auto simp: find_entry_def find_Some_iff)
    then have "books_ok (credit (le_lp x) (le_amount x) (lps w)) (mark (\<lambda>x. le_ref x = ref) EntryFailed (ledger w))"
      using that distinct_key [of le_ref "ledger w"]
      by (intro books_fail) (auto simp: books_def books_ok_def)
    then show ?thesis by (simp add: books_def)
  qed
qed (rule books_claim)

text \<open>Whatever the database and the rails answer, a tick of the dispatcher keeps the books
  of the liquidity providers: every balance stays non-negative and equal to what the ledger's
  entries add up to, and the entries keep distinct ids and references.\<close>

theorem Tick_books: "books w \<Longrightarrow> books (snd (run_state (Tick E) w))"
  by (rule keepsD [OF lp_books.Tick_law])

end
