(* ===== verification/Baas_Webhooks.thy ===== *)
theory Baas_Webhooks imports Route_Store Go_Text begin

text \<open>
  The bank rails' webhooks on the neutral event (services/baas/korapay/adapter.go and
  services/baas/fintava/adapter.go): the normalised status and \<open>ParseWebhook\<close>, from the fields
  the JSON decoder delivers. The decoder and the signature check are the library's.
\<close>

record webhook_event =
  we_type :: string
  we_payment_ref :: string
  we_provider_ref :: string
  we_status :: tf_status
  we_raw_status :: string
  we_amount :: string
  we_account :: string

section \<open>Korapay\<close>

record korapay_webhook =
  kw_event :: string
  kw_reference :: string
  kw_payment_reference :: string
  kw_status :: string
  kw_amount :: string
  kw_account_number :: string

definition korapay_normalizeStatus :: "string \<Rightarrow> tf_status" where
  "korapay_normalizeStatus s = (let t = to_lower (trim_space s) in
     if t \<in> {''success'', ''successful''} then TransferSuccess
     else if t \<in> {''failed'', ''reversed'', ''expired''} then TransferFailed
     else TransferPending)"

definition korapay_ParseWebhook :: "korapay_webhook \<Rightarrow> webhook_event" where
  "korapay_ParseWebhook p = \<lparr>
     we_type = kw_event p,
     we_payment_ref = (if kw_payment_reference p = '''' then kw_reference p else kw_payment_reference p),
     we_provider_ref = kw_reference p,
     we_status = korapay_normalizeStatus (kw_status p),
     we_raw_status = kw_status p,
     we_amount = kw_amount p,
     we_account = kw_account_number p\<rparr>"

section \<open>Fintava\<close>

record fintava_webhook =
  fw_type :: string
  fw_event :: string
  fw_amount :: string
  fw_reference :: string
  fw_transaction_ref :: string
  fw_customer_reference :: string
  fw_merchant_reference :: string
  fw_status :: string
  fw_payment_status :: string
  fw_account_number :: string
  fw_virtual_acct_no :: string
  fw_target_acct_no :: string

definition orDefault :: "string \<Rightarrow> string \<Rightarrow> string" where
  "orDefault v d = (if v \<noteq> '''' then v else d)"

fun firstNonEmpty :: "string list \<Rightarrow> string" where
  "firstNonEmpty [] = ''''"
| "firstNonEmpty (v # vs) = (if v \<noteq> '''' then v else firstNonEmpty vs)"

definition fintava_normalizeStatus :: "string \<Rightarrow> tf_status" where
  "fintava_normalizeStatus s = (let t = to_upper (trim_space s) in
     if t \<in> {''SUCCESS'', ''SUCCESSFUL'', ''PAID'', ''COMPLETED''} then TransferSuccess
     else if t \<in> {''FAILED'', ''REVERSED'', ''DECLINED'', ''CANCELLED''} then TransferFailed
     else TransferPending)"

definition fintava_ParseWebhook :: "fintava_webhook \<Rightarrow> webhook_event" where
  "fintava_ParseWebhook p = (let
     evType = to_lower (orDefault (fw_type p) (fw_event p));
     rawStatus = orDefault (fw_status p) (fw_payment_status p)
   in \<lparr>
     we_type = (if evType \<in> {''account_funded'', ''customer_wallet_credited'', ''virtual_wallet_payment''}
       then ''deposit'' else evType),
     we_payment_ref = firstNonEmpty [fw_customer_reference p, fw_merchant_reference p, fw_reference p, fw_transaction_ref p],
     we_provider_ref = firstNonEmpty [fw_reference p, fw_transaction_ref p, fw_customer_reference p],
     we_status = (if evType = ''debit_transfer_reversal'' then TransferFailed
       else fintava_normalizeStatus rawStatus),
     we_raw_status = rawStatus,
     we_amount = fw_amount p,
     we_account = firstNonEmpty [fw_account_number p, fw_virtual_acct_no p, fw_target_acct_no p]\<rparr>)"

lemma firstNonEmpty_empty: "firstNonEmpty vs = '''' \<longleftrightarrow> set vs \<subseteq> {''''}"
  by (induction vs) auto

end
