(* ===== verification/Lp_Service.thy ===== *)
theory Lp_Service imports Lp_Books Baas_Webhooks begin

text \<open>
  The LP service (controllers/lp/lp.go) and the operators' switch (controllers/admin/lps.go):
  onboarding, the delivery address, withdrawals with their reservation and its release, and
  the rails' webhooks that credit deposits and finalise withdrawals. An operation returns its
  HTTP status; a webhook its own. The database may fail at every statement, the
  acknowledgement of a commit may get lost, and the rails answer anything.
\<close>

section \<open>Environment\<close>

datatype lp_site = LAccount | LTx | LDebit | LEntry | LCommit | LSave | LFind | LConfirm
  | RTx | RMark | RCredit | RCommit

record lp_env =
  l_fault :: "lp_site \<Rightarrow> db_fault"
  l_kora :: bool
  l_fintava :: bool
  l_user :: "(nat \<times> string) option"
  l_new_entry :: string
  l_new_account :: nat
  l_bvn :: bool
  l_vba :: "string option"
  l_transfer :: "transfer_req \<Rightarrow> transfer_res"
  l_parse_dec :: "string \<Rightarrow> decimal option"
  l_parse_uuid :: "string \<Rightarrow> string option"
  l_signed :: bool

definition withdrawalRefPrefix :: string where "withdrawalRefPrefix = ''lpwd-''"

text \<open>\<open>suiAddressRe\<close>: \<open>0x\<close> and 64 hexadecimal digits.\<close>

definition suiAddressRe :: "string \<Rightarrow> bool" where
  "suiAddressRe s \<longleftrightarrow> prefix ''0x'' s \<and> length s = 66 \<and> list_all is_hex (drop 2 s)"

section \<open>Accounts\<close>

text \<open>\<open>Query().Where(p).Only(ctx)\<close>: exactly one row.\<close>

definition only_account :: "lp_env \<Rightarrow> (lp_account \<Rightarrow> bool) \<Rightarrow> world \<Rightarrow> lp_account option" where
  "only_account e p w = (if l_fault e LAccount \<noteq> DbOk then None
     else case filter p (lps w) of [a] \<Rightarrow> Some a | _ \<Rightarrow> None)"

definition loadAccount :: "lp_env \<Rightarrow> (world, nat + lp_account) state" where
  "loadAccount e = do {
     w \<leftarrow> fetch;
     return (case l_user e of None \<Rightarrow> Inl 401
       | Some (u, _) \<Rightarrow> (case only_account e (\<lambda>a. lp_user a = u) w of None \<Rightarrow> Inl 404 | Some a \<Rightarrow> Inr a))
   }"

text \<open>\<open>LpAccount.Create()\<close>: the account's id, its reference and its user are unique.\<close>

definition create_account :: "lp_env \<Rightarrow> nat \<Rightarrow> string \<Rightarrow> string \<Rightarrow> world \<Rightarrow> world option" where
  "create_account e u ref number w =
     (if \<exists>a \<in> set (lps w). lp_id a = l_new_account e \<or> lp_reference a = ref \<or> lp_user a = u then None
      else Some (w\<lparr>lps := lps w @ [\<lparr>lp_id = l_new_account e, lp_reference = ref, lp_status = LpActive,
        lp_balance = 0, lp_sui_address = '''', lp_account_number = number, lp_user = u\<rparr>]\<rparr>))"

text \<open>A save that stands alone: written or not, its acknowledgement may get lost.\<close>

definition save :: "db_fault \<Rightarrow> (world \<Rightarrow> world option) \<Rightarrow> (world, bool) state" where
  "save f g = do {
     w \<leftarrow> fetch;
     case g w of None \<Rightarrow> return False
     | Some w' \<Rightarrow> if f = DbFail then return False
         else do { State_Monad.set w'; return (f = DbOk) }
   }"

text \<open>\<open>None\<close> is a request whose body does not bind.\<close>

definition Onboard :: "lp_env \<Rightarrow> unit option \<Rightarrow> (world, nat) state" where
  "Onboard e req = (if \<not> l_kora e then return 503
   else case l_user e of None \<Rightarrow> return 401
   | Some (u, uname) \<Rightarrow> (case req of None \<Rightarrow> return 400
     | Some _ \<Rightarrow> do {
         w \<leftarrow> fetch;
         if only_account e (\<lambda>a. lp_user a = u) w \<noteq> None then return 200
         else if \<not> l_bvn e then return 502
         else case l_vba e of None \<Rightarrow> return 502
         | Some number \<Rightarrow> do {
             ok \<leftarrow> save (l_fault e LSave) (create_account e u (''lp-'' @ uname) number);
             return (if ok then 201 else 500)
           }
       }))"

definition update_account :: "nat \<Rightarrow> (lp_account \<Rightarrow> lp_account) \<Rightarrow> world \<Rightarrow> world option" where
  "update_account k f w = (if \<exists>a \<in> set (lps w). lp_id a = k
     then Some (w\<lparr>lps := map (\<lambda>a. if lp_id a = k then f a else a) (lps w)\<rparr>) else None)"

definition UpdateAccount :: "lp_env \<Rightarrow> string option \<Rightarrow> (world, nat) state" where
  "UpdateAccount e req = do {
     acct \<leftarrow> loadAccount e;
     case acct of Inl code \<Rightarrow> return code
     | Inr a \<Rightarrow> (case req of None \<Rightarrow> return 400
       | Some s \<Rightarrow> (let addr = trim_space s in
           if \<not> suiAddressRe addr then return 400
           else do {
             ok \<leftarrow> save (l_fault e LSave) (update_account (lp_id a) (\<lambda>a. a\<lparr>lp_sui_address := to_lower addr\<rparr>));
             return (if ok then 200 else 500)
           }))
   }"

text \<open>\<open>LpOpsController.SetStatus\<close>; the id as parsed from the path, the status as bound.\<close>

definition SetStatus :: "lp_env \<Rightarrow> nat option \<Rightarrow> string option \<Rightarrow> (world, nat) state" where
  "SetStatus e param body = (case param of None \<Rightarrow> return 400
   | Some k \<Rightarrow> (case body of None \<Rightarrow> return 400
     | Some s \<Rightarrow> (let target = to_lower (trim_space s) in
         if target \<noteq> ''active'' \<and> target \<noteq> ''suspended'' then return 400
         else do {
           w \<leftarrow> fetch;
           case only_account e (\<lambda>a. lp_id a = k) w of None \<Rightarrow> return 404
           | Some a \<Rightarrow> do {
               ok \<leftarrow> save (l_fault e LSave) (update_account (lp_id a)
                 (\<lambda>a. a\<lparr>lp_status := (if target = ''active'' then LpActive else LpSuspended)\<rparr>));
               return (if ok then 200 else 500)
             }
         })))"

section \<open>Withdrawals\<close>

definition insert_entry :: "ledger_entry \<Rightarrow> world \<Rightarrow> world option" where
  "insert_entry x w =
     (if \<exists>y \<in> set (ledger w). le_id y = le_id x \<or> le_ref y = le_ref x then None
      else Some (w\<lparr>ledger := ledger w @ [x]\<rparr>))"

definition withdrawal_entry :: "string \<Rightarrow> nat \<Rightarrow> decimal \<Rightarrow> ledger_entry" where
  "withdrawal_entry uid k amount = \<lparr>le_id = uid, le_ref = withdrawalRefPrefix @ uid, le_type = Withdrawal,
     le_amount = amount, le_status = EntryPending, le_lp = k\<rparr>"

text \<open>The reserving transaction: \<open>None\<close> when it is known to have committed.\<close>

definition reserve :: "lp_env \<Rightarrow> nat \<Rightarrow> decimal \<Rightarrow> (world, nat option) state" where
  "reserve e k amount = do {
     w \<leftarrow> fetch;
     if l_fault e LTx \<noteq> DbOk then return (Some 500)
     else case (if l_fault e LDebit = DbOk then debit_lp k amount w else None) of
       None \<Rightarrow> return (Some 402)
     | Some w1 \<Rightarrow> (case (if l_fault e LEntry = DbOk
           then insert_entry (withdrawal_entry (l_new_entry e) k amount) w1 else None) of
         None \<Rightarrow> return (Some 500)
       | Some w2 \<Rightarrow> do {
           ok \<leftarrow> save (l_fault e LCommit) (\<lambda>_. Some w2);
           return (if ok then None else Some 500)
         })
   }"

record withdraw_req =
  wr_amount :: string
  wr_bank :: string
  wr_account :: string

definition submit_withdrawal :: "lp_env \<Rightarrow> string \<Rightarrow> decimal \<Rightarrow> withdraw_req \<Rightarrow> (world, transfer_res) state" where
  "submit_withdrawal e uid amount r = (let
     payRef = withdrawalRefPrefix @ uid;
     res = l_transfer e \<lparr>tr_bank = wr_bank r, tr_account = wr_account r, tr_amount = amount, tr_ref = payRef\<rparr>
   in do {
     modify (\<lambda>w. w\<lparr>lp_calls := lp_calls w @ [CallWithdraw payRef amount (transfer_outcome payRef res)]\<rparr>);
     return res
   })"

text \<open>Guarded on the entry still being pending.\<close>

definition releaseWithdrawal :: "lp_env \<Rightarrow> string \<Rightarrow> nat \<Rightarrow> decimal \<Rightarrow> (world, unit) state" where
  "releaseWithdrawal e uid k amount = do {
     w \<leftarrow> fetch;
     if l_fault e RTx = DbOk \<and> l_fault e RMark = DbOk \<and>
        (\<exists>x \<in> set (ledger w). le_id x = uid \<and> le_status x = EntryPending) \<and>
        l_fault e RCredit = DbOk \<and> l_fault e RCommit \<noteq> DbFail
     then modify (\<lambda>w. add_balance k amount
            (w\<lparr>ledger := mark (\<lambda>x. le_id x = uid) EntryFailed (ledger w)\<rparr>))
     else return ()
   }"

definition Withdraw :: "lp_env \<Rightarrow> withdraw_req option \<Rightarrow> (world, nat) state" where
  "Withdraw e req = (if \<not> l_kora e then return 503
   else do {
     acct \<leftarrow> loadAccount e;
     case acct of Inl code \<Rightarrow> return code
     | Inr a \<Rightarrow>
         if lp_status a \<noteq> LpActive then return 403
         else case req of None \<Rightarrow> return 400
         | Some r \<Rightarrow> (case l_parse_dec e (wr_amount r) of None \<Rightarrow> return 400
           | Some amount \<Rightarrow>
               if \<not> 0 < amount then return 400
               else if amount < 1000 then return 400
               else do {
                 err \<leftarrow> reserve e (lp_id a) amount;
                 case err of Some code \<Rightarrow> return code
                 | None \<Rightarrow> do {
                     res \<leftarrow> submit_withdrawal e (l_new_entry e) amount r;
                     case res of
                       TransferErr _ \<Rightarrow> do {
                         releaseWithdrawal e (l_new_entry e) (lp_id a) amount;
                         return 502
                       }
                     | TransferOk _ \<Rightarrow> return 202
                   }
               })
   })"

section \<open>Webhooks\<close>

definition deposit_entry :: "string \<Rightarrow> string \<Rightarrow> nat \<Rightarrow> decimal \<Rightarrow> ledger_entry" where
  "deposit_entry uid ref k amount = \<lparr>le_id = uid, le_ref = ref, le_type = Deposit,
     le_amount = amount, le_status = EntryConfirmed, le_lp = k\<rparr>"

definition handleDeposit :: "lp_env \<Rightarrow> webhook_event \<Rightarrow> (world, unit) state" where
  "handleDeposit e ev = do {
     w \<leftarrow> fetch;
     case only_account e (\<lambda>a. lp_account_number a = we_account ev) w of None \<Rightarrow> return ()
     | Some a \<Rightarrow> (case l_parse_dec e (we_amount ev) of None \<Rightarrow> return ()
       | Some amount \<Rightarrow>
           if \<not> 0 < amount \<or> l_fault e LTx \<noteq> DbOk then return ()
           else case (if l_fault e LEntry = DbOk
               then insert_entry (deposit_entry (l_new_entry e) (we_provider_ref ev) (lp_id a) amount) w else None) of
             None \<Rightarrow> return ()
           | Some w1 \<Rightarrow>
               if l_fault e LDebit \<noteq> DbOk then return ()
               else do {
                 _ \<leftarrow> save (l_fault e LCommit) (\<lambda>_. Some (add_balance (lp_id a) amount w1));
                 return ()
               })
   }"

definition handleWithdrawalFinality :: "lp_env \<Rightarrow> webhook_event \<Rightarrow> (world, unit) state" where
  "handleWithdrawalFinality e ev =
     (case l_parse_uuid e (trim_prefix withdrawalRefPrefix (we_payment_ref ev)) of None \<Rightarrow> return ()
      | Some uid \<Rightarrow> do {
          w \<leftarrow> fetch;
          case (if l_fault e LFind = DbOk then find (\<lambda>x. le_id x = uid) (ledger w) else None) of
            None \<Rightarrow> return ()
          | Some x \<Rightarrow> (case we_status ev of
              TransferSuccess \<Rightarrow> only_if (l_fault e LConfirm \<noteq> DbFail)
                (modify (\<lambda>w. w\<lparr>ledger := mark (\<lambda>x. le_id x = uid) EntryConfirmed (ledger w)\<rparr>))
            | TransferFailed \<Rightarrow> releaseWithdrawal e uid (le_lp x) (le_amount x)
            | TransferPending \<Rightarrow> return ())
        })"

text \<open>The body as the rail's decoder reads it; \<open>None\<close> when it cannot.\<close>

definition railWebhook :: "lp_env \<Rightarrow> bool \<Rightarrow> webhook_event option \<Rightarrow> (world, nat) state" where
  "railWebhook e provider body = (if \<not> provider then return 503
   else if \<not> l_signed e then return 401
   else case body of None \<Rightarrow> return 400
   | Some ev \<Rightarrow> do {
       (if (we_type ev = ''charge.success'' \<or> we_type ev = ''deposit'') \<and>
          we_status ev \<noteq> TransferFailed \<and> we_account ev \<noteq> ''''
       then handleDeposit e ev
       else if prefix withdrawalRefPrefix (we_payment_ref ev) then handleWithdrawalFinality e ev
        else return ());
       return 200
     })"

definition Webhook :: "lp_env \<Rightarrow> korapay_webhook option \<Rightarrow> (world, nat) state" where
  "Webhook e body = railWebhook e (l_kora e) (map_option korapay_ParseWebhook body)"

definition FintavaWebhook :: "lp_env \<Rightarrow> fintava_webhook option \<Rightarrow> (world, nat) state" where
  "FintavaWebhook e body = railWebhook e (l_fintava e) (map_option fintava_ParseWebhook body)"

end
