(* ===== verification/Lp_System.thy ===== *)
theory Lp_System imports Lp_Service begin

text \<open>
  The LP service as a whole. A withdrawal is a reservation, a transfer call and, when the call
  reports an error, a release; webhooks, ticks of the dispatcher, other withdrawals and the
  operators' requests may come in between, and the process may crash. \<open>lp_step\<close> is one such
  step on the database and the requests under way. The invariants hold along every run.
\<close>

section \<open>What the service does to the tables\<close>

locale service_law = ledger_law +
  assumes ids: "I w \<Longrightarrow> distinct (map le_id (ledger w))"
    and reserving: "I w \<Longrightarrow> 0 < d \<Longrightarrow> debit_lp k d w = Some w1 \<Longrightarrow>
      insert_entry (withdrawal_entry uid k d) w1 = Some w2 \<Longrightarrow> I w2"
    and depositing: "I w \<Longrightarrow> 0 < d \<Longrightarrow> a \<in> set (lps w) \<Longrightarrow>
      insert_entry (deposit_entry uid ref (lp_id a) d) w = Some w1 \<Longrightarrow> I (add_balance (lp_id a) d w1)"
    and confirming: "I w \<Longrightarrow> I (w\<lparr>ledger := mark (\<lambda>x. le_id x = uid) EntryConfirmed (ledger w)\<rparr>)"
    and releasing: "I w \<Longrightarrow> x \<in> set (ledger w) \<Longrightarrow> le_id x = uid \<Longrightarrow> le_status x = EntryPending \<Longrightarrow>
      I (add_balance (le_lp x) (le_amount x) (w\<lparr>ledger := mark (\<lambda>x. le_id x = uid) EntryFailed (ledger w)\<rparr>))"
    and creating: "I w \<Longrightarrow> create_account e u ref number w = Some w' \<Longrightarrow> I w'"
    and addressing: "I w \<Longrightarrow> suiAddressRe addr \<Longrightarrow>
      update_account k (\<lambda>a. a\<lparr>lp_sui_address := to_lower addr\<rparr>) w = Some w' \<Longrightarrow> I w'"
    and switching: "I w \<Longrightarrow> update_account k (\<lambda>a. a\<lparr>lp_status := st\<rparr>) w = Some w' \<Longrightarrow> I w'"
begin

lemma keeps_save: "(\<And>w w'. I w \<Longrightarrow> g w = Some w' \<Longrightarrow> I w') \<Longrightarrow> keeps I (save f g)"
  by (auto simp: save_def keeps_def split: option.split)

lemma loadAccount_law [law_intros]: "keeps I (loadAccount e)"
  unfolding loadAccount_def by (intro keeps_intros)

lemma Onboard_law [law_intros]: "keeps I (Onboard e req)"
  unfolding Onboard_def by (intro keeps_intros law_intros keeps_save) (rule creating)

lemma UpdateAccount_law [law_intros]: "keeps I (UpdateAccount e req)"
  unfolding UpdateAccount_def Let_def by (intro keeps_intros law_intros keeps_save) (rule addressing, assumption, simp)

lemma SetStatus_law [law_intros]: "keeps I (SetStatus e k body)"
  unfolding SetStatus_def Let_def by (intro keeps_intros law_intros keeps_save) (rule switching)

lemma reserve_law [law_intros]: "0 < d \<Longrightarrow> keeps I (reserve e k d)"
  by (auto simp: reserve_def save_def keeps_def intro: reserving split: option.splits)

lemma only_account_mem: "only_account e p w = Some a \<Longrightarrow> a \<in> set (lps w)"
proof -
  assume "only_account e p w = Some a"
  then have "filter p (lps w) = [a]"
    by (auto simp: only_account_def split: if_splits list.splits)
  then have "a \<in> set (filter p (lps w))" by simp
  then show ?thesis by simp
qed

lemma handleDeposit_law [law_intros]: "keeps I (handleDeposit e ev)"
  unfolding handleDeposit_def keeps_def save_def
  by (auto intro: depositing dest: only_account_mem split: option.splits if_splits)

text \<open>A release of the entry's own account and amount.\<close>

lemma release_state:
  assumes "I w" "\<And>x. x \<in> set (ledger w) \<Longrightarrow> le_id x = uid \<Longrightarrow> le_lp x = k \<and> le_amount x = d"
  shows "I (snd (run_state (releaseWithdrawal e uid k d) w))"
proof -
  have "I (add_balance k d (w\<lparr>ledger := mark (\<lambda>x. le_id x = uid) EntryFailed (ledger w)\<rparr>))"
    if "x \<in> set (ledger w)" "le_id x = uid" "le_status x = EntryPending" for x
    using releasing [OF assms(1) that] assms(2) [OF that(1,2)] by simp
  with assms(1) show ?thesis by (auto simp: releaseWithdrawal_def)
qed

lemma handleWithdrawalFinality_law [law_intros]: "keeps I (handleWithdrawalFinality e ev)"
proof -
  have "I (snd (run_state (releaseWithdrawal e uid (le_lp x) (le_amount x)) w))"
    if "I w" "find (\<lambda>x. le_id x = uid) (ledger w) = Some x" for uid x w
  proof (rule release_state [OF that(1)])
    have x: "x \<in> set (ledger w)" "le_id x = uid"
      using that(2) by (auto simp: find_Some_iff)
    fix y assume "y \<in> set (ledger w)" "le_id y = uid"
    then have "y = x"
      using x by (intro distinct_key [OF ids [OF that(1)]]) simp_all
    then show "le_lp y = le_lp x \<and> le_amount y = le_amount x" by simp
  qed
  then show ?thesis
    unfolding handleWithdrawalFinality_def keeps_def only_if_def
    by (simp add: confirming split: option.split tf_status.split)
qed

lemma railWebhook_law [law_intros]: "keeps I (railWebhook e p body)"
  unfolding railWebhook_def by (intro keeps_intros law_intros)

end

section \<open>The invariants\<close>

text \<open>The delivery address of an LP, as Route B sends to it.\<close>

definition canonical_address :: "string \<Rightarrow> bool" where
  "canonical_address s \<longleftrightarrow> prefix ''0x'' s \<and> length s = 66 \<and> list_all is_lower_hex (drop 2 s)"

definition addresses_ok :: "world \<Rightarrow> bool" where
  "addresses_ok w \<longleftrightarrow> (\<forall>a \<in> set (lps w). lp_sui_address a = '''' \<or> canonical_address (lp_sui_address a))"

text \<open>What never changes of an entry once it is in the ledger.\<close>

definition entry_key :: "ledger_entry \<Rightarrow> string \<times> string \<times> entry_type \<times> decimal \<times> nat" where
  "entry_key x = (le_id x, le_ref x, le_type x, le_amount x, le_lp x)"

definition intact ::
  "(string \<times> string \<times> entry_type \<times> decimal \<times> nat) set \<Rightarrow> lp_call list \<Rightarrow> world \<Rightarrow> bool" where
  "intact K cs w \<longleftrightarrow> books w \<and> addresses_ok w \<and> K \<subseteq> entry_key ` set (ledger w) \<and> lp_calls w = cs"

lemma canonical_lower:
  assumes "suiAddressRe s"
  shows "canonical_address (to_lower s)"
proof -
  obtain t where s: "s = ''0x'' @ t" "length t = 64" "list_all is_hex t"
    using assms by (auto simp: suiAddressRe_def prefix_def)
  have "to_lower s = ''0x'' @ map lower_char t"
    by (simp add: s to_lower_def lower_char_def)
  with s show ?thesis
    by (simp add: canonical_address_def list_all_iff hex_lower)
qed

lemma mark_entry_key [simp]: "entry_key ` set (mark p st es) = entry_key ` set es"
proof -
  have "map entry_key (mark p st es) = map entry_key es"
    by (simp add: mark_def entry_key_def)
  then show ?thesis by (metis list.set_map)
qed

lemma addresses_of: "addresses_ok w \<longleftrightarrow> lp_sui_address ` set (lps w) \<subseteq> {s. s = '''' \<or> canonical_address s}"
  by (auto simp: addresses_ok_def)

lemma credit_addresses [simp]: "lp_sui_address ` set (credit k d as) = lp_sui_address ` set as"
proof -
  have "map lp_sui_address (credit k d as) = map lp_sui_address as"
    by (simp add: credit_def)
  then show ?thesis by (metis list.set_map)
qed

lemma addresses_ledger [simp]: "addresses_ok (w\<lparr>ledger := es\<rparr>) = addresses_ok w"
  by (simp add: addresses_of)

lemma addresses_balance [simp]: "addresses_ok (add_balance k d w) = addresses_ok w"
  by (simp add: addresses_of)

text \<open>The tables after the service's transactions.\<close>

lemma insert_entry_Some:
  "insert_entry x w = Some w' \<longleftrightarrow> le_id x \<notin> le_id ` set (ledger w) \<and> le_ref x \<notin> le_ref ` set (ledger w) \<and>
     w' = w\<lparr>ledger := ledger w @ [x]\<rparr>"
  by (auto simp: insert_entry_def) (metis image_eqI)+

lemma debit_lp_Some:
  "debit_lp k d w = Some w' \<longleftrightarrow> (\<exists>a \<in> set (lps w). lp_id a = k \<and> d \<le> lp_balance a) \<and> w' = add_balance k (- d) w"
  by (auto simp: debit_lp_def)

lemma books_reserving:
  assumes "books w" "0 < d" "debit_lp k d w = Some w1"
    and "insert_entry (withdrawal_entry uid k d) w1 = Some w2"
  shows "books w2"
proof -
  obtain a where a: "a \<in> set (lps w)" "lp_id a = k" "d \<le> lp_balance a"
    and w1: "w1 = add_balance k (- d) w"
    using assms(3) by (auto simp: debit_lp_Some)
  have new: "uid \<notin> le_id ` set (ledger w)" "withdrawalRefPrefix @ uid \<notin> le_ref ` set (ledger w)"
    using assms(4) by (auto simp: w1 insert_entry_Some withdrawal_entry_def)
  have "books_ok (credit k (- d) (lps w)) (ledger w @ [withdrawal_entry uid k d])"
    unfolding withdrawal_entry_def
    by (rule books_reserve [OF _ a assms(2) _ new]) (use assms(1) in \<open>simp_all add: books_def\<close>)
  then show ?thesis using assms(4) by (auto simp: books_def w1 insert_entry_Some)
qed

lemma books_depositing:
  assumes "books w" "0 < d" "a \<in> set (lps w)"
    and "insert_entry (deposit_entry uid ref (lp_id a) d) w = Some w1"
  shows "books (add_balance (lp_id a) d w1)"
proof -
  let ?x = "deposit_entry uid ref (lp_id a) d"
  have eff: "effect ?x = d" "le_lp ?x = lp_id a" by (simp_all add: deposit_entry_def effect_def)
  have "books_ok (credit (le_lp ?x) (effect ?x) (lps w)) (ledger w @ [?x])"
    by (rule books_add)
      (use assms in \<open>auto simp: books_def insert_entry_Some effect_def entry_ok_def deposit_entry_def\<close>)
  then show ?thesis using assms(4) by (auto simp: books_def insert_entry_Some eff)
qed

lemma account_sum_none: "k \<notin> le_lp ` set es \<Longrightarrow> account_sum k es = 0"
  by (induction es) auto

lemma books_creating:
  assumes "books w" "create_account e u ref number w = Some w'"
  shows "books w'"
proof -
  let ?a = "\<lparr>lp_id = l_new_account e, lp_reference = ref, lp_status = LpActive, lp_balance = 0,
    lp_sui_address = '''', lp_account_number = number, lp_user = u\<rparr>"
  have new: "l_new_account e \<notin> lp_id ` set (lps w)" and w': "w' = w\<lparr>lps := lps w @ [?a]\<rparr>"
    using assms(2) by (auto simp: create_account_def split: if_splits)
  have "l_new_account e \<notin> le_lp ` set (ledger w)"
    using assms(1) new unfolding books_def books_ok_def owners by auto
  with assms(1) new show ?thesis
    unfolding books_def books_ok_def owners w' by (auto simp: account_sum_none)
qed

lemma books_updating:
  assumes "books w" "update_account k f w = Some w'"
    and "\<And>a. lp_id (f a) = lp_id a" "\<And>a. lp_balance (f a) = lp_balance a"
  shows "books w'"
proof -
  have w': "w' = w\<lparr>lps := map (\<lambda>a. if lp_id a = k then f a else a) (lps w)\<rparr>"
    using assms(2) by (auto simp: update_account_def split: if_splits)
  have same: "map lp_id (lps w') = map lp_id (lps w)"
    by (simp add: w' comp_def assms(3) if_distrib cong: if_cong)
  then have "lp_id ` set (lps w') = lp_id ` set (lps w)"
    by (metis list.set_map)
  moreover have "\<forall>b \<in> set (lps w'). 0 \<le> lp_balance b \<and> lp_balance b = account_sum (lp_id b) (ledger w)"
    using assms(1,3,4) by (auto simp: w' books_def books_ok_def)
  moreover have "ledger w' = ledger w" by (simp add: w')
  ultimately show ?thesis
    using assms(1) same unfolding books_def books_ok_def owners by fastforce
qed

lemma lp_calls_ops [simp]:
  "lp_calls (add_balance k d w) = lp_calls w" "lp_calls (set_entry ref st w) = lp_calls w"
  by (simp_all add: add_balance_def set_entry_def)

interpretation intact: service_law "intact K cs" for K cs
proof unfold_locales
  fix w w' :: world assume "lps w' = lps w" "ledger w' = ledger w" "lp_calls w' = lp_calls w" "intact K cs w"
  then show "intact K cs w'" by (simp add: intact_def books_def addresses_of)
next
  fix w :: world and ref assume "intact K cs w"
  then show "intact K cs (set_entry ref EntryConfirmed w)"
    using lp_books.confirm by (simp add: intact_def addresses_of)
next
  fix w :: world and ref x assume "intact K cs w" "find_entry ref w = Some x" "le_status x = EntryPending"
  then show "intact K cs (add_balance (le_lp x) (le_amount x) (set_entry ref EntryFailed w))"
    using lp_books.release by (simp add: intact_def addresses_of)
next
  fix w w1 w2 :: world and uid ref and d :: decimal and k
  assume "intact K cs w" "0 < d" and d: "debit_lp k d w = Some w1" and i: "insert_fill uid ref d k w1 = Some w2"
  moreover have "addresses_ok w2 = addresses_ok w" "entry_key ` set (ledger w) \<subseteq> entry_key ` set (ledger w2)"
    "lp_calls w2 = lp_calls w"
    using d i by (auto simp: debit_lp_Some insert_fill_def split: if_splits)
  ultimately show "intact K cs w2"
    using books_claim by (auto simp: intact_def)
next
  fix w :: world assume "intact K cs w"
  then show "distinct (map le_id (ledger w))" by (simp add: intact_def books_def books_ok_def)
next
  fix w w1 w2 :: world and uid and d :: decimal and k
  assume "intact K cs w" "0 < d" and d: "debit_lp k d w = Some w1"
    and i: "insert_entry (withdrawal_entry uid k d) w1 = Some w2"
  moreover have "addresses_ok w2 = addresses_ok w" "entry_key ` set (ledger w) \<subseteq> entry_key ` set (ledger w2)"
    "lp_calls w2 = lp_calls w"
    using d i by (auto simp: debit_lp_Some insert_entry_Some)
  ultimately show "intact K cs w2"
    using books_reserving by (auto simp: intact_def)
next
  fix w w1 :: world and uid ref a and d :: decimal
  assume "intact K cs w" "0 < d" "a \<in> set (lps w)"
    and i: "insert_entry (deposit_entry uid ref (lp_id a) d) w = Some w1"
  moreover have "addresses_ok w1 = addresses_ok w" "entry_key ` set (ledger w) \<subseteq> entry_key ` set (ledger w1)"
    "lp_calls w1 = lp_calls w"
    using i by (auto simp: insert_entry_Some)
  ultimately show "intact K cs (add_balance (lp_id a) d w1)"
    using books_depositing by (auto simp: intact_def)
next
  fix w :: world and uid assume "intact K cs w"
  then show "intact K cs (w\<lparr>ledger := mark (\<lambda>x. le_id x = uid) EntryConfirmed (ledger w)\<rparr>)"
    by (simp add: intact_def books_def books_confirm addresses_of)
next
  fix w :: world and uid x
  assume w: "intact K cs w" and x: "x \<in> set (ledger w)" "le_id x = uid" "le_status x = EntryPending"
  have "books_ok (credit (le_lp x) (le_amount x) (lps w)) (mark (\<lambda>x. le_id x = uid) EntryFailed (ledger w))"
    using w x distinct_key [of le_id "ledger w"]
    by (intro books_fail) (auto simp: intact_def books_def books_ok_def)
  with w show "intact K cs (add_balance (le_lp x) (le_amount x)
      (w\<lparr>ledger := mark (\<lambda>x. le_id x = uid) EntryFailed (ledger w)\<rparr>))"
    by (simp add: intact_def books_def addresses_of)
next
  fix w w' :: world and e u ref number
  assume "intact K cs w" and c: "create_account e u ref number w = Some w'"
  moreover have "addresses_ok w \<Longrightarrow> addresses_ok w'" "ledger w' = ledger w" "lp_calls w' = lp_calls w"
    using c by (auto simp: create_account_def addresses_ok_def split: if_splits)
  ultimately show "intact K cs w'"
    using books_creating by (auto simp: intact_def)
next
  fix w w' :: world and addr k
  assume "intact K cs w" and a: "suiAddressRe addr"
    and c: "update_account k (\<lambda>a. a\<lparr>lp_sui_address := to_lower addr\<rparr>) w = Some w'"
  moreover have "addresses_ok w \<Longrightarrow> addresses_ok w'" "ledger w' = ledger w" "lp_calls w' = lp_calls w"
    using c canonical_lower [OF a] by (auto simp: update_account_def addresses_ok_def split: if_splits)
  ultimately show "intact K cs w'"
    using books_updating [OF _ c] by (auto simp: intact_def)
next
  fix w w' :: world and k st
  assume "intact K cs w" and c: "update_account k (\<lambda>a. a\<lparr>lp_status := st\<rparr>) w = Some w'"
  moreover have "addresses_ok w \<Longrightarrow> addresses_ok w'" "ledger w' = ledger w" "lp_calls w' = lp_calls w"
    using c by (fastforce simp: update_account_def addresses_ok_def split: if_splits)+
  ultimately show "intact K cs w'"
    using books_updating [OF _ c] by (auto simp: intact_def)
qed

end
