(* ===== verification/Lp_Runs.thy ===== *)
theory Lp_Runs imports Lp_System begin

text \<open>
  Runs of the whole LP system, step by step, and the properties that hold along every one of
  them: the books, the delivery addresses, and that no withdrawal is submitted twice.
\<close>

section \<open>Steps\<close>

text \<open>
  A withdrawal request under way after its reservation: about to call the rail, or about to
  release because the call reported an error.
\<close>

record request =
  rq_id :: string
  rq_lp :: nat
  rq_amount :: decimal
  rq_failed :: bool

inductive lp_step :: "world \<times> request list \<Rightarrow> world \<times> request list \<Rightarrow> bool" where
  reserved: "0 < d \<Longrightarrow> run_state (reserve e k d) w = (None, w') \<Longrightarrow>
     lp_step (w, q) (w', \<lparr>rq_id = l_new_entry e, rq_lp = k, rq_amount = d, rq_failed = False\<rparr> # q)"
| not_reserved: "0 < d \<Longrightarrow> run_state (reserve e k d) w = (Some code, w') \<Longrightarrow> lp_step (w, q) (w', q)"
| submitted: "\<not> rq_failed x \<Longrightarrow>
     run_state (submit_withdrawal e (rq_id x) (rq_amount x) r) w = (TransferOk st, w') \<Longrightarrow>
     lp_step (w, p @ x # q) (w', p @ q)"
| submit_error: "\<not> rq_failed x \<Longrightarrow>
     run_state (submit_withdrawal e (rq_id x) (rq_amount x) r) w = (TransferErr b, w') \<Longrightarrow>
     lp_step (w, p @ x # q) (w', p @ x\<lparr>rq_failed := True\<rparr> # q)"
| released: "rq_failed x \<Longrightarrow>
     lp_step (w, p @ x # q)
       (snd (run_state (releaseWithdrawal e (rq_id x) (rq_lp x) (rq_amount x)) w), p @ q)"
| crashed: "lp_step (w, p @ x # q) (w, p @ q)"
| onboard: "lp_step (w, q) (snd (run_state (Onboard e req) w), q)"
| address: "lp_step (w, q) (snd (run_state (UpdateAccount e addr) w), q)"
| status: "lp_step (w, q) (snd (run_state (SetStatus e k body) w), q)"
| webhook: "lp_step (w, q) (snd (run_state (railWebhook e provider ev) w), q)"
| tick: "lp_step (w, q) (snd (run_state (Tick E) w), q)"
| outside: "lps w' = lps w \<Longrightarrow> ledger w' = ledger w \<Longrightarrow> lp_calls w' = lp_calls w \<Longrightarrow> lp_step (w, q) (w', q)"

inductive lp_run :: "world \<times> request list \<Rightarrow> bool" where
  start: "lps w = [] \<Longrightarrow> ledger w = [] \<Longrightarrow> lp_calls w = [] \<Longrightarrow> lp_run (w, [])"
| step: "lp_run s \<Longrightarrow> lp_step s t \<Longrightarrow> lp_run t"

section \<open>The invariant of a run\<close>

fun lp_call_ref :: "lp_call \<Rightarrow> string" where "lp_call_ref (CallWithdraw ref _ _) = ref"

text \<open>A call belongs to a withdrawal entry of its reference and amount.\<close>

fun call_backed :: "world \<Rightarrow> lp_call \<Rightarrow> bool" where
  "call_backed w (CallWithdraw ref d _) =
     (\<exists>x \<in> set (ledger w). le_ref x = ref \<and> le_type x = Withdrawal \<and> le_amount x = d)"

definition request_key :: "request \<Rightarrow> string \<times> string \<times> entry_type \<times> decimal \<times> nat" where
  "request_key x = (rq_id x, withdrawalRefPrefix @ rq_id x, Withdrawal, rq_amount x, rq_lp x)"

definition run_ok :: "world \<times> request list \<Rightarrow> bool" where
  "run_ok s \<longleftrightarrow> (case s of (w, q) \<Rightarrow>
     intact (request_key ` set q) (lp_calls w) w \<and> distinct (map rq_id q) \<and>
     distinct (map lp_call_ref (lp_calls w)) \<and> (\<forall>c \<in> set (lp_calls w). call_backed w c) \<and>
     (\<forall>x \<in> set q. \<not> rq_failed x \<longrightarrow> withdrawalRefPrefix @ rq_id x \<notin> lp_call_ref ` set (lp_calls w)))"

definition call_keys :: "world \<Rightarrow> (string \<times> string \<times> entry_type \<times> decimal \<times> nat) set" where
  "call_keys w = entry_key ` set (ledger w)"

lemma backed_mono:
  assumes "entry_key ` set (ledger w) \<subseteq> entry_key ` set (ledger w')" "call_backed w c"
  shows "call_backed w' c"
proof (cases c)
  case (CallWithdraw ref d oc)
  then obtain x where x: "x \<in> set (ledger w)" "le_ref x = ref" "le_type x = Withdrawal" "le_amount x = d"
    using assms(2) by auto
  then obtain y where "y \<in> set (ledger w')" "entry_key x = entry_key y"
    using assms(1) by blast
  with x CallWithdraw show ?thesis by (force simp: entry_key_def)
qed

lemma backed_ref: "call_backed w c \<Longrightarrow> lp_call_ref c \<in> le_ref ` set (ledger w)"
  by (cases c) auto

text \<open>An operation that keeps every intact ledger keeps the invariant of the run.\<close>

lemma run_ok_op:
  assumes "run_ok (w, q)" "\<And>K cs. intact K cs w \<Longrightarrow> intact K cs w'"
  shows "run_ok (w', q)"
proof -
  have "intact (call_keys w) (lp_calls w) w"
    using assms(1) by (simp add: run_ok_def intact_def call_keys_def)
  then have "intact (call_keys w) (lp_calls w) w'" by (rule assms(2))
  then have "entry_key ` set (ledger w) \<subseteq> entry_key ` set (ledger w')" "lp_calls w' = lp_calls w"
    by (simp_all add: intact_def call_keys_def)
  moreover from this(1) have "call_backed w' c" if "call_backed w c" for c
    using that by (rule backed_mono)
  ultimately show ?thesis
    using assms by (simp add: run_ok_def)
qed

lemma run_ok_drop: "run_ok (w, p @ x # q) \<Longrightarrow> run_ok (w, p @ q)"
  by (auto simp: run_ok_def intact_def)

lemma run_ok_reserve:
  assumes "run_ok (w, q)" "0 < d" "run_state (reserve e k d) w = (None, w')"
  shows "run_ok (w', \<lparr>rq_id = l_new_entry e, rq_lp = k, rq_amount = d, rq_failed = False\<rparr> # q)"
proof -
  let ?uid = "l_new_entry e"
  obtain w1 where "debit_lp k d w = Some w1" "insert_entry (withdrawal_entry ?uid k d) w1 = Some w'"
    using assms(3) by (auto simp: reserve_def save_def split: if_splits option.splits)
  then have led: "ledger w' = ledger w @ [withdrawal_entry ?uid k d]"
    and new: "?uid \<notin> le_id ` set (ledger w)" "withdrawalRefPrefix @ ?uid \<notin> le_ref ` set (ledger w)"
    by (auto simp: debit_lp_Some insert_entry_Some withdrawal_entry_def)
  have "run_ok (w', q)"
    using keepsD [OF intact.reserve_law [of d _ _ e k, OF assms(2)]] assms(3)
    by (intro run_ok_op [OF assms(1)]) (metis snd_conv)
  moreover have "?uid \<notin> rq_id ` set q"
    using assms(1) new(1) by (force simp: run_ok_def intact_def request_key_def entry_key_def)
  moreover have "lp_call_ref ` set (lp_calls w) \<subseteq> le_ref ` set (ledger w)"
    using assms(1) backed_ref by (auto simp: run_ok_def)
  then have "withdrawalRefPrefix @ ?uid \<notin> lp_call_ref ` set (lp_calls w)" using new(2) by blast
  moreover have "lp_calls w' = lp_calls w"
    using assms(3) by (auto simp: reserve_def save_def debit_lp_Some insert_entry_Some split: if_splits option.splits)
  ultimately show ?thesis
    by (auto simp: run_ok_def intact_def led request_key_def entry_key_def withdrawal_entry_def)
qed

lemma run_ok_submit:
  assumes "run_ok (w, p @ x # q)" "\<not> rq_failed x"
    and "run_state (submit_withdrawal e (rq_id x) (rq_amount x) r) w = (res, w')"
  shows "run_ok (w', p @ x\<lparr>rq_failed := True\<rparr> # q)"
proof -
  let ?ref = "withdrawalRefPrefix @ rq_id x"
  obtain oc where w': "w' = w\<lparr>lp_calls := lp_calls w @ [CallWithdraw ?ref (rq_amount x) oc]\<rparr>"
    using assms(3) by (auto simp: submit_withdrawal_def Let_def)
  have "request_key x \<in> entry_key ` set (ledger w)"
    using assms(1) by (auto simp: run_ok_def intact_def)
  then have backed: "call_backed w (CallWithdraw ?ref (rq_amount x) oc)"
    by (force simp: request_key_def entry_key_def)
  have key: "request_key (x\<lparr>rq_failed := True\<rparr>) = request_key x"
    by (simp add: request_key_def)
  have other: "call_backed w' c = call_backed w c" for c
    by (cases c) (simp add: w')
  have "intact (request_key ` set (p @ x # q)) (lp_calls w') w'"
    using assms(1) by (simp add: run_ok_def w' intact_def books_def addresses_of)
  moreover have "rq_id y \<noteq> rq_id x" if "y \<in> set p \<union> set q" for y
  proof -
    have "rq_id x \<notin> rq_id ` (set p \<union> set q)" using assms(1) by (auto simp: run_ok_def)
    then show ?thesis using that by (metis imageI)
  qed
  ultimately show ?thesis
    using assms(1,2) backed by (auto simp: run_ok_def w' key other [unfolded w'])
qed

lemma run_ok_release:
  assumes "run_ok (w, p @ x # q)"
  shows "run_ok (snd (run_state (releaseWithdrawal e (rq_id x) (rq_lp x) (rq_amount x)) w), p @ q)"
proof (rule run_ok_op [OF run_ok_drop [OF assms]])
  fix K cs assume w: "intact K cs w"
  have "request_key x \<in> entry_key ` set (ledger w)"
    using assms by (auto simp: run_ok_def intact_def)
  then obtain y where y: "y \<in> set (ledger w)" "le_id y = rq_id x" "le_lp y = rq_lp x" "le_amount y = rq_amount x"
    by (auto simp: request_key_def entry_key_def)
  show "intact K cs (snd (run_state (releaseWithdrawal e (rq_id x) (rq_lp x) (rq_amount x)) w))"
  proof (rule intact.release_state [OF w])
    fix z assume "z \<in> set (ledger w)" "le_id z = rq_id x"
    then have "z = y"
      using y by (intro distinct_key [OF intact.ids [OF w]]) simp_all
    then show "le_lp z = rq_lp x \<and> le_amount z = rq_amount x" using y by simp
  qed
qed

lemma run_ok_step: "lp_step s t \<Longrightarrow> run_ok s \<Longrightarrow> run_ok t"
proof (induction rule: lp_step.induct)
  case (reserved d e k w w' q)
  then show ?case by (intro run_ok_reserve)
next
  case (not_reserved d e k w code w' q)
  show ?case
  proof (rule run_ok_op [OF not_reserved(3)])
    show "intact K cs w'" if "intact K cs w" for K cs
      using keepsD [OF intact.reserve_law [of d _ _ e k, OF not_reserved(1)] that] not_reserved(2) by simp
  qed
next
  case (submitted x e r w st w' p q)
  then show ?case using run_ok_submit run_ok_drop by blast
next
  case (submit_error x e r w b w' p q)
  then show ?case using run_ok_submit by blast
next
  case (released x e w p q)
  then show ?case by (intro run_ok_release)
next
  case (crashed w p x q)
  then show ?case by (rule run_ok_drop)
next
  case (outside w' w q)
  then show ?case using intact.tables by (auto intro: run_ok_op)
qed (auto intro: run_ok_op keepsD [OF intact.Onboard_law] keepsD [OF intact.UpdateAccount_law]
    keepsD [OF intact.SetStatus_law] keepsD [OF intact.railWebhook_law] keepsD [OF intact.Tick_law])

lemma run_ok_run: "lp_run s \<Longrightarrow> run_ok s"
proof (induction rule: lp_run.induct)
  case (start w)
  then show ?case by (simp add: run_ok_def intact_def books_def books_ok_def addresses_ok_def)
qed (rule run_ok_step)

section \<open>Properties of every run\<close>


text \<open>C11. Along every run, no two transfer calls for withdrawals carry the same reference, and
  every one was reserved before: the ledger has a withdrawal entry of its reference and
  amount.\<close>

theorem lp_run_withdraws_once:
  "lp_run (w, q) \<Longrightarrow> distinct (map lp_call_ref (lp_calls w)) \<and> list_all (call_backed w) (lp_calls w)"
  using run_ok_run [of "(w, q)"] by (simp add: run_ok_def list_all_iff)

text \<open>Along every run, an LP that can be matched for a fill has a well-formed delivery
  address: \<open>0x\<close> and 64 lower-case hexadecimal digits.\<close>

theorem lp_run_addresses:
  "lp_run (w, q) \<Longrightarrow> match_lp e i target w = Some a \<Longrightarrow> canonical_address (lp_sui_address a)"
proof -
  have mem: "richest as = Some b \<Longrightarrow> b \<in> set as" for as b
    by (induction as arbitrary: b) (auto split: option.splits if_splits)
  assume "lp_run (w, q)" "match_lp e i target w = Some a"
  moreover from this(1) have "addresses_ok w" using run_ok_run by (auto simp: run_ok_def intact_def)
  ultimately show ?thesis
    by (auto simp: match_lp_def addresses_ok_def lp_eligible_def split: if_splits dest!: mem)
qed

lemma submit_release_steps:
  "lp_step\<^sup>*\<^sup>* (w, \<lparr>rq_id = uid, rq_lp = k, rq_amount = d, rq_failed = False\<rparr> # q)
     (snd (run_state (do {
        res \<leftarrow> submit_withdrawal e uid d r;
        case res of
          TransferErr _ \<Rightarrow> do { releaseWithdrawal e uid k d; return 502 }
        | TransferOk _ \<Rightarrow> return (202 :: nat) }) w), q)"
  (is "_ (_, ?x # q) (?w', q)")
proof -
  obtain res w2 where sub: "run_state (submit_withdrawal e uid d r) w = (res, w2)" by fastforce
  show ?thesis
  proof (cases res)
    case (TransferOk st)
    then have "lp_step (w, [] @ ?x # q) (w2, [] @ q)"
      using sub by (intro lp_step.submitted) simp_all
    then show ?thesis using sub TransferOk by auto
  next
    case (TransferErr b)
    then have "lp_step (w, [] @ ?x # q) (w2, [] @ ?x\<lparr>rq_failed := True\<rparr> # q)"
      using sub by (intro lp_step.submit_error) simp_all
    moreover have "lp_step (w2, [] @ ?x\<lparr>rq_failed := True\<rparr> # q) (?w', [] @ q)"
      using lp_step.released [of "?x\<lparr>rq_failed := True\<rparr>" w2 "[]" q e] sub TransferErr
      by (cases "run_state (releaseWithdrawal e uid k d) w2") simp
    ultimately show ?thesis by (auto intro: converse_rtranclp_into_rtranclp)
  qed
qed

text \<open>A withdrawal request handled in one go is a path of these steps, whatever its environment.\<close>

theorem Withdraw_refines_steps: "lp_step\<^sup>*\<^sup>* (w, q) (snd (run_state (Withdraw e req) w), q)"
proof (cases "\<exists>a r d. l_kora e \<and> run_state (loadAccount e) w = (Inr a, w) \<and> lp_status a = LpActive \<and>
      req = Some r \<and> l_parse_dec e (wr_amount r) = Some d \<and> 1000 \<le> d")
  case False
  then have "snd (run_state (Withdraw e req) w) = w"
    by (cases "run_state (loadAccount e) w")
      (auto simp: Withdraw_def not_less loadAccount_def split: sum.splits option.splits prod.splits)
  then show ?thesis by simp
next
  case True
  then obtain a r d where *: "l_kora e" "run_state (loadAccount e) w = (Inr a, w)" "lp_status a = LpActive"
    "req = Some r" "l_parse_dec e (wr_amount r) = Some d" "\<not> d < 1000" by (auto simp: not_less)
  then have pos: "0 < d" by simp
  obtain err w1 where res: "run_state (reserve e (lp_id a) d) w = (err, w1)" by fastforce
  show ?thesis
  proof (cases err)
    case (Some code)
    then show ?thesis
      using lp_step.not_reserved [OF pos, of e "lp_id a" w code w1 q] * pos res by (simp add: Withdraw_def)
  next
    case None
    then show ?thesis
      using lp_step.reserved [OF pos, of e "lp_id a" w w1 q]
        submit_release_steps [of w1 "l_new_entry e" "lp_id a" d q e r] * pos res
      by (simp add: Withdraw_def converse_rtranclp_into_rtranclp)
  qed
qed

end
