(* ===== verification/Lp_Results.thy ===== *)
theory Lp_Results imports Lp_Runs begin

text \<open>
  What the operations of the LP service do: a withdrawal on its two outcomes, webhooks and
  their redeliveries, and concrete executions of the service.
\<close>

section \<open>Withdrawals\<close>

lemma credit_back [simp]: "credit k d (credit k (- d) as) = as"
  by (auto simp: credit_def intro: map_idI)

lemma add_balance_credit: "add_balance k d w = w\<lparr>lps := credit k d (lps w)\<rparr>"
  by (simp add: add_balance_def credit_def)


section \<open>Webhooks\<close>

lemma settled_entry: "(\<And>x. x \<in> set es \<Longrightarrow> p x \<Longrightarrow> le_status x \<noteq> EntryPending) \<Longrightarrow> mark p st es = es"
  unfolding mark_def by (rule map_idI) auto

text \<open>Once no pending entry has the id, no verdict of the rail changes anything.\<close>

lemma finality_settled:
  assumes "\<And>x uid. l_parse_uuid e (trim_prefix withdrawalRefPrefix (we_payment_ref ev)) = Some uid \<Longrightarrow>
      x \<in> set (ledger w) \<Longrightarrow> le_id x = uid \<Longrightarrow> le_status x \<noteq> EntryPending"
  shows "run_state (handleWithdrawalFinality e ev) w = ((), w)"
proof (cases "l_parse_uuid e (trim_prefix withdrawalRefPrefix (we_payment_ref ev))")
  case (Some uid)
  then have "x \<in> set (ledger w) \<Longrightarrow> le_id x = uid \<Longrightarrow> le_status x \<noteq> EntryPending" for x
    using assms by blast
  then have "mark (\<lambda>x. le_id x = uid) EntryConfirmed (ledger w) = ledger w"
    "\<not> (\<exists>x \<in> set (ledger w). le_id x = uid \<and> le_status x = EntryPending)"
    by (auto intro: settled_entry)
  with Some show ?thesis
    by (auto simp: handleWithdrawalFinality_def releaseWithdrawal_def only_if_def split: option.split tf_status.split)
qed (simp add: handleWithdrawalFinality_def)

lemma release_ledger:
  "snd (run_state (releaseWithdrawal e uid k d) w) = w \<or>
   ledger (snd (run_state (releaseWithdrawal e uid k d) w)) = mark (\<lambda>x. le_id x = uid) EntryFailed (ledger w)"
  by (simp add: releaseWithdrawal_def)

lemma finality_ledger:
  assumes "l_parse_uuid e (trim_prefix withdrawalRefPrefix (we_payment_ref ev)) = Some uid"
  shows "snd (run_state (handleWithdrawalFinality e ev) w) = w \<or>
    (\<exists>st. st \<noteq> EntryPending \<and>
      ledger (snd (run_state (handleWithdrawalFinality e ev) w)) = mark (\<lambda>x. le_id x = uid) st (ledger w))"
proof (cases "if l_fault e LFind = DbOk then find (\<lambda>x. le_id x = uid) (ledger w) else None")
  case (Some x)
  let ?s = "snd (run_state (handleWithdrawalFinality e ev) w)"
  have run: "?s = (case we_status ev of
      TransferSuccess \<Rightarrow> if l_fault e LConfirm = DbFail then w
        else w\<lparr>ledger := mark (\<lambda>x. le_id x = uid) EntryConfirmed (ledger w)\<rparr>
    | TransferFailed \<Rightarrow> snd (run_state (releaseWithdrawal e uid (le_lp x) (le_amount x)) w)
    | TransferPending \<Rightarrow> w)"
    using assms Some by (simp add: handleWithdrawalFinality_def only_if_def split: tf_status.split)
  have "?s = w \<or> ledger ?s = mark (\<lambda>x. le_id x = uid) EntryConfirmed (ledger w) \<or>
      ledger ?s = mark (\<lambda>x. le_id x = uid) EntryFailed (ledger w)"
    unfolding run using release_ledger [of e uid "le_lp x" "le_amount x" w]
    by (cases "we_status ev") auto
  then show ?thesis by blast
qed (simp add: handleWithdrawalFinality_def assms)

lemma finality_settles:
  assumes "w' = snd (run_state (handleWithdrawalFinality e ev) w)" "w' \<noteq> w"
    and "l_parse_uuid e (trim_prefix withdrawalRefPrefix (we_payment_ref ev)) = Some uid"
    and "x \<in> set (ledger w')" "le_id x = uid"
  shows "le_status x \<noteq> EntryPending"
proof -
  obtain st where st: "st \<noteq> EntryPending" "ledger w' = mark (\<lambda>x. le_id x = uid) st (ledger w)"
    using finality_ledger [OF assms(3), of w, folded assms(1)] assms(2) by auto
  from assms(4) have "x \<in> set (mark (\<lambda>x. le_id x = uid) st (ledger w))" unfolding st(2) .
  then obtain y where y: "x = (if le_id y = uid \<and> le_status y = EntryPending then y\<lparr>le_status := st\<rparr> else y)"
    unfolding mark_def set_map by (rule imageE)
  then show ?thesis using assms(5) st(1) by (cases "le_id y = uid \<and> le_status y = EntryPending") simp_all
qed

lemma deposit_known:
  assumes "we_provider_ref ev \<in> le_ref ` set (ledger w)"
  shows "run_state (handleDeposit e ev) w = ((), w)"
  using assms by (auto simp: handleDeposit_def insert_entry_def deposit_entry_def split: option.split)

lemma deposit_adds:
  assumes "snd (run_state (handleDeposit e ev) w) \<noteq> w"
  shows "we_provider_ref ev \<in> le_ref ` set (ledger (snd (run_state (handleDeposit e ev) w)))"
  using assms
  by (auto simp: handleDeposit_def save_def insert_entry_def deposit_entry_def split: option.splits if_splits)

text \<open>C12. A webhook that changed anything changes nothing when it is delivered again, whatever
  the database does on either delivery: a deposit is credited once and a withdrawal is
  finalised once.\<close>

theorem railWebhook_replay:
  assumes "w' = snd (run_state (railWebhook e p (Some ev)) w)" "w' \<noteq> w"
    and "l_parse_uuid e' = l_parse_uuid e"
  shows "snd (run_state (railWebhook e' p' (Some ev)) w') = w'"
proof -
  consider (deposit) "(we_type ev = ''charge.success'' \<or> we_type ev = ''deposit'') \<and>
      we_status ev \<noteq> TransferFailed \<and> we_account ev \<noteq> ''''" "w' = snd (run_state (handleDeposit e ev) w)"
    | (finality) "\<not> ((we_type ev = ''charge.success'' \<or> we_type ev = ''deposit'') \<and>
      we_status ev \<noteq> TransferFailed \<and> we_account ev \<noteq> '''')" "prefix withdrawalRefPrefix (we_payment_ref ev)"
      "w' = snd (run_state (handleWithdrawalFinality e ev) w)"
    using assms(1,2) by (auto simp: railWebhook_def split: if_splits prod.splits)
  then show ?thesis
  proof cases
    case deposit
    then have "run_state (handleDeposit e' ev) w' = ((), w')"
      using deposit_adds assms(2) by (intro deposit_known) blast
    with deposit(1) show ?thesis by (auto simp: railWebhook_def)
  next
    case finality
    have "run_state (handleWithdrawalFinality e' ev) w' = ((), w')"
      using finality_settles [OF finality(3) assms(2)] assms(3) by (intro finality_settled) auto
    with finality(1,2) show ?thesis by (auto simp: railWebhook_def)
  qed
qed

text \<open>A terminal withdrawal is final: whatever a later webhook says of it, in whatever
  environment, the books do not change.\<close>

theorem finality_is_final:
  assumes "l_parse_uuid e (trim_prefix withdrawalRefPrefix (we_payment_ref ev)) = Some (le_id x)"
    and "x \<in> set (ledger w)" "le_status x \<noteq> EntryPending" "distinct (map le_id (ledger w))"
  shows "run_state (handleWithdrawalFinality e ev) w = ((), w)"
  using assms distinct_key [OF assms(4)] by (intro finality_settled) auto

end
