(* ===== verification/Lp_Samples.thy ===== *)
theory Lp_Samples imports Lp_Results Route_Samples begin

text \<open>
  Concrete runs of the LP service: an account is opened, funded and made matchable, and
  withdrawals end well and badly. They show that the properties' hypotheses can hold, and the
  executions in which the service does not do what it means to.
\<close>

section \<open>An account that is opened, funded and matchable\<close>

definition naira :: "string \<Rightarrow> decimal option" where
  "naira s = (if s = ''5000'' then Some 5000 else None)"

definition lp_calm :: lp_env where
  "lp_calm = \<lparr>l_fault = (\<lambda>_. DbOk), l_kora = True, l_fintava = True, l_user = Some (2, ''u2''),
     l_new_entry = ''e1'', l_new_account = 5, l_bvn = True, l_vba = Some ''9900'',
     l_transfer = (\<lambda>_. TransferOk TransferPending), l_parse_dec = naira, l_parse_uuid = Some, l_signed = True\<rparr>"

definition deposit_event :: webhook_event where
  "deposit_event = \<lparr>we_type = ''charge.success'', we_payment_ref = ''kpy-1'', we_provider_ref = ''kpy-1'',
     we_status = TransferSuccess, we_raw_status = ''success'', we_amount = ''5000'', we_account = ''9900''\<rparr>"

definition some_address :: string where "some_address = ''0x'' @ replicate 64 CHR ''A''"

definition lp_fresh :: world where "lp_fresh = empty_world\<lparr>lps := []\<rparr>"

definition lp_opened :: world where
  "lp_opened = snd (run_state (Onboard lp_calm (Some ())) lp_fresh)"

definition lp_funded :: world where
  "lp_funded = snd (run_state (railWebhook lp_calm True (Some deposit_event)) lp_opened)"

definition lp_matchable :: world where
  "lp_matchable = snd (run_state (UpdateAccount lp_calm (Some some_address)) lp_funded)"

definition opened_account :: lp_account where
  "opened_account = \<lparr>lp_id = 5, lp_reference = ''lp-u2'', lp_status = LpActive, lp_balance = 0,
     lp_sui_address = '''', lp_account_number = ''9900'', lp_user = 2\<rparr>"

lemma lp_opened_eq: "lp_opened = lp_fresh\<lparr>lps := [opened_account]\<rparr>"
  by (simp add: lp_opened_def Onboard_def lp_calm_def lp_fresh_def only_account_def save_def
      create_account_def opened_account_def)

lemma lp_funded_eq:
  "lp_funded = lp_fresh\<lparr>lps := [opened_account\<lparr>lp_balance := 5000\<rparr>], ledger := [deposit_entry ''e1'' ''kpy-1'' 5 5000]\<rparr>"
  by (simp add: lp_funded_def lp_opened_eq railWebhook_def deposit_event_def handleDeposit_def only_account_def
      lp_calm_def naira_def insert_entry_def deposit_entry_def save_def add_balance_def opened_account_def
      lp_fresh_def empty_world_def)

lemma address_facts:
  "trim_space some_address = some_address" "suiAddressRe some_address"
  "to_lower some_address = ''0x'' @ replicate 64 CHR ''a''"
  by code_simp+

lemma lp_matchable_eq:
  "lp_matchable = lp_funded\<lparr>lps := [opened_account\<lparr>lp_balance := 5000, lp_sui_address := to_lower some_address\<rparr>]\<rparr>"
  by (simp add: lp_matchable_def UpdateAccount_def loadAccount_def lp_funded_eq only_account_def save_def
      update_account_def lp_calm_def opened_account_def address_facts(1,2))

lemma lp_matchable_run: "lp_run (lp_matchable, [])"
proof -
  have "lp_run (lp_fresh, [])" by (rule lp_run.start) (simp_all add: lp_fresh_def empty_world_def)
  then have "lp_run (lp_opened, [])" unfolding lp_opened_def by (rule lp_run.step) (rule lp_step.onboard)
  then have "lp_run (lp_funded, [])" unfolding lp_funded_def by (rule lp_run.step) (rule lp_step.webhook)
  then show ?thesis unfolding lp_matchable_def by (rule lp_run.step) (rule lp_step.address)
qed


lemma lp_run_addresses_witness:
  "\<exists>a. match_lp calm 7 4000 lp_matchable = Some a \<and> canonical_address (lp_sui_address a)"
proof -
  obtain a where "match_lp calm 7 4000 lp_matchable = Some a"
    by (simp add: match_lp_def calm_def lp_matchable_eq lp_eligible_def opened_account_def address_facts(3))
  then show ?thesis using lp_run_addresses [OF lp_matchable_run] by blast
qed

lemma lp_funded_books: "books lp_funded"
  by (simp add: books_def books_ok_def lp_funded_eq lp_fresh_def empty_world_def deposit_entry_def
      entry_ok_def effect_def opened_account_def)

lemma Tick_books_witness: "books (snd (run_state (Tick (\<lambda>_. calm)) lp_funded))"
  by (rule Tick_books [OF lp_funded_books])

section \<open>Withdrawals\<close>

definition withdraw_5000 :: withdraw_req where
  "withdraw_5000 = \<lparr>wr_amount = ''5000'', wr_bank = ''044'', wr_account = ''0123456789''\<rparr>"

definition lp_second :: "transfer_res \<Rightarrow> lp_env" where
  "lp_second res = lp_calm\<lparr>l_new_entry := ''e2'', l_transfer := (\<lambda>_. res)\<rparr>"

definition withdrawn :: "transfer_res \<Rightarrow> world" where
  "withdrawn res = snd (run_state (Withdraw (lp_second res) (Some withdraw_5000)) lp_funded)"

lemma Withdraw_run:
  "run_state (Withdraw (lp_second res) (Some withdraw_5000)) lp_funded = (case res of
      TransferOk _ \<Rightarrow> (202, lp_funded\<lparr>lps := [opened_account],
        ledger := ledger lp_funded @ [withdrawal_entry ''e2'' 5 5000],
        lp_calls := [CallWithdraw ''lpwd-e2'' 5000 (transfer_outcome ''lpwd-e2'' res)]\<rparr>)
    | TransferErr _ \<Rightarrow> (502, lp_funded\<lparr>ledger := ledger lp_funded @ [(withdrawal_entry ''e2'' 5 5000)\<lparr>le_status := EntryFailed\<rparr>],
        lp_calls := [CallWithdraw ''lpwd-e2'' 5000 (transfer_outcome ''lpwd-e2'' res)]\<rparr>))"
  by (simp add: Withdraw_def loadAccount_def only_account_def reserve_def save_def submit_withdrawal_def
      releaseWithdrawal_def debit_lp_def insert_entry_def add_balance_def mark_def Let_def
      lp_second_def lp_calm_def naira_def withdraw_5000_def withdrawal_entry_def withdrawalRefPrefix_def
      lp_funded_eq opened_account_def deposit_entry_def lp_fresh_def empty_world_def split: transfer_res.split)


definition reserved_5000 :: world where
  "reserved_5000 = lp_funded\<lparr>lps := [opened_account], ledger := ledger lp_funded @ [withdrawal_entry ''e2'' 5 5000]\<rparr>"

lemma reserve_run: "run_state (reserve (lp_second res) 5 5000) lp_funded = (None, reserved_5000)"
  by (simp add: reserved_5000_def reserve_def save_def debit_lp_def insert_entry_def lp_funded_eq opened_account_def
      add_balance_def lp_second_def lp_calm_def withdrawal_entry_def deposit_entry_def withdrawalRefPrefix_def)

lemma submit_run:
  "run_state (submit_withdrawal (lp_second res) ''e2'' 5000 withdraw_5000) reserved_5000 =
     (res, reserved_5000\<lparr>lp_calls := [CallWithdraw ''lpwd-e2'' 5000 (transfer_outcome ''lpwd-e2'' res)]\<rparr>)"
  by (simp add: submit_withdrawal_def lp_second_def lp_calm_def reserved_5000_def lp_funded_eq lp_fresh_def
      empty_world_def withdrawalRefPrefix_def Let_def)

lemma submitted_run:
  "lp_run (reserved_5000\<lparr>lp_calls := [CallWithdraw ''lpwd-e2'' 5000 (Done ''lpwd-e2'')]\<rparr>, [])"
proof -
  let ?x = "\<lparr>rq_id = ''e2'', rq_lp = 5, rq_amount = 5000, rq_failed = False\<rparr>"
  let ?ok = "TransferOk TransferPending"
  have "lp_run (lp_fresh, [])" by (rule lp_run.start) (simp_all add: lp_fresh_def empty_world_def)
  then have "lp_run (lp_opened, [])" unfolding lp_opened_def by (rule lp_run.step) (rule lp_step.onboard)
  then have "lp_run (lp_funded, [])" unfolding lp_funded_def by (rule lp_run.step) (rule lp_step.webhook)
  moreover have "lp_step (lp_funded, []) (reserved_5000, [] @ ?x # [])"
    using lp_step.reserved [OF _ reserve_run [of ?ok], of "[]"] by (simp add: lp_second_def)
  ultimately have "lp_run (reserved_5000, [] @ ?x # [])" by (rule lp_run.step)
  moreover have "lp_step (reserved_5000, [] @ ?x # [])
      (reserved_5000\<lparr>lp_calls := [CallWithdraw ''lpwd-e2'' 5000 (Done ''lpwd-e2'')]\<rparr>, [] @ [])"
    using submit_run [of ?ok]
    by (intro lp_step.submitted [where e = "lp_second ?ok" and r = withdraw_5000 and st = TransferPending])
      (simp_all add: transfer_outcome_def)
  ultimately show ?thesis by (metis append_Nil lp_run.step)
qed

lemma lp_run_withdraws_once_witness:
  "let w = reserved_5000\<lparr>lp_calls := [CallWithdraw ''lpwd-e2'' 5000 (Done ''lpwd-e2'')]\<rparr> in
     distinct (map lp_call_ref (lp_calls w)) \<and> list_all (call_backed w) (lp_calls w)"
  unfolding Let_def by (rule lp_run_withdraws_once [OF submitted_run])

section \<open>Executions that do not do what they are for\<close>

definition korapay_says :: "string \<Rightarrow> webhook_event" where
  "korapay_says st = korapay_ParseWebhook \<lparr>kw_event = ''transfer.'' @ st, kw_reference = ''lpwd-e2'',
     kw_payment_reference = '''', kw_status = st, kw_amount = ''5000'', kw_account_number = ''''\<rparr>"

definition told :: "webhook_event \<Rightarrow> world \<Rightarrow> world" where
  "told ev w = snd (run_state (railWebhook lp_calm True (Some ev)) w)"

lemma withdrawn_eq:
  "withdrawn (TransferOk st) = lp_funded\<lparr>lps := [opened_account],
     ledger := ledger lp_funded @ [withdrawal_entry ''e2'' 5 5000],
     lp_calls := [CallWithdraw ''lpwd-e2'' 5000 (Done ''lpwd-e2'')]\<rparr>"
  "withdrawn (TransferErr True) = lp_funded\<lparr>
     ledger := ledger lp_funded @ [(withdrawal_entry ''e2'' 5 5000)\<lparr>le_status := EntryFailed\<rparr>],
     lp_calls := [CallWithdraw ''lpwd-e2'' 5000 Lost]\<rparr>"
  unfolding withdrawn_def Withdraw_run by (simp_all add: transfer_outcome_def)

lemma tf_words:
  "korapay_normalizeStatus ''success'' = TransferSuccess"
  "korapay_normalizeStatus ''reversed'' = TransferFailed"
  "korapay_normalizeStatus ''processing'' = TransferPending"
  by code_simp+

lemmas told_defs = told_def railWebhook_def korapay_says_def korapay_ParseWebhook_def tf_words
  handleWithdrawalFinality_def handleDeposit_def releaseWithdrawal_def only_if_def trim_prefix_def withdrawalRefPrefix_def
  lp_calm_def withdrawal_entry_def deposit_entry_def mark_def lp_funded_eq

text \<open>A withdrawal whose transfer call timed out but went through pays the LP and gives the
  balance back: the entry is failed, the later success webhook changes nothing, and the LP can
  spend the amount again.\<close>

theorem lost_withdrawal_pays_free:
  "let w = told (korapay_says ''success'') (withdrawn (TransferErr True)) in
     lp_calls w = [CallWithdraw ''lpwd-e2'' 5000 Lost] \<and> map lp_balance (lps w) = [5000] \<and>
     map le_status (ledger w) = [EntryConfirmed, EntryFailed]"
  by (simp add: withdrawn_eq told_defs opened_account_def)

text \<open>A bank transfer that the rail reports as paid and then as reversed leaves the
  withdrawal confirmed: the money is back in the pool, and the LP's balance never gets it.\<close>

theorem reversed_withdrawal_not_credited:
  "let w = told (korapay_says ''reversed'') (told (korapay_says ''success'') (withdrawn (TransferOk TransferPending))) in
     map lp_balance (lps w) = [0] \<and> map le_status (ledger w) = [EntryConfirmed, EntryConfirmed]"
  by (simp add: withdrawn_eq told_defs opened_account_def)

definition korapay_deposit :: "string \<Rightarrow> webhook_event" where
  "korapay_deposit st = korapay_ParseWebhook \<lparr>kw_event = ''charge.success'', kw_reference = ''kpy-1'',
     kw_payment_reference = '''', kw_status = st, kw_amount = ''5000'', kw_account_number = ''9900''\<rparr>"

text \<open>A deposit event whose own status is still pending is credited as confirmed, and no
  later event of the same deposit takes it back.\<close>

theorem pending_deposit_is_spendable:
  "let w = told (korapay_deposit ''reversed'') (told (korapay_deposit ''processing'') lp_opened) in
     map lp_balance (lps w) = [5000] \<and> map le_status (ledger w) = [EntryConfirmed]"
  by (simp add: lp_opened_eq told_defs korapay_deposit_def opened_account_def only_account_def naira_def
      insert_entry_def save_def add_balance_def lp_fresh_def empty_world_def)

definition fintava_deposit :: "string \<Rightarrow> webhook_event" where
  "fintava_deposit ref = fintava_ParseWebhook \<lparr>fw_type = ''account_funded'', fw_event = '''', fw_amount = ''5000'',
     fw_reference = '''', fw_transaction_ref = '''', fw_customer_reference = '''', fw_merchant_reference = ref,
     fw_status = ''SUCCESS'', fw_payment_status = '''', fw_account_number = ''9900'',
     fw_virtual_acct_no = '''', fw_target_acct_no = ''''\<rparr>"

lemma fintava_words:
  "to_lower ''account_funded'' = ''account_funded''" "fintava_normalizeStatus ''SUCCESS'' = TransferSuccess"
  by code_simp+

text \<open>Fintava deposits that carry none of the three references the adapter reads share the
  empty one: the second is taken for a redelivery of the first and never credited.\<close>

theorem unreferenced_deposits_collide:
  "let w1 = snd (run_state (railWebhook lp_calm True (Some (fintava_deposit ''m1''))) lp_opened);
       w2 = snd (run_state (railWebhook (lp_second (TransferErr False)) True (Some (fintava_deposit ''m2''))) w1) in
     map lp_balance (lps w1) = [5000] \<and> w2 = w1"
  by (simp add: lp_opened_eq told_defs fintava_deposit_def fintava_ParseWebhook_def fintava_words orDefault_def
      lp_second_def opened_account_def only_account_def naira_def insert_entry_def save_def add_balance_def
      lp_fresh_def empty_world_def)

section \<open>Redeliveries\<close>

lemma railWebhook_replay_witness:
  "told deposit_event lp_opened \<noteq> lp_opened \<and>
   snd (run_state (railWebhook (lp_second (TransferErr False)) True (Some deposit_event)) (told deposit_event lp_opened))
     = told deposit_event lp_opened"
proof -
  have changed: "told deposit_event lp_opened \<noteq> lp_opened"
    unfolding told_def lp_funded_def [symmetric] by (simp add: lp_funded_eq lp_opened_eq lp_fresh_def empty_world_def)
  show ?thesis
    using changed railWebhook_replay [OF told_def changed, of "lp_second (TransferErr False)" True]
    by (simp add: lp_second_def)
qed

lemma finality_is_final_witness:
  "run_state (handleWithdrawalFinality lp_calm (korapay_says ''success'')) (withdrawn (TransferErr True)) =
     ((), withdrawn (TransferErr True))"
  by (rule finality_is_final [where x = "(withdrawal_entry ''e2'' 5 5000)\<lparr>le_status := EntryFailed\<rparr>"])
    (simp_all add: withdrawn_eq told_defs)

end
