(* ===== verification/Card_Codec.thy ===== *)
theory Card_Codec imports Go_Text begin

unbundle bit_operations_syntax

text \<open>
  The encodings of the card service: hexadecimal text (controllers/cards/crypto.go), decimal
  text of a \<open>uint64\<close> and the six-digit recovery code (controllers/cards/cardholder.go),
  activation tokens (controllers/cards/cards.go), and the stateless resync nonce
  (controllers/cards/resync_nonce.go). HMAC-SHA256 is a parameter: a function of the key and
  the message.
\<close>

section \<open>Hexadecimal text\<close>

definition hex_digit :: "nat \<Rightarrow> char" where
  "hex_digit n = (if n < 10 then char_of (48 + n) else char_of (87 + n))"

definition hex_value :: "char \<Rightarrow> nat option" where
  "hex_value c = (let n = of_char c in
     if 48 \<le> n \<and> n \<le> 57 then Some (n - 48)
     else if 97 \<le> n \<and> n \<le> 102 then Some (n - 87)
     else if 65 \<le> n \<and> n \<le> 70 then Some (n - 55)
     else None)"

fun EncodeHex :: "byte list \<Rightarrow> string" where
  "EncodeHex [] = []"
| "EncodeHex (b # bs) = hex_digit (unat b div 16) # hex_digit (unat b mod 16) # EncodeHex bs"

text \<open>Pairs of digits of either case; an odd length or another character is an error.\<close>

fun DecodeHex :: "string \<Rightarrow> byte list option" where
  "DecodeHex [] = Some []"
| "DecodeHex [c] = None"
| "DecodeHex (c # d # cs) = (case (hex_value c, hex_value d, DecodeHex cs) of
     (Some h, Some l, Some bs) \<Rightarrow> Some (word_of_nat (16 * h + l) # bs)
   | _ \<Rightarrow> None)"

lemma hex_value_digit: "n < 16 \<Longrightarrow> hex_value (hex_digit n) = Some n"
  by (auto simp: hex_value_def hex_digit_def Let_def of_char_of)

lemma hex_value_less: "hex_value c = Some n \<Longrightarrow> n < 16"
  by (auto simp: hex_value_def Let_def split: if_splits)

lemma byte_split: "word_of_nat (16 * (unat b div 16) + unat b mod 16) = (b :: byte)"
  by simp

lemma byte_digits: "unat (b :: byte) div 16 < 16" "unat b mod 16 < 16"
proof -
  have "unat b < 256" using unsigned_less [where ?'a = nat, of b] by simp
  then show "unat b div 16 < 16" by simp
qed simp

lemma DecodeHex_EncodeHex [simp]: "DecodeHex (EncodeHex bs) = Some bs"
  by (induction bs) (simp_all add: hex_value_digit byte_digits byte_split)

lemma lower_char_code: "(of_char (lower_char c) :: nat) =
    (if 65 \<le> (of_char c :: nat) \<and> (of_char c :: nat) \<le> 90 then of_char c + 32 else of_char c)"
  by (simp add: lower_char_def Let_def of_char_of)

lemma hex_value_iff: "hex_value c = Some n \<longleftrightarrow> n < 16 \<and> lower_char c = hex_digit n"
proof (cases "n < 16")
  case True
  have "lower_char c = hex_digit n \<longleftrightarrow> (of_char (lower_char c) :: nat) = of_char (hex_digit n)"
    by (metis char_of_char)
  moreover have "(of_char (hex_digit n) :: nat) = (if n < 10 then 48 + n else 87 + n)"
    using True by (simp add: hex_digit_def of_char_of)
  ultimately show ?thesis
    using True by (auto simp: hex_value_def Let_def lower_char_code)
next
  case False
  then show ?thesis using hex_value_less by auto
qed

text \<open>\<open>DecodeHex\<close> is the inverse of \<open>EncodeHex\<close> up to the case of the letters: a text decodes
  to exactly the bytes whose encoding it is in lower case, and everything else is refused.\<close>

theorem DecodeHex_iff: "DecodeHex s = Some bs \<longleftrightarrow> to_lower s = EncodeHex bs"
proof (induction s arbitrary: bs rule: DecodeHex.induct)
  case 1
  show ?case by (cases bs) (auto simp: to_lower_def)
next
  case (2 c)
  show ?case by (cases bs) (auto simp: to_lower_def)
next
  case (3 c d cs)
  show ?case
  proof (cases bs)
    case Nil
    then show ?thesis by (auto simp: to_lower_def split: option.splits)
  next
    case (Cons b bs')
    have "to_lower (c # d # cs) = EncodeHex bs \<longleftrightarrow>
        hex_value c = Some (unat b div 16) \<and> hex_value d = Some (unat b mod 16) \<and> DecodeHex cs = Some bs'"
      by (simp add: Cons 3 hex_value_iff byte_digits to_lower_def)
    also have "\<dots> \<longleftrightarrow> DecodeHex (c # d # cs) = Some bs"
    proof
      assume "hex_value c = Some (unat b div 16) \<and> hex_value d = Some (unat b mod 16) \<and> DecodeHex cs = Some bs'"
      then show "DecodeHex (c # d # cs) = Some bs" by (simp add: Cons byte_split)
    next
      assume "DecodeHex (c # d # cs) = Some bs"
      then obtain h l where "hex_value c = Some h" "hex_value d = Some l" "DecodeHex cs = Some bs'"
        "b = word_of_nat (16 * h + l)"
        by (auto simp: Cons split: option.splits)
      moreover from this(1,2) have "h < 16" "l < 16" by (auto dest: hex_value_less)
      moreover from this have "unat (word_of_nat (16 * h + l) :: byte) = 16 * h + l" by (simp add: unat_of_nat del: of_nat_add of_nat_mult)
      ultimately show "hex_value c = Some (unat b div 16) \<and> hex_value d = Some (unat b mod 16) \<and> DecodeHex cs = Some bs'"
        by simp
    qed
    finally show ?thesis ..
  qed
qed

lemma DecodeHex_length: "DecodeHex s = Some bs \<Longrightarrow> length s = 2 * length bs"
  by (induction s arbitrary: bs rule: DecodeHex.induct) (auto split: option.splits)

section \<open>Decimal text\<close>

text \<open>\<open>uint64ToString\<close>: the digits are put in front one by one.\<close>

function uint64_digits :: "64 word \<Rightarrow> string \<Rightarrow> string" where
  "uint64_digits n digits = (if n = 0 then digits
     else uint64_digits (n div 10) (char_of (48 + unat (n mod 10)) # digits))"
  by pat_completeness auto

termination
proof (relation "measure (\<lambda>(n, _). unat n)")
  fix n :: "64 word" and digits :: string
  assume "n \<noteq> 0"
  then have "0 < unat n" by (simp add: unat_gt_0)
  then have "unat n div 10 < unat n" by simp
  then show "((n div 10, char_of (48 + unat (n mod 10)) # digits), (n, digits)) \<in> measure (\<lambda>(n, _). unat n)"
    by (simp add: unat_div)
qed simp

declare uint64_digits.simps [simp del]

definition uint64ToString :: "64 word \<Rightarrow> string" where
  "uint64ToString n = (if n = 0 then ''0'' else uint64_digits n [])"

lemma uint64_digits_show: "n \<noteq> 0 \<Longrightarrow> uint64_digits n ds = show_nat (unat n) @ ds"
proof (induction n ds rule: uint64_digits.induct)
  case (1 n ds)
  have digit: "char_of (48 + unat (n mod 10)) = digit_char (unat n mod 10)"
    by (simp add: digit_char_def unat_mod)
  show ?case
  proof (cases "unat n < 10")
    case True
    then have "n div 10 = 0" by (simp add: word_arith_nat_defs(6) word_unat_eq_iff unat_div)
    with True 1 digit show ?thesis
      by (simp add: uint64_digits.simps [of n] uint64_digits.simps [of 0] show_nat.simps [of "unat n"])
  next
    case False
    then have "unat (n div 10) \<noteq> 0" by (simp add: unat_div)
    then have "n div 10 \<noteq> 0" by auto
    with False 1 digit show ?thesis
      by (simp add: uint64_digits.simps [of n] show_nat.simps [of "unat n"] unat_div)
  qed
qed

lemma uint64ToString_show: "uint64ToString n = show_nat (unat n)"
proof -
  have "char_of (48 :: nat) = CHR ''0''" by code_simp
  then show ?thesis by (simp add: uint64ToString_def uint64_digits_show show_nat.simps [of 0] digit_char_def)
qed

section \<open>Recovery codes\<close>

fun zeroPad :: "nat \<Rightarrow> string \<Rightarrow> string" where
  "zeroPad 0 s = s"
| "zeroPad (Suc k) s = CHR ''0'' # zeroPad k s"

text \<open>\<open>for len(s) < width\<close> puts a zero in front \<open>width - len(s)\<close> times.\<close>

definition codeFromBytes :: "byte list \<Rightarrow> string" where
  "codeFromBytes b = (if length b < 4 then ''000000''
     else let v = (word_of_nat (be_val (take 4 b)) :: 32 word) mod 1000000;
              s = uint64ToString (ucast v)
          in zeroPad (6 - length s) s)"

lemma length_zeroPad [simp]: "length (zeroPad k s) = k + length s"
  by (induction k) auto

lemma set_zeroPad: "set (zeroPad k s) \<subseteq> insert (CHR ''0'') (set s)"
  by (induction k) auto

lemma show_nat_length: "n < 10 ^ k \<Longrightarrow> 0 < k \<Longrightarrow> length (show_nat n) \<le> k"
proof (induction n arbitrary: k rule: show_nat.induct)
  case (1 n)
  show ?case
  proof (cases "n < 10")
    case False
    then obtain j where j: "k = Suc j" "0 < j"
      using 1(2,3) by (cases k; cases "k - 1") auto
    with 1(2) have "n div 10 < 10 ^ j" by (simp add: less_mult_imp_div_less mult.commute)
    with 1(1) False j show ?thesis by (subst show_nat.simps) simp
  qed (use 1(3) in \<open>simp add: show_nat.simps [of n]\<close>)
qed

text \<open>A recovery code is six decimal digits, whatever the random bytes.\<close>

theorem codeFromBytes_six_digits: "length (codeFromBytes b) = 6 \<and> list_all is_digit (codeFromBytes b)"
proof (cases "length b < 4")
  case True
  then show ?thesis by (simp add: codeFromBytes_def is_digit_def)
next
  case False
  let ?v = "(word_of_nat (be_val (take 4 b)) :: 32 word) mod 1000000"
  have small: "unat ?v < 10 ^ 6" by (simp add: unat_mod)
  moreover from this have "unat ?v < 2 ^ 64" by simp
  then have "unat (ucast ?v :: 64 word) = unat ?v"
    unfolding unsigned_ucast_eq by (subst take_bit_nat_eq_self) simp_all
  ultimately have "length (uint64ToString (ucast ?v)) \<le> 6" "list_all is_digit (uint64ToString (ucast ?v))"
    unfolding uint64ToString_show using show_nat_length [of _ 6] show_nat_digits by (metis zero_less_numeral)+
  moreover have "list_all is_digit (zeroPad k s)" if "list_all is_digit s" for k s
    using that set_zeroPad [of k s] by (induction k) (auto simp: is_digit_def)
  ultimately show ?thesis
    using False by (simp add: codeFromBytes_def Let_def)
qed

section \<open>Activation tokens\<close>

definition activationAlphabet :: string where
  "activationAlphabet = ''0123456789ABCDEFGHJKMNPQRSTVWXYZ''"

definition generateActivationToken :: "byte list \<Rightarrow> string" where
  "generateActivationToken buf = map (\<lambda>b. activationAlphabet ! unat (b AND 0x1F)) buf"

section \<open>Resync nonces\<close>

text \<open>
  \<open><expiry-unix>.<hex-mac>\<close>; the MAC is keyed with the server secret and covers a label, the
  user, the card and the expiry. Times are Unix seconds.
\<close>

type_synonym hmac_fun = "byte list \<Rightarrow> byte list \<Rightarrow> byte list"

definition text_bytes :: "string \<Rightarrow> byte list" where
  "text_bytes s = map (\<lambda>c. word_of_nat (of_char c)) s"

definition resyncMac :: "hmac_fun \<Rightarrow> byte list \<Rightarrow> byte list \<Rightarrow> byte list \<Rightarrow> int \<Rightarrow> byte list" where
  "resyncMac hmac secret userID cardID expiresAt =
     hmac secret (text_bytes ''tapp-card-resync-v1'' @ userID @ cardID @ text_bytes (show_int expiresAt))"

definition issueResyncNonce :: "hmac_fun \<Rightarrow> byte list \<Rightarrow> byte list \<Rightarrow> byte list \<Rightarrow> int \<Rightarrow> string" where
  "issueResyncNonce hmac secret userID cardID expiresAt =
     show_int expiresAt @ ''.'' @ EncodeHex (resyncMac hmac secret userID cardID expiresAt)"

text \<open>\<open>strings.SplitN(nonce, ".", 2)\<close>\<close>

definition split_dot :: "string \<Rightarrow> (string \<times> string) option" where
  "split_dot s = (let a = takeWhile (\<lambda>c. c \<noteq> CHR ''.'') s; r = dropWhile (\<lambda>c. c \<noteq> CHR ''.'') s in
     if r = [] then None else Some (a, tl r))"

text \<open>\<open>strconv.ParseInt(s, 10, 64)\<close>\<close>

definition ParseInt64 :: "string \<Rightarrow> int option" where
  "ParseInt64 s = (case parse_int s of None \<Rightarrow> None
     | Some n \<Rightarrow> if - (2 ^ 63) \<le> n \<and> n < 2 ^ 63 then Some n else None)"

definition verifyResyncNonce ::
  "hmac_fun \<Rightarrow> byte list \<Rightarrow> int \<Rightarrow> byte list \<Rightarrow> byte list \<Rightarrow> string \<Rightarrow> bool" where
  "verifyResyncNonce hmac secret now userID cardID nonce =
     (case split_dot nonce of None \<Rightarrow> False
      | Some (p, m) \<Rightarrow> (case ParseInt64 p of None \<Rightarrow> False
        | Some expiresAt \<Rightarrow> \<not> now > expiresAt \<and>
            (case DecodeHex m of None \<Rightarrow> False
             | Some given \<Rightarrow> given = resyncMac hmac secret userID cardID expiresAt)))"

lemma split_dot_issue:
  assumes "CHR ''.'' \<notin> set a"
  shows "split_dot (a @ CHR ''.'' # b) = Some (a, b)"
proof -
  have "takeWhile (\<lambda>c. c \<noteq> CHR ''.'') (a @ CHR ''.'' # b) = a" "dropWhile (\<lambda>c. c \<noteq> CHR ''.'') (a @ CHR ''.'' # b) = CHR ''.'' # b"
    using assms by (auto simp: takeWhile_append dropWhile_append)
  then show ?thesis by (simp add: split_dot_def)
qed

lemma dot_not_in_int: "CHR ''.'' \<notin> set (show_int n)"
proof -
  have "CHR ''.'' \<notin> set (show_nat k)" for k
    using show_nat_digits [of k] by (auto simp: list_all_iff is_digit_def)
  then show ?thesis by (simp add: show_int_def)
qed

text \<open>The server accepts a nonce it issued exactly until its expiry and only for a user
  and card with the same MAC: for another user or card only where HMAC collides.\<close>

theorem verifyResyncNonce_issued:
  assumes "- (2 ^ 63) \<le> expiresAt" "expiresAt < 2 ^ 63"
  shows "verifyResyncNonce hmac secret now userID cardID (issueResyncNonce hmac secret userID' cardID' expiresAt) \<longleftrightarrow>
    now \<le> expiresAt \<and> resyncMac hmac secret userID' cardID' expiresAt = resyncMac hmac secret userID cardID expiresAt"
  using assms
  by (auto simp: verifyResyncNonce_def issueResyncNonce_def split_dot_issue [OF dot_not_in_int]
      ParseInt64_def DecodeHex_EncodeHex)

lemma verifyResyncNonce_issued_witness:
  "verifyResyncNonce (\<lambda>k m. k @ m) [7] 100 [1] [2] (issueResyncNonce (\<lambda>k m. k @ m) [7] [1] [2] 400) \<and>
   \<not> verifyResyncNonce (\<lambda>k m. k @ m) [7] 100 [3] [2] (issueResyncNonce (\<lambda>k m. k @ m) [7] [1] [2] 400) \<and>
   \<not> verifyResyncNonce (\<lambda>k m. k @ m) [7] 401 [1] [2] (issueResyncNonce (\<lambda>k m. k @ m) [7] [1] [2] 400)"
  using verifyResyncNonce_issued [of 400 "\<lambda>k m. k @ m" "[7]" 100 "[1]" "[2]" "[1]" "[2]"]
    verifyResyncNonce_issued [of 400 "\<lambda>k m. k @ m" "[7]" 100 "[3]" "[2]" "[1]" "[2]"]
    verifyResyncNonce_issued [of 400 "\<lambda>k m. k @ m" "[7]" 401 "[1]" "[2]" "[1]" "[2]"]
  by (simp add: resyncMac_def)

end
