(* ===== verification/Card_Store.thy ===== *)
theory Card_Store imports Card_Codec Route_Tick begin

text \<open>
  The tables of the card service (ent/schema/tapp_card.go, ent/schema/card_server_nonce.go),
  the trace of its on-chain debits and of the orders it charges, one request's environment,
  and the database operations of its handlers. The tables of Route A, which a charge adds an
  order to, are a component of the state.
\<close>

section \<open>Rows\<close>

datatype card_status = CardIssued | CardClaimed | CardLive | CardRevoked | CardLocked

record tapp_card =
  ct_id :: nat
  ct_activation_token :: string
  ct_status :: card_status
  ct_uid_hash :: "byte list option"
  ct_cap :: "string option"
  ct_coin :: "string option"
  ct_linking_proof :: "byte list option"
  ct_pin_verifier :: "byte list option"
  ct_pin_attempts :: int
  ct_locked_until :: "instant option"
  ct_password :: "byte list option"
  ct_rotation_token :: "byte list option"
  ct_rotated_at :: "instant option"
  ct_mismatches :: int
  ct_daily :: "64 word"
  ct_per_tap :: "64 word"
  ct_step_up :: "64 word"
  ct_spent :: "64 word"
  ct_needs_resync :: bool
  ct_user :: "nat option"
  ct_created :: instant

datatype tier = TierNone | TierPin | TierStepUp

record server_nonce =
  cn_id :: string
  cn_nonce :: "byte list"
  cn_tier :: tier
  cn_amount :: string
  cn_currency :: string
  cn_expires :: instant
  cn_consumed :: "instant option"
  cn_granted :: "instant option"
  cn_card :: nat
  cn_sender :: nat

text \<open>
  The trace: orders charged to a card with the nonce they consumed, and calls of the on-chain
  debit.
\<close>

record charge =
  ch_order :: nat
  ch_card :: nat
  ch_nonce :: "byte list"
  ch_sender :: nat
  ch_amount :: string

datatype chain_call = CallDebit nat string string "64 word" outcome

record tap_world =
  tw_cards :: "tapp_card list"
  tw_nonces :: "server_nonce list"
  tw_charges :: "charge list"
  tw_chain :: "chain_call list"
  tw_routes :: world

section \<open>Environment\<close>

datatype tap_site = KNonceInsert | KNonceConsume | KNonceFetch | KCard | KMismatch | KPin | KBank | KToken
  | KRate | KReceive | KTx | KOrder | KCommit | KRate2 | KRouteOrder | KSelfSettle | KRotate | KOrderQuery | KAck
  | KStepUp | KGrant | KIssue | KUserCards | KSave | KDelete

record object_change =
  oc_kind :: string
  oc_id :: string
  oc_type :: string

record sui_tx =
  sx_success :: bool
  sx_changes :: "object_change list"

text \<open>The \<open>balance\<close> field of a cap object as the RPC's JSON carries it.\<close>

datatype balance_field = NoBalance | Scalar string | Struct "string option"

record bank_account =
  ba_bank :: string
  ba_number :: string
  ba_name :: string

record tap_env =
  k_now :: instant
  k_fault :: "tap_site \<Rightarrow> db_fault"
  k_hmac :: hmac_fun
  k_dec :: declib
  k_parse_dec :: "string \<Rightarrow> decimal option"
  k_dec_string :: "decimal \<Rightarrow> string"
  k_parse_uuid :: "string \<Rightarrow> string option"
  k_user :: "nat option"
  k_sender :: "nat option"
  k_random :: "byte list option"
  k_new_id :: string
  k_new_order :: nat
  k_bank :: "nat \<Rightarrow> bank_account option"
  k_token :: "token option"
  k_rate :: "decimal option"
  k_rate2 :: "decimal option"
  k_address :: bool
  k_settle_mode :: string
  k_debit :: "string \<Rightarrow> string \<Rightarrow> 64 word \<Rightarrow> outcome"
  k_package_id :: string
  k_tx_block :: "string \<Rightarrow> sui_tx option"
  k_cap_object :: "string \<Rightarrow> balance_field option"
  k_secret :: "byte list"
  k_user_bytes :: "nat \<Rightarrow> byte list"
  k_card_bytes :: "nat \<Rightarrow> byte list"
  k_admin_token :: string

section \<open>Queries and updates\<close>

text \<open>\<open>Only(ctx)\<close>: exactly one row, and the query succeeded.\<close>

definition sole :: "db_fault \<Rightarrow> ('a \<Rightarrow> bool) \<Rightarrow> 'a list \<Rightarrow> 'a option" where
  "sole f p xs = (if f \<noteq> DbOk then None else case filter p xs of [x] \<Rightarrow> Some x | _ \<Rightarrow> None)"

text \<open>\<open>Order(ent.Desc(created_at)).First(ctx)\<close>: the newest row; of rows created at the same
  instant, the first in the table.\<close>

fun newest :: "tapp_card list \<Rightarrow> tapp_card option" where
  "newest [] = None"
| "newest (c # cs) = (case newest cs of None \<Rightarrow> Some c
     | Some d \<Rightarrow> if ct_created d \<le> ct_created c then Some c else Some d)"

definition first_card :: "db_fault \<Rightarrow> (tapp_card \<Rightarrow> bool) \<Rightarrow> tap_world \<Rightarrow> tapp_card option" where
  "first_card f p w = (if f = DbOk then newest (filter p (tw_cards w)) else None)"

definition put_card :: "nat \<Rightarrow> (tapp_card \<Rightarrow> tapp_card) \<Rightarrow> tap_world \<Rightarrow> tap_world" where
  "put_card k f w = w\<lparr>tw_cards := map (\<lambda>c. if ct_id c = k then f c else c) (tw_cards w)\<rparr>"

text \<open>\<open>card.Update().Set..(f).Save\<close>: a single-row update by id; whether it is known to have
  succeeded.\<close>

definition update_card :: "tap_env \<Rightarrow> tap_site \<Rightarrow> nat \<Rightarrow> (tapp_card \<Rightarrow> tapp_card) \<Rightarrow> (tap_world, bool) state" where
  "update_card e s k f = do {
     w \<leftarrow> fetch;
     if k_fault e s = DbFail \<or> \<not> (\<exists>c \<in> set (tw_cards w). ct_id c = k) then return False
     else do { modify (put_card k f); return (k_fault e s = DbOk) }
   }"

text \<open>\<open>userFromCtx\<close> and \<open>senderFromCtx\<close>: who the middleware authenticated.\<close>

definition of_user :: "nat \<Rightarrow> tapp_card \<Rightarrow> bool" where
  "of_user u c \<longleftrightarrow> ct_user c = Some u"

definition live_of :: "nat \<Rightarrow> tapp_card \<Rightarrow> bool" where
  "live_of u c \<longleftrightarrow> of_user u c \<and> ct_status c = CardLive"

text \<open>\<open>cardForUser\<close>: the newest live card of the user, else the newest of any status.\<close>

definition cardForUser :: "tap_env \<Rightarrow> nat \<Rightarrow> tap_world \<Rightarrow> tapp_card option" where
  "cardForUser e u w = (case first_card (k_fault e KUserCards) (live_of u) w of Some c \<Rightarrow> Some c
     | None \<Rightarrow> first_card (k_fault e KCard) (of_user u) w)"

lemma newest_mem: "newest cs = Some c \<Longrightarrow> c \<in> set cs"
  by (induction cs arbitrary: c) (auto split: option.splits if_splits)

lemma first_card_mem: "first_card f p w = Some c \<Longrightarrow> c \<in> set (tw_cards w) \<and> p c"
  by (auto simp: first_card_def dest: newest_mem split: if_splits)

lemma sole_mem: "sole f p xs = Some x \<Longrightarrow> x \<in> set xs \<and> p x"
proof -
  assume "sole f p xs = Some x"
  then have "filter p xs = [x]" by (auto simp: sole_def split: if_splits list.splits)
  then have "x \<in> set (filter p xs)" by simp
  then show ?thesis by simp
qed

end
