(* ===== verification/Card_Tap.thy ===== *)
theory Card_Tap imports Card_Store begin

text \<open>
  The merchant's side of a card payment (controllers/cards/merchant_tap.go and step_up.go): the
  nonce with its authentication tier, the debit from the consumption of the nonce to the
  rotation of the card's token, the acknowledgement of the write, and the step-up grant. The
  debit is split where it touches the database: what the server holds in between is a
  snapshot, which another request may have overtaken.
\<close>

section \<open>Constants and conversions\<close>

definition nonceTTL :: duration where "nonceTTL = 60 * second"
definition defaultPerTapNGNKobo :: "64 word" where "defaultPerTapNGNKobo = 200000"
definition defaultStepUpNGNKobo :: "64 word" where "defaultStepUpNGNKobo = 1500000"
definition defaultDailyNGNKobo :: "64 word" where "defaultDailyNGNKobo = 4000000"

text \<open>\<open>amount.Mul(decimal.NewFromInt(100)).BigInt().Uint64()\<close>\<close>

definition kobo_of :: "decimal \<Rightarrow> 64 word" where
  "kobo_of amount = big_uint64 (trunc (amount * 100))"

definition usdcFromNGN :: "declib \<Rightarrow> decimal \<Rightarrow> decimal \<Rightarrow> decimal" where
  "usdcFromNGN D amountNGN marketRate = dl_div D amountNGN marketRate"

definition usdcSubunitFromNGN :: "declib \<Rightarrow> decimal \<Rightarrow> decimal \<Rightarrow> 64 word" where
  "usdcSubunitFromNGN D amountNGN marketRate =
     (let sub = big_uint64 (trunc (usdcFromNGN D amountNGN marketRate * 1000000)) in
      if sub = 0 then 1 else sub)"

definition resolveTier :: "tapp_card \<Rightarrow> 64 word \<Rightarrow> tier" where
  "resolveTier c amount = (let
     perTap = (if ct_per_tap c = 0 then defaultPerTapNGNKobo else ct_per_tap c);
     stepUp = (if ct_step_up c = 0 then defaultStepUpNGNKobo else ct_step_up c)
   in if amount < perTap then TierNone else if amount < stepUp then TierPin else TierStepUp)"

section \<open>Issuing a nonce\<close>

record nonce_req =
  nq_amount :: string
  nq_uid_hash :: string

datatype nonce_reply = NonceRefused nat | NonceIssued tier "byte list" string

definition insert_nonce :: "server_nonce \<Rightarrow> tap_world \<Rightarrow> tap_world option" where
  "insert_nonce n w = (if \<exists>m \<in> set (tw_nonces w). cn_id m = cn_id n \<or> cn_nonce m = cn_nonce n then None
     else Some (w\<lparr>tw_nonces := tw_nonces w @ [n]\<rparr>))"

definition uid_bytes :: "string \<Rightarrow> byte list option" where
  "uid_bytes s = (case DecodeHex s of None \<Rightarrow> None | Some h \<Rightarrow> if length h = 32 then Some h else None)"

definition card_by_uid :: "tap_env \<Rightarrow> byte list \<Rightarrow> tap_world \<Rightarrow> tapp_card option" where
  "card_by_uid e h w = sole (k_fault e KCard) (\<lambda>c. ct_uid_hash c = Some h) (tw_cards w)"

definition TapCardNonce :: "tap_env \<Rightarrow> nonce_req option \<Rightarrow> (tap_world, nonce_reply) state" where
  "TapCardNonce e req = (case req of None \<Rightarrow> return (NonceRefused 400)
   | Some r \<Rightarrow> (case k_sender e of None \<Rightarrow> return (NonceRefused 401)
   | Some sender \<Rightarrow> (case k_parse_dec e (nq_amount r) of None \<Rightarrow> return (NonceRefused 400)
   | Some amount \<Rightarrow>
       if \<not> 0 < amount then return (NonceRefused 400)
       else (case uid_bytes (nq_uid_hash r) of None \<Rightarrow> return (NonceRefused 400)
       | Some h \<Rightarrow> do {
           w \<leftarrow> fetch;
           case card_by_uid e h w of None \<Rightarrow> return (NonceRefused 404)
           | Some c \<Rightarrow>
               if ct_status c \<noteq> CardLive then return (NonceRefused 409)
               else (case k_random e of None \<Rightarrow> return (NonceRefused 500)
               | Some nonce \<Rightarrow> (let t = resolveTier c (kobo_of amount);
                   n = \<lparr>cn_id = k_new_id e, cn_nonce = nonce, cn_tier = t, cn_amount = k_dec_string e amount,
                     cn_currency = ''NGN'', cn_expires = k_now e + nonceTTL, cn_consumed = None,
                     cn_granted = None, cn_card = ct_id c, cn_sender = sender\<rparr>
                 in case (if k_fault e KNonceInsert = DbFail then None else insert_nonce n w) of
                   None \<Rightarrow> return (NonceRefused 500)
                 | Some w' \<Rightarrow> do {
                     State_Monad.set w';
                     return (if k_fault e KNonceInsert = DbOk then NonceIssued t nonce (k_new_id e)
                             else NonceRefused 500)
                   }))
         }))))"

section \<open>Checking a debit\<close>

record debit_req =
  dq_uid_hash :: string
  dq_token :: string
  dq_amount :: string
  dq_currency :: string
  dq_memo :: string
  dq_nonce :: string
  dq_pin :: string
  dq_step_up :: string

definition usable :: "tap_env \<Rightarrow> nat \<Rightarrow> byte list \<Rightarrow> server_nonce \<Rightarrow> bool" where
  "usable e sender nonce n \<longleftrightarrow>
     cn_nonce n = nonce \<and> cn_sender n = sender \<and> cn_consumed n = None \<and> k_now e < cn_expires n"

definition consumeServerNonce :: "tap_env \<Rightarrow> nat \<Rightarrow> byte list \<Rightarrow> (tap_world, server_nonce option) state" where
  "consumeServerNonce e sender nonce = do {
     w \<leftarrow> fetch;
     if k_fault e KNonceConsume = DbFail then return None
     else do {
       State_Monad.set (w\<lparr>tw_nonces := map (\<lambda>n. if usable e sender nonce n
         then n\<lparr>cn_consumed := Some (k_now e)\<rparr> else n) (tw_nonces w)\<rparr>);
       w' \<leftarrow> fetch;
       return (if k_fault e KNonceConsume \<noteq> DbOk \<or> \<not> (\<exists>n \<in> set (tw_nonces w). usable e sender nonce n) then None
         else sole (k_fault e KNonceFetch) (\<lambda>n. cn_nonce n = nonce) (tw_nonces w'))
     }
   }"

text \<open>\<open>VerifyPinResponse\<close>: the lengths, then the MAC of the nonce under the linking proof.\<close>

definition VerifyPinResponse :: "hmac_fun \<Rightarrow> byte list \<Rightarrow> byte list \<Rightarrow> byte list \<Rightarrow> bool option" where
  "VerifyPinResponse hmac linkingProof serverNonce pinResponse =
     (if length linkingProof \<noteq> 32 \<or> length serverNonce \<noteq> 32 \<or> length pinResponse \<noteq> 32 then None
      else Some (hmac linkingProof serverNonce = pinResponse))"

definition verifyPin :: "hmac_fun \<Rightarrow> tapp_card \<Rightarrow> byte list \<Rightarrow> string \<Rightarrow> bool" where
  "verifyPin hmac c serverNonce pinResponseHex = (pinResponseHex \<noteq> '''' \<and>
     (case ct_linking_proof c of None \<Rightarrow> False
      | Some proof \<Rightarrow> (case DecodeHex pinResponseHex of None \<Rightarrow> False
        | Some pinResp \<Rightarrow> VerifyPinResponse hmac proof serverNonce pinResp = Some True)))"

datatype verdict = Refuse nat | BadToken | BadPin | Charge decimal "64 word"

text \<open>Step 4: the tier the nonce was issued at.\<close>

definition auth_check :: "tap_env \<Rightarrow> debit_req \<Rightarrow> byte list \<Rightarrow> server_nonce \<Rightarrow> tapp_card \<Rightarrow> verdict option" where
  "auth_check e r nonce n c = (case cn_tier n of
     TierNone \<Rightarrow> None
   | TierPin \<Rightarrow> if verifyPin (k_hmac e) c nonce (dq_pin r) then None else Some BadPin
   | TierStepUp \<Rightarrow> if dq_step_up r = '''' then Some (Refuse 400)
       else if dq_step_up r \<noteq> cn_id n then Some (Refuse 403)
       else if cn_granted n = None then Some (Refuse 403)
       else None)"

definition daily_limit :: "tapp_card \<Rightarrow> 64 word" where
  "daily_limit c = (if ct_daily c = 0 then defaultDailyNGNKobo else ct_daily c)"

text \<open>Steps 3 to 6 on the rows as they were loaded.\<close>

definition debit_check :: "tap_env \<Rightarrow> debit_req \<Rightarrow> byte list \<Rightarrow> server_nonce \<Rightarrow> tapp_card \<Rightarrow> verdict" where
  "debit_check e r nonce n c = (case DecodeHex (dq_token r) of None \<Rightarrow> Refuse 400
   | Some ct \<Rightarrow>
       if ct_rotation_token c \<noteq> Some ct then BadToken
       else (case auth_check e r nonce n c of Some v \<Rightarrow> v
       | None \<Rightarrow>
           if to_lower (dq_currency r) \<noteq> to_lower (cn_currency n) \<or> dq_amount r \<noteq> cn_amount n then Refuse 400
           else (case k_parse_dec e (dq_amount r) of None \<Rightarrow> Refuse 400
           | Some amount \<Rightarrow>
               if daily_limit c < ct_spent c + kobo_of amount then Refuse 402
               else Charge amount (kobo_of amount))))"

section \<open>The order\<close>

definition settle_mode :: "string \<Rightarrow> order_mode" where
  "settle_mode m = (if m = ''float'' then Treasury else if m = ''lp_network'' then LpNetwork else Lp)"

definition fresh_order :: "nat \<Rightarrow> order_mode \<Rightarrow> instant \<Rightarrow> route_order" where
  "fresh_order i m t = \<lparr>ord_id = i, ord_mode = m, lifi_quote_id = '''', lifi_tool = '''', bridge_provider = '''',
     bridge_tx_sui = '''', bridge_tx_dest = '''', bridge_status = Pending, gateway_order_id = '''',
     gateway_chain_id = 0, sender_fee_subunit = None, settlement_status = '''', settlement_polled_at = None,
     treasury_payout_ref = '''', bridged_amount = None, failure_reason = NoReason, created_at = t,
     updated_at = t, ord_payment = Some i\<rparr>"

definition market_rate :: "db_fault \<Rightarrow> decimal option \<Rightarrow> decimal option" where
  "market_rate f r = (if f \<noteq> DbOk then None else case r of None \<Rightarrow> None | Some x \<Rightarrow> if 0 < x then Some x else None)"

definition card_payment :: "tap_env \<Rightarrow> nat \<Rightarrow> bank_account \<Rightarrow> token \<Rightarrow> decimal \<Rightarrow> decimal \<Rightarrow> string \<Rightarrow> payment_order" where
  "card_payment e sender b tok amount rate memo = \<lparr>po_id = k_new_order e, po_amount = usdcFromNGN (k_dec e) amount rate,
     po_rate = rate, po_status = PoInitiated, po_token = Some tok,
     po_recipient = Some \<lparr>rcpt_institution = ba_bank b, rcpt_account = ba_number b, rcpt_name = ba_name b,
       rcpt_memo = memo, rcpt_provider = ''''\<rparr>,
     po_sender = Some sender\<rparr>"

definition persistTapCardPaymentOrder ::
  "tap_env \<Rightarrow> nat \<Rightarrow> bank_account \<Rightarrow> tapp_card \<Rightarrow> server_nonce \<Rightarrow> decimal \<Rightarrow> debit_req \<Rightarrow> (tap_world, bool) state" where
  "persistTapCardPaymentOrder e sender b c n amount r =
     (case (if k_fault e KToken = DbOk then k_token e else None) of None \<Rightarrow> return False
      | Some tok \<Rightarrow> (case market_rate (k_fault e KRate) (k_rate e) of None \<Rightarrow> return False
      | Some rate \<Rightarrow>
          if \<not> k_address e \<or> k_fault e KReceive \<noteq> DbOk \<or> k_fault e KTx \<noteq> DbOk \<or> k_fault e KOrder \<noteq> DbOk \<or>
             k_fault e KCommit = DbFail
          then return False
          else do {
            w \<leftarrow> fetch;
            if (\<exists>p \<in> set (pays (tw_routes w)). po_id p = k_new_order e) \<or>
               (\<exists>x \<in> set (orders (tw_routes w)). ord_id x = k_new_order e)
            then return False
            else do {
              State_Monad.set (w\<lparr>
                tw_routes := (tw_routes w)\<lparr>
                  pays := pays (tw_routes w) @ [card_payment e sender b tok amount rate (dq_memo r)],
                  orders := orders (tw_routes w) @ [fresh_order (k_new_order e) (settle_mode (k_settle_mode e)) (k_now e)]\<rparr>,
                tw_charges := tw_charges w @ [\<lparr>ch_order = k_new_order e, ch_card = ct_id c, ch_nonce = cn_nonce n,
                  ch_sender = sender, ch_amount = cn_amount n\<rparr>]\<rparr>);
              return (k_fault e KCommit = DbOk)
            }
          }))"

section \<open>The on-chain debit\<close>

definition base_usdc :: string where "base_usdc = ''0x833589fCD6eDb6E08f4c7C32D4f71b54bdA02913''"

definition isBaseCard :: "string \<Rightarrow> string \<Rightarrow> bool" where
  "isBaseCard cap coin \<longleftrightarrow> to_lower coin = to_lower base_usdc \<or> prefix ''0xbase_'' cap"

text \<open>The event the dispatcher's guard on \<open>awaiting_funds\<close> looks for.\<close>

definition self_settled :: "tap_env \<Rightarrow> nat \<Rightarrow> (tap_world, unit) state" where
  "self_settled e i = only_if (k_fault e KRouteOrder = DbOk \<and> k_fault e KSelfSettle \<noteq> DbFail)
     (modify (\<lambda>w. w\<lparr>tw_routes := (tw_routes w)\<lparr>events := events (tw_routes w) @
        [\<lparr>ev_order = i, ev_step = SelfSettle, ev_status = Succeeded\<rparr>]\<rparr>\<rparr>))"

text \<open>\<open>Some\<close> is the status of a refusal.\<close>

definition debit_onchain :: "tap_env \<Rightarrow> tapp_card \<Rightarrow> decimal \<Rightarrow> (tap_world, nat option) state" where
  "debit_onchain e c amount = (case (ct_cap c, ct_coin c) of
     (Some cap, Some coin) \<Rightarrow> (case market_rate (k_fault e KRate2) (k_rate2 e) of None \<Rightarrow> return (Some 424)
       | Some rate \<Rightarrow>
           if isBaseCard cap coin then do { self_settled e (k_new_order e); return None }
           else (let sub = usdcSubunitFromNGN (k_dec e) amount rate; oc = k_debit e cap coin sub in do {
             modify (\<lambda>w. w\<lparr>tw_chain := tw_chain w @ [CallDebit (k_new_order e) cap coin sub oc]\<rparr>);
             case oc of Done _ \<Rightarrow> do { self_settled e (k_new_order e); return None } | _ \<Rightarrow> return (Some 502)
           }))
   | _ \<Rightarrow> return None)"

section \<open>The debit\<close>

datatype debit_reply = DebitRefused nat | Debited nat "byte list" "64 word"

definition token_mismatch :: "tap_env \<Rightarrow> tapp_card \<Rightarrow> (tap_world, debit_reply) state" where
  "token_mismatch e c = do {
     _ \<leftarrow> update_card e KMismatch (ct_id c) (\<lambda>c. c\<lparr>ct_mismatches := ct_mismatches c + 1\<rparr>);
     return (DebitRefused 403)
   }"

text \<open>The remaining attempts and the lock are computed from the snapshot.\<close>

definition handlePinFailure :: "tap_env \<Rightarrow> tapp_card \<Rightarrow> (tap_world, debit_reply) state" where
  "handlePinFailure e c = (let remaining = ct_pin_attempts c - 1 in do {
     _ \<leftarrow> update_card e KPin (ct_id c) (\<lambda>c.
       if remaining \<le> 0
       then c\<lparr>ct_pin_attempts := max remaining 0, ct_locked_until := Some (k_now e + 24 * hour), ct_status := CardLocked\<rparr>
       else c\<lparr>ct_pin_attempts := max remaining 0\<rparr>);
     return (DebitRefused 403)
   })"

text \<open>Step 9: the new token, and what was spent by the snapshot plus this charge.\<close>

definition rotate_token :: "tap_env \<Rightarrow> tapp_card \<Rightarrow> 64 word \<Rightarrow> (tap_world, debit_reply) state" where
  "rotate_token e c kobo = (case k_random e of None \<Rightarrow> return (DebitRefused 500)
   | Some token \<Rightarrow> do {
       ok \<leftarrow> update_card e KRotate (ct_id c) (\<lambda>d. d\<lparr>ct_rotation_token := Some token, ct_rotated_at := Some (k_now e),
         ct_mismatches := 0, ct_spent := ct_spent c + kobo\<rparr>);
       return (if ok then Debited (k_new_order e) token (daily_limit c - (ct_spent c + kobo)) else DebitRefused 500)
     })"

definition charge_card ::
  "tap_env \<Rightarrow> nat \<Rightarrow> debit_req \<Rightarrow> server_nonce \<Rightarrow> tapp_card \<Rightarrow> decimal \<Rightarrow> 64 word \<Rightarrow> (tap_world, debit_reply) state" where
  "charge_card e sender r n c amount kobo =
     (case (if k_fault e KBank = DbOk then k_bank e sender else None) of None \<Rightarrow> return (DebitRefused 412)
      | Some b \<Rightarrow> do {
          ok \<leftarrow> persistTapCardPaymentOrder e sender b c n amount r;
          if \<not> ok then return (DebitRefused 500)
          else do {
            err \<leftarrow> debit_onchain e c amount;
            case err of Some code \<Rightarrow> return (DebitRefused code) | None \<Rightarrow> rotate_token e c kobo
          }
        })"

definition TapCardDebit :: "tap_env \<Rightarrow> debit_req option \<Rightarrow> (tap_world, debit_reply) state" where
  "TapCardDebit e req = (case req of None \<Rightarrow> return (DebitRefused 400)
   | Some r \<Rightarrow> (case k_sender e of None \<Rightarrow> return (DebitRefused 401)
   | Some sender \<Rightarrow> (case DecodeHex (dq_nonce r) of None \<Rightarrow> return (DebitRefused 400)
   | Some nonce \<Rightarrow> do {
       q \<leftarrow> consumeServerNonce e sender nonce;
       case q of None \<Rightarrow> return (DebitRefused 401)
       | Some n \<Rightarrow> (case uid_bytes (dq_uid_hash r) of None \<Rightarrow> return (DebitRefused 400)
         | Some h \<Rightarrow> do {
             w \<leftarrow> fetch;
             case card_by_uid e h w of None \<Rightarrow> return (DebitRefused 404)
             | Some c \<Rightarrow>
                 if ct_status c \<noteq> CardLive then return (DebitRefused 404)
                 else (case debit_check e r nonce n c of
                   Refuse code \<Rightarrow> return (DebitRefused code)
                 | BadToken \<Rightarrow> token_mismatch e c
                 | BadPin \<Rightarrow> handlePinFailure e c
                 | Charge amount kobo \<Rightarrow> charge_card e sender r n c amount kobo)
           })
     })))"

section \<open>Acknowledgement\<close>

text \<open>The order's reference is the id of the card it was charged to.\<close>

definition TapCardTokenAck :: "tap_env \<Rightarrow> nat option \<Rightarrow> bool option \<Rightarrow> (tap_world, nat) state" where
  "TapCardTokenAck e orderID body = (case orderID of None \<Rightarrow> return 400
   | Some i \<Rightarrow> (case body of None \<Rightarrow> return 400
   | Some written \<Rightarrow> (case k_sender e of None \<Rightarrow> return 401
   | Some sender \<Rightarrow> do {
       w \<leftarrow> fetch;
       if k_fault e KOrderQuery \<noteq> DbOk \<or> \<not> (\<exists>p \<in> set (pays (tw_routes w)). po_id p = i \<and> po_sender p = Some sender)
       then return 404
       else do {
         (case find (\<lambda>h. ch_order h = i) (tw_charges w) of None \<Rightarrow> return ()
          | Some h \<Rightarrow> do {
              _ \<leftarrow> update_card e KAck (ch_card h) (\<lambda>c. c\<lparr>ct_needs_resync := \<not> written\<rparr>);
              return ()
            });
         return 200
       }
     })))"

section \<open>Step-up\<close>

datatype step_up_state = StepUpError nat | StepUpGranted | StepUpExpired | StepUpPending

definition TapCardStepUpPoll :: "tap_env \<Rightarrow> string \<Rightarrow> (tap_world, step_up_state) state" where
  "TapCardStepUpPoll e token = (if token = '''' then return (StepUpError 400)
   else case k_parse_uuid e token of None \<Rightarrow> return (StepUpError 400)
   | Some i \<Rightarrow> (case k_sender e of None \<Rightarrow> return (StepUpError 401)
   | Some sender \<Rightarrow> do {
       w \<leftarrow> fetch;
       return (case sole (k_fault e KStepUp) (\<lambda>n. cn_id n = i \<and> cn_sender n = sender) (tw_nonces w) of
         None \<Rightarrow> StepUpError 404
       | Some n \<Rightarrow> if cn_granted n \<noteq> None then StepUpGranted
           else if cn_expires n < k_now e then StepUpExpired else StepUpPending)
     }))"

text \<open>The user's own step-up nonces.\<close>

definition own_step_up :: "tap_env \<Rightarrow> nat \<Rightarrow> string \<Rightarrow> tap_world \<Rightarrow> server_nonce option" where
  "own_step_up e u i w = sole (k_fault e KStepUp) (\<lambda>n. cn_id n = i \<and> cn_tier n = TierStepUp \<and>
     (\<exists>c \<in> set (tw_cards w). ct_id c = cn_card n \<and> of_user u c)) (tw_nonces w)"

definition StepUpGrant :: "tap_env \<Rightarrow> string option \<Rightarrow> (tap_world, nat) state" where
  "StepUpGrant e req = (case req of None \<Rightarrow> return 400
   | Some token \<Rightarrow> (case k_user e of None \<Rightarrow> return 401
   | Some u \<Rightarrow> (case k_parse_uuid e token of None \<Rightarrow> return 400
   | Some i \<Rightarrow> do {
       w \<leftarrow> fetch;
       case own_step_up e u i w of None \<Rightarrow> return 404
       | Some n \<Rightarrow>
           if cn_expires n < k_now e then return 410
           else if cn_granted n \<noteq> None then return 200
           else if k_fault e KGrant = DbFail then return 500
           else do {
             modify (\<lambda>w. w\<lparr>tw_nonces := map (\<lambda>m. if cn_id m = i then m\<lparr>cn_granted := Some (k_now e)\<rparr> else m) (tw_nonces w)\<rparr>);
             return (if k_fault e KGrant = DbOk then 200 else 500)
           }
     })))"

end
