(* ===== verification/Card_Link.thy ===== *)
theory Card_Link imports Card_Store begin

text \<open>
  The cardholder's side (controllers/cards/cards.go, cardholder.go and tx_verify.go): cards are
  minted, claimed, linked to an on-chain cap, re-linked, reset, revoked, resynchronised; and
  the operators' break-glass controls (controllers/admin/cards.go). An operation returns its
  HTTP status.
\<close>

section \<open>Minting and claiming\<close>

definition issued_card :: "instant \<Rightarrow> nat \<Rightarrow> string \<Rightarrow> tapp_card" where
  "issued_card t i token = \<lparr>ct_id = i, ct_activation_token = token, ct_status = CardIssued, ct_uid_hash = None,
     ct_cap = None, ct_coin = None, ct_linking_proof = None, ct_pin_verifier = None, ct_pin_attempts = 5,
     ct_locked_until = None, ct_password = None, ct_rotation_token = None, ct_rotated_at = None,
     ct_mismatches = 0, ct_daily = 0, ct_per_tap = 0, ct_step_up = 0, ct_spent = 0,
     ct_needs_resync = False, ct_user = None, ct_created = t\<rparr>"

text \<open>The random buffers and ids of the batch; the bulk insert is all or nothing.\<close>

definition IssueBatch :: "tap_env \<Rightarrow> (nat \<times> byte list) list option \<Rightarrow> nat \<Rightarrow> (tap_world, nat) state" where
  "IssueBatch e bufs count = (if count < 1 \<or> 500 < count then return 400
   else case bufs of None \<Rightarrow> return 500
   | Some bs \<Rightarrow> (let new = map (\<lambda>(i, b). issued_card (k_now e) i (generateActivationToken b)) (take count bs) in do {
       w \<leftarrow> fetch;
       if k_fault e KIssue = DbFail \<or>
          \<not> distinct (map ct_id (tw_cards w @ new)) \<or> \<not> distinct (map ct_activation_token (tw_cards w @ new))
       then return 500
       else do {
         State_Monad.set (w\<lparr>tw_cards := tw_cards w @ new\<rparr>);
         return (if k_fault e KIssue = DbOk then 201 else 500)
       }
     }))"

text \<open>The route of the web app a tapped card is sent to; \<open>None\<close> is the opaque 404.\<close>

definition Resolve :: "tap_env \<Rightarrow> string \<Rightarrow> string \<Rightarrow> (nat \<Rightarrow> string) \<Rightarrow> tap_world \<Rightarrow> string option" where
  "Resolve e pwa token show_id w = (if token = '''' then None
   else case sole (k_fault e KCard) (\<lambda>c. ct_activation_token c = token) (tw_cards w) of None \<Rightarrow> None
   | Some c \<Rightarrow> Some (case ct_status c of
       CardIssued \<Rightarrow> pwa @ ''/link?token='' @ token
     | CardClaimed \<Rightarrow> pwa @ ''/link/configure?card='' @ show_id (ct_id c)
     | CardLive \<Rightarrow> pwa @ ''/dashboard/cards/'' @ show_id (ct_id c)
     | CardRevoked \<Rightarrow> pwa @ ''/cards/unavailable?status=revoked''
     | CardLocked \<Rightarrow> pwa @ ''/cards/unavailable?status=locked''))"

definition Claim :: "tap_env \<Rightarrow> string option \<Rightarrow> (tap_world, nat) state" where
  "Claim e req = (case req of None \<Rightarrow> return 400
   | Some token \<Rightarrow> (case k_user e of None \<Rightarrow> return 401
   | Some u \<Rightarrow> do {
       w \<leftarrow> fetch;
       case sole (k_fault e KCard) (\<lambda>c. ct_activation_token c = token) (tw_cards w) of None \<Rightarrow> return 404
       | Some c \<Rightarrow>
           if ct_user c = Some u then return 200
           else if ct_user c \<noteq> None then return 409
           else if ct_status c \<noteq> CardIssued then return 409
           else if k_fault e KUserCards = DbOk \<and> list_ex (live_of u) (tw_cards w) then return 409
           else do {
             ok \<leftarrow> update_card e KSave (ct_id c) (\<lambda>c. c\<lparr>ct_status := CardClaimed, ct_user := Some u\<rparr>);
             return (if ok then 200 else 500)
           }
     }))"

section \<open>The on-chain cap\<close>

definition sameSuiAddr :: "string \<Rightarrow> string \<Rightarrow> bool" where
  "sameSuiAddr a b = (let strip = \<lambda>s. let t = to_lower s in if prefix ''0x'' t then drop 2 t else t in
     to_lower (strip a) = to_lower (strip b))"

definition trim_suffix :: "string \<Rightarrow> string \<Rightarrow> string" where
  "trim_suffix suf s = (if suffix suf s then take (length s - length suf) s else s)"

fun scan_changes :: "string \<Rightarrow> string \<Rightarrow> object_change list \<Rightarrow> string option" where
  "scan_changes want cap [] = None"
| "scan_changes want cap (x # xs) =
     (if oc_kind x \<noteq> ''created'' then scan_changes want cap xs
      else if \<not> sameSuiAddr (oc_id x) cap then scan_changes want cap xs
      else if \<not> prefix want (oc_type x) then None
      else Some (trim_suffix ''>'' (drop (length want) (oc_type x))))"

text \<open>
  \<open>verifyCreateCap\<close>: an error, which the caller takes for a reason to skip the verification, a
  refusal, or the coin type of the created cap.
\<close>

datatype cap_check = CheckError | CapRefused | CapOk string

definition verifyCreateCap :: "tap_env \<Rightarrow> string \<Rightarrow> string \<Rightarrow> cap_check" where
  "verifyCreateCap e txDigest capObjectID =
     (if k_package_id e = '''' then CheckError
      else if txDigest = '''' \<or> capObjectID = '''' then CheckError
      else case k_tx_block e txDigest of None \<Rightarrow> CheckError
      | Some resp \<Rightarrow>
          if \<not> sx_success resp then CapRefused
          else (case scan_changes (k_package_id e @ ''::tapp_card::CardSpendingCap<'') capObjectID (sx_changes resp) of
            None \<Rightarrow> CapRefused
          | Some coin \<Rightarrow> CapOk coin))"

definition ParseCapBalanceField :: "balance_field \<Rightarrow> string" where
  "ParseCapBalanceField f = (case f of NoBalance \<Rightarrow> ''0'' | Scalar s \<Rightarrow> s
     | Struct None \<Rightarrow> ''0'' | Struct (Some v) \<Rightarrow> v)"

text \<open>\<open>"0"\<close> on any error.\<close>

definition CapBalanceSubunit :: "tap_env \<Rightarrow> string \<Rightarrow> string" where
  "CapBalanceSubunit e cap = (if cap = '''' then ''0'' else case k_cap_object e cap of None \<Rightarrow> ''0''
     | Some f \<Rightarrow> ParseCapBalanceField f)"

section \<open>Linking\<close>

record link_req =
  lq_uid_hash :: string
  lq_cap :: string
  lq_coin :: string
  lq_proof :: string
  lq_verifier :: string
  lq_password :: string
  lq_token :: string
  lq_digest :: string
  lq_daily :: "64 word"
  lq_per_tap :: "64 word"
  lq_step_up :: "64 word"

text \<open>The decoded secrets a card is provisioned with.\<close>

record secrets =
  se_uid :: "byte list"
  se_proof :: "byte list"
  se_verifier :: "byte list"
  se_password :: "byte list"
  se_token :: "byte list"

definition hex_of_length :: "nat \<Rightarrow> string \<Rightarrow> byte list option" where
  "hex_of_length n s = (case DecodeHex s of None \<Rightarrow> None | Some b \<Rightarrow> if length b = n then Some b else None)"

definition decode_secrets :: "string \<Rightarrow> string \<Rightarrow> string \<Rightarrow> string \<Rightarrow> string \<Rightarrow> secrets option" where
  "decode_secrets uid proof verifier pwd token = (case hex_of_length 32 uid of None \<Rightarrow> None
   | Some u \<Rightarrow> (case hex_of_length 32 proof of None \<Rightarrow> None
   | Some p \<Rightarrow> (case hex_of_length 32 verifier of None \<Rightarrow> None
   | Some v \<Rightarrow> (case hex_of_length 4 pwd of None \<Rightarrow> None
   | Some k \<Rightarrow> (case DecodeHex token of None \<Rightarrow> None
   | Some t \<Rightarrow> Some \<lparr>se_uid = u, se_proof = p, se_verifier = v, se_password = k, se_token = t\<rparr>)))))"

definition provision :: "instant \<Rightarrow> secrets \<Rightarrow> tapp_card \<Rightarrow> tapp_card" where
  "provision t s c = c\<lparr>ct_linking_proof := Some (se_proof s), ct_pin_verifier := Some (se_verifier s),
     ct_password := Some (se_password s), ct_rotation_token := Some (se_token s), ct_rotated_at := Some t\<rparr>"

text \<open>An unverifiable transaction is not a reason to refuse.\<close>

definition link_refused :: "cap_check \<Rightarrow> string \<Rightarrow> bool" where
  "link_refused v coinType \<longleftrightarrow> (case v of CheckError \<Rightarrow> False | CapRefused \<Rightarrow> True
     | CapOk coin \<Rightarrow> coin \<noteq> '''' \<and> to_lower coin \<noteq> to_lower coinType)"

definition LinkComplete :: "tap_env \<Rightarrow> link_req option \<Rightarrow> (tap_world, nat) state" where
  "LinkComplete e req = (case req of None \<Rightarrow> return 400
   | Some r \<Rightarrow> (case k_user e of None \<Rightarrow> return 401
   | Some u \<Rightarrow> do {
       w \<leftarrow> fetch;
       if k_fault e KUserCards = DbOk \<and> list_ex (live_of u) (tw_cards w) then return 409
       else case decode_secrets (lq_uid_hash r) (lq_proof r) (lq_verifier r) (lq_password r) (lq_token r) of
         None \<Rightarrow> return 400
       | Some s \<Rightarrow>
           if link_refused (verifyCreateCap e (lq_digest r) (lq_cap r)) (lq_coin r) then return 400
           else (case first_card (k_fault e KCard) (\<lambda>c. of_user u c \<and> ct_status c = CardClaimed) w of
             None \<Rightarrow> return 404
           | Some c \<Rightarrow> do {
               ok \<leftarrow> update_card e KSave (ct_id c) (\<lambda>c. (provision (k_now e) s c)\<lparr>
                 ct_uid_hash := Some (se_uid s), ct_cap := Some (lq_cap r), ct_coin := Some (lq_coin r),
                 ct_daily := lq_daily r, ct_per_tap := lq_per_tap r, ct_step_up := lq_step_up r,
                 ct_status := CardLive\<rparr>);
               return (if ok then 200 else 500)
             })
     }))"

definition Relink :: "tap_env \<Rightarrow> link_req option \<Rightarrow> (tap_world, nat) state" where
  "Relink e req = (case req of None \<Rightarrow> return 400
   | Some r \<Rightarrow> (case k_user e of None \<Rightarrow> return 401
   | Some u \<Rightarrow> (case decode_secrets (lq_uid_hash r) (lq_proof r) (lq_verifier r) (lq_password r) (lq_token r) of
         None \<Rightarrow> return 400
       | Some s \<Rightarrow> do {
           w \<leftarrow> fetch;
           case (if k_fault e KUserCards = DbOk then find (live_of u) (tw_cards w) else None) of None \<Rightarrow> return 404
           | Some c \<Rightarrow>
               if ct_uid_hash c \<noteq> Some (se_uid s) then return 409
               else do {
                 ok \<leftarrow> update_card e KSave (ct_id c) (\<lambda>c. (provision (k_now e) s c)\<lparr>
                   ct_needs_resync := False, ct_mismatches := 0, ct_pin_attempts := 5\<rparr>);
                 return (if ok then 200 else 500)
               }
         })))"

section \<open>The cardholder's controls\<close>

definition Reset :: "tap_env \<Rightarrow> (tap_world, nat) state" where
  "Reset e = (case k_user e of None \<Rightarrow> return 401
   | Some u \<Rightarrow> do {
       w \<leftarrow> fetch;
       if k_fault e KUserCards \<noteq> DbOk then return 500
       else if \<exists>c \<in> set (tw_cards w). of_user u c \<and>
           (case ct_cap c of None \<Rightarrow> False | Some cap \<Rightarrow> cap \<noteq> '''' \<and> CapBalanceSubunit e cap \<noteq> ''0'')
       then return 409
       else do {
         only_if (k_fault e KDelete \<noteq> DbFail) (modify (\<lambda>w. w\<lparr>tw_nonces := filter
           (\<lambda>n. \<not> (\<exists>c \<in> set (tw_cards w). ct_id c = cn_card n \<and> of_user u c)) (tw_nonces w)\<rparr>));
         if k_fault e KSave = DbFail then return 500
         else do {
           modify (\<lambda>w. w\<lparr>tw_cards := filter (\<lambda>c. \<not> of_user u c) (tw_cards w)\<rparr>);
           return (if k_fault e KSave = DbOk then 200 else 500)
         }
       }
     })"

definition with_card :: "tap_env \<Rightarrow> (nat \<Rightarrow> tapp_card \<Rightarrow> (tap_world, nat) state) \<Rightarrow> (tap_world, nat) state" where
  "with_card e f = (case k_user e of None \<Rightarrow> return 401
   | Some u \<Rightarrow> do { w \<leftarrow> fetch; case cardForUser e u w of None \<Rightarrow> return 404 | Some c \<Rightarrow> f u c })"

definition Revoke :: "tap_env \<Rightarrow> (tap_world, nat) state" where
  "Revoke e = with_card e (\<lambda>u c. if ct_cap c = None \<or> ct_coin c = None then return 409
     else do {
       _ \<leftarrow> update_card e KSave (ct_id c) (\<lambda>c. c\<lparr>ct_status := CardRevoked\<rparr>);
       return 200
     })"

definition limits_ordered :: "64 word \<Rightarrow> 64 word \<Rightarrow> 64 word \<Rightarrow> bool" where
  "limits_ordered daily perTap stepUp \<longleftrightarrow> \<not> (perTap = 0 \<or> stepUp < perTap \<or> daily < stepUp)"

definition UpdateLimits :: "tap_env \<Rightarrow> (64 word \<times> 64 word \<times> 64 word) option \<Rightarrow> (tap_world, nat) state" where
  "UpdateLimits e req = (case req of None \<Rightarrow> return 400
   | Some (daily, perTap, stepUp) \<Rightarrow>
       if \<not> limits_ordered daily perTap stepUp then return 400
       else with_card e (\<lambda>u c. if ct_cap c = None \<or> ct_coin c = None then return 409
         else do {
           ok \<leftarrow> update_card e KSave (ct_id c) (\<lambda>c. c\<lparr>ct_daily := daily, ct_per_tap := perTap, ct_step_up := stepUp\<rparr>);
           return (if ok then 200 else 500)
         }))"

text \<open>What the card must be rewritten with; the nonce is stateless.\<close>

definition resyncNonceTTL :: duration where "resyncNonceTTL = 5 * minute"

definition Resync :: "tap_env \<Rightarrow> tap_world \<Rightarrow> nat + string \<times> string \<times> string" where
  "Resync e w = (case k_user e of None \<Rightarrow> Inl 401
   | Some u \<Rightarrow> (case cardForUser e u w of None \<Rightarrow> Inl 404
   | Some c \<Rightarrow> (case (ct_rotation_token c, ct_password c) of
       (Some token, Some pwd) \<Rightarrow> Inr (EncodeHex token, EncodeHex pwd,
         issueResyncNonce (k_hmac e) (k_secret e) (k_user_bytes e u) (k_card_bytes e (ct_id c))
           ((k_now e + resyncNonceTTL) div second))
     | _ \<Rightarrow> Inl 409)))"

definition ResyncComplete :: "tap_env \<Rightarrow> string option \<Rightarrow> (tap_world, nat) state" where
  "ResyncComplete e req = (case req of None \<Rightarrow> return 400
   | Some nonce \<Rightarrow> with_card e (\<lambda>u c.
       if \<not> verifyResyncNonce (k_hmac e) (k_secret e) (k_now e div second) (k_user_bytes e u) (k_card_bytes e (ct_id c)) nonce
       then return 401
       else do {
         ok \<leftarrow> update_card e KSave (ct_id c) (\<lambda>c. c\<lparr>ct_needs_resync := False, ct_mismatches := 0\<rparr>);
         return (if ok then 200 else 500)
       }))"

section \<open>The operators' controls\<close>

definition with_card_id :: "tap_env \<Rightarrow> nat option \<Rightarrow> (tapp_card \<Rightarrow> (tap_world, nat) state) \<Rightarrow> (tap_world, nat) state" where
  "with_card_id e param f = (case param of None \<Rightarrow> return 400
   | Some k \<Rightarrow> do {
       w \<leftarrow> fetch;
       if k_fault e KCard \<noteq> DbOk then return 500
       else case filter (\<lambda>c. ct_id c = k) (tw_cards w) of [c] \<Rightarrow> f c | [] \<Rightarrow> return 404 | _ \<Rightarrow> return 500
     })"

definition Unlock :: "tap_env \<Rightarrow> nat option \<Rightarrow> (tap_world, nat) state" where
  "Unlock e param = with_card_id e param (\<lambda>c. if ct_status c = CardRevoked then return 409
     else do {
       ok \<leftarrow> update_card e KSave (ct_id c) (\<lambda>c. c\<lparr>ct_status := CardLive, ct_pin_attempts := 5, ct_mismatches := 0,
         ct_locked_until := None\<rparr>);
       return (if ok then 200 else 500)
     })"

definition AdminResync :: "tap_env \<Rightarrow> nat option \<Rightarrow> (tap_world, nat) state" where
  "AdminResync e param = with_card_id e param (\<lambda>c. if ct_status c = CardRevoked then return 409
     else do {
       ok \<leftarrow> update_card e KSave (ct_id c) (\<lambda>c. c\<lparr>ct_needs_resync := True, ct_mismatches := 0\<rparr>);
       return (if ok then 200 else 500)
     })"

definition AdminSetStatus :: "tap_env \<Rightarrow> nat option \<Rightarrow> string option \<Rightarrow> (tap_world, nat) state" where
  "AdminSetStatus e param body = with_card_id e param (\<lambda>c. case body of None \<Rightarrow> return 400
   | Some s \<Rightarrow> (let target = to_lower (trim_space s) in
       if target = ''revoked'' then do {
         ok \<leftarrow> update_card e KSave (ct_id c) (\<lambda>c. c\<lparr>ct_status := CardRevoked\<rparr>);
         return (if ok then 200 else 500)
       } else if target = ''locked'' then do {
         ok \<leftarrow> update_card e KSave (ct_id c) (\<lambda>c. c\<lparr>ct_status := CardLocked,
           ct_locked_until := Some (k_now e + 24 * hour), ct_pin_attempts := 0\<rparr>);
         return (if ok then 200 else 500)
       } else return 400))"

text \<open>The shared secret of the admin endpoints: closed when it is not configured.\<close>

definition AdminTokenMiddleware :: "tap_env \<Rightarrow> string \<Rightarrow> nat option" where
  "AdminTokenMiddleware e got = (if k_admin_token e = '''' then Some 503
     else if got \<noteq> k_admin_token e then Some 401 else None)"

end
