(* ===== verification/Card_Laws.thy ===== *)
theory Card_Laws imports Card_Tap Card_Link begin

text \<open>
  What the card service's operations do to a card, one field group at a time. A predicate on
  cards that every such update keeps is kept by every operation of the service; the two
  interpretations are the bounds on the PIN attempts and the material of a linked card.
\<close>

lemma distinct_map_eq: "distinct (map f xs) \<Longrightarrow> x \<in> set xs \<Longrightarrow> y \<in> set xs \<Longrightarrow> f x = f y \<Longrightarrow> x = y"
  by (auto simp: distinct_map dest: inj_onD)

named_theorems card_intros \<open>operations of the card service that keep a predicate of all cards\<close>

locale card_law =
  fixes P :: "tapp_card \<Rightarrow> bool"
  assumes fresh: "P (issued_card t i name)"
    and claimed: "P c \<Longrightarrow> ct_status c = CardIssued \<Longrightarrow> P (c\<lparr>ct_status := CardClaimed, ct_user := Some u\<rparr>)"
    and linked: "P c \<Longrightarrow> ct_status c = CardClaimed \<Longrightarrow> length (se_uid s) = 32 \<Longrightarrow> length (se_proof s) = 32 \<Longrightarrow>
      length (se_password s) = 4 \<Longrightarrow> P ((provision t s c)\<lparr>ct_uid_hash := Some (se_uid s), ct_cap := Some cap,
        ct_coin := Some coin, ct_daily := dl, ct_per_tap := pt, ct_step_up := su, ct_status := CardLive\<rparr>)"
    and relinked: "P c \<Longrightarrow> length (se_proof s) = 32 \<Longrightarrow> length (se_password s) = 4 \<Longrightarrow>
      P ((provision t s c)\<lparr>ct_needs_resync := False, ct_mismatches := 0, ct_pin_attempts := 5\<rparr>)"
    and revoked: "P c \<Longrightarrow> P (c\<lparr>ct_status := CardRevoked\<rparr>)"
    and limited: "P c \<Longrightarrow> P (c\<lparr>ct_daily := dl, ct_per_tap := pt, ct_step_up := su\<rparr>)"
    and resynced: "P c \<Longrightarrow> P (c\<lparr>ct_needs_resync := b, ct_mismatches := 0\<rparr>)"
    and acked: "P c \<Longrightarrow> P (c\<lparr>ct_needs_resync := b\<rparr>)"
    and unlocked: "P c \<Longrightarrow> P (c\<lparr>ct_status := CardLive, ct_pin_attempts := 5, ct_mismatches := 0, ct_locked_until := None\<rparr>)"
    and locked: "P c \<Longrightarrow> P (c\<lparr>ct_status := CardLocked, ct_locked_until := Some until, ct_pin_attempts := 0\<rparr>)"
    and mismatched: "P c \<Longrightarrow> P (c\<lparr>ct_mismatches := ct_mismatches c + 1\<rparr>)"
    and rotated: "P c \<Longrightarrow> P (c\<lparr>ct_rotation_token := Some token, ct_rotated_at := Some t, ct_mismatches := 0, ct_spent := n\<rparr>)"
    and pin_failed: "P c \<Longrightarrow> P d \<Longrightarrow> ct_status d = CardLive \<Longrightarrow>
      P (if ct_pin_attempts d - 1 \<le> 0
         then c\<lparr>ct_pin_attempts := max (ct_pin_attempts d - 1) 0, ct_locked_until := Some until, ct_status := CardLocked\<rparr>
         else c\<lparr>ct_pin_attempts := max (ct_pin_attempts d - 1) 0\<rparr>)"
begin

definition all_cards :: "tap_world \<Rightarrow> bool" where
  "all_cards w \<longleftrightarrow> distinct (map ct_id (tw_cards w)) \<and> list_all P (tw_cards w)"

lemma keeps_other:
  "(\<And>w. tw_cards (f w) = tw_cards w) \<Longrightarrow> keeps all_cards (modify f)"
  by (simp add: keeps_def all_cards_def)

lemma ids_put: "(\<And>c. ct_id (f c) = ct_id c) \<Longrightarrow> map ct_id (tw_cards (put_card k f w)) = map ct_id (tw_cards w)"
  by (simp add: put_card_def comp_def if_distrib cong: if_cong)

lemma put_law:
  assumes "all_cards w" "\<And>c. c \<in> set (tw_cards w) \<Longrightarrow> ct_id c = k \<Longrightarrow> P (f c)" "\<And>c. ct_id (f c) = ct_id c"
  shows "all_cards (put_card k f w)"
proof -
  have "list_all P (tw_cards (put_card k f w))"
    using assms(1,2) by (auto simp: all_cards_def list_all_iff put_card_def)
  then show ?thesis using assms(1) ids_put [of f k w, OF assms(3)] by (simp add: all_cards_def)
qed

lemma keeps_update_card:
  assumes "\<And>c. P c \<Longrightarrow> P (f c)" "\<And>c. ct_id (f c) = ct_id c"
  shows "keeps all_cards (update_card e s k f)"
  unfolding update_card_def
  by (intro keeps_intros keeps_update put_law) (use assms in \<open>auto simp: all_cards_def list_all_iff\<close>)

lemma update_state:
  assumes "all_cards w" "c \<in> set (tw_cards w)" "P c \<Longrightarrow> P (f c)" "\<And>c. ct_id (f c) = ct_id c"
  shows "all_cards (snd (run_state (update_card e s (ct_id c) f) w))"
proof -
  have "P (f d)" if "d \<in> set (tw_cards w)" "ct_id d = ct_id c" for d
    using distinct_map_eq [of ct_id "tw_cards w" d c] assms that by (auto simp: all_cards_def list_all_iff)
  then have "all_cards (put_card (ct_id c) f w)" by (intro put_law assms(1,4))
  with assms(1) show ?thesis by (auto simp: update_card_def)
qed

lemma keeps_reading:
  "(\<And>w. all_cards w \<Longrightarrow> all_cards (snd (run_state (f w) w))) \<Longrightarrow> keeps all_cards (fetch \<bind> f)"
  by (simp add: keeps_def)

section \<open>The merchant's operations\<close>

lemma consume_law [card_intros]: "keeps all_cards (consumeServerNonce e sender nonce)"
  by (simp add: keeps_def consumeServerNonce_def all_cards_def)

lemma TapCardNonce_law [card_intros]: "keeps all_cards (TapCardNonce e req)"
  unfolding TapCardNonce_def keeps_def
  by (auto simp: Let_def insert_nonce_def all_cards_def split: option.split)

lemma self_settled_law [card_intros]: "keeps all_cards (self_settled e i)"
  unfolding self_settled_def by (intro keeps_intros keeps_other) simp

lemma keeps_outcome [card_intros]:
  "keeps all_cards m \<Longrightarrow> keeps all_cards n \<Longrightarrow> (\<And>d. keeps all_cards (g d)) \<Longrightarrow>
   keeps all_cards (case oc of Refused \<Rightarrow> m | Lost \<Rightarrow> n | Done d \<Rightarrow> g d)"
  by (cases oc) auto

lemma debit_onchain_law [card_intros]: "keeps all_cards (debit_onchain e c amount)"
  unfolding debit_onchain_def Let_def by (intro keeps_intros card_intros keeps_other) simp

lemma persist_law [card_intros]: "keeps all_cards (persistTapCardPaymentOrder e sender b c n amount r)"
  unfolding persistTapCardPaymentOrder_def keeps_def by (auto simp: all_cards_def split: option.split)

lemma rotate_law [card_intros]: "keeps all_cards (rotate_token e c kobo)"
  unfolding rotate_token_def by (intro keeps_intros keeps_update_card rotated) simp_all

lemma mismatch_law [card_intros]: "keeps all_cards (token_mismatch e c)"
  unfolding token_mismatch_def by (intro keeps_intros keeps_update_card mismatched) simp_all

lemma pin_failure_law [card_intros]:
  "P c \<Longrightarrow> ct_status c = CardLive \<Longrightarrow> keeps all_cards (handlePinFailure e c)"
  unfolding handlePinFailure_def Let_def by (intro keeps_intros keeps_update_card pin_failed) simp_all

lemma charge_law [card_intros]: "keeps all_cards (charge_card e sender r n c amount kobo)"
  unfolding charge_card_def by (intro keeps_intros card_intros)

lemma TokenAck_law [card_intros]: "keeps all_cards (TapCardTokenAck e i body)"
  unfolding TapCardTokenAck_def by (intro keeps_intros keeps_update_card acked) simp_all

lemma StepUp_law [card_intros]:
  "keeps all_cards (TapCardStepUpPoll e token)" "keeps all_cards (StepUpGrant e req)"
  unfolding TapCardStepUpPoll_def StepUpGrant_def by (intro keeps_intros keeps_other; simp)+

section \<open>The cardholder's and the operators' operations\<close>

lemma append_law:
  "all_cards w \<Longrightarrow> list_all P new \<Longrightarrow> distinct (map ct_id (tw_cards w @ new)) \<Longrightarrow>
   all_cards (w\<lparr>tw_cards := tw_cards w @ new\<rparr>)"
  by (simp add: all_cards_def)

lemma IssueBatch_law [card_intros]: "keeps all_cards (IssueBatch e bufs count)"
proof -
  have new: "list_all P (map (\<lambda>(i, b). issued_card (k_now e) i (generateActivationToken b)) xs)" for xs
    by (auto simp: list_all_iff fresh)
  show ?thesis
    unfolding IssueBatch_def Let_def
    by (intro keeps_intros keeps_reading) (simp only: de_Morgan_disj not_not run_state_set snd_conv, auto intro: append_law [OF _ new])
qed

lemma snd_case_pair [simp]: "snd (case p of (a, x) \<Rightarrow> (g a, x)) = snd p"
  by (cases p) simp

text \<open>Operations on a card they found: what they do to it needs what they found of it.\<close>

lemma with_card_law:
  assumes "\<And>u c w. all_cards w \<Longrightarrow> c \<in> set (tw_cards w) \<Longrightarrow> all_cards (snd (run_state (f u c) w))"
  shows "keeps all_cards (with_card e f)"
proof -
  have "cardForUser e u w = Some c \<Longrightarrow> c \<in> set (tw_cards w)" for u w c
    by (auto simp: cardForUser_def dest: first_card_mem split: option.splits)
  with assms show ?thesis
    by (auto simp: with_card_def keeps_def split: option.split)
qed

lemma with_card_id_law:
  assumes "\<And>c w. all_cards w \<Longrightarrow> c \<in> set (tw_cards w) \<Longrightarrow> all_cards (snd (run_state (f c) w))"
  shows "keeps all_cards (with_card_id e k f)"
proof (cases k)
  case (Some i)
  have "all_cards (snd (run_state (with_card_id e k f) w))" if w: "all_cards w" for w
  proof (cases "filter (\<lambda>c. ct_id c = i) (tw_cards w)")
    case (Cons c cs)
    have "c \<in> set (filter (\<lambda>c. ct_id c = i) (tw_cards w))" unfolding Cons by simp
    then have "all_cards (snd (run_state (f c) w))" by (intro assms w) simp
    with w Cons Some show ?thesis by (cases cs) (simp_all add: with_card_id_def)
  qed (use w Some in \<open>simp add: with_card_id_def\<close>)
  then show ?thesis by (simp add: keeps_def)
qed (simp add: with_card_id_def keeps_def)

lemma Claim_law [card_intros]: "keeps all_cards (Claim e req)"
proof -
  have "all_cards (snd (run_state (update_card e KSave (ct_id c) (\<lambda>c. c\<lparr>ct_status := CardClaimed, ct_user := Some u\<rparr>)) w))"
    if "all_cards w" "sole f p (tw_cards w) = Some c" "ct_status c = CardIssued" for w f p c u
    using that(1,3) sole_mem [OF that(2)] by (intro update_state) (auto intro: claimed)
  then show ?thesis
    unfolding Claim_def by (auto simp: keeps_def split: option.split)
qed

lemma decode_lengths:
  "decode_secrets uid proof verifier pwd token = Some s \<Longrightarrow>
   length (se_uid s) = 32 \<and> length (se_proof s) = 32 \<and> length (se_password s) = 4"
  by (auto simp: decode_secrets_def hex_of_length_def split: option.splits if_splits)

lemma link_card_law:
  assumes "all_cards w" "first_card f (\<lambda>c. of_user u c \<and> ct_status c = CardClaimed) w = Some c"
    and "decode_secrets uid pf verifier pwd token = Some s"
  shows "all_cards (snd (run_state (update_card e KSave (ct_id c) (\<lambda>c. (provision t s c)\<lparr>
        ct_uid_hash := Some (se_uid s), ct_cap := Some cap, ct_coin := Some coin, ct_daily := dl,
        ct_per_tap := pt, ct_step_up := su, ct_status := CardLive\<rparr>)) w))"
  using assms(1) first_card_mem [OF assms(2)] decode_lengths [OF assms(3)]
  by (intro update_state linked) (simp_all add: provision_def)

lemma LinkComplete_law [card_intros]: "keeps all_cards (LinkComplete e req)"
  unfolding LinkComplete_def keeps_def
  by (simp add: link_card_law split: option.split)

lemma Relink_law [card_intros]: "keeps all_cards (Relink e req)"
proof -
  have "all_cards (snd (run_state (update_card e KSave (ct_id c) (\<lambda>c. (provision t s c)\<lparr>
        ct_needs_resync := False, ct_mismatches := 0, ct_pin_attempts := 5\<rparr>)) w))"
    if "all_cards w" "find (live_of u) (tw_cards w) = Some c" "decode_secrets uid proof verifier pwd token = Some s"
    for w u c t s uid "proof" verifier pwd token
    using that(1) that(2) decode_lengths [OF that(3)]
    by (intro update_state relinked) (auto simp: provision_def find_Some_iff)
  then show ?thesis
    unfolding Relink_def by (auto simp: keeps_def split: option.split if_splits)
qed

lemma Reset_law [card_intros]: "keeps all_cards (Reset e)"
proof -
  have filter_law: "keeps all_cards (modify (\<lambda>w. w\<lparr>tw_cards := filter p (tw_cards w)\<rparr>))" for p
    by (auto simp: keeps_def all_cards_def list_all_iff distinct_map_filter)
  then show ?thesis
    unfolding Reset_def by (intro keeps_intros filter_law) (rule keeps_other, simp)
qed

lemma user_controls_law [card_intros]:
  "keeps all_cards (Revoke e)" "keeps all_cards (UpdateLimits e limits)" "keeps all_cards (ResyncComplete e nonce)"
  unfolding Revoke_def UpdateLimits_def ResyncComplete_def
  by (intro keeps_intros with_card_law; auto intro!: update_state revoked limited resynced)+

lemma admin_controls_law [card_intros]:
  "keeps all_cards (Unlock e k)" "keeps all_cards (AdminResync e k)" "keeps all_cards (AdminSetStatus e k body)"
  unfolding Unlock_def AdminResync_def AdminSetStatus_def Let_def
  by (intro with_card_id_law; auto intro!: update_state unlocked resynced revoked locked split: option.split)+

end

section \<open>PIN attempts\<close>

text \<open>A live card has one to five attempts left; no card has a negative number of them.\<close>

definition attempts_ok :: "tapp_card \<Rightarrow> bool" where
  "attempts_ok c \<longleftrightarrow> 0 \<le> ct_pin_attempts c \<and> ct_pin_attempts c \<le> 5 \<and>
     (ct_status c \<in> {CardIssued, CardClaimed, CardLive} \<longrightarrow> 0 < ct_pin_attempts c)"

interpretation attempts: card_law attempts_ok
  by unfold_locales (auto simp: attempts_ok_def issued_card_def provision_def)

section \<open>The material of a linked card\<close>

text \<open>A card that can be found by its chip has everything a debit needs.\<close>

definition provisioned :: "tapp_card \<Rightarrow> bool" where
  "provisioned c \<longleftrightarrow> (case ct_uid_hash c of None \<Rightarrow> True
     | Some h \<Rightarrow> length h = 32 \<and> ct_cap c \<noteq> None \<and> ct_coin c \<noteq> None \<and> ct_rotation_token c \<noteq> None \<and>
         (case ct_linking_proof c of None \<Rightarrow> False | Some p \<Rightarrow> length p = 32) \<and>
         (case ct_password c of None \<Rightarrow> False | Some p \<Rightarrow> length p = 4))"

interpretation material: card_law provisioned
  by unfold_locales (auto simp: provisioned_def issued_card_def provision_def split: option.splits)

end
