(* ===== verification/Card_Runs.thy ===== *)
theory Card_Runs imports Card_Laws begin

text \<open>
  Runs of the card service. A debit is a sequence of steps on the database; other requests,
  other debits, the dispatcher and crashes may come between any two of them, so that what a
  debit holds is a snapshot. The nonces issued so far are kept beside the tables, since a reset
  deletes rows: the random generator never repeats one.
\<close>

section \<open>Steps\<close>

datatype stage = Consumed | Failing tapp_card | Approved tapp_card decimal
  | Recorded nat tapp_card decimal | Collected nat tapp_card decimal

record tap_debit =
  td_sender :: nat
  td_req :: debit_req
  td_nonce :: server_nonce
  td_stage :: stage

type_synonym nonce_key = "byte list \<times> nat \<times> string"

definition nonce_key :: "server_nonce \<Rightarrow> nonce_key" where
  "nonce_key n = (cn_nonce n, cn_sender n, cn_amount n)"

type_synonym tap_sys = "tap_world \<times> nonce_key set \<times> tap_debit list"

text \<open>Requests that run in one go.\<close>

definition requests :: "(tap_world, unit) state set" where
  "requests = {m. \<exists>e a b c d k. m \<in> {
     do { _ \<leftarrow> Claim e a; return () }, do { _ \<leftarrow> LinkComplete e b; return () }, do { _ \<leftarrow> Relink e b; return () },
     do { _ \<leftarrow> Reset e; return () }, do { _ \<leftarrow> Revoke e; return () }, do { _ \<leftarrow> UpdateLimits e c; return () },
     do { _ \<leftarrow> ResyncComplete e a; return () }, do { _ \<leftarrow> Unlock e k; return () }, do { _ \<leftarrow> AdminResync e k; return () },
     do { _ \<leftarrow> AdminSetStatus e k a; return () }, do { _ \<leftarrow> TapCardTokenAck e k d; return () },
     do { _ \<leftarrow> StepUpGrant e a; return () }}}
   \<union> {m. \<exists>e bufs n. m = do { _ \<leftarrow> IssueBatch e bufs n; return () }}"

inductive tap_step :: "tap_sys \<Rightarrow> tap_sys \<Rightarrow> bool" where
  issued: "(\<And>n. k_random e = Some n \<Longrightarrow> n \<notin> fst ` iss) \<Longrightarrow> run_state (TapCardNonce e nr) w = (res, w') \<Longrightarrow>
     tap_step (w, iss, q) (w', iss \<union> nonce_key ` set (tw_nonces w'), q)"
| consumed: "run_state (consumeServerNonce e s nonce) w = (Some n, w') \<Longrightarrow>
     tap_step (w, iss, q) (w', iss, \<lparr>td_sender = s, td_req = r, td_nonce = n, td_stage = Consumed\<rparr> # q)"
| not_consumed: "run_state (consumeServerNonce e s nonce) w = (None, w') \<Longrightarrow> tap_step (w, iss, q) (w', iss, q)"
| approved: "td_stage x = Consumed \<Longrightarrow> card_by_uid e h w = Some c \<Longrightarrow> ct_status c = CardLive \<Longrightarrow>
     debit_check e (td_req x) nonce (td_nonce x) c = Charge d kobo \<Longrightarrow>
     tap_step (w, iss, p @ x # q) (w, iss, p @ x\<lparr>td_stage := Approved c d\<rparr> # q)"
| failing: "td_stage x = Consumed \<Longrightarrow> card_by_uid e h w = Some c \<Longrightarrow> ct_status c = CardLive \<Longrightarrow>
     debit_check e (td_req x) nonce (td_nonce x) c = BadPin \<Longrightarrow>
     tap_step (w, iss, p @ x # q) (w, iss, p @ x\<lparr>td_stage := Failing c\<rparr> # q)"
| mismatch: "td_stage x = Consumed \<Longrightarrow> card_by_uid e h w = Some c \<Longrightarrow> ct_status c = CardLive \<Longrightarrow>
     debit_check e (td_req x) nonce (td_nonce x) c = BadToken \<Longrightarrow>
     tap_step (w, iss, p @ x # q) (snd (run_state (token_mismatch e c) w), iss, p @ q)"
| pin_counted: "td_stage x = Failing c \<Longrightarrow>
     tap_step (w, iss, p @ x # q) (snd (run_state (handlePinFailure e c) w), iss, p @ q)"
| recorded: "td_stage x = Approved c d \<Longrightarrow>
     run_state (persistTapCardPaymentOrder e (td_sender x) b c (td_nonce x) d (td_req x)) w = (True, w') \<Longrightarrow>
     tap_step (w, iss, p @ x # q) (w', iss, p @ x\<lparr>td_stage := Recorded (k_new_order e) c d\<rparr> # q)"
| not_recorded: "td_stage x = Approved c d \<Longrightarrow>
     run_state (persistTapCardPaymentOrder e (td_sender x) b c (td_nonce x) d (td_req x)) w = (False, w') \<Longrightarrow>
     tap_step (w, iss, p @ x # q) (w', iss, p @ q)"
| collected: "td_stage x = Recorded i c d \<Longrightarrow> k_new_order e = i \<Longrightarrow>
     run_state (debit_onchain e c d) w = (None, w') \<Longrightarrow>
     tap_step (w, iss, p @ x # q) (w', iss, p @ x\<lparr>td_stage := Collected i c d\<rparr> # q)"
| not_collected: "td_stage x = Recorded i c d \<Longrightarrow> k_new_order e = i \<Longrightarrow>
     run_state (debit_onchain e c d) w = (Some code, w') \<Longrightarrow>
     tap_step (w, iss, p @ x # q) (w', iss, p @ q)"
| rotated: "td_stage x = Collected i c d \<Longrightarrow>
     tap_step (w, iss, p @ x # q) (snd (run_state (rotate_token e c (kobo_of d)) w), iss, p @ q)"
| dropped: "tap_step (w, iss, p @ x # q) (w, iss, p @ q)"
| requested: "m \<in> requests \<Longrightarrow> tap_step (w, iss, q) (snd (run_state m w), iss, q)"
| ticked: "tap_step (w, iss, q) (w\<lparr>tw_routes := snd (run_state (Tick E) (tw_routes w))\<rparr>, iss, q)"

inductive tap_run :: "tap_sys \<Rightarrow> bool" where
  start: "tw_cards w = [] \<Longrightarrow> tw_nonces w = [] \<Longrightarrow> tw_charges w = [] \<Longrightarrow> tap_run (w, {}, [])"
| step: "tap_run s \<Longrightarrow> tap_step s t \<Longrightarrow> tap_run t"

section \<open>Operations that leave nonces and charges alone\<close>

definition tables_at :: "server_nonce list \<Rightarrow> charge list \<Rightarrow> tap_world \<Rightarrow> bool" where
  "tables_at ns hs w \<longleftrightarrow> tw_nonces w = ns \<and> tw_charges w = hs"

named_theorems frame_intros \<open>operations of the card service that leave nonces and charges alone\<close>

lemma tables_modify:
  "(\<And>w. tw_nonces (f w) = tw_nonces w) \<Longrightarrow> (\<And>w. tw_charges (f w) = tw_charges w) \<Longrightarrow> keeps (tables_at ns hs) (modify f)"
  by (simp add: keeps_def tables_at_def)

lemma update_card_tables [frame_intros]: "keeps (tables_at ns hs) (update_card e s k f)"
  unfolding update_card_def by (intro keeps_intros tables_modify) (simp_all add: put_card_def)

lemma keeps_list [keeps_intros]:
  "keeps I m \<Longrightarrow> (\<And>x xs. keeps I (f x xs)) \<Longrightarrow> keeps I (case l of [] \<Rightarrow> m | x # xs \<Rightarrow> f x xs)"
  by (cases l) auto

lemma card_ops_tables [frame_intros]:
  "keeps (tables_at ns hs) (Claim e tok)" "keeps (tables_at ns hs) (LinkComplete e lr)"
  "keeps (tables_at ns hs) (Relink e lr)" "keeps (tables_at ns hs) (Revoke e)"
  "keeps (tables_at ns hs) (UpdateLimits e lims)" "keeps (tables_at ns hs) (ResyncComplete e tok)"
  "keeps (tables_at ns hs) (Unlock e i)" "keeps (tables_at ns hs) (AdminResync e i)"
  "keeps (tables_at ns hs) (AdminSetStatus e i body)" "keeps (tables_at ns hs) (TapCardTokenAck e i written)"
  unfolding Claim_def LinkComplete_def Relink_def Revoke_def UpdateLimits_def ResyncComplete_def
    Unlock_def AdminResync_def AdminSetStatus_def TapCardTokenAck_def with_card_def with_card_id_def Let_def
  by (intro keeps_intros frame_intros)+

lemma IssueBatch_tables [frame_intros]: "keeps (tables_at ns hs) (IssueBatch e bufs n)"
  unfolding IssueBatch_def keeps_def by (auto simp: tables_at_def Let_def split: option.split)

lemma debit_ops_tables [frame_intros]:
  "keeps (tables_at ns hs) (token_mismatch e c)" "keeps (tables_at ns hs) (handlePinFailure e c)"
  "keeps (tables_at ns hs) (rotate_token e c kobo)" "keeps (tables_at ns hs) (self_settled e i)"
  unfolding token_mismatch_def handlePinFailure_def rotate_token_def self_settled_def Let_def
  by (intro keeps_intros frame_intros tables_modify; simp)+

lemma debit_onchain_tables [frame_intros]: "keeps (tables_at ns hs) (debit_onchain e c d)"
proof -
  have call: "keeps (tables_at ns hs) (modify (\<lambda>w. w\<lparr>tw_chain := tw_chain w @ [x]\<rparr>))" for x
    by (rule tables_modify) simp_all
  have outcome: "keeps (tables_at ns hs) (case oc of Done _ \<Rightarrow> do { self_settled e i; return None } | _ \<Rightarrow> return (Some code))" for oc i code
    by (cases oc) (auto intro!: keeps_intros frame_intros)
  show ?thesis
    unfolding debit_onchain_def Let_def by (intro keeps_intros frame_intros call outcome)
qed

lemma frame_eq:
  "(\<And>ns hs. keeps (tables_at ns hs) m) \<Longrightarrow>
   tw_nonces (snd (run_state m w)) = tw_nonces w \<and> tw_charges (snd (run_state m w)) = tw_charges w"
  using keepsD [of "tables_at (tw_nonces w) (tw_charges w)" m w] by (simp add: tables_at_def)


section \<open>Requests\<close>

text \<open>What a request may do to nonces: delete rows and record grants.\<close>

definition nonce_view :: "server_nonce \<Rightarrow> nonce_key \<times> instant option" where
  "nonce_view n = (nonce_key n, cn_consumed n)"

definition fewer_nonces :: "tap_world \<Rightarrow> tap_world \<Rightarrow> bool" where
  "fewer_nonces w w' \<longleftrightarrow> subseq (map nonce_view (tw_nonces w')) (map nonce_view (tw_nonces w)) \<and> tw_charges w' = tw_charges w"

lemma fewer_frame: "(\<And>ns hs. keeps (tables_at ns hs) m) \<Longrightarrow> fewer_nonces w (snd (run_state m w))"
  using frame_eq [of m w] by (simp add: fewer_nonces_def)

lemma fewer_ignore: "fewer_nonces w (snd (run_state m w)) \<Longrightarrow> fewer_nonces w (snd (run_state (m \<bind> (\<lambda>_. return x)) w))"
  by (simp add: case_prod_unfold)

lemma Reset_fewer: "fewer_nonces w (snd (run_state (Reset e) w))"
  by (auto simp: Reset_def fewer_nonces_def only_if_def subseq_map split: option.split)

lemma StepUpGrant_fewer: "fewer_nonces w (snd (run_state (StepUpGrant e req) w))"
proof -
  have "map nonce_view (map (\<lambda>m. if cn_id m = i then m\<lparr>cn_granted := g\<rparr> else m) ns) = map nonce_view ns" for i g ns
    by (simp add: nonce_view_def nonce_key_def)
  then show ?thesis
    by (auto simp: StepUpGrant_def fewer_nonces_def simp del: map_map split: option.split)
qed

lemma subseq_set: "subseq xs ys \<Longrightarrow> set xs \<subseteq> set ys"
  by (auto dest: list_emb_set)

lemma subseq_distinct: "subseq xs ys \<Longrightarrow> distinct ys \<Longrightarrow> distinct xs"
proof (induction rule: list_emb.induct)
  case (list_emb_Cons2 x y xs ys)
  then show ?case using subseq_set by fastforce
qed simp_all

lemma requests_fewer: "m \<in> requests \<Longrightarrow> fewer_nonces w (snd (run_state m w))"
  unfolding requests_def
  by (elim UnE CollectE exE insertE emptyE; hypsubst; rule fewer_ignore;
      (rule Reset_fewer | rule StepUpGrant_fewer | rule fewer_frame, rule frame_intros))

section \<open>A nonce pays once\<close>

text \<open>The nonces that were charged and those a debit in flight may still charge.\<close>

definition uncharged :: "tap_debit \<Rightarrow> bool" where
  "uncharged x \<longleftrightarrow> (case td_stage x of Consumed \<Rightarrow> True | Failing _ \<Rightarrow> True | Approved _ _ \<Rightarrow> True | _ \<Rightarrow> False)"

definition taken :: "tap_world \<Rightarrow> tap_debit list \<Rightarrow> byte list list" where
  "taken w q = map ch_nonce (tw_charges w) @ map (\<lambda>x. cn_nonce (td_nonce x)) (filter uncharged q)"

definition charge_key :: "charge \<Rightarrow> nonce_key" where
  "charge_key h = (ch_nonce h, ch_sender h, ch_amount h)"

fun once :: "tap_sys \<Rightarrow> bool" where
  "once (w, iss, q) \<longleftrightarrow> distinct (taken w q) \<and> distinct (map cn_nonce (tw_nonces w)) \<and>
     (\<forall>n \<in> set (tw_nonces w). nonce_key n \<in> iss \<and> (cn_consumed n = None \<longrightarrow> cn_nonce n \<notin> set (taken w q))) \<and>
     charge_key ` set (tw_charges w) \<subseteq> iss \<and> inj_on fst iss \<and>
     (\<forall>x \<in> set q. nonce_key (td_nonce x) \<in> iss \<and> cn_sender (td_nonce x) = td_sender x)"

lemma once_fewer:
  assumes "once (w, iss, q)" "fewer_nonces w w'"
  shows "once (w', iss, q)"
proof -
  let ?f = "\<lambda>v :: nonce_key \<times> instant option. fst (fst v)"
  have view: "map cn_nonce ns = map ?f (map nonce_view ns)" for ns
    by (simp add: nonce_view_def nonce_key_def)
  have sub: "subseq (map nonce_view (tw_nonces w')) (map nonce_view (tw_nonces w))"
    and same: "tw_charges w' = tw_charges w"
    using assms(2) by (simp_all add: fewer_nonces_def)
  have "distinct (map cn_nonce (tw_nonces w'))"
    unfolding view using assms(1) subseq_distinct [OF subseq_map [OF sub, of ?f]] by (simp add: view)
  moreover have "nonce_key n \<in> iss \<and> (cn_consumed n = None \<longrightarrow> cn_nonce n \<notin> set (taken w q))"
    if "n \<in> set (tw_nonces w')" for n
  proof -
    have "nonce_view n \<in> nonce_view ` set (tw_nonces w)" using subseq_set [OF sub] that by auto
    then obtain m where "m \<in> set (tw_nonces w)" "nonce_key n = nonce_key m" "cn_consumed n = cn_consumed m"
      by (auto simp: nonce_view_def)
    moreover from this(2) have "cn_nonce n = cn_nonce m" by (simp add: nonce_key_def)
    ultimately show ?thesis using assms(1) by simp
  qed
  moreover have "taken w' q = taken w q" by (simp add: taken_def same)
  ultimately show ?thesis
    using assms(1) by (simp add: same)
qed

lemma once_same: "once (w, iss, q) \<Longrightarrow> tw_nonces w' = tw_nonces w \<and> tw_charges w' = tw_charges w \<Longrightarrow> once (w', iss, q)"
  by (rule once_fewer [of w]) (simp_all add: fewer_nonces_def)

lemma once_stage:
  assumes "once (w, iss, p @ x # q)" "uncharged x \<longleftrightarrow> uncharged y" "td_nonce y = td_nonce x" "td_sender y = td_sender x"
  shows "once (w, iss, p @ y # q)"
  using assms by (cases "uncharged x") (auto simp: taken_def)

lemma once_drop: "once (w, iss, p @ x # q) \<Longrightarrow> once (w, iss, p @ q)"
  by (cases "uncharged x") (auto simp: taken_def)

lemma once_issue:
  assumes "once (w, iss, q)" "cn_nonce n \<notin> fst ` iss" "cn_consumed n = None"
    "tw_nonces w' = tw_nonces w @ [n]" "tw_charges w' = tw_charges w"
  shows "once (w', iss \<union> nonce_key ` set (tw_nonces w'), q)"
proof -
  have keys: "nonce_key ` set (tw_nonces w) \<subseteq> iss" using assms(1) by auto
  have "fst ` charge_key ` set (tw_charges w) \<subseteq> fst ` iss" "fst ` nonce_key ` td_nonce ` set q \<subseteq> fst ` iss"
    using assms(1) by (intro image_mono; auto)+
  then have "set (taken w q) \<subseteq> fst ` iss"
    by (auto simp: taken_def charge_key_def nonce_key_def image_image)
  moreover have "cn_nonce ` set (tw_nonces w) \<subseteq> fst ` iss"
    using image_mono [OF keys, of fst] by (simp add: image_image nonce_key_def)
  moreover have "inj_on fst (insert (nonce_key n) iss)"
    using assms(1,2) by (auto simp: inj_on_insert nonce_key_def)
  moreover have "iss \<union> nonce_key ` set (tw_nonces w') = insert (nonce_key n) iss"
    using keys assms(4) by auto
  moreover have "taken w' q = taken w q" using assms(5) by (simp add: taken_def)
  ultimately show ?thesis
    using assms by (auto simp del: inj_on_insert)
qed

text \<open>The conditional update: only the usable row changes, and it is the row that is returned.\<close>

definition mark :: "tap_env \<Rightarrow> nat \<Rightarrow> byte list \<Rightarrow> server_nonce \<Rightarrow> server_nonce" where
  "mark e s nonce n = (if usable e s nonce n then n\<lparr>cn_consumed := Some (k_now e)\<rparr> else n)"

lemma mark_simps [simp]: "nonce_key (mark e s nonce n) = nonce_key n" "cn_nonce (mark e s nonce n) = cn_nonce n"
  by (simp_all add: mark_def nonce_key_def)

lemma consume_cases:
  assumes "run_state (consumeServerNonce e s nonce) w = (r, w')"
  shows "w' = w \<and> r = None \<or>
    w' = w\<lparr>tw_nonces := map (mark e s nonce) (tw_nonces w)\<rparr> \<and>
    (\<forall>n. r = Some n \<longrightarrow> (\<exists>m \<in> set (tw_nonces w). usable e s nonce m) \<and>
      (\<exists>m \<in> set (tw_nonces w). cn_nonce m = nonce \<and> n = mark e s nonce m))"
proof -
  let ?w = "w\<lparr>tw_nonces := map (mark e s nonce) (tw_nonces w)\<rparr>"
  have "\<exists>m \<in> set (tw_nonces w). cn_nonce m = nonce \<and> n = mark e s nonce m"
    if "sole f (\<lambda>n. cn_nonce n = nonce) (tw_nonces ?w) = Some n" for f n
  proof -
    have "n \<in> mark e s nonce ` set (tw_nonces w)" "cn_nonce n = nonce" using sole_mem [OF that] by simp_all
    then obtain m where "m \<in> set (tw_nonces w)" "n = mark e s nonce m" by blast
    with \<open>cn_nonce n = nonce\<close> show ?thesis by (intro bexI [of _ m]) simp_all
  qed
  moreover have "(\<lambda>n. if usable e s nonce n then n\<lparr>cn_consumed := Some (k_now e)\<rparr> else n) = mark e s nonce"
    by (auto simp: mark_def)
  ultimately show ?thesis
    using assms by (auto simp: consumeServerNonce_def split: if_splits)
qed

lemma consume_some:
  assumes "distinct (map cn_nonce (tw_nonces w))" "run_state (consumeServerNonce e s nonce) w = (Some n, w')"
  obtains m where "m \<in> set (tw_nonces w)" "usable e s nonce m" "n = m\<lparr>cn_consumed := Some (k_now e)\<rparr>"
    "w' = w\<lparr>tw_nonces := map (mark e s nonce) (tw_nonces w)\<rparr>"
proof -
  obtain m m' where m: "m \<in> set (tw_nonces w)" "usable e s nonce m" "m' \<in> set (tw_nonces w)" "cn_nonce m' = nonce"
    "n = mark e s nonce m'" "w' = w\<lparr>tw_nonces := map (mark e s nonce) (tw_nonces w)\<rparr>"
    using consume_cases [OF assms(2)] by auto
  then have "m' = m" using distinct_map_eq [OF assms(1)] by (simp add: usable_def)
  with m that show ?thesis by (simp add: mark_def)
qed

lemma once_mark:
  assumes "once (w, iss, q)"
  shows "once (w\<lparr>tw_nonces := map (mark e s nonce) (tw_nonces w)\<rparr>, iss, q)"
proof -
  have "cn_consumed (mark e s nonce n) = None \<Longrightarrow> cn_consumed n = None" for n
    by (auto simp: mark_def split: if_splits)
  then show ?thesis using assms by (simp add: taken_def comp_def)
qed

lemma once_consume:
  assumes "once (w, iss, q)" "run_state (consumeServerNonce e s nonce) w = (Some n, w')"
  shows "once (w', iss, \<lparr>td_sender = s, td_req = r, td_nonce = n, td_stage = Consumed\<rparr> # q)" (is "once (_, _, ?x # q)")
proof -
  from assms(1) have "distinct (map cn_nonce (tw_nonces w))" by simp
  then obtain m where m: "m \<in> set (tw_nonces w)" "usable e s nonce m" "n = m\<lparr>cn_consumed := Some (k_now e)\<rparr>"
    "w' = w\<lparr>tw_nonces := map (mark e s nonce) (tw_nonces w)\<rparr>" by (rule consume_some [OF _ assms(2)])
  have "cn_nonce n = nonce" "cn_sender n = s" "nonce \<notin> set (taken w q)" "nonce_key n \<in> iss"
    using m assms(1) by (auto simp: usable_def nonce_key_def)
  moreover have "taken w' (?x # q) = map ch_nonce (tw_charges w) @ cn_nonce n # map (\<lambda>x. cn_nonce (td_nonce x)) (filter uncharged q)"
    by (simp add: taken_def uncharged_def m(4))
  moreover have spent: "cn_consumed k \<noteq> None" if "k \<in> set (tw_nonces w')" "cn_nonce k = nonce" for k
  proof -
    from that(1) m(4) obtain j where j: "j \<in> set (tw_nonces w)" "k = mark e s nonce j" by auto
    with that(2) m(1,2) assms(1) have "j = m" using distinct_map_eq [of cn_nonce "tw_nonces w" j m] by (simp add: usable_def)
    with j m(2) show ?thesis by (simp add: mark_def)
  qed
  moreover have old: "once (w', iss, q)" unfolding m(4) by (rule once_mark [OF assms(1)])
  moreover have t: "set (taken w' (?x # q)) = insert nonce (set (taken w' q))" "distinct (taken w' (?x # q))"
    using calculation by (auto simp: taken_def uncharged_def m(4))
  moreover have "cn_nonce k \<notin> set (taken w' (?x # q))" if "k \<in> set (tw_nonces w')" "cn_consumed k = None" for k
    using that old spent [of k] t(1) by auto
  ultimately show ?thesis by simp
qed

lemma once_none: "once (w, iss, q) \<Longrightarrow> run_state (consumeServerNonce e s nonce) w = (None, w') \<Longrightarrow> once (w', iss, q)"
  using consume_cases [of e s nonce w None w'] once_mark by blast

lemma persist_cases:
  assumes "run_state (persistTapCardPaymentOrder e s b c n d r) w = (ok, w')"
  shows "w' = w \<and> \<not> ok \<or> tw_nonces w' = tw_nonces w \<and> tw_cards w' = tw_cards w \<and>
    tw_charges w' = tw_charges w @ [\<lparr>ch_order = k_new_order e, ch_card = ct_id c, ch_nonce = cn_nonce n,
      ch_sender = s, ch_amount = cn_amount n\<rparr>]"
  using assms by (auto simp: persistTapCardPaymentOrder_def split: option.splits if_splits)

lemma once_charge:
  assumes "once (w, iss, p @ x # q)" "td_stage x = Approved c d" "\<not> uncharged y" "td_nonce y = td_nonce x" "td_sender y = td_sender x"
    "run_state (persistTapCardPaymentOrder e (td_sender x) b c (td_nonce x) d' r) w = (ok, w')"
  shows "once (w', iss, p @ q)" "once (w', iss, p @ y # q)"
proof -
  have "uncharged x" using assms(2) by (simp add: uncharged_def)
  with assms(1) have parts: "distinct (taken w (p @ q))" "cn_nonce (td_nonce x) \<notin> set (taken w (p @ q))"
    "nonce_key (td_nonce x) \<in> iss" "cn_sender (td_nonce x) = td_sender x"
    "\<forall>n \<in> set (tw_nonces w). cn_consumed n = None \<longrightarrow> cn_nonce n \<noteq> cn_nonce (td_nonce x)"
    by (auto simp: taken_def)
  from persist_cases [OF assms(6)] show charged: "once (w', iss, p @ q)"
  proof
    assume "w' = w \<and> \<not> ok"
    then show ?thesis using once_drop [OF assms(1)] by simp
  next
    assume w': "tw_nonces w' = tw_nonces w \<and> tw_cards w' = tw_cards w \<and>
      tw_charges w' = tw_charges w @ [\<lparr>ch_order = k_new_order e, ch_card = ct_id c, ch_nonce = cn_nonce (td_nonce x),
        ch_sender = td_sender x, ch_amount = cn_amount (td_nonce x)\<rparr>]"
    moreover have "charge_key \<lparr>ch_order = k_new_order e, ch_card = ct_id c, ch_nonce = cn_nonce (td_nonce x),
        ch_sender = td_sender x, ch_amount = cn_amount (td_nonce x)\<rparr> = nonce_key (td_nonce x)"
      by (simp add: charge_key_def nonce_key_def parts(4))
    ultimately show ?thesis
      using parts once_drop [OF assms(1)] by (auto simp: taken_def)
  qed
  then show "once (w', iss, p @ y # q)"
    using assms(3-5) parts(3,4) by (simp add: taken_def)
qed

definition nonce_added :: "tap_env \<Rightarrow> tap_world \<Rightarrow> tap_world \<Rightarrow> bool" where
  "nonce_added e w w' \<longleftrightarrow> w' = w \<or> (\<exists>n. tw_nonces w' = tw_nonces w @ [n] \<and> tw_charges w' = tw_charges w \<and>
     cn_consumed n = None \<and> k_random e = Some (cn_nonce n))"

lemma nonce_added_refl: "nonce_added e w w"
  by (simp add: nonce_added_def)

lemma nonce_added_insert:
  "insert_nonce n w = Some w' \<Longrightarrow> cn_consumed n = None \<Longrightarrow> k_random e = Some (cn_nonce n) \<Longrightarrow> nonce_added e w w'"
  by (auto simp: nonce_added_def insert_nonce_def split: if_splits)

lemma TapCardNonce_added: "nonce_added e w (snd (run_state (TapCardNonce e nr) w))"
proof -
  have "nonce_added e w (snd (run_state (case (if f then None else insert_nonce n w) of None \<Rightarrow> return a
      | Some w' \<Rightarrow> do { State_Monad.set w'; return b }) w))"
    if "cn_consumed n = None" "k_random e = Some (cn_nonce n)" for f n a b
    using that by (cases f; cases "insert_nonce n w") (simp_all add: nonce_added_refl nonce_added_insert)
  then show ?thesis
    by (auto simp: TapCardNonce_def Let_def nonce_added_refl intro: nonce_added_insert split: option.split)
qed

lemma once_step: "tap_step s t \<Longrightarrow> once s \<Longrightarrow> once t"
proof (induction rule: tap_step.induct)
  case (issued e iss nr w res w' q)
  have "nonce_added e w w'" using TapCardNonce_added [of e w nr] issued(2) by simp
  then show ?case unfolding nonce_added_def
  proof (elim disjE exE conjE)
    assume "w' = w"
    moreover from this issued(3) have "iss \<union> nonce_key ` set (tw_nonces w') = iss" by auto
    ultimately show ?thesis using issued(3) by (simp del: once.simps)
  next
    fix n assume "tw_nonces w' = tw_nonces w @ [n]" "tw_charges w' = tw_charges w" "cn_consumed n = None"
      "k_random e = Some (cn_nonce n)"
    with issued(1,3) show ?thesis by (intro once_issue) (simp_all del: once.simps)
  qed
next
  case (consumed e s nonce w n w' iss r q)
  show ?case by (rule once_consume [OF consumed(2,1)])
next
  case (not_consumed e s nonce w w' iss q)
  show ?case by (rule once_none [OF not_consumed(2,1)])
next
  case (approved x e h w c nonce d kobo iss p q)
  show ?case by (rule once_stage [OF approved(5)]) (simp_all add: uncharged_def approved(1))
next
  case (failing x e h w c nonce iss p q)
  show ?case by (rule once_stage [OF failing(5)]) (simp_all add: uncharged_def failing(1))
next
  case (mismatch x e h w c nonce iss p q)
  show ?case by (rule once_same [OF once_drop [OF mismatch(5)] frame_eq [OF debit_ops_tables(1)]])
next
  case (pin_counted x c w iss p q e)
  show ?case by (rule once_same [OF once_drop [OF pin_counted(2)] frame_eq [OF debit_ops_tables(2)]])
next
  case (recorded x c d e b w w' iss p q)
  show ?case by (rule once_charge(2) [OF recorded(3,1) _ _ _ recorded(2)]) (simp_all add: uncharged_def)
next
  case (not_recorded x c d e b w w' iss p q)
  show ?case by (rule once_charge(1) [OF not_recorded(3,1) _ _ _ not_recorded(2), of "x\<lparr>td_stage := Recorded 0 c d\<rparr>"])
      (simp_all add: uncharged_def)
next
  case (collected x i c d e w w' iss p q)
  have "once (w', iss, p @ x # q)"
    using once_same [OF collected(4) frame_eq [OF debit_onchain_tables, of e c d w]] collected(3) by (simp del: once.simps)
  then show ?case by (rule once_stage) (simp_all add: uncharged_def collected(1))
next
  case (not_collected x i c d e w code w' iss p q)
  show ?case
    using once_same [OF once_drop [OF not_collected(4)] frame_eq [OF debit_onchain_tables, of e c d w]] not_collected(3)
    by (simp del: once.simps)
next
  case (rotated x i c d w iss p q e)
  show ?case by (rule once_same [OF once_drop [OF rotated(2)] frame_eq [OF debit_ops_tables(3)]])
next
  case (dropped w iss p x q)
  then show ?case by (rule once_drop)
next
  case (requested m w iss q)
  show ?case by (rule once_fewer [OF requested(2) requests_fewer [OF requested(1)]])
next
  case (ticked w iss q E)
  then show ?case by (rule once_same) (simp del: once.simps)
qed

lemma run_once: "tap_run s \<Longrightarrow> once s"
  by (induction rule: tap_run.induct) (auto simp: taken_def dest: once_step)


section \<open>What every card keeps\<close>

text \<open>A law of all cards holds in every run: a debit that failed its PIN holds a live card that kept it.\<close>

context card_law
begin

fun cards_sound :: "tap_sys \<Rightarrow> bool" where
  "cards_sound (w, iss, q) \<longleftrightarrow> all_cards w \<and> (\<forall>x \<in> set q. \<forall>c. td_stage x = Failing c \<longrightarrow> P c \<and> ct_status c = CardLive)"

lemma found_law: "all_cards w \<Longrightarrow> card_by_uid e h w = Some c \<Longrightarrow> P c"
  using sole_mem [of _ _ "tw_cards w" c] by (auto simp: card_by_uid_def all_cards_def list_all_iff)

lemma requests_law: "m \<in> requests \<Longrightarrow> keeps all_cards m"
  unfolding requests_def
  by (elim UnE CollectE exE insertE emptyE; hypsubst; intro keeps_intros card_intros)

lemma run_snd: "keeps all_cards m \<Longrightarrow> run_state m w = (r, w') \<Longrightarrow> all_cards w \<Longrightarrow> all_cards w'"
  using keepsD [of all_cards m w] by simp

lemma tick_law: "all_cards (w\<lparr>tw_routes := x\<rparr>) = all_cards w"
  by (simp add: all_cards_def)

lemma sound_step: "tap_step s t \<Longrightarrow> cards_sound s \<Longrightarrow> cards_sound t"
proof (induction rule: tap_step.induct)
  case (failing x e h w c nonce iss p q)
  then have "P c" using found_law [OF _ failing(2)] by simp
  with failing show ?case by auto
next
  case (pin_counted x c w iss p q e)
  then have "keeps all_cards (handlePinFailure e c)" by (intro pin_failure_law) simp_all
  with pin_counted show ?case by (simp add: keepsD)
next
  case (requested m w iss q)
  then show ?case using keepsD [OF requests_law] by simp
qed (auto simp: tick_law keepsD card_intros elim: run_snd [rotated, OF _ _ TapCardNonce_law] run_snd [rotated, OF _ _ consume_law]
    run_snd [rotated, OF _ _ persist_law] run_snd [rotated, OF _ _ debit_onchain_law])

lemma run_law: "tap_run (w, iss, q) \<Longrightarrow> all_cards w"
proof -
  have "tap_run s \<Longrightarrow> cards_sound s" for s
  proof (induction rule: tap_run.induct)
    case (start w)
    then show ?case by (simp add: all_cards_def)
  next
    case (step s t)
    then show ?case by (blast intro: sound_step)
  qed
  then show "tap_run (w, iss, q) \<Longrightarrow> all_cards w" by fastforce
qed

end

text \<open>C16. In every run of the service each card has between zero and five PIN attempts left, and
  a card that is issued, claimed or live has at least one.\<close>

theorem tap_run_attempts:
  assumes "tap_run (w, iss, q)"
  shows "list_all attempts_ok (tw_cards w) \<and> distinct (map ct_id (tw_cards w))"
  using attempts.run_law [OF assms] by (simp add: attempts.all_cards_def)

text \<open>C17. In every run a card that has a chip bound to it, and so can be charged, has its cap, its
  coin and its token, and a linking proof and password of the length the handlers require: the
  stub digest of a debit without a cap is never returned.\<close>

theorem tap_run_provisioned:
  assumes "tap_run (w, iss, q)" "card_by_uid e h w = Some c"
  shows "provisioned c \<and> ct_uid_hash c = Some h \<and> (\<exists>cap coin. ct_cap c = Some cap \<and> ct_coin c = Some coin)"
proof -
  have "provisioned c" by (rule material.found_law [OF material.run_law [OF assms(1)] assms(2)])
  moreover have "ct_uid_hash c = Some h" using assms(2) sole_mem by (fastforce simp: card_by_uid_def)
  ultimately show ?thesis by (simp add: provisioned_def)
qed

end
