(* ===== verification/Card_Debit.thy ===== *)
theory Card_Debit imports Card_Runs begin

text \<open>
  What a debit's answer says: a card that is charged was authorised for exactly this amount by
  the merchant's own unused nonce, and a refused debit leaves the money alone.
\<close>

section \<open>The steps of a debit\<close>

text \<open>The authentication a tier asks for.\<close>

definition authenticated :: "tap_env \<Rightarrow> debit_req \<Rightarrow> server_nonce \<Rightarrow> tapp_card \<Rightarrow> bool" where
  "authenticated e r n c \<longleftrightarrow> (case cn_tier n of
     TierNone \<Rightarrow> True
   | TierPin \<Rightarrow> (\<exists>key. ct_linking_proof c = Some key \<and> DecodeHex (dq_pin r) = Some (k_hmac e key (cn_nonce n)))
   | TierStepUp \<Rightarrow> dq_step_up r = cn_id n \<and> cn_granted n \<noteq> None)"

lemma verifyPin_sound:
  "verifyPin hmac c nonce pin \<Longrightarrow> \<exists>key. ct_linking_proof c = Some key \<and> DecodeHex pin = Some (hmac key nonce)"
  by (auto simp: verifyPin_def VerifyPinResponse_def split: option.splits if_splits)

lemma auth_check_sound: "auth_check e r (cn_nonce n) n c = None \<Longrightarrow> authenticated e r n c"
  by (auto simp: auth_check_def authenticated_def dest: verifyPin_sound split: tier.splits if_splits)

lemma auth_check_verdict: "auth_check e r nonce n c \<noteq> Some (Charge amount kobo)"
  by (simp add: auth_check_def split: tier.split)

definition covered :: "tap_env \<Rightarrow> debit_req \<Rightarrow> server_nonce \<Rightarrow> tapp_card \<Rightarrow> decimal \<Rightarrow> bool" where
  "covered e r n c amount \<longleftrightarrow> DecodeHex (dq_token r) = ct_rotation_token c \<and> dq_amount r = cn_amount n \<and>
     k_parse_dec e (cn_amount n) = Some amount \<and> ct_spent c + kobo_of amount \<le> daily_limit c"

lemma debit_check_sound:
  "debit_check e r (cn_nonce n) n c = Charge amount kobo \<Longrightarrow>
   authenticated e r n c \<and> covered e r n c amount \<and> kobo = kobo_of amount"
  by (auto simp: debit_check_def covered_def auth_check_verdict not_less split: option.splits if_splits intro: auth_check_sound)

text \<open>A debit that answers with an order went through every step.\<close>

definition charged :: "tap_env \<Rightarrow> nat \<Rightarrow> server_nonce \<Rightarrow> tapp_card \<Rightarrow> charge" where
  "charged e s n c = \<lparr>ch_order = k_new_order e, ch_card = ct_id c, ch_nonce = cn_nonce n, ch_sender = s, ch_amount = cn_amount n\<rparr>"

definition topped :: "tapp_card \<Rightarrow> byte list \<Rightarrow> instant \<Rightarrow> 64 word \<Rightarrow> tapp_card \<Rightarrow> tapp_card" where
  "topped c token t kobo d = d\<lparr>ct_rotation_token := Some token, ct_rotated_at := Some t, ct_mismatches := 0, ct_spent := ct_spent c + kobo\<rparr>"

lemma rotate_debited:
  assumes "run_state (rotate_token e c kobo) w = (Debited i token remaining, w')"
  shows "i = k_new_order e \<and> k_random e = Some token \<and> remaining = daily_limit c - (ct_spent c + kobo) \<and>
    w' = put_card (ct_id c) (topped c token (k_now e) kobo) w"
  using assms by (auto simp: rotate_token_def update_card_def topped_def [abs_def] split: option.splits if_splits)

lemma tables_of:
  assumes "run_state m w = (r, w')" "\<And>ns hs. keeps (tables_at ns hs) m"
  shows "tw_nonces w' = tw_nonces w \<and> tw_charges w' = tw_charges w"
  using frame_eq [OF assms(2), of w] assms(1) by simp

definition cards_at :: "tapp_card list \<Rightarrow> tap_world \<Rightarrow> bool" where
  "cards_at cs w \<longleftrightarrow> tw_cards w = cs"

lemma cards_modify: "(\<And>w. tw_cards (f w) = tw_cards w) \<Longrightarrow> keeps (cards_at cs) (modify f)"
  by (simp add: keeps_def cards_at_def)

lemma debit_onchain_cards: "tw_cards (snd (run_state (debit_onchain e c d) w)) = tw_cards w"
proof -
  have settled: "keeps (cards_at cs) (self_settled e i)" for cs i
    unfolding self_settled_def by (intro keeps_intros cards_modify) simp
  have call: "keeps (cards_at cs) (modify (\<lambda>w. w\<lparr>tw_chain := tw_chain w @ [x]\<rparr>))" for cs x
    by (rule cards_modify) simp
  have outcome: "keeps (cards_at cs) (case oc of Done _ \<Rightarrow> do { self_settled e i; return None } | _ \<Rightarrow> return (Some code))" for cs oc i code
    by (cases oc) (auto intro!: keeps_intros settled)
  have "keeps (cards_at (tw_cards w)) (debit_onchain e c d)"
    unfolding debit_onchain_def Let_def by (intro keeps_intros settled call outcome)
  from keepsD [OF this, of w] show ?thesis by (simp add: cards_at_def)
qed

lemma charge_debited:
  assumes "run_state (charge_card e s r n c amount kobo) w = (Debited i token remaining, w')"
  shows "i = k_new_order e \<and> remaining = daily_limit c - (ct_spent c + kobo) \<and>
    tw_cards w' = map (\<lambda>d. if ct_id d = ct_id c then topped c token (k_now e) kobo d else d) (tw_cards w) \<and>
    tw_charges w' = tw_charges w @ [charged e s n c] \<and> tw_nonces w' = tw_nonces w"
proof -
  obtain b where b: "(if k_fault e KBank = DbOk then k_bank e s else None) = Some b"
    using assms by (cases "if k_fault e KBank = DbOk then k_bank e s else None") (simp_all only: charge_card_def, simp)
  obtain ok w1 where p: "run_state (persistTapCardPaymentOrder e s b c n amount r) w = (ok, w1)" by fastforce
  obtain er w2 where o': "run_state (debit_onchain e c amount) w1 = (er, w2)" by fastforce
  have "ok" "er = None" and r: "run_state (rotate_token e c kobo) w2 = (Debited i token remaining, w')"
    using assms b p o' by (auto simp: charge_card_def split: if_splits option.splits)
  moreover from this(1) persist_cases [OF p] have "tw_nonces w1 = tw_nonces w \<and> tw_cards w1 = tw_cards w \<and>
      tw_charges w1 = tw_charges w @ [charged e s n c]"
    by (simp add: charged_def)
  moreover have "tw_nonces w2 = tw_nonces w1 \<and> tw_charges w2 = tw_charges w1"
    by (rule tables_of [OF o' debit_onchain_tables])
  moreover have "tw_cards w2 = tw_cards w1" using debit_onchain_cards [of e c amount w1] o' by simp
  ultimately show ?thesis
    using rotate_debited [OF r] by (simp add: put_card_def)
qed

lemma TapCardDebit_steps:
  assumes "run_state (TapCardDebit e req) w = (Debited i token remaining, w')"
  obtains r s nonce n w1 h c amount kobo where "req = Some r" "k_sender e = Some s" "DecodeHex (dq_nonce r) = Some nonce"
    "run_state (consumeServerNonce e s nonce) w = (Some n, w1)" "uid_bytes (dq_uid_hash r) = Some h"
    "card_by_uid e h w1 = Some c" "ct_status c = CardLive" "debit_check e r nonce n c = Charge amount kobo"
    "run_state (charge_card e s r n c amount kobo) w1 = (Debited i token remaining, w')"
proof -
  obtain r where r: "req = Some r" using assms by (cases req) (simp_all add: TapCardDebit_def)
  obtain s where s: "k_sender e = Some s" using assms r by (cases "k_sender e") (simp_all add: TapCardDebit_def)
  obtain nonce where nonce: "DecodeHex (dq_nonce r) = Some nonce"
    using assms r s by (cases "DecodeHex (dq_nonce r)") (simp_all add: TapCardDebit_def)
  obtain q w1 where q: "run_state (consumeServerNonce e s nonce) w = (q, w1)" by fastforce
  obtain n where n: "q = Some n" using assms r s nonce q by (cases q) (simp_all add: TapCardDebit_def)
  obtain h where h: "uid_bytes (dq_uid_hash r) = Some h"
    using assms r s nonce q n by (cases "uid_bytes (dq_uid_hash r)") (simp_all add: TapCardDebit_def)
  obtain c where c: "card_by_uid e h w1 = Some c"
    using assms r s nonce q n h by (cases "card_by_uid e h w1") (simp_all add: TapCardDebit_def)
  have live: "ct_status c = CardLive"
    using assms r s nonce q n h c by (simp add: TapCardDebit_def split: if_splits)
  have verdict: "run_state (case debit_check e r nonce n c of Refuse code \<Rightarrow> return (DebitRefused code)
      | BadToken \<Rightarrow> token_mismatch e c | BadPin \<Rightarrow> handlePinFailure e c
      | Charge amount kobo \<Rightarrow> charge_card e s r n c amount kobo) w1 = (Debited i token remaining, w')"
    using assms r s nonce q n h c live by (simp add: TapCardDebit_def)
  have "fst (run_state (token_mismatch e c) w1) = DebitRefused 403" "fst (run_state (handlePinFailure e c) w1) = DebitRefused 403"
    by (simp_all add: token_mismatch_def handlePinFailure_def Let_def case_prod_unfold)
  with verdict obtain amount kobo where "debit_check e r nonce n c = Charge amount kobo"
    by (cases "debit_check e r nonce n c") auto
  with verdict show ?thesis by (intro that [OF r s nonce q [unfolded n] h c live]) simp_all
qed

text \<open>C15. A debit that succeeds was authorised: the merchant's own nonce was unused and in time, the
  card is live, its token and the amount match, the PIN or the granted step-up of the nonce's
  tier was given and the day's limit holds. Exactly one order is charged, the nonce is used up,
  and only this card changes: it gets the new token and the amount is added to what it spent.\<close>

theorem TapCardDebit_authorised:
  assumes "run_state (TapCardDebit e req) w = (Debited i token remaining, w')"
    and "distinct (map cn_nonce (tw_nonces w))"
  shows "\<exists>r s n c amount. req = Some r \<and> k_sender e = Some s \<and>
    n \<in> set (tw_nonces w) \<and> DecodeHex (dq_nonce r) = Some (cn_nonce n) \<and> usable e s (cn_nonce n) n \<and>
    c \<in> set (tw_cards w) \<and> ct_status c = CardLive \<and> DecodeHex (dq_uid_hash r) = ct_uid_hash c \<and>
    authenticated e r n c \<and> covered e r n c amount \<and> remaining = daily_limit c - (ct_spent c + kobo_of amount) \<and>
    i = k_new_order e \<and> tw_charges w' = tw_charges w @ [charged e s n c] \<and>
    tw_nonces w' = map (mark e s (cn_nonce n)) (tw_nonces w) \<and>
    tw_cards w' = map (\<lambda>d. if ct_id d = ct_id c then topped c token (k_now e) (kobo_of amount) d else d) (tw_cards w)"
proof -
  obtain r s nonce n' w1 h c amount kobo where st: "req = Some r" "k_sender e = Some s" "DecodeHex (dq_nonce r) = Some nonce"
    "run_state (consumeServerNonce e s nonce) w = (Some n', w1)" "uid_bytes (dq_uid_hash r) = Some h"
    "card_by_uid e h w1 = Some c" "ct_status c = CardLive" "debit_check e r nonce n' c = Charge amount kobo"
    "run_state (charge_card e s r n' c amount kobo) w1 = (Debited i token remaining, w')"
    by (rule TapCardDebit_steps [OF assms(1)])
  obtain n where n: "n \<in> set (tw_nonces w)" "usable e s nonce n" "n' = n\<lparr>cn_consumed := Some (k_now e)\<rparr>"
    "w1 = w\<lparr>tw_nonces := map (mark e s nonce) (tw_nonces w)\<rparr>"
    by (rule consume_some [OF assms(2) st(4)])
  then have nonce: "nonce = cn_nonce n" by (simp add: usable_def)
  have check: "authenticated e r n' c \<and> covered e r n' c amount \<and> kobo = kobo_of amount"
    by (rule debit_check_sound) (use st(8) nonce n(3) in simp)
  have card: "c \<in> set (tw_cards w) \<and> ct_uid_hash c = Some h"
    using sole_mem [of _ _ "tw_cards w1" c] st(6) n(4) by (auto simp: card_by_uid_def)
  moreover have "DecodeHex (dq_uid_hash r) = Some h" using st(5) by (auto simp: uid_bytes_def split: option.splits if_splits)
  moreover have "authenticated e r n c" "covered e r n c amount" "charged e s n' c = charged e s n c"
    using check n(3) by (simp_all add: authenticated_def covered_def charged_def cong: tier.case_cong)
  ultimately show ?thesis
    using st(1,2,3,7) n nonce check charge_debited [OF st(9)]
    by (intro exI [of _ r] exI [of _ s] exI [of _ n] exI [of _ c] exI [of _ amount]) simp
qed

section \<open>Refusals\<close>

text \<open>What a charge would change.\<close>

definition money :: "tap_world \<Rightarrow> (nat \<times> byte list option \<times> 64 word) list \<times> charge list \<times> chain_call list \<times> world" where
  "money w = (map (\<lambda>c. (ct_id c, ct_rotation_token c, ct_spent c)) (tw_cards w), tw_charges w, tw_chain w, tw_routes w)"

lemma money_update:
  assumes "\<And>c. (ct_id (f c), ct_rotation_token (f c), ct_spent (f c)) = (ct_id c, ct_rotation_token c, ct_spent c)"
  shows "money (snd (run_state (update_card e s k f) w)) = money w"
  using assms by (auto simp: update_card_def money_def put_card_def)

lemma money_answers:
  "money (snd (run_state (token_mismatch e c) w)) = money w" "money (snd (run_state (handlePinFailure e c) w)) = money w"
  by (simp_all add: token_mismatch_def handlePinFailure_def Let_def case_prod_unfold money_update)

lemma consume_money: "run_state (consumeServerNonce e s nonce) w = (r, w') \<Longrightarrow> money w' = money w"
  using consume_cases [of e s nonce w r w'] by (auto simp: money_def)

lemma onchain_code: "run_state (debit_onchain e c d) w = (Some code, w') \<Longrightarrow> code \<in> {424, 502}"
  by (auto simp: debit_onchain_def Let_def split: option.splits if_splits outcome.splits prod.splits)

lemma rotate_code: "run_state (rotate_token e c kobo) w = (DebitRefused code, w') \<Longrightarrow> code = 500"
  by (auto simp: rotate_token_def split: option.splits if_splits prod.splits)

lemma charge_refused:
  assumes "run_state (charge_card e s r n c amount kobo) w = (DebitRefused code, w')" "code \<notin> {424, 500, 502}"
  shows "w' = w"
proof (cases "if k_fault e KBank = DbOk then k_bank e s else None")
  case (Some b)
  obtain ok w1 where p: "run_state (persistTapCardPaymentOrder e s b c n amount r) w = (ok, w1)" by fastforce
  obtain er w2 where d: "run_state (debit_onchain e c amount) w1 = (er, w2)" by fastforce
  have False
    using assms Some p d onchain_code [of e c amount w1 _ w2] rotate_code [of e c kobo w2 code w']
    by (auto simp: charge_card_def simp del: if_split split: if_splits option.splits)
  then show ?thesis ..
qed (use assms in \<open>simp add: charge_card_def\<close>)

text \<open>A debit refused with any status but 424, 500 and 502 charged nothing: no order, no call on
  the chain, and every card keeps its token and what it spent.\<close>

theorem TapCardDebit_refused:
  assumes "run_state (TapCardDebit e req) w = (DebitRefused code, w')" "code \<notin> {424, 500, 502}"
  shows "money w' = money w"
proof -
  have verdict: "money w2 = money w1"
    if "run_state (case v of Refuse code \<Rightarrow> return (DebitRefused code) | BadToken \<Rightarrow> token_mismatch e c
      | BadPin \<Rightarrow> handlePinFailure e c | Charge amount kobo \<Rightarrow> charge_card e s r n c amount kobo) w1 = (DebitRefused code, w2)"
    for v c s r n w1 w2
    using that money_answers [of e c w1] charge_refused [OF _ assms(2), of e s r n c _ _ w1 w2] by (cases v) auto
  have consumed: "money w2 = money w1" if "run_state (consumeServerNonce e s nonce) w1 = (q, w3)" "money w2 = money w3"
    for s nonce w1 q w2 w3
    using that consume_money by metis
  show ?thesis
    using assms(1) by (auto simp: TapCardDebit_def split: option.splits if_splits prod.splits dest!: verdict intro: consumed)
qed

end
