(* ===== verification/Card_Samples.thy ===== *)
theory Card_Samples imports Card_Debit Route_Samples begin

text \<open>
  Concrete runs of the card service: two cards are minted, claimed and linked, and debits end
  well and badly. They show that the properties' hypotheses can hold, and the executions in
  which the service does not do what it means to.
\<close>

section \<open>Two linked cards\<close>

definition tap_naira :: "string \<Rightarrow> decimal option" where
  "tap_naira s = (if s = ''1500'' then Some 1500 else if s = ''553402322211286548.48'' then Some (3 * 2 ^ 64 / 100) else None)"

definition tap_text :: "decimal \<Rightarrow> string" where
  "tap_text d = (if d = 1500 then ''1500'' else ''553402322211286548.48'')"

definition usdc_type :: string where "usdc_type = ''0xc::usdc::USDC''"

definition cap_tx :: "string \<Rightarrow> sui_tx" where
  "cap_tx cap = \<lparr>sx_success = True, sx_changes = [\<lparr>oc_kind = ''created'', oc_id = cap,
     oc_type = ''0xp::tapp_card::CardSpendingCap<0xc::usdc::USDC>''\<rparr>]\<rparr>"

definition tap_calm :: tap_env where
  "tap_calm = \<lparr>k_now = 0, k_fault = (\<lambda>_. DbOk), k_hmac = (\<lambda>k m. map2 (+) k m), k_dec = std_dec,
     k_parse_dec = tap_naira, k_dec_string = tap_text, k_parse_uuid = Some, k_user = Some 2, k_sender = Some 3,
     k_random = Some (replicate 32 9), k_new_id = ''n1'', k_new_order = 50,
     k_bank = (\<lambda>_. Some \<lparr>ba_bank = ''044'', ba_number = ''0123456789'', ba_name = ''A Shop''\<rparr>),
     k_token = Some usdc, k_rate = Some 1500, k_rate2 = Some 1500, k_address = True, k_settle_mode = ''lp'',
     k_debit = (\<lambda>_ _ _. Done ''d1''), k_package_id = ''0xp'', k_tx_block = (\<lambda>t. Some (cap_tx t)),
     k_cap_object = (\<lambda>_. None), k_secret = [], k_user_bytes = (\<lambda>_. []), k_card_bytes = (\<lambda>_. []),
     k_admin_token = ''''\<rparr>"

definition link_request :: "8 word \<Rightarrow> string \<Rightarrow> string \<Rightarrow> 64 word \<Rightarrow> link_req" where
  "link_request b cap coin perTap = \<lparr>lq_uid_hash = EncodeHex (replicate 32 b), lq_cap = cap, lq_coin = coin,
     lq_proof = EncodeHex (replicate 32 (b + 1)), lq_verifier = EncodeHex (replicate 32 0),
     lq_password = EncodeHex (replicate 4 7), lq_token = EncodeHex [b], lq_digest = cap,
     lq_daily = 4000000, lq_per_tap = perTap, lq_step_up = 1500000\<rparr>"

definition tap_fresh :: tap_world where
  "tap_fresh = \<lparr>tw_cards = [], tw_nonces = [], tw_charges = [], tw_chain = [], tw_routes = empty_world\<lparr>pays := []\<rparr>\<rparr>"

definition minted :: tap_world where
  "minted = snd (run_state (IssueBatch tap_calm (Some [(1, replicate 10 1), (2, replicate 10 2)]) 2) tap_fresh)"

definition card_of :: "nat \<Rightarrow> 8 word \<Rightarrow> string \<Rightarrow> string \<Rightarrow> 64 word \<Rightarrow> tapp_card" where
  "card_of u b cap coin perTap = (issued_card 0 (u - 1) (replicate 10 (if u = 2 then CHR ''1'' else CHR ''2'')))\<lparr>
     ct_status := CardLive, ct_uid_hash := Some (replicate 32 b), ct_cap := Some cap, ct_coin := Some coin,
     ct_linking_proof := Some (replicate 32 (b + 1)), ct_pin_verifier := Some (replicate 32 0),
     ct_password := Some (replicate 4 7), ct_rotation_token := Some [b], ct_rotated_at := Some 0,
     ct_daily := 4000000, ct_per_tap := perTap, ct_step_up := 1500000, ct_user := Some u\<rparr>"

definition as_user :: "nat \<Rightarrow> tap_env" where "as_user u = tap_calm\<lparr>k_user := Some u\<rparr>"

definition claimed_by :: "nat \<Rightarrow> tap_world \<Rightarrow> tap_world" where
  "claimed_by u w = snd (run_state (Claim (as_user u) (Some (replicate 10 (if u = 2 then CHR ''1'' else CHR ''2'')))) w)"

text \<open>User 2's card needs no PIN below 4000 naira, user 3's needs one from 1 naira on.\<close>

definition linked :: "tap_world" where
  "linked = snd (run_state (LinkComplete (as_user 3) (Some (link_request 6 ''0xb'' usdc_type 100)))
     (snd (run_state (LinkComplete (as_user 2) (Some (link_request 5 ''0xa'' usdc_type 400000)))
       (claimed_by 3 (claimed_by 2 minted)))))"

lemma minted_eq: "minted = tap_fresh\<lparr>tw_cards := [issued_card 0 1 (replicate 10 CHR ''1''), issued_card 0 2 (replicate 10 CHR ''2'')]\<rparr>"
proof -
  have "generateActivationToken (replicate 10 1) = replicate 10 CHR ''1''" "generateActivationToken (replicate 10 2) = replicate 10 CHR ''2''"
    by code_simp+
  then show ?thesis
    by (simp add: minted_def IssueBatch_def tap_calm_def tap_fresh_def issued_card_def)
qed

lemma claimed_eq:
  "claimed_by 3 (claimed_by 2 minted) = tap_fresh\<lparr>tw_cards :=
     [(issued_card 0 1 (replicate 10 CHR ''1''))\<lparr>ct_status := CardClaimed, ct_user := Some 2\<rparr>,
      (issued_card 0 2 (replicate 10 CHR ''2''))\<lparr>ct_status := CardClaimed, ct_user := Some 3\<rparr>]\<rparr>"
  by (simp add: claimed_by_def minted_eq Claim_def as_user_def tap_calm_def sole_def issued_card_def update_card_def
      put_card_def live_of_def of_user_def tap_fresh_def)

lemma cap_checked:
  "verifyCreateCap (as_user u) ''0xa'' ''0xa'' = CapOk usdc_type" "verifyCreateCap (as_user u) ''0xb'' ''0xb'' = CapOk usdc_type"
  unfolding as_user_def tap_calm_def verifyCreateCap_def cap_tx_def usdc_type_def by (simp, code_simp)+

lemma decoded: "decode_secrets (lq_uid_hash (link_request b cap coin pt)) (lq_proof (link_request b cap coin pt))
    (lq_verifier (link_request b cap coin pt)) (lq_password (link_request b cap coin pt)) (lq_token (link_request b cap coin pt)) =
  Some \<lparr>se_uid = replicate 32 b, se_proof = replicate 32 (b + 1), se_verifier = replicate 32 0, se_password = replicate 4 7,
    se_token = [b]\<rparr>"
  by (simp only: link_request_def link_req.select_convs decode_secrets_def hex_of_length_def DecodeHex_EncodeHex length_replicate) simp

lemma linked_eq: "linked = tap_fresh\<lparr>tw_cards := [card_of 2 5 ''0xa'' usdc_type 400000, card_of 3 6 ''0xb'' usdc_type 100]\<rparr>"
proof -
  have req: "lq_digest (link_request b cap coin pt) = cap" "lq_cap (link_request b cap coin pt) = cap"
    "lq_coin (link_request b cap coin pt) = coin" "lq_daily (link_request b cap coin pt) = 4000000"
    "lq_per_tap (link_request b cap coin pt) = pt" "lq_step_up (link_request b cap coin pt) = 1500000" for b cap coin pt
    by (simp_all add: link_request_def)
  have env: "k_user (as_user u) = Some u" "k_fault (as_user u) s = DbOk" "k_now (as_user u) = 0" for u s
    by (simp_all add: as_user_def tap_calm_def)
  show ?thesis
    by (simp add: linked_def claimed_eq LinkComplete_def decoded cap_checked link_refused_def first_card_def env req
        update_card_def put_card_def live_of_def of_user_def issued_card_def card_of_def provision_def tap_fresh_def)
qed


lemma linked_run: "tap_run (linked, {}, [])"
proof -
  have request: "tap_run (snd (run_state m w), {}, [])" if "tap_run (w, {}, [])" "m \<bind> (\<lambda>_. return ()) \<in> requests" for m :: "(tap_world, nat) state" and w
    using tap_run.step [OF that(1) tap_step.requested [OF that(2)]] by (simp add: case_prod_unfold)
  have members: "IssueBatch e bufs n \<bind> (\<lambda>_. return ()) \<in> requests" "Claim e a \<bind> (\<lambda>_. return ()) \<in> requests"
    "LinkComplete e b \<bind> (\<lambda>_. return ()) \<in> requests" for e bufs n a b
    unfolding requests_def by blast+
  have "tap_run (tap_fresh, {}, [])" by (rule tap_run.start) (simp_all add: tap_fresh_def)
  then show ?thesis
    unfolding linked_def claimed_by_def minted_def
    by (intro request members)
qed

section \<open>A debit\<close>

definition nonced :: "8 word \<Rightarrow> string \<Rightarrow> tap_world \<Rightarrow> nonce_reply \<times> tap_world" where
  "nonced b amount w = run_state (TapCardNonce tap_calm (Some \<lparr>nq_amount = amount, nq_uid_hash = EncodeHex (replicate 32 b)\<rparr>)) w"

definition debit_of :: "8 word \<Rightarrow> string \<Rightarrow> debit_req" where
  "debit_of b amount = \<lparr>dq_uid_hash = EncodeHex (replicate 32 b), dq_token = EncodeHex [b], dq_amount = amount,
     dq_currency = ''NGN'', dq_memo = '''', dq_nonce = EncodeHex (replicate 32 9), dq_pin = '''', dq_step_up = ''''\<rparr>"

definition nonce_row :: "tier \<Rightarrow> string \<Rightarrow> nat \<Rightarrow> server_nonce" where
  "nonce_row t amount c = \<lparr>cn_id = ''n1'', cn_nonce = replicate 32 9, cn_tier = t, cn_amount = amount, cn_currency = ''NGN'',
     cn_expires = nonceTTL, cn_consumed = None, cn_granted = None, cn_card = c, cn_sender = 3\<rparr>"

lemma kobo_facts: "kobo_of 1500 = 150000" "kobo_of (3 * 2 ^ 64 / 100) = 0" "usdcSubunitFromNGN std_dec (3 * 2 ^ 64 / 100) 1500 = 1"
  "usdcSubunitFromNGN std_dec 1500 1500 = 1000000"
  by code_simp+

lemma uid_ok: "uid_bytes (EncodeHex (replicate 32 b)) = Some (replicate 32 b)"
  by (simp only: uid_bytes_def DecodeHex_EncodeHex length_replicate) simp

lemma by_uid: "card_by_uid e (replicate 32 b) w = sole (k_fault e KCard) (\<lambda>c. ct_uid_hash c = Some (replicate 32 b)) (tw_cards w)"
  by (simp add: card_by_uid_def)

lemma calm_env [simp]:
  "k_fault tap_calm s = DbOk" "k_sender tap_calm = Some 3" "k_now tap_calm = 0" "k_parse_dec tap_calm = tap_naira"
  "k_random tap_calm = Some (replicate 32 9)" "k_new_id tap_calm = ''n1''" "k_dec_string tap_calm = tap_text"
  "k_dec tap_calm = std_dec" "k_new_order tap_calm = 50" "k_rate tap_calm = Some 1500" "k_rate2 tap_calm = Some 1500"
  "k_token tap_calm = Some usdc" "k_address tap_calm" "k_settle_mode tap_calm = ''lp''"
  "k_bank tap_calm u = Some \<lparr>ba_bank = ''044'', ba_number = ''0123456789'', ba_name = ''A Shop''\<rparr>"
  "k_debit tap_calm a b n = Done ''d1''"
  by (simp_all add: tap_calm_def)

lemma two_cards: "ct_uid_hash (card_of u b cap coin pt) = Some (replicate 32 b)" "ct_status (card_of u b cap coin pt) = CardLive"
  "ct_id (card_of u b cap coin pt) = u - 1" "ct_rotation_token (card_of u b cap coin pt) = Some [b]"
  "ct_daily (card_of u b cap coin pt) = 4000000" "ct_spent (card_of u b cap coin pt) = 0"
  "ct_cap (card_of u b cap coin pt) = Some cap" "ct_coin (card_of u b cap coin pt) = Some coin"
  "ct_per_tap (card_of u b cap coin pt) = pt" "ct_step_up (card_of u b cap coin pt) = 1500000"
  by (simp_all add: card_of_def issued_card_def)

definition with_nonce :: "server_nonce \<Rightarrow> tap_world" where
  "with_nonce n = linked\<lparr>tw_nonces := [n]\<rparr>"

lemma nonced_eq: "nonced 5 ''1500'' linked = (NonceIssued TierNone (replicate 32 9) ''n1'', with_nonce (nonce_row TierNone ''1500'' 1))"
  by (simp add: nonced_def TapCardNonce_def uid_ok by_uid linked_eq tap_fresh_def sole_def two_cards tap_naira_def
      Let_def insert_nonce_def resolveTier_def kobo_facts nonce_row_def with_nonce_def tap_text_def)

lemma pin_tier: "fst (nonced 6 ''1500'' linked) = NonceIssued TierPin (replicate 32 9) ''n1''"
  by (simp add: nonced_def TapCardNonce_def uid_ok by_uid linked_eq tap_fresh_def sole_def two_cards tap_naira_def
      Let_def insert_nonce_def resolveTier_def kobo_facts)

definition paid :: "8 word \<Rightarrow> debit_reply \<times> tap_world" where
  "paid b = run_state (TapCardDebit tap_calm (Some (debit_of b ''1500''))) (with_nonce (nonce_row TierNone ''1500'' 1))"

lemma debit_fields: "dq_uid_hash (debit_of b a) = EncodeHex (replicate 32 b)" "dq_token (debit_of b a) = EncodeHex [b]"
  "dq_amount (debit_of b a) = a" "dq_currency (debit_of b a) = ''NGN''" "dq_nonce (debit_of b a) = EncodeHex (replicate 32 9)"
  by (simp_all add: debit_of_def)

lemma nonce_consumed:
  "run_state (consumeServerNonce tap_calm 3 (replicate 32 9)) (with_nonce (nonce_row t a k)) =
   (Some ((nonce_row t a k)\<lparr>cn_consumed := Some 0\<rparr>), with_nonce ((nonce_row t a k)\<lparr>cn_consumed := Some 0\<rparr>))"
  by (simp add: consumeServerNonce_def with_nonce_def nonce_row_def usable_def sole_def nonceTTL_def)

lemma checked:
  "debit_check tap_calm (debit_of b ''1500'') (replicate 32 9) ((nonce_row TierNone ''1500'' k)\<lparr>cn_consumed := Some 0\<rparr>)
     (card_of u b cap coin pt) = Charge 1500 150000"
  by (simp add: debit_check_def debit_fields DecodeHex_EncodeHex two_cards auth_check_def nonce_row_def tap_naira_def
      kobo_facts daily_limit_def del: EncodeHex.simps)

lemma not_base: "\<not> isBaseCard ''0xa'' usdc_type" "\<not> isBaseCard ''0xb'' usdc_type"
  by code_simp+

lemma linked_fields: "tw_cards linked = [card_of 2 5 ''0xa'' usdc_type 400000, card_of 3 6 ''0xb'' usdc_type 100]"
  "tw_nonces linked = []" "tw_charges linked = []" "tw_chain linked = []" "tw_routes linked = empty_world\<lparr>pays := []\<rparr>"
  by (simp_all add: linked_eq tap_fresh_def)

lemma nonce_fields: "tw_cards (with_nonce n) = tw_cards linked" "tw_nonces (with_nonce n) = [n]"
  "tw_chain (with_nonce n) = []" "tw_charges (with_nonce n) = []" "tw_routes (with_nonce n) = empty_world\<lparr>pays := []\<rparr>"
  by (simp_all add: with_nonce_def linked_fields)

lemma persisted:
  "run_state (persistTapCardPaymentOrder tap_calm 3 b c n d r) (with_nonce m) =
   (True, (with_nonce m)\<lparr>tw_routes := empty_world\<lparr>pays := [card_payment tap_calm 3 b usdc d 1500 (dq_memo r)], orders := [fresh_order 50 Lp 0]\<rparr>,
      tw_charges := [charged tap_calm 3 n c]\<rparr>)"
  by (simp add: persistTapCardPaymentOrder_def market_rate_def with_nonce_def linked_fields empty_world_def settle_mode_def charged_def)

lemma collected_ok:
  assumes "usdcSubunitFromNGN std_dec d 1500 = sub" "\<not> isBaseCard cap coin" "ct_cap c = Some cap" "ct_coin c = Some coin"
  shows "run_state (debit_onchain tap_calm c d) w = (None, w\<lparr>tw_chain := tw_chain w @ [CallDebit 50 cap coin sub (Done ''d1'')],
    tw_routes := (tw_routes w)\<lparr>events := events (tw_routes w) @ [\<lparr>ev_order = 50, ev_step = SelfSettle, ev_status = Succeeded\<rparr>]\<rparr>\<rparr>)"
  using assms by (simp add: debit_onchain_def Let_def market_rate_def kobo_facts self_settled_def only_if_def)

lemma rotated_ok:
  assumes "c \<in> set (tw_cards w)" "ct_daily c = 4000000" "ct_spent c = 0"
  shows "run_state (rotate_token tap_calm c kobo) w =
    (Debited 50 (replicate 32 9) (4000000 - kobo), put_card (ct_id c) (topped c (replicate 32 9) 0 kobo) w)"
  using assms by (auto simp: rotate_token_def update_card_def daily_limit_def topped_def [abs_def])

definition card_5 :: tapp_card where "card_5 = card_of 2 5 ''0xa'' usdc_type 400000"
definition card_6 :: tapp_card where "card_6 = card_of 3 6 ''0xb'' usdc_type 100"

lemma charge_ok:
  assumes "c \<in> {card_5, card_6}"
  shows "fst (run_state (charge_card tap_calm 3 r n c 1500 150000) (with_nonce m)) = Debited 50 (replicate 32 9) 3850000"
    "tw_charges (snd (run_state (charge_card tap_calm 3 r n c 1500 150000) (with_nonce m))) = [charged tap_calm 3 n c]"
proof -
  obtain cap coin where c: "\<not> isBaseCard cap coin" "ct_cap c = Some cap" "ct_coin c = Some coin" "ct_daily c = 4000000" "ct_spent c = 0"
    using assms not_base by (auto simp: card_5_def card_6_def two_cards)
  have "c \<in> set (tw_cards linked)" using assms by (auto simp: linked_fields card_5_def card_6_def)
  then show "fst (run_state (charge_card tap_calm 3 r n c 1500 150000) (with_nonce m)) = Debited 50 (replicate 32 9) 3850000"
    "tw_charges (snd (run_state (charge_card tap_calm 3 r n c 1500 150000) (with_nonce m))) = [charged tap_calm 3 n c]"
    using c by (simp_all add: charge_card_def persisted collected_ok [OF kobo_facts(4)] rotated_ok nonce_fields put_card_def)
qed

lemma paid_eq:
  assumes "c = (if b = 5 then card_5 else card_6)" "b \<in> {5, 6}"
  shows "paid b = run_state (charge_card tap_calm 3 (debit_of b ''1500'') ((nonce_row TierNone ''1500'' 1)\<lparr>cn_consumed := Some 0\<rparr>) c 1500 150000)
    (with_nonce ((nonce_row TierNone ''1500'' 1)\<lparr>cn_consumed := Some 0\<rparr>))"
proof -
  have "sole DbOk (\<lambda>c. ct_uid_hash c = Some (replicate 32 b)) (tw_cards (with_nonce n)) = Some c" for n
    using assms by (auto simp: sole_def with_nonce_def linked_fields two_cards card_5_def card_6_def)
  moreover have "ct_status c = CardLive" "debit_check tap_calm (debit_of b ''1500'') (replicate 32 9)
      ((nonce_row TierNone ''1500'' 1)\<lparr>cn_consumed := Some 0\<rparr>) c = Charge 1500 150000"
    using assms by (auto simp: card_5_def card_6_def two_cards checked)
  ultimately show ?thesis
    by (simp add: paid_def TapCardDebit_def debit_fields DecodeHex_EncodeHex nonce_consumed uid_ok by_uid del: EncodeHex.simps)
qed

lemma paid_facts:
  "fst (paid 5) = Debited 50 (replicate 32 9) 3850000" "fst (paid 6) = Debited 50 (replicate 32 9) 3850000"
  using paid_eq [of card_5 5] paid_eq [of card_6 6] charge_ok(1) [of card_5] charge_ok(1) [of card_6] by simp_all

lemma paid_run:
  "run_state (TapCardDebit tap_calm (Some (debit_of 5 ''1500''))) (with_nonce (nonce_row TierNone ''1500'' 1)) =
   (Debited 50 (replicate 32 9) 3850000, snd (paid 5))"
  using paid_facts(1) unfolding paid_def by (metis prod.collapse)

lemma TapCardDebit_authorised_witness:
  "fst (run_state (TapCardDebit tap_calm (Some (debit_of 5 ''1500''))) (with_nonce (nonce_row TierNone ''1500'' 1))) =
     Debited 50 (replicate 32 9) 3850000 \<and>
   tw_charges (snd (paid 5)) \<noteq> []"
proof -
  have "distinct (map cn_nonce (tw_nonces (with_nonce (nonce_row TierNone ''1500'' 1))))"
    by (simp add: nonce_fields)
  from TapCardDebit_authorised [OF paid_run this] have "tw_charges (snd (paid 5)) \<noteq> []"
    by (elim exE conjE) (simp only: append_is_Nil_conv list.distinct simp_thms not_False_eq_True)
  then show ?thesis by (simp only: paid_run fst_conv simp_thms not_False_eq_True)
qed

text \<open>A card that is not known.\<close>

lemma unknown_card:
  "run_state (TapCardDebit tap_calm (Some (debit_of 7 ''1500''))) (with_nonce (nonce_row TierNone ''1500'' 1)) =
   (DebitRefused 404, with_nonce ((nonce_row TierNone ''1500'' 1)\<lparr>cn_consumed := Some 0\<rparr>))"
proof -
  have "sole DbOk (\<lambda>c. ct_uid_hash c = Some (replicate 32 7)) (tw_cards (with_nonce n)) = None" for n
    by (simp add: sole_def nonce_fields linked_fields two_cards)
  then show ?thesis
    by (simp add: TapCardDebit_def debit_fields DecodeHex_EncodeHex nonce_consumed uid_ok by_uid del: EncodeHex.simps)
qed

lemma TapCardDebit_refused_witness:
  "money (with_nonce ((nonce_row TierNone ''1500'' 1)\<lparr>cn_consumed := Some 0\<rparr>)) = money (with_nonce (nonce_row TierNone ''1500'' 1))"
  by (rule TapCardDebit_refused [OF unknown_card]) simp

section \<open>A nonce of another card\<close>

text \<open>C18. The nonce is not tied to the card it was issued for: a purchase that needs the PIN of one
  card is authorised without it by a nonce issued for another card below that card's limit.\<close>

theorem nonce_of_another_card_pays:
  "fst (nonced 6 ''1500'' linked) = NonceIssued TierPin (replicate 32 9) ''n1'' \<and>
   nonced 5 ''1500'' linked = (NonceIssued TierNone (replicate 32 9) ''n1'', with_nonce (nonce_row TierNone ''1500'' 1)) \<and>
   fst (run_state (TapCardDebit tap_calm (Some (debit_of 6 ''1500''))) (with_nonce (nonce_row TierNone ''1500'' 1))) =
     Debited 50 (replicate 32 9) 3850000 \<and> dq_pin (debit_of 6 ''1500'') = ''''"
  using pin_tier nonced_eq paid_facts(2) unfolding paid_def by (simp only: debit_of_def debit_req.simps simp_thms)

section \<open>A run with a charge\<close>

definition row_5 :: server_nonce where "row_5 = nonce_row TierNone ''1500'' 1"
definition used_5 :: server_nonce where "used_5 = row_5\<lparr>cn_consumed := Some 0\<rparr>"

definition recorded_world :: tap_world where
  "recorded_world = (with_nonce used_5)\<lparr>tw_routes := empty_world\<lparr>pays := [card_payment tap_calm 3
      \<lparr>ba_bank = ''044'', ba_number = ''0123456789'', ba_name = ''A Shop''\<rparr> usdc 1500 1500 ''''], orders := [fresh_order 50 Lp 0]\<rparr>,
      tw_charges := [charged tap_calm 3 used_5 card_5]\<rparr>"

lemma charge_run: "tap_run (recorded_world, {nonce_key row_5}, [\<lparr>td_sender = 3, td_req = debit_of 5 ''1500'', td_nonce = used_5,
    td_stage = Recorded 50 card_5 1500\<rparr>])"
proof -
  let ?b = "\<lparr>ba_bank = ''044'', ba_number = ''0123456789'', ba_name = ''A Shop''\<rparr>"
  let ?x = "\<lparr>td_sender = 3, td_req = debit_of 5 ''1500'', td_nonce = used_5, td_stage = Consumed\<rparr>"
  have "tap_step (linked, {}, []) (with_nonce row_5, {} \<union> nonce_key ` set (tw_nonces (with_nonce row_5)), [])"
    by (rule tap_step.issued [OF _ nonced_eq [unfolded nonced_def, folded row_5_def]]) simp
  then have issued: "tap_run (with_nonce row_5, {nonce_key row_5}, [])"
    using tap_run.step [OF linked_run] by (simp add: nonce_fields)
  have found: "card_by_uid tap_calm (replicate 32 5) (with_nonce used_5) = Some card_5"
    by (simp add: by_uid sole_def nonce_fields linked_fields two_cards card_5_def)
  have checked: "debit_check tap_calm (td_req ?x) (replicate 32 9) (td_nonce ?x) card_5 = Charge 1500 150000"
    by (simp add: checked card_5_def used_5_def row_5_def)
  have "tap_step (with_nonce row_5, {nonce_key row_5}, []) (with_nonce used_5, {nonce_key row_5}, [?x])"
    unfolding used_5_def row_5_def by (rule tap_step.consumed [OF nonce_consumed])
  then have consumed: "tap_run (with_nonce used_5, {nonce_key row_5}, [] @ ?x # [])"
    using tap_run.step [OF issued] by simp
  have approved: "tap_run (with_nonce used_5, {nonce_key row_5}, [] @ ?x\<lparr>td_stage := Approved card_5 1500\<rparr> # [])"
    by (rule tap_run.step [OF consumed], rule tap_step.approved [OF _ found _ checked]) (simp_all add: two_cards card_5_def)
  have "run_state (persistTapCardPaymentOrder tap_calm 3 ?b card_5 used_5 1500 (debit_of 5 ''1500'')) (with_nonce used_5) =
      (True, recorded_world)"
    unfolding persisted recorded_world_def by (simp add: debit_of_def)
  then show ?thesis
    using tap_run.step [OF approved tap_step.recorded [where e = tap_calm and b = ?b and w' = recorded_world]]
    by simp
qed


lemma tap_run_attempts_witness: "list_all attempts_ok (tw_cards linked) \<and> length (tw_cards linked) = 2"
  using tap_run_attempts [OF linked_run] by (simp add: linked_fields)

lemma tap_run_provisioned_witness: "provisioned card_5 \<and> ct_cap card_5 = Some ''0xa''"
proof -
  have "card_by_uid tap_calm (replicate 32 5) linked = Some card_5"
    by (simp add: by_uid sole_def linked_fields two_cards card_5_def)
  then show ?thesis using tap_run_provisioned [OF linked_run] by (simp add: card_5_def two_cards)
qed

section \<open>An amount beyond 64 bits\<close>

definition huge :: decimal where "huge = 3 * 2 ^ 64 / 100"
definition huge_text :: string where "huge_text = ''553402322211286548.48''"

lemma huge_nonced: "nonced 6 huge_text linked = (NonceIssued TierNone (replicate 32 9) ''n1'', with_nonce (nonce_row TierNone huge_text 2))"
  by (simp add: nonced_def TapCardNonce_def uid_ok by_uid linked_eq tap_fresh_def sole_def two_cards tap_naira_def
      Let_def insert_nonce_def resolveTier_def kobo_facts [simplified] nonce_row_def with_nonce_def tap_text_def huge_text_def)

lemma huge_checked:
  "debit_check tap_calm (debit_of 6 huge_text) (replicate 32 9) ((nonce_row TierNone huge_text 2)\<lparr>cn_consumed := Some 0\<rparr>) card_6 = Charge huge 0"
  by (simp add: debit_check_def debit_fields DecodeHex_EncodeHex two_cards card_6_def auth_check_def nonce_row_def tap_naira_def
      kobo_facts [simplified] daily_limit_def huge_text_def huge_def del: EncodeHex.simps)

definition huge_debit :: "debit_reply \<times> tap_world" where
  "huge_debit = run_state (TapCardDebit tap_calm (Some (debit_of 6 huge_text))) (snd (nonced 6 huge_text linked))"

text \<open>Amounts are reduced modulo \<open>2^64\<close>: at 1500 naira to the dollar a purchase of
  553402322211286548.48 naira needs no PIN, uses nothing of the day's limit and debits one
  millionth of a dollar from the card, while the order pays the merchant in full.\<close>

theorem huge_amount_costs_nothing:
  "fst (nonced 6 huge_text linked) = NonceIssued TierNone (replicate 32 9) ''n1'' \<and> fst huge_debit = Debited 50 (replicate 32 9) 4000000 \<and>
    tw_chain (snd huge_debit) = [CallDebit 50 ''0xb'' usdc_type 1 (Done ''d1'')] \<and>
    map po_amount (pays (tw_routes (snd huge_debit))) = [368934881474191.03232]"
proof -
  let ?n = "(nonce_row TierNone huge_text 2)\<lparr>cn_consumed := Some 0\<rparr>"
  have "sole DbOk (\<lambda>c. ct_uid_hash c = Some (replicate 32 6)) (tw_cards (with_nonce n)) = Some card_6" for n
    by (simp add: sole_def nonce_fields linked_fields two_cards card_6_def)
  then have r: "huge_debit = run_state (charge_card tap_calm 3 (debit_of 6 huge_text) ?n card_6 huge 0) (with_nonce ?n)"
    by (simp add: huge_debit_def huge_nonced TapCardDebit_def debit_fields DecodeHex_EncodeHex nonce_consumed uid_ok by_uid huge_checked
        two_cards card_6_def [symmetric] del: EncodeHex.simps) (simp add: card_6_def two_cards)
  have "usdcSubunitFromNGN std_dec huge 1500 = 1" using kobo_facts by (simp add: huge_def)
  note steps = persisted collected_ok [OF this not_base(2)] rotated_ok
  have po: "usdcFromNGN std_dec huge 1500 = 368934881474191.03232"
    unfolding huge_def by code_simp
  show ?thesis
    unfolding r huge_nonced
    by (simp add: charge_card_def steps nonce_fields put_card_def linked_fields card_6_def two_cards card_payment_def po)
qed

section \<open>A cap nobody verified\<close>

definition rpc_down :: tap_env where
  "rpc_down = (as_user 2)\<lparr>k_tx_block := (\<lambda>_. None)\<rparr>"

definition invented :: string where "invented = ''0xbase_1''"

text \<open>User 2 links a cap that does not exist while the node does not answer.\<close>

definition base_linked :: tap_world where
  "base_linked = snd (run_state (LinkComplete rpc_down (Some (link_request 5 invented usdc_type 400000))) (claimed_by 2 minted))"

definition base_paid :: "debit_reply \<times> tap_world" where
  "base_paid = run_state (TapCardDebit tap_calm (Some (debit_of 5 ''1500''))) (snd (nonced 5 ''1500'' base_linked))"

lemma base_linked_eq: "base_linked = tap_fresh\<lparr>tw_cards := [card_of 2 5 invented usdc_type 400000, issued_card 0 2 (replicate 10 CHR ''2'')]\<rparr>"
proof -
  have req: "lq_digest (link_request b cap coin pt) = cap" "lq_cap (link_request b cap coin pt) = cap"
    "lq_coin (link_request b cap coin pt) = coin" "lq_daily (link_request b cap coin pt) = 4000000"
    "lq_per_tap (link_request b cap coin pt) = pt" "lq_step_up (link_request b cap coin pt) = 1500000" for b cap coin pt
    by (simp_all add: link_request_def)
  have env: "k_user rpc_down = Some 2" "k_fault rpc_down s = DbOk" "k_now rpc_down = 0" for s
    by (simp_all add: rpc_down_def as_user_def tap_calm_def)
  have skipped: "verifyCreateCap rpc_down invented invented = CheckError"
    by (simp add: verifyCreateCap_def rpc_down_def as_user_def tap_calm_def invented_def)
  have claimed: "claimed_by 2 minted = tap_fresh\<lparr>tw_cards :=
     [(issued_card 0 1 (replicate 10 CHR ''1''))\<lparr>ct_status := CardClaimed, ct_user := Some 2\<rparr>, issued_card 0 2 (replicate 10 CHR ''2'')]\<rparr>"
    by (simp add: claimed_by_def minted_eq Claim_def as_user_def tap_calm_def sole_def issued_card_def update_card_def
        put_card_def live_of_def of_user_def tap_fresh_def)
  show ?thesis
    by (simp add: base_linked_def claimed LinkComplete_def decoded skipped link_refused_def first_card_def env req
        update_card_def put_card_def live_of_def of_user_def issued_card_def card_of_def provision_def tap_fresh_def)
qed

text \<open>A cap that cannot be verified is accepted: while the node does not answer, a user links an
  invented cap whose name marks it as a Base card, and a debit of it succeeds and records the
  order as self-settled without any call to the chain.\<close>

theorem unverified_cap_pays_nothing:
  "fst base_paid = Debited 50 (replicate 32 9) 3850000 \<and> tw_chain (snd base_paid) = [] \<and>
   map ch_order (tw_charges (snd base_paid)) = [50] \<and>
   \<lparr>ev_order = 50, ev_step = SelfSettle, ev_status = Succeeded\<rparr> \<in> set (events (tw_routes (snd base_paid)))"
proof -
  let ?card = "card_of 2 5 invented usdc_type 400000" and ?n = "nonce_row TierNone ''1500'' (Suc 0)"
  have base: "isBaseCard invented usdc_type" by (simp add: invented_def isBaseCard_def)
  have noncing: "snd (nonced 5 ''1500'' base_linked) = base_linked\<lparr>tw_nonces := [?n]\<rparr>"
    by (simp add: nonced_def TapCardNonce_def uid_ok by_uid base_linked_eq tap_fresh_def sole_def two_cards tap_naira_def issued_card_def
        Let_def insert_nonce_def resolveTier_def kobo_facts nonce_row_def tap_text_def)
  have consume: "run_state (consumeServerNonce tap_calm 3 (replicate 32 9)) (base_linked\<lparr>tw_nonces := [?n]\<rparr>) =
      (Some (?n\<lparr>cn_consumed := Some 0\<rparr>), base_linked\<lparr>tw_nonces := [?n\<lparr>cn_consumed := Some 0\<rparr>]\<rparr>)"
    by (simp add: consumeServerNonce_def nonce_row_def usable_def sole_def nonceTTL_def)
  have cards: "tw_cards base_linked = [?card, issued_card 0 2 (replicate 10 CHR ''2'')]"
      "tw_charges base_linked = []" "tw_chain base_linked = []" "tw_routes base_linked = empty_world\<lparr>pays := []\<rparr>"
    by (simp_all add: base_linked_eq tap_fresh_def)
  have sole: "sole DbOk (\<lambda>c. ct_uid_hash c = Some (replicate 32 5)) (tw_cards base_linked) = Some ?card"
    by (simp add: cards sole_def two_cards issued_card_def)
  have paid: "base_paid = run_state (charge_card tap_calm 3 (debit_of 5 ''1500'') (?n\<lparr>cn_consumed := Some 0\<rparr>) ?card 1500 150000)
      (base_linked\<lparr>tw_nonces := [?n\<lparr>cn_consumed := Some 0\<rparr>]\<rparr>)"
    by (simp add: base_paid_def noncing TapCardDebit_def debit_fields DecodeHex_EncodeHex consume uid_ok by_uid sole checked
        two_cards del: EncodeHex.simps)
  have onchain: "run_state (debit_onchain tap_calm ?card 1500) w = (None, w\<lparr>
    tw_routes := (tw_routes w)\<lparr>events := events (tw_routes w) @ [\<lparr>ev_order = 50, ev_step = SelfSettle, ev_status = Succeeded\<rparr>]\<rparr>\<rparr>)" for w
    by (simp add: debit_onchain_def Let_def market_rate_def two_cards base self_settled_def only_if_def)
  have persist: "run_state (persistTapCardPaymentOrder tap_calm 3 b c n d r) (base_linked\<lparr>tw_nonces := ns\<rparr>) =
     (True, base_linked\<lparr>tw_nonces := ns, tw_routes := empty_world\<lparr>pays := [card_payment tap_calm 3 b usdc d 1500 (dq_memo r)], orders := [fresh_order 50 Lp 0]\<rparr>,
        tw_charges := [charged tap_calm 3 n c]\<rparr>)" for b c n d r ns
    by (simp add: persistTapCardPaymentOrder_def market_rate_def cards empty_world_def settle_mode_def charged_def)
  show ?thesis
    unfolding paid
    by (simp add: charge_card_def persist onchain rotated_ok cards two_cards put_card_def charged_def empty_world_def)
qed

section \<open>A debit the chain refused\<close>

definition refusing :: tap_env where "refusing = tap_calm\<lparr>k_debit := (\<lambda>_ _ _. Refused)\<rparr>"

definition refused_debit :: "debit_reply \<times> tap_world" where
  "refused_debit = run_state (TapCardDebit refusing (Some (debit_of 5 ''1500''))) (with_nonce row_5)"

text \<open>The aggregator's pool holds other customers' twenty dollars.\<close>

definition pooled :: env where
  "pooled = calm\<lparr>sui_balance := (\<lambda>_ _. Some ''20000000''),
     lifi_get_quote := (\<lambda>_ _. Some \<lparr>q_id = ''q'', q_tool = ''mayan'', q_data = ''00'', q_to_amount_min = ''9900000''\<rparr>),
     sui_exec := (\<lambda>_. Some \<lparr>sr_digest = ''Dg'', sr_status = ''success''\<rparr>)\<rparr>"

lemma refusing_env:
  "k_fault refusing s = DbOk" "k_sender refusing = Some 3" "k_now refusing = 0" "k_parse_dec refusing = tap_naira"
  "k_dec refusing = std_dec" "k_new_order refusing = 50" "k_rate refusing = Some 1500" "k_rate2 refusing = Some 1500"
  "k_token refusing = Some usdc" "k_address refusing" "k_settle_mode refusing = ''lp''"
  "k_bank refusing u = Some \<lparr>ba_bank = ''044'', ba_number = ''0123456789'', ba_name = ''A Shop''\<rparr>"
  "k_debit refusing a b n = Refused"
  by (simp_all add: refusing_def)

lemma refused_eq: "fst refused_debit = DebitRefused 502 \<and>
    tw_routes (snd refused_debit) = empty_world\<lparr>pays := [card_payment refusing 3
      \<lparr>ba_bank = ''044'', ba_number = ''0123456789'', ba_name = ''A Shop''\<rparr> usdc 1500 1500 ''''], orders := [fresh_order 50 Lp 0]\<rparr> \<and>
    tw_cards (snd refused_debit) = tw_cards linked"
proof -
  have sole: "sole DbOk (\<lambda>c. ct_uid_hash c = Some (replicate 32 5)) (tw_cards (with_nonce n)) = Some card_5" for n
    by (simp add: sole_def nonce_fields linked_fields two_cards card_5_def)
  have consume: "run_state (consumeServerNonce refusing 3 (replicate 32 9)) (with_nonce row_5) = (Some used_5, with_nonce used_5)"
    by (simp add: consumeServerNonce_def with_nonce_def used_5_def row_5_def nonce_row_def usable_def sole_def nonceTTL_def refusing_env)
  have check: "debit_check refusing (debit_of 5 ''1500'') (replicate 32 9) used_5 card_5 = Charge 1500 150000"
    by (simp add: debit_check_def debit_fields DecodeHex_EncodeHex two_cards auth_check_def used_5_def row_5_def nonce_row_def tap_naira_def
      kobo_facts daily_limit_def card_5_def refusing_env del: EncodeHex.simps)
  have persist: "run_state (persistTapCardPaymentOrder refusing 3 b c n d r) (with_nonce m) =
   (True, (with_nonce m)\<lparr>tw_routes := empty_world\<lparr>pays := [card_payment refusing 3 b usdc d 1500 (dq_memo r)], orders := [fresh_order 50 Lp 0]\<rparr>,
      tw_charges := [charged refusing 3 n c]\<rparr>)" for b c n d r m
    by (simp add: persistTapCardPaymentOrder_def market_rate_def with_nonce_def linked_fields empty_world_def settle_mode_def charged_def refusing_env)
  have onchain: "run_state (debit_onchain refusing card_5 1500) w = (Some 502, w\<lparr>tw_chain := tw_chain w @ [CallDebit 50 ''0xa'' usdc_type 1000000 Refused]\<rparr>)" for w
    by (simp add: debit_onchain_def Let_def market_rate_def kobo_facts card_5_def two_cards not_base refusing_env)
  have run: "refused_debit = run_state (charge_card refusing 3 (debit_of 5 ''1500'') used_5 card_5 1500 150000) (with_nonce used_5)"
    by (simp add: refused_debit_def TapCardDebit_def debit_fields DecodeHex_EncodeHex consume uid_ok by_uid sole check refusing_env
        two_cards card_5_def [symmetric] del: EncodeHex.simps) (simp add: card_5_def two_cards)
  show ?thesis
    unfolding run by (simp add: charge_card_def persist onchain refusing_env nonce_fields debit_of_def)
qed

text \<open>A debit the chain refused leaves its order behind: the merchant and the card see the
  failure, but the next tick bridges the order's dollar from the pooled balance of other
  customers.\<close>

theorem refused_debit_is_bridged:
  "fst refused_debit = DebitRefused 502 \<and> tw_cards (snd refused_debit) = tw_cards linked \<and>
   calls (after pooled (tw_routes (snd refused_debit))) = [CallBridge 50 (Done ''Dg'')]"
proof -
  have "usdcFromNGN std_dec 1500 1500 = 1" by code_simp
  moreover have "trunc (shift 1 6) = 1000000" by (simp add: trunc_def shift_def)
  ultimately show ?thesis
    using refused_eq
    by (simp add: running pooled_def fresh_order_def card_payment_def refusing_env sample_values split del: if_split)
qed

end
