(* ===== verification/Match_Store.thy ===== *)
theory Match_Store imports Route_Store begin

text \<open>
  The tables behind the matching of escrowed orders to providers (ent/schema/lockpaymentorder.go,
  ent/schema/lockorderfulfillment.go, provider profiles, their tokens and buckets), the Redis
  structures of the matching engine (the circular queue of a bucket, the order requests, the
  exclude lists), the trace of its calls, and one request's environment.
\<close>

section \<open>Rows\<close>

datatype lock_status = LkPending | LkProcessing | LkCancelled | LkFulfilled | LkValidated | LkSettled | LkRefunded

datatype payout_status = PayNone | PayPending | PaySuccess | PayFailed

record lock_order =
  lk_id :: nat
  lk_gateway :: string
  lk_amount :: decimal
  lk_rate :: decimal
  lk_status :: lock_status
  lk_institution :: string
  lk_account :: string
  lk_cancellations :: int
  lk_pay_ref :: string
  lk_session :: string
  lk_payout :: payout_status
  lk_provider :: "string option"
  lk_bucket :: "string option"
  lk_symbol :: string
  lk_tx :: string
  lk_updated :: instant

datatype validation = ValPending | ValSuccess | ValFailed

record fulfillment =
  fu_tx :: string
  fu_order :: nat
  fu_status :: validation
  fu_created :: instant
  fu_updated :: instant

text \<open>A provider without a host identifier is operated by the platform on its sub-account.\<close>

record provider =
  pv_id :: string
  pv_host :: string
  pv_account_id :: string
  pv_account_number :: string
  pv_private :: bool
  pv_available :: bool
  pv_active :: bool
  pv_kyb :: bool
  pv_market_rate :: decimal

record order_token =
  ot_provider :: string
  ot_symbol :: string
  ot_fixed :: bool
  ot_fixed_rate :: decimal
  ot_floating_rate :: decimal
  ot_min :: decimal
  ot_max :: decimal

text \<open>The key names the currency and the amounts of the bucket.\<close>

record bucket =
  bk_key :: string
  bk_min :: decimal
  bk_market_rate :: decimal
  bk_members :: "string list"

record order_request =
  rq_provider :: string
  rq_amount :: decimal
  rq_institution :: string
  rq_expires :: "instant option"

text \<open>
  The calls that move money or ask the gateway to: a transfer from a provider's sub-account with
  its outcome, and the settlement or refund of the escrow.
\<close>

datatype match_call =
    CallPay nat string string decimal outcome
  | CallSettle nat outcome
  | CallRefund nat outcome

record match_world =
  mw_orders :: "lock_order list"
  mw_fulfillments :: "fulfillment list"
  mw_providers :: "provider list"
  mw_tokens :: "order_token list"
  mw_queues :: "string \<Rightarrow> string list"
  mw_requests :: "nat \<Rightarrow> order_request option"
  mw_excludes :: "nat \<Rightarrow> string list"
  mw_payment_rates :: "(nat \<times> decimal) list"
  mw_spawned :: "(nat \<times> string) list"
  mw_calls :: "match_call list"

section \<open>Environment\<close>

text \<open>Statements and Redis commands that may fail, told apart where one request has several.\<close>

datatype match_site = MExclude | MDirectLoad | MDirectRate | MPaymentRate | MTokens | MRate string | MIndex nat
  | MPop | MPush | MSend bool | MExpire bool | MNotifyLoad bool | MExcludePush | MDel | MEnqueue nat
  | MOrderLoad | MProviderLoad | MClaim | MSession | MMark | MReset | MFulfillCheck | MFulfillCreate | MValidate
  | MSettleLoad | MTxHash | MWebhook | MReconcile | MReconciled nat | MRefundLoad
  | MRequestGet | MAccept | MFulfillQuery | MFulfillUpdate | MLog | MOrderUpdate | MCancel
  | MSweep | MSweepQuery | MExists nat | MChecked string | MCheckedLog string | MCheckedOrder string

text \<open>A node's answer on a transfer: none that can be read, one of another shape, or a status with
  an error text.\<close>

datatype node_answer = NodeDown | NodeGarbled | NodeSays string "string option"

record match_env =
  m_now :: instant
  m_fault :: "match_site \<Rightarrow> db_fault"
  m_parse_dec :: "string \<Rightarrow> decimal option"
  m_dec_string :: "decimal \<Rightarrow> string"
  m_post :: "string \<Rightarrow> bool"
  m_tx_status :: "string \<Rightarrow> string \<Rightarrow> node_answer"
  m_rail :: bool
  m_balance :: "string \<Rightarrow> decimal option"
  m_name_enquiry :: "string \<Rightarrow> string \<Rightarrow> string option"
  m_transfer :: "nat \<Rightarrow> transfer_res"
  m_transfer_status :: "string \<Rightarrow> tf_status option"
  m_session :: string
  m_parse_id :: "string \<Rightarrow> nat option"
  m_settle :: "nat \<Rightarrow> outcome"
  m_refund :: "nat \<Rightarrow> outcome"
  m_production :: bool
  m_max_deviation :: decimal
  m_request_validity :: duration
  m_fulfil_validity :: int
  m_refund_count :: int

section \<open>Statements\<close>

abbreviation fails :: "match_env \<Rightarrow> match_site \<Rightarrow> bool" where
  "fails e s \<equiv> m_fault e s \<noteq> DbOk"

definition find_lock :: "nat \<Rightarrow> match_world \<Rightarrow> lock_order option" where
  "find_lock i w = find (\<lambda>r. lk_id r = i) (mw_orders w)"

definition find_provider :: "string \<Rightarrow> match_world \<Rightarrow> provider option" where
  "find_provider p w = find (\<lambda>r. pv_id r = p) (mw_providers w)"

text \<open>\<open>Update().Where(g).Set..(f).Save\<close>: the rows that match; ent stamps \<open>updated_at\<close>. The result is
  whether the statement is known to have succeeded, and how many rows it changed.\<close>

definition map_locks :: "match_env \<Rightarrow> (lock_order \<Rightarrow> bool) \<Rightarrow> (lock_order \<Rightarrow> lock_order) \<Rightarrow> match_world \<Rightarrow> match_world" where
  "map_locks e g f w = w\<lparr>mw_orders := map (\<lambda>r. if g r then (f r)\<lparr>lk_updated := m_now e\<rparr> else r) (mw_orders w)\<rparr>"

definition update_locks ::
  "match_env \<Rightarrow> match_site \<Rightarrow> (lock_order \<Rightarrow> bool) \<Rightarrow> (lock_order \<Rightarrow> lock_order) \<Rightarrow> (match_world, nat option) state" where
  "update_locks e s g f = do {
     w \<leftarrow> fetch;
     if m_fault e s = DbFail then return None
     else do {
       modify (map_locks e g f);
       return (if m_fault e s = DbOk then Some (length (filter g (mw_orders w))) else None)
     }
   }"

definition spawn :: "nat \<Rightarrow> string \<Rightarrow> (match_world, unit) state" where
  "spawn i p = modify (\<lambda>w. w\<lparr>mw_spawned := mw_spawned w @ [(i, p)]\<rparr>)"

definition log_match :: "match_call \<Rightarrow> (match_world, unit) state" where
  "log_match c = modify (\<lambda>w. w\<lparr>mw_calls := mw_calls w @ [c]\<rparr>)"

text \<open>\<open>decimal.RoundBank\<close>: to the nearest, ties to even.\<close>

definition round_bank :: "nat \<Rightarrow> decimal \<Rightarrow> decimal" where
  "round_bank n d = (let y = d * 10 ^ n; k = \<lfloor>y\<rfloor>; r = y - of_int k in
     of_int (if r < 1 / 2 then k else if 1 / 2 < r then k + 1 else if even k then k else k + 1) / 10 ^ n)"

lemma round_bank_error: "\<bar>round_bank n d - d\<bar> \<le> 1 / (2 * 10 ^ n)"
proof -
  let ?y = "d * 10 ^ n" and ?k = "\<lfloor>d * 10 ^ n\<rfloor>"
  have k: "of_int ?k \<le> ?y" "?y < of_int ?k + 1" by linarith+
  have "\<bar>of_int (if ?y - of_int ?k < 1 / 2 then ?k else if 1 / 2 < ?y - of_int ?k then ?k + 1 else if even ?k then ?k else ?k + 1) - ?y\<bar> \<le> 1 / 2"
    using k by (auto simp: abs_le_iff)
  then have "\<bar>round_bank n d * 10 ^ n - ?y\<bar> \<le> 1 / 2"
    by (simp add: round_bank_def Let_def)
  moreover have "\<bar>round_bank n d - d\<bar> * 10 ^ n = \<bar>round_bank n d * 10 ^ n - ?y\<bar>"
    using abs_mult [of "round_bank n d - d" "10 ^ n"] by (simp add: left_diff_distrib)
  ultimately have "\<bar>round_bank n d - d\<bar> * 10 ^ n \<le> 1 / 2" by simp
  then show ?thesis by (simp add: field_simps)
qed

end
