(* ===== verification/Match_Queue.thy ===== *)
theory Match_Queue imports Match_Store begin

text \<open>
  The matching engine (services/priority_queue.go): the circular queue of each bucket, and the
  assignment of an order to the first provider of the queue that can take it. A failed request
  excludes the provider and starts over, so that the assignment is a loop, written as a partial
  function of its rounds; each round has an environment of its own.
\<close>

section \<open>Queue entries\<close>

text \<open>\<open>strings.Split\<close> at a character: never the empty list.\<close>

fun split_at :: "char \<Rightarrow> string \<Rightarrow> string list" where
  "split_at c [] = [[]]"
| "split_at c (x # xs) = (if x = c then [] # split_at c xs
     else case split_at c xs of [] \<Rightarrow> [[x]] | p # ps \<Rightarrow> (x # p) # ps)"

definition entry_text :: "match_env \<Rightarrow> string \<Rightarrow> string \<Rightarrow> decimal \<Rightarrow> decimal \<Rightarrow> decimal \<Rightarrow> string" where
  "entry_text e p symbol rate mn mx = p @ '':'' @ symbol @ '':'' @ m_dec_string e rate @ '':'' @
     m_dec_string e mn @ '':'' @ m_dec_string e mx"

lemma split_at_neq_Nil [simp]: "split_at c s \<noteq> []"
  by (induction s) (auto split: list.split)

lemma split_at_plain: "c \<notin> set s \<Longrightarrow> split_at c s = [s]"
  by (induction s) auto

lemma split_at_append: "c \<notin> set s \<Longrightarrow> split_at c (s @ c # t) = s # split_at c t"
  by (induction s) auto

text \<open>An entry written into a queue is read back field by field, where ids, symbols and
  decimals contain no colon.\<close>

theorem entry_roundtrip:
  assumes "CHR '':'' \<notin> set p" "CHR '':'' \<notin> set symbol" "\<And>d. CHR '':'' \<notin> set (m_dec_string e d)"
  shows "split_at CHR '':'' (entry_text e p symbol rate mn mx) =
    [p, symbol, m_dec_string e rate, m_dec_string e mn, m_dec_string e mx]"
  using assms by (simp add: entry_text_def split_at_append split_at_plain)

section \<open>Filling a queue\<close>

definition find_token :: "string \<Rightarrow> string \<Rightarrow> match_world \<Rightarrow> order_token option" where
  "find_token p symbol w = find (\<lambda>t. ot_provider t = p \<and> ot_symbol t = symbol) (mw_tokens w)"

text \<open>The floating rate is an offset from the market rate.\<close>

definition GetProviderRate :: "match_env \<Rightarrow> match_site \<Rightarrow> provider \<Rightarrow> string \<Rightarrow> match_world \<Rightarrow> decimal option" where
  "GetProviderRate e s p symbol w = (if fails e s then None
     else case find_token (pv_id p) symbol w of None \<Rightarrow> None
     | Some t \<Rightarrow> Some (if ot_fixed t then ot_fixed_rate t
         else round_bank 2 (pv_market_rate p + ot_floating_rate t)))"

definition GetProvisionBuckets :: "bucket \<Rightarrow> match_world \<Rightarrow> provider list" where
  "GetProvisionBuckets b w = filter (\<lambda>p. pv_id p \<in> set (bk_members b) \<and> pv_available p \<and> pv_active p \<and>
     pv_kyb p \<and> \<not> pv_private p) (mw_providers w)"

text \<open>A platform-operated provider that is known not to cover the bucket's least amount is left out.\<close>

definition dry :: "match_env \<Rightarrow> bucket \<Rightarrow> provider \<Rightarrow> bool" where
  "dry e b p \<longleftrightarrow> m_rail e \<and> pv_host p = '''' \<and>
     (pv_account_id p = '''' \<or> (case m_balance e (pv_account_id p) of None \<Rightarrow> False | Some x \<Rightarrow> x < bk_min b))"

definition AbsPercentageDeviation :: "decimal \<Rightarrow> decimal \<Rightarrow> decimal" where
  "AbsPercentageDeviation trueValue measured =
     (if trueValue = 0 then 0 else \<bar>(measured - trueValue) / trueValue * 100\<bar>)"

definition enqueue_token :: "match_env \<Rightarrow> bucket \<Rightarrow> provider \<Rightarrow> order_token \<Rightarrow> (match_world, unit) state" where
  "enqueue_token e b p t = do {
     w \<leftarrow> fetch;
     case GetProviderRate e (MRate (pv_id p)) p (ot_symbol t) w of None \<Rightarrow> return ()
     | Some rate \<Rightarrow> only_if (\<not> (m_production e \<and> m_max_deviation e < AbsPercentageDeviation (bk_market_rate b) rate) \<and>
           m_fault e (MEnqueue (length (mw_queues w (bk_key b)))) \<noteq> DbFail)
         (modify (\<lambda>w. w\<lparr>mw_queues := (mw_queues w)(bk_key b := mw_queues w (bk_key b) @
           [entry_text e (pv_id p) (ot_symbol t) rate (ot_min t) (ot_max t)])\<rparr>))
   }"

definition enqueue_provider :: "match_env \<Rightarrow> bucket \<Rightarrow> provider \<Rightarrow> (match_world, unit) state" where
  "enqueue_provider e b p = (if dry e b p \<or> fails e MTokens then return ()
     else do {
       w \<leftarrow> fetch;
       for_each (filter (\<lambda>t. ot_provider t = pv_id p) (mw_tokens w)) (enqueue_token e b p)
     })"

definition CreatePriorityQueueForBucket :: "match_env \<Rightarrow> bucket \<Rightarrow> provider list \<Rightarrow> (match_world, unit) state" where
  "CreatePriorityQueueForBucket e b providers = do {
     only_if (m_fault e MDel \<noteq> DbFail) (modify (\<lambda>w. w\<lparr>mw_queues := (mw_queues w)(bk_key b := [])\<rparr>));
     for_each providers (enqueue_provider e b)
   }"

text \<open>Every bucket's queue is built in a goroutine of its own; the queues have different keys.\<close>

definition ProcessBucketQueues :: "match_env \<Rightarrow> bucket list \<Rightarrow> (match_world, unit) state" where
  "ProcessBucketQueues e buckets = (if fails e MSweepQuery then return ()
     else do {
       w \<leftarrow> fetch;
       for_each buckets (\<lambda>b. CreatePriorityQueueForBucket e b (GetProvisionBuckets b w))
     })"

section \<open>Sending an order request\<close>

record assign_fields =
  af_id :: nat
  af_provider :: string
  af_rate :: decimal
  af_amount :: decimal
  af_symbol :: string
  af_institution :: string
  af_bucket :: "string option"
  af_updated :: instant

text \<open>A provider with a node is asked over HTTP; for the others the platform executes the order.\<close>

definition notifyProvider :: "match_env \<Rightarrow> bool \<Rightarrow> assign_fields \<Rightarrow> (match_world, bool) state" where
  "notifyProvider e direct ao = do {
     w \<leftarrow> fetch;
     case (if fails e (MNotifyLoad direct) then None else find_provider (af_provider ao) w) of None \<Rightarrow> return False
     | Some p \<Rightarrow> if pv_host p = '''' then do { spawn (af_id ao) (af_provider ao); return True }
         else return (m_post e (pv_host p))
   }"

definition sendOrderRequest :: "match_env \<Rightarrow> bool \<Rightarrow> assign_fields \<Rightarrow> (match_world, bool) state" where
  "sendOrderRequest e direct ao = do {
     only_if (m_fault e (MSend direct) \<noteq> DbFail) (modify (\<lambda>w. w\<lparr>mw_requests := (mw_requests w)(af_id ao :=
       Some \<lparr>rq_provider = af_provider ao, rq_amount = round_bank 0 (af_amount ao * af_rate ao),
         rq_institution = af_institution ao, rq_expires = None\<rparr>)\<rparr>));
     if fails e (MSend direct) then return False
     else do {
       only_if (m_fault e (MExpire direct) \<noteq> DbFail) (modify (\<lambda>w. w\<lparr>mw_requests := (mw_requests w)(af_id ao :=
         map_option (\<lambda>q. q\<lparr>rq_expires := Some (m_now e + m_request_validity e)\<rparr>) (mw_requests w (af_id ao)))\<rparr>));
       if fails e (MExpire direct) then return False else notifyProvider e direct ao
     }
   }"

section \<open>One round of the assignment\<close>

datatype direct_result = Sent | Private | Through assign_fields

text \<open>The provider the order names; its rate is taken anew when the order is older than ten
  minutes, and is zero when it cannot be read.\<close>

definition refresh_rate :: "match_env \<Rightarrow> provider \<Rightarrow> assign_fields \<Rightarrow> (match_world, assign_fields) state" where
  "refresh_rate e p ao = (if \<not> af_updated ao < m_now e - 10 * minute then return ao
     else do {
       w \<leftarrow> fetch;
       let ao' = ao\<lparr>af_rate := (case GetProviderRate e MDirectRate p (af_symbol ao) w of Some r \<Rightarrow> r | None \<Rightarrow> 0)\<rparr>;
       only_if (m_fault e MPaymentRate \<noteq> DbFail) (modify (\<lambda>w. w\<lparr>mw_payment_rates :=
         map (\<lambda>(i, r). if i = af_id ao then (i, af_rate ao') else (i, r)) (mw_payment_rates w)\<rparr>));
       return ao'
     })"

definition direct_send :: "match_env \<Rightarrow> assign_fields \<Rightarrow> (match_world, direct_result) state" where
  "direct_send e ao = do {
     w \<leftarrow> fetch;
     case (if fails e MDirectLoad then None else find_provider (af_provider ao) w) of None \<Rightarrow> return (Through ao)
     | Some p \<Rightarrow> do {
         ao' \<leftarrow> refresh_rate e p ao;
         sent \<leftarrow> sendOrderRequest e True ao';
         return (if sent then Sent else if pv_private p then Private else Through ao')
       }
   }"

text \<open>Whether an entry of the queue takes the order.\<close>

definition entry_matches :: "match_env \<Rightarrow> string list \<Rightarrow> assign_fields \<Rightarrow> string \<Rightarrow> bool" where
  "entry_matches e excludeList ao data = (case split_at CHR '':'' data of
     [p, symbol, rate, mn, mx] \<Rightarrow> p \<notin> set excludeList \<and> symbol = af_symbol ao \<and>
       (case (m_parse_dec e mn, m_parse_dec e mx, m_parse_dec e rate) of
          (Some lo, Some hi, Some r) \<Rightarrow> \<not> (af_amount ao < lo \<or> hi < af_amount ao) \<and> \<bar>r - af_rate ao\<bar> \<le> 1 / 2
        | _ \<Rightarrow> False)
   | _ \<Rightarrow> False)"

text \<open>\<open>for index := 0; ; index++\<close>: reads the queue until an entry matches or a read fails.\<close>

function scan :: "match_env \<Rightarrow> string list \<Rightarrow> assign_fields \<Rightarrow> string list \<Rightarrow> nat \<Rightarrow> (nat \<times> string) option" where
  "scan e ex ao queue index = (if length queue \<le> index \<or> fails e (MIndex index) then None
     else if entry_matches e ex ao (queue ! index) then Some (index, hd (split_at CHR '':'' (queue ! index)))
     else scan e ex ao queue (Suc index))"
  by pat_completeness auto

termination
  by (relation "measure (\<lambda>(e, ex, ao, queue, index). length queue - index)") auto

declare scan.simps [simp del]

datatype assign_out = Stop bool | Again assign_fields

text \<open>A match at the head of the queue moves it to the end; \<open>None\<close> is an error that ends the round.\<close>

definition rotate_queue :: "match_env \<Rightarrow> string \<Rightarrow> nat \<Rightarrow> (match_world, bool) state" where
  "rotate_queue e key index = (if index \<noteq> 0 then return True
     else do {
       w \<leftarrow> fetch;
       only_if (m_fault e MPop \<noteq> DbFail) (modify (\<lambda>w. w\<lparr>mw_queues := (mw_queues w)(key := tl (mw_queues w key))\<rparr>));
       if fails e MPop then return False
       else do {
         only_if (m_fault e MPush \<noteq> DbFail) (modify (\<lambda>v. v\<lparr>mw_queues := (mw_queues v)(key := mw_queues v key @ [hd (mw_queues w key)])\<rparr>));
         return (\<not> fails e MPush)
       }
     })"

definition queue_send :: "match_env \<Rightarrow> string list \<Rightarrow> assign_fields \<Rightarrow> string \<Rightarrow> (match_world, assign_out) state" where
  "queue_send e ex ao key = do {
     w \<leftarrow> fetch;
     case scan e ex ao (mw_queues w key) 0 of None \<Rightarrow> return (Stop True)
     | Some (index, p) \<Rightarrow> do {
         ok \<leftarrow> rotate_queue e key index;
         if \<not> ok then return (Stop False)
         else do {
           let ao' = ao\<lparr>af_provider := p\<rparr>;
           sent \<leftarrow> sendOrderRequest e False ao';
           if sent then return (Stop True)
           else do {
             only_if (m_fault e MExcludePush \<noteq> DbFail)
               (modify (\<lambda>w. w\<lparr>mw_excludes := (mw_excludes w)(af_id ao := mw_excludes w (af_id ao) @ [p])\<rparr>));
             return (Again ao')
           }
         }
       }
   }"

definition assign_round :: "match_env \<Rightarrow> assign_fields \<Rightarrow> (match_world, assign_out) state" where
  "assign_round e ao = (if fails e MExclude then return (Stop False)
     else do {
       w \<leftarrow> fetch;
       let ex = mw_excludes w (af_id ao);
       d \<leftarrow> (if af_provider ao \<noteq> '''' \<and> af_provider ao \<notin> set ex then direct_send e ao else return (Through ao));
       case d of Sent \<Rightarrow> return (Stop True) | Private \<Rightarrow> return (Stop True)
       | Through ao' \<Rightarrow> (case af_bucket ao' of None \<Rightarrow> return (Stop True) | Some key \<Rightarrow> queue_send e ex ao' key)
     })"

partial_function (option) AssignLockPaymentOrder ::
  "(nat \<Rightarrow> match_env) \<Rightarrow> nat \<Rightarrow> assign_fields \<Rightarrow> match_world \<Rightarrow> (bool \<times> match_world) option" where
  "AssignLockPaymentOrder E n ao w = (case run_state (assign_round (E n) ao) w of
     (Stop b, w') \<Rightarrow> Some (b, w')
   | (Again ao', w') \<Rightarrow> AssignLockPaymentOrder E (Suc n) ao' w')"

declare AssignLockPaymentOrder.simps [code]

end
