(* ===== verification/Match_Assign.thy ===== *)
theory Match_Assign imports Match_Queue begin

text \<open>
  The assignment of an order: the scan finds the first entry that takes the order, and the
  rounds come to an end, since each one excludes a provider of the queue.
\<close>

section \<open>The scan\<close>

text \<open>The indexes of the queue that can be read, in order.\<close>

definition readable :: "match_env \<Rightarrow> nat \<Rightarrow> nat \<Rightarrow> nat list" where
  "readable e n len = takeWhile (\<lambda>i. \<not> fails e (MIndex i)) [n..<len]"

text \<open>The scan of a queue returns the first readable entry that takes the order, with the
  provider it names, and nothing when there is none.\<close>

theorem scan_finds_first:
  "scan e ex ao queue n = map_option (\<lambda>i. (i, hd (split_at CHR '':'' (queue ! i))))
     (find (\<lambda>i. entry_matches e ex ao (queue ! i)) (readable e n (length queue)))"
proof (induction e ex ao queue n rule: scan.induct)
  case (1 e ex ao queue n)
  show ?case
  proof (cases "length queue \<le> n \<or> fails e (MIndex n)")
    case True
    then show ?thesis
      by (subst scan.simps, cases "n < length queue") (auto simp: readable_def upt_conv_Cons)
  next
    case False
    then have "readable e n (length queue) = n # readable e (Suc n) (length queue)"
      by (simp add: readable_def upt_conv_Cons)
    with 1 False show ?thesis by (subst scan.simps) simp
  qed
qed

lemma scan_someD:
  assumes "scan e ex ao queue n = Some (i, p)"
  shows "i < length queue \<and> entry_matches e ex ao (queue ! i) \<and> p = hd (split_at CHR '':'' (queue ! i))"
  using assms
proof (induction e ex ao queue n rule: scan.induct)
  case (1 e ex ao queue n)
  then show ?case by (subst (asm) (2) scan.simps) (auto split: if_splits)
qed

section \<open>What a round leaves alone\<close>

definition queues_at :: "(string \<Rightarrow> string list) \<Rightarrow> (nat \<Rightarrow> string list) \<Rightarrow> match_world \<Rightarrow> bool" where
  "queues_at qs xs w \<longleftrightarrow> mw_queues w = qs \<and> mw_excludes w = xs"

lemma queues_modify:
  "(\<And>w. mw_queues (f w) = mw_queues w) \<Longrightarrow> (\<And>w. mw_excludes (f w) = mw_excludes w) \<Longrightarrow> keeps (queues_at qs xs) (modify f)"
  by (simp add: keeps_def queues_at_def)

lemma notify_queues: "keeps (queues_at qs xs) (notifyProvider e d ao)"
  unfolding notifyProvider_def spawn_def by (intro keeps_intros queues_modify; simp)

lemma send_queues: "keeps (queues_at qs xs) (sendOrderRequest e d ao)"
  unfolding sendOrderRequest_def by (intro keeps_intros notify_queues queues_modify; simp)

lemma refresh_fields:
  "run_state (refresh_rate e p ao) w = (ao', w') \<Longrightarrow> af_id ao' = af_id ao \<and> af_bucket ao' = af_bucket ao"
  by (auto simp: refresh_rate_def Let_def case_prod_unfold split: if_splits)

lemma refresh_queues: "keeps (queues_at qs xs) (refresh_rate e p ao)"
  unfolding refresh_rate_def Let_def by (intro keeps_intros queues_modify; simp)

lemma direct_queues: "keeps (queues_at qs xs) (direct_send e ao)"
  unfolding direct_send_def by (intro keeps_intros refresh_queues send_queues)

lemma direct_fields:
  assumes "run_state (direct_send e ao) w = (Through ao', w')"
  shows "af_id ao' = af_id ao \<and> af_bucket ao' = af_bucket ao"
proof (cases "if fails e MDirectLoad then None else find_provider (af_provider ao) w")
  case (Some p)
  obtain a v where a: "run_state (refresh_rate e p ao) w = (a, v)" by fastforce
  with assms Some refresh_fields [OF a] show ?thesis
    by (auto simp: direct_send_def case_prod_unfold simp del: if_split split: if_splits)
qed (use assms in \<open>simp add: direct_send_def\<close>)

lemma queues_same:
  "(\<And>qs xs. keeps (queues_at qs xs) m) \<Longrightarrow> run_state m w = (r, w') \<Longrightarrow> mw_queues w' = mw_queues w \<and> mw_excludes w' = mw_excludes w"
  using keepsD [of "queues_at (mw_queues w) (mw_excludes w)" m w] by (simp add: queues_at_def)

section \<open>Termination\<close>

definition queued :: "string \<Rightarrow> match_world \<Rightarrow> string set" where
  "queued key w = (\<lambda>x. hd (split_at CHR '':'' x)) ` set (mw_queues w key)"

lemma rotate_world:
  assumes "run_state (rotate_queue e key i) w = (True, w')" "mw_queues w key \<noteq> []"
  shows "mw_excludes w' = mw_excludes w \<and> set (mw_queues w' key) = set (mw_queues w key)"
proof -
  have "set (tl xs @ [hd xs]) = set xs" if "xs \<noteq> []" for xs :: "string list"
    using that by (cases xs) auto
  with assms show ?thesis
    by (auto simp: rotate_queue_def only_if_def split: if_splits)
qed

lemma queue_again:
  assumes "run_state (queue_send e (mw_excludes w (af_id ao)) ao key) w = (Again ao', w')" "m_fault e MExcludePush \<noteq> DbFail"
  obtains p where "ao' = ao\<lparr>af_provider := p\<rparr>" "queued key w' = queued key w" "p \<in> queued key w" "p \<notin> set (mw_excludes w (af_id ao))"
    "mw_excludes w' (af_id ao) = mw_excludes w (af_id ao) @ [p]"
proof -
  let ?ex = "mw_excludes w (af_id ao)"
  obtain i p where ip: "scan e ?ex ao (mw_queues w key) 0 = Some (i, p)"
    using assms(1) by (cases "scan e ?ex ao (mw_queues w key) 0") (auto simp: queue_send_def)
  from scan_someD [OF ip] have i: "i < length (mw_queues w key)" and m: "entry_matches e ?ex ao (mw_queues w key ! i)"
    and p: "p = hd (split_at CHR '':'' (mw_queues w key ! i))" by simp_all
  obtain ok w1 where r: "run_state (rotate_queue e key i) w = (ok, w1)" by fastforce
  have ok: "ok" using assms(1) ip r by (cases ok) (auto simp: queue_send_def)
  obtain sent w2 where s: "run_state (sendOrderRequest e False (ao\<lparr>af_provider := p\<rparr>)) w1 = (sent, w2)" by fastforce
  have ao': "ao' = ao\<lparr>af_provider := p\<rparr>" and w': "w' = w2\<lparr>mw_excludes := (mw_excludes w2)(af_id ao := mw_excludes w2 (af_id ao) @ [p])\<rparr>"
    using assms ip r ok s by (auto simp: queue_send_def Let_def only_if_def split: if_splits)
  have world1: "mw_excludes w1 = mw_excludes w \<and> set (mw_queues w1 key) = set (mw_queues w key)"
    using rotate_world r ok i by fastforce
  have world2: "mw_queues w2 = mw_queues w1 \<and> mw_excludes w2 = mw_excludes w1"
    by (rule queues_same [OF send_queues s])
  have "p \<notin> set ?ex" using m p by (auto simp: entry_matches_def split: list.splits)
  moreover have "p \<in> queued key w" using i p by (simp add: queued_def)
  ultimately show ?thesis
    using that ao' world1 world2 by (simp add: w' queued_def)
qed

lemma round_again:
  assumes "run_state (assign_round e ao) w = (Again ao', w')" "m_fault e MExcludePush \<noteq> DbFail"
  obtains key p where "af_bucket ao = Some key" "af_bucket ao' = Some key" "af_id ao' = af_id ao" "queued key w' = queued key w"
    "p \<in> queued key w" "p \<notin> set (mw_excludes w (af_id ao))" "mw_excludes w' (af_id ao) = mw_excludes w (af_id ao) @ [p]"
proof -
  let ?ex = "mw_excludes w (af_id ao)"
  let ?d = "if af_provider ao \<noteq> '''' \<and> af_provider ao \<notin> set ?ex then direct_send e ao else return (Through ao)"
  obtain d w1 where d: "run_state ?d w = (d, w1)" by fastforce
  have ok: "\<not> fails e MExclude" using assms(1) by (cases "fails e MExclude") (simp_all add: assign_round_def)
  have kept: "mw_queues w1 = mw_queues w \<and> mw_excludes w1 = mw_excludes w"
    by (rule queues_same [OF _ d]) (intro keeps_intros direct_queues)
  have rest: "run_state (case d of Sent \<Rightarrow> return (Stop True) | Private \<Rightarrow> return (Stop True)
       | Through ao' \<Rightarrow> (case af_bucket ao' of None \<Rightarrow> return (Stop True) | Some key \<Rightarrow> queue_send e ?ex ao' key)) w1 = (Again ao', w')"
    using assms(1) d ok by (simp add: assign_round_def Let_def)
  then obtain a where a: "d = Through a" by (cases d) simp_all
  with rest obtain key where key: "af_bucket a = Some key" "run_state (queue_send e ?ex a key) w1 = (Again ao', w')"
    by (cases "af_bucket a") simp_all
  have fields: "af_id a = af_id ao \<and> af_bucket a = af_bucket ao"
    using d a direct_fields by (auto split: if_splits)
  have "?ex = mw_excludes w1 (af_id a)" using kept fields by simp
  with key(2) have "run_state (queue_send e (mw_excludes w1 (af_id a)) a key) w1 = (Again ao', w')" by simp
  then obtain p where "ao' = a\<lparr>af_provider := p\<rparr>" "queued key w' = queued key w1" "p \<in> queued key w1"
    "p \<notin> set (mw_excludes w1 (af_id a))" "mw_excludes w' (af_id a) = mw_excludes w1 (af_id a) @ [p]"
    by (rule queue_again [OF _ assms(2)])
  then show ?thesis
    using that key(1) fields kept by (simp add: queued_def)
qed

lemma assign_returns:
  assumes "\<And>n. m_fault (E n) MExcludePush \<noteq> DbFail"
  shows "\<exists>r. AssignLockPaymentOrder E n ao w = Some r"
proof -
  define left where "left key i v = queued key v - set (mw_excludes v i)" for key i v
  have "\<exists>r. AssignLockPaymentOrder E n ao w = Some r"
    if "k = (case af_bucket ao of None \<Rightarrow> 0 | Some key \<Rightarrow> card (left key (af_id ao) w))" for k
    using that
  proof (induction k arbitrary: n ao w rule: less_induct)
    case (less k)
    obtain r w' where r: "run_state (assign_round (E n) ao) w = (r, w')" by fastforce
    show ?case
    proof (cases r)
      case (Again ao')
      with r obtain key p where kp: "af_bucket ao = Some key" "af_bucket ao' = Some key" "af_id ao' = af_id ao"
        "queued key w' = queued key w" "p \<in> queued key w" "p \<notin> set (mw_excludes w (af_id ao))"
        "mw_excludes w' (af_id ao) = mw_excludes w (af_id ao) @ [p]"
        using round_again [OF _ assms] by blast
      then have "left key (af_id ao) w' = left key (af_id ao) w - {p}" "p \<in> left key (af_id ao) w"
        by (auto simp: left_def)
      moreover have "finite (left key (af_id ao) w)" by (simp add: left_def queued_def)
      ultimately have "card (left key (af_id ao) w') < card (left key (af_id ao) w)"
        by (metis card_Diff1_less)
      then have "\<exists>r. AssignLockPaymentOrder E (Suc n) ao' w' = Some r"
        using less kp by simp
      with r Again show ?thesis by (subst AssignLockPaymentOrder.simps) simp
    qed (use r in \<open>subst AssignLockPaymentOrder.simps, simp\<close>)
  qed
  then show ?thesis by blast
qed

text \<open>C21. Assigning an order terminates, whatever providers, rates and nodes do, as long as the
  exclude list can be written: each round that does not end the assignment excludes one more
  provider of the queue.\<close>

theorem AssignLockPaymentOrder_terminates:
  assumes "\<And>n. m_fault (E n) MExcludePush \<noteq> DbFail"
  shows "\<exists>r. AssignLockPaymentOrder E n ao w = Some r"
  by (rule assign_returns [OF assms])

end
