(* ===== verification/Match_Execute.thy ===== *)
theory Match_Execute imports Match_Queue begin

text \<open>
  The execution of an order for a provider without a node (services/order/execute.go): the
  provider's sub-account pays the recipient, and the escrow is settled once the payout is
  confirmed, at once, by the rail's webhook (controllers/baas_webhook.go) or by the reconciler
  (tasks/tasks.go). Calls of the gateway contract (services/order/sui.go) are outcomes.
\<close>

section \<open>The gateway\<close>

definition SettleOrder :: "match_env \<Rightarrow> nat \<Rightarrow> (match_world, bool) state" where
  "SettleOrder e i = do {
     w \<leftarrow> fetch;
     case (if fails e MSettleLoad then None else find_lock i w) of None \<Rightarrow> return False
     | Some r \<Rightarrow>
         if lk_gateway r = '''' \<or> lk_provider r = None then return False
         else do {
           log_match (CallSettle i (m_settle e i));
           case m_settle e i of Done d \<Rightarrow> do { n \<leftarrow> update_locks e MTxHash (\<lambda>r. lk_id r = i) (\<lambda>r. r\<lparr>lk_tx := d\<rparr>); return (n \<noteq> None) }
           | _ \<Rightarrow> return False
         }
   }"

definition RefundOrder :: "match_env \<Rightarrow> string \<Rightarrow> (match_world, bool) state" where
  "RefundOrder e gateway = do {
     w \<leftarrow> fetch;
     case (if fails e MRefundLoad then [] else filter (\<lambda>r. lk_gateway r = gateway) (mw_orders w)) of
       [r] \<Rightarrow> do {
         log_match (CallRefund (lk_id r) (m_refund e (lk_id r)));
         case m_refund e (lk_id r) of Done d \<Rightarrow> do { n \<leftarrow> update_locks e MTxHash (\<lambda>x. lk_id x = lk_id r) (\<lambda>x. x\<lparr>lk_tx := d\<rparr>); return (n \<noteq> None) }
         | _ \<Rightarrow> return False
       }
     | _ \<Rightarrow> return False
   }"

section \<open>Settlement after the payout\<close>

definition by_id :: "nat \<Rightarrow> lock_order \<Rightarrow> bool" where "by_id i r \<longleftrightarrow> lk_id r = i"

text \<open>The fulfilment is keyed by the payout reference, which is unique.\<close>

definition record_fulfillment :: "match_env \<Rightarrow> nat \<Rightarrow> string \<Rightarrow> validation \<Rightarrow> (match_world, bool) state" where
  "record_fulfillment e i tx v = do {
     w \<leftarrow> fetch;
     if m_fault e MFulfillCreate = DbFail \<or> (\<exists>f \<in> set (mw_fulfillments w). fu_tx f = tx) \<or> find_lock i w = None
     then return False
     else do {
       modify (\<lambda>w. w\<lparr>mw_fulfillments := mw_fulfillments w @
         [\<lparr>fu_tx = tx, fu_order = i, fu_status = v, fu_created = m_now e, fu_updated = m_now e\<rparr>]\<rparr>);
       return (m_fault e MFulfillCreate = DbOk)
     }
   }"

definition SettleAfterPayout :: "match_env \<Rightarrow> nat \<Rightarrow> (match_world, bool) state" where
  "SettleAfterPayout e i = do {
     w \<leftarrow> fetch;
     case (if fails e MOrderLoad then None else find_lock i w) of None \<Rightarrow> return False
     | Some r \<Rightarrow>
         if lk_status r \<noteq> LkProcessing \<or> lk_payout r \<noteq> PaySuccess then return True
         else if fails e MFulfillCheck then return False
         else do {
           ok \<leftarrow> (if \<exists>f \<in> set (mw_fulfillments w). fu_tx f = lk_pay_ref r then return True
                 else record_fulfillment e i (lk_pay_ref r) ValSuccess);
           if \<not> ok then return False
           else do {
             n \<leftarrow> update_locks e MValidate (by_id i) (\<lambda>r. r\<lparr>lk_status := LkValidated\<rparr>);
             if n = None \<or> n = Some 0 then return False else SettleOrder e i
           }
         }
   }"

definition setPayoutSuccess :: "match_env \<Rightarrow> nat \<Rightarrow> (match_world, unit) state" where
  "setPayoutSuccess e i = do {
     _ \<leftarrow> update_locks e MMark (by_id i) (\<lambda>r. r\<lparr>lk_payout := PaySuccess, lk_session := ''''\<rparr>);
     return ()
   }"

definition fail_payout :: "match_env \<Rightarrow> nat \<Rightarrow> (match_world, unit) state" where
  "fail_payout e i = do {
     _ \<leftarrow> update_locks e MMark (by_id i) (\<lambda>r. r\<lparr>lk_payout := PayFailed, lk_session := ''''\<rparr>);
     return ()
   }"

text \<open>The provider is excluded and the order goes back to the queue, whatever has become of it.\<close>

definition exclude_provider :: "match_env \<Rightarrow> nat \<Rightarrow> string \<Rightarrow> (match_world, unit) state" where
  "exclude_provider e i p = only_if (m_fault e MExcludePush \<noteq> DbFail)
     (modify (\<lambda>w. w\<lparr>mw_excludes := (mw_excludes w)(i := mw_excludes w i @ [p])\<rparr>))"

definition delete_request :: "match_env \<Rightarrow> nat \<Rightarrow> (match_world, unit) state" where
  "delete_request e i = only_if (m_fault e MDel \<noteq> DbFail) (modify (\<lambda>w. w\<lparr>mw_requests := (mw_requests w)(i := None)\<rparr>))"

definition reassign :: "match_env \<Rightarrow> nat \<Rightarrow> string \<Rightarrow> (match_world, unit) state" where
  "reassign e i p = do {
     exclude_provider e i p;
     delete_request e i;
     _ \<leftarrow> update_locks e MReset (by_id i) (\<lambda>r. r\<lparr>lk_status := LkPending, lk_provider := None, lk_payout := PayNone,
       lk_session := ''''\<rparr>);
     return ()
   }"

section \<open>Execution\<close>

definition amount_ngn :: "lock_order \<Rightarrow> decimal" where
  "amount_ngn r = round_bank 0 (lk_amount r * lk_rate r)"

definition PaymentReference :: "string \<Rightarrow> nat \<Rightarrow> string" where
  "PaymentReference pre i = pre @ ''-'' @ show_nat i"

text \<open>The checks on what was loaded; \<open>Some\<close> is the order and provider that may be paid.\<close>

definition execute_check :: "match_env \<Rightarrow> nat \<Rightarrow> string \<Rightarrow> (match_world, (lock_order \<times> provider) option) state" where
  "execute_check e i p = (if \<not> m_rail e then return None
   else do {
     w \<leftarrow> fetch;
     case (if fails e MOrderLoad then None else find_lock i w) of None \<Rightarrow> return None
     | Some r \<Rightarrow>
         if lk_payout r \<noteq> PayNone then return None
         else (case (if fails e MProviderLoad then None else find_provider p w) of None \<Rightarrow> return None
         | Some lp \<Rightarrow>
             if pv_account_number lp = '''' \<or> pv_account_id lp = '''' then do { reassign e i p; return None }
             else if lk_institution r = '''' \<or> lk_account r = '''' then do { fail_payout e i; return None }
             else (case m_balance e (pv_account_id lp) of None \<Rightarrow> do { reassign e i p; return None }
             | Some b \<Rightarrow> if b < amount_ngn r then do { reassign e i p; return None } else return (Some (r, lp))))
   })"

definition execute_claim :: "match_env \<Rightarrow> nat \<Rightarrow> string \<Rightarrow> (match_world, bool) state" where
  "execute_claim e i p = do {
     n \<leftarrow> update_locks e MClaim (\<lambda>r. lk_id r = i \<and> lk_payout r = PayNone)
       (\<lambda>r. r\<lparr>lk_provider := Some p, lk_status := LkProcessing, lk_payout := PayPending,
         lk_pay_ref := PaymentReference ''routeB'' i\<rparr>);
     return (n \<noteq> None \<and> n \<noteq> Some 0)
   }"

definition pay_outcome :: "transfer_res \<Rightarrow> outcome" where
  "pay_outcome t = (case t of TransferErr submitted \<Rightarrow> if submitted then Lost else Refused
     | TransferOk TransferFailed \<Rightarrow> Refused | TransferOk _ \<Rightarrow> Done '''')"

text \<open>The switch on the transfer's answer.\<close>

definition payout_result :: "match_env \<Rightarrow> nat \<Rightarrow> string \<Rightarrow> transfer_res \<Rightarrow> (match_world, bool) state" where
  "payout_result e i p t = (case t of
     TransferErr _ \<Rightarrow> do { reassign e i p; return True }
   | TransferOk TransferSuccess \<Rightarrow> do { setPayoutSuccess e i; SettleAfterPayout e i }
   | TransferOk TransferFailed \<Rightarrow> do { reassign e i p; return True }
   | TransferOk TransferPending \<Rightarrow> do {
       _ \<leftarrow> update_locks e MSession (by_id i) (\<lambda>r. r\<lparr>lk_session := m_session e\<rparr>);
       return True
     })"

definition payout_call :: "match_env \<Rightarrow> lock_order \<Rightarrow> string \<Rightarrow> match_call" where
  "payout_call e r p = CallPay (lk_id r) p (PaymentReference ''routeB'' (lk_id r)) (amount_ngn r)
     (pay_outcome (m_transfer e (lk_id r)))"

definition execute_pay :: "match_env \<Rightarrow> lock_order \<Rightarrow> provider \<Rightarrow> string \<Rightarrow> (match_world, bool) state" where
  "execute_pay e r lp p = (case m_name_enquiry e (lk_institution r) (lk_account r) of
     None \<Rightarrow> do { reassign e (lk_id r) p; return True }
   | Some _ \<Rightarrow> do {
       log_match (payout_call e r p);
       payout_result e (lk_id r) p (m_transfer e (lk_id r))
     })"

definition Execute :: "match_env \<Rightarrow> nat \<Rightarrow> string \<Rightarrow> (match_world, bool) state" where
  "Execute e i p = do {
     c \<leftarrow> execute_check e i p;
     case c of None \<Rightarrow> return True
     | Some (r, lp) \<Rightarrow> do {
         claimed \<leftarrow> execute_claim e i p;
         if claimed then execute_pay e r lp p else return True
       }
   }"

section \<open>Confirmation\<close>

definition payout_prefix_id :: "match_env \<Rightarrow> string \<Rightarrow> nat option" where
  "payout_prefix_id e reference = m_parse_id e (trim_prefix ''routeC-'' (trim_prefix ''routeB-'' reference))"

definition webhook_status :: "string \<Rightarrow> payout_status option" where
  "webhook_status raw = (let s = to_lower (trim_space raw) in
     if s \<in> {''success'', ''successful'', ''completed'', ''00'', ''approved''} then Some PaySuccess
     else if s \<in> {''failed'', ''rejected'', ''cancelled'', ''canceled'', ''reversed'', ''declined'', ''error''} then Some PayFailed
     else None)"

text \<open>The settlement runs after the acknowledgement, in another environment.\<close>

definition applyFiatPayoutWebhook :: "match_env \<Rightarrow> match_env \<Rightarrow> string \<Rightarrow> string \<Rightarrow> (match_world, unit) state" where
  "applyFiatPayoutWebhook e e' reference rawStatus = (case payout_prefix_id e reference of None \<Rightarrow> return ()
   | Some i \<Rightarrow> (case webhook_status rawStatus of None \<Rightarrow> return ()
   | Some s \<Rightarrow> do {
       n \<leftarrow> update_locks e MWebhook (\<lambda>r. lk_id r = i \<and> lk_pay_ref r = reference)
         (\<lambda>r. r\<lparr>lk_payout := s, lk_session := ''''\<rparr>);
       if n = None \<or> n = Some 0 \<or> s \<noteq> PaySuccess then return ()
       else do { _ \<leftarrow> SettleAfterPayout e' i; return () }
     }))"

text \<open>The webhook's request: whether a secret is configured and the environment is local, whether the
  signature over the body is right, and the payment reference and status of the payload.\<close>

definition BaaSWebhook :: "match_env \<Rightarrow> match_env \<Rightarrow> bool \<Rightarrow> bool \<Rightarrow> bool \<Rightarrow> (string \<times> string) option \<Rightarrow> (match_world, nat) state" where
  "BaaSWebhook e e' secret local authentic payload =
     (if \<not> secret \<and> \<not> local then return 503
      else if secret \<and> \<not> authentic then return 401
      else (case payload of None \<Rightarrow> return 400
        | Some (ref, status) \<Rightarrow> do {
            only_if (prefix ''routeB-'' ref \<or> prefix ''routeC-'' ref) (applyFiatPayoutWebhook e e' ref status);
            return 200
          }))"

definition reconcile_order :: "match_env \<Rightarrow> lock_order \<Rightarrow> (match_world, unit) state" where
  "reconcile_order e r = (let i = lk_id r in case m_transfer_status e (lk_session r) of
     Some TransferSuccess \<Rightarrow> do {
       n \<leftarrow> update_locks e (MReconciled i) (by_id i) (\<lambda>r. r\<lparr>lk_payout := PaySuccess, lk_session := ''''\<rparr>);
       if n = None \<or> n = Some 0 then return () else do { _ \<leftarrow> SettleAfterPayout e i; return () }
     }
   | Some TransferFailed \<Rightarrow> do {
       _ \<leftarrow> update_locks e (MReconciled i) (by_id i) (\<lambda>r. r\<lparr>lk_payout := PayFailed, lk_session := ''''\<rparr>);
       return ()
     }
   | _ \<Rightarrow> return ())"

definition ReconcileFiatPayouts :: "match_env \<Rightarrow> (match_world, unit) state" where
  "ReconcileFiatPayouts e = (if \<not> m_rail e then return ()
   else do {
     w \<leftarrow> fetch;
     if fails e MReconcile then return ()
     else for_each (filter (\<lambda>r. lk_payout r = PayPending \<and> lk_session r \<noteq> '''') (mw_orders w)) (reconcile_order e)
   })"

end
