(* ===== verification/Match_Provider.thy ===== *)
theory Match_Provider imports Match_Execute begin

text \<open>
  The provider's node (controllers/provider/provider.go): it accepts or declines the request it
  was sent, reports the fulfilment of an order and its validation, and cancels an order. A
  result is the HTTP status; what the handlers start in the background runs in a second
  environment.
\<close>

section \<open>Requests\<close>

text \<open>\<open>HGetAll\<close>: an expired key is gone.\<close>

definition live_request :: "match_env \<Rightarrow> nat \<Rightarrow> match_world \<Rightarrow> order_request option" where
  "live_request e i w = (case mw_requests w i of None \<Rightarrow> None
     | Some q \<Rightarrow> (case rq_expires q of None \<Rightarrow> Some q | Some t \<Rightarrow> if t \<le> m_now e then None else Some q))"

text \<open>The provider and the order's id as the middleware and the router give them.\<close>

definition with_request ::
  "match_env \<Rightarrow> string option \<Rightarrow> nat option \<Rightarrow> (string \<Rightarrow> nat \<Rightarrow> (match_world, nat) state) \<Rightarrow> (match_world, nat) state" where
  "with_request e prov orderID f = (case prov of None \<Rightarrow> return 401
   | Some p \<Rightarrow> (case orderID of None \<Rightarrow> return 400
   | Some i \<Rightarrow> if fails e MRequestGet then return 500
     else do {
       w \<leftarrow> fetch;
       if (case live_request e i w of None \<Rightarrow> True | Some q \<Rightarrow> rq_provider q \<noteq> p) then return 404
       else do {
         delete_request e i;
         if fails e MDel then return 500 else f p i
       }
     }))"

definition AcceptOrder :: "match_env \<Rightarrow> string option \<Rightarrow> nat option \<Rightarrow> (match_world, nat) state" where
  "AcceptOrder e prov orderID = with_request e prov orderID (\<lambda>p i.
     if fails e MLog then return 500
     else do {
       n \<leftarrow> update_locks e MAccept (by_id i) (\<lambda>r. r\<lparr>lk_status := LkProcessing, lk_provider := Some p\<rparr>);
       return (case n of None \<Rightarrow> 500 | Some k \<Rightarrow> if k = 0 then 404 else 201)
     })"

definition DeclineOrder :: "match_env \<Rightarrow> string option \<Rightarrow> nat option \<Rightarrow> (match_world, nat) state" where
  "DeclineOrder e prov orderID = with_request e prov orderID (\<lambda>p i. do {
     exclude_provider e i p;
     return (if fails e MExcludePush then 500 else 200)
   })"

section \<open>Fulfilment\<close>

record fulfill_req =
  fr_tx :: string
  fr_status :: validation

definition find_fulfillment :: "string \<Rightarrow> match_world \<Rightarrow> fulfillment option" where
  "find_fulfillment tx w = find (\<lambda>f. fu_tx f = tx) (mw_fulfillments w)"

definition set_validation :: "match_env \<Rightarrow> match_site \<Rightarrow> string \<Rightarrow> validation \<Rightarrow> (match_world, bool) state" where
  "set_validation e s tx v = (if m_fault e s = DbFail then return False
   else do {
     modify (\<lambda>w. w\<lparr>mw_fulfillments := map (\<lambda>f. if fu_tx f = tx then f\<lparr>fu_status := v, fu_updated := m_now e\<rparr> else f) (mw_fulfillments w)\<rparr>);
     return (m_fault e s = DbOk)
   })"

text \<open>Query or create by the transaction id.\<close>

definition fulfillment_of :: "match_env \<Rightarrow> nat \<Rightarrow> string \<Rightarrow> (match_world, fulfillment option) state" where
  "fulfillment_of e i tx = (if fails e MFulfillQuery then return None
   else do {
     w \<leftarrow> fetch;
     case find_fulfillment tx w of Some f \<Rightarrow> return (Some f)
     | None \<Rightarrow> do {
         ok \<leftarrow> record_fulfillment e i tx ValPending;
         w' \<leftarrow> fetch;
         return (if ok then find_fulfillment tx w' else None)
       }
   })"

definition update_active :: "match_env \<Rightarrow> nat \<Rightarrow> lock_status \<Rightarrow> (match_world, nat) state" where
  "update_active e i s = do {
     n \<leftarrow> update_locks e MOrderUpdate (\<lambda>r. lk_id r = i \<and> lk_status r \<in> {LkProcessing, LkFulfilled}) (\<lambda>r. r\<lparr>lk_status := s\<rparr>);
     return (if n = None then 500 else 200)
   }"

text \<open>The status that is checked is that of the fulfilment's order; the one that is set and
  settled is that of the order in the path.\<close>

definition FulfillOrder :: "match_env \<Rightarrow> match_env \<Rightarrow> fulfill_req option \<Rightarrow> string option \<Rightarrow> nat option \<Rightarrow> (match_world, nat) state" where
  "FulfillOrder e e' req prov orderID = (case req of None \<Rightarrow> return 400
   | Some r \<Rightarrow> (case prov of None \<Rightarrow> return 401
   | Some _ \<Rightarrow> (case orderID of None \<Rightarrow> return 400
   | Some i \<Rightarrow> do {
       f \<leftarrow> fulfillment_of e i (fr_tx r);
       case f of None \<Rightarrow> return 500
       | Some f \<Rightarrow> (case fr_status r of
           ValSuccess \<Rightarrow> do {
             w \<leftarrow> fetch;
             if map_option lk_status (find_lock (fu_order f) w) \<noteq> Some LkFulfilled then return 200
             else do {
               ok \<leftarrow> set_validation e MFulfillUpdate (fu_tx f) ValSuccess;
               if \<not> ok \<or> fails e MLog then return 500
               else do {
                 c \<leftarrow> update_active e i LkValidated;
                 if c = 500 then return 500 else do { _ \<leftarrow> SettleOrder e' i; return 200 }
               }
             }
           }
         | ValFailed \<Rightarrow> do {
             ok \<leftarrow> set_validation e MFulfillUpdate (fu_tx f) ValFailed;
             if \<not> ok then return 500 else update_active e i LkFulfilled
           }
         | ValPending \<Rightarrow> if fails e MLog then return 500 else update_active e i LkFulfilled)
     })))"

section \<open>Cancellation\<close>

text \<open>The last entry of the provider in the queue is overwritten and removed.\<close>

fun drop_entry :: "string \<Rightarrow> string list \<Rightarrow> string list" where
  "drop_entry p [] = []"
| "drop_entry p (x # xs) = (if (case split_at CHR '':'' x of [q, _, _, _, _] \<Rightarrow> q = p | _ \<Rightarrow> False) then xs
     else x # drop_entry p xs)"

definition remove_from_queue :: "match_env \<Rightarrow> string \<Rightarrow> string \<Rightarrow> (match_world, unit) state" where
  "remove_from_queue e p key = only_if (m_fault e MPop \<noteq> DbFail)
     (modify (\<lambda>w. w\<lparr>mw_queues := (mw_queues w)(key := rev (drop_entry p (rev (mw_queues w key))))\<rparr>))"

definition cancellations :: "match_env \<Rightarrow> provider \<Rightarrow> string \<Rightarrow> lock_order \<Rightarrow> int" where
  "cancellations e p why r = (if why = ''Invalid recipient bank details'' \<or> pv_private p
     then lk_cancellations r + m_refund_count e
     else if why \<noteq> ''Insufficient funds'' then lk_cancellations r + 1 else lk_cancellations r)"

text \<open>An order without a bucket cannot be cancelled for insufficient funds: the handler panics.\<close>

definition CancelOrder :: "match_env \<Rightarrow> match_env \<Rightarrow> string option \<Rightarrow> provider option \<Rightarrow> nat option \<Rightarrow> (match_world, nat) state" where
  "CancelOrder e e' req prov orderID = (case req of None \<Rightarrow> return 400
   | Some why \<Rightarrow> (case prov of None \<Rightarrow> return 401
   | Some p \<Rightarrow> (case orderID of None \<Rightarrow> return 400
   | Some i \<Rightarrow> do {
       w \<leftarrow> fetch;
       case (if fails e MOrderLoad then None else find_lock i w) of None \<Rightarrow> return 404
       | Some r \<Rightarrow>
           if lk_provider r \<noteq> Some (pv_id p) then return 404
           else (let count = cancellations e p why r;
                     short = (why = ''Insufficient funds'' \<and> \<not> pv_private p) in
             if short \<and> lk_bucket r = None then return 500
             else do {
               only_if short (remove_from_queue e (pv_id p) (the (lk_bucket r)));
               n \<leftarrow> update_locks e MCancel (by_id i) (\<lambda>r. r\<lparr>lk_status := LkCancelled, lk_cancellations := count\<rparr>);
               if n = None \<or> n = Some 0 then return 500
               else do {
                 (if m_refund_count e \<le> count then do { _ \<leftarrow> RefundOrder e' (lk_gateway r); return () } else return ());
                 exclude_provider e i (pv_id p);
                 return (if fails e MExcludePush then 500 else 200)
               }
             })
     })))"

end
