(* ===== verification/Match_Tasks.thy ===== *)
theory Match_Tasks imports Match_Assign Match_Provider begin

text \<open>
  The recurring jobs over escrowed orders (tasks/tasks.go): orders that were declined, not
  fulfilled or not validated go back to the matching engine. A job returns whether it ran to its
  end without a panic, and \<open>None\<close> when an assignment does not return; the rounds of the
  assignments have environments of their own.
\<close>

section \<open>Loops over orders\<close>

fun sweep :: "('a \<Rightarrow> match_world \<Rightarrow> (bool \<times> match_world) option) \<Rightarrow> 'a list \<Rightarrow> match_world \<Rightarrow> (bool \<times> match_world) option" where
  "sweep f [] w = Some (True, w)"
| "sweep f (x # xs) w = (case f x w of None \<Rightarrow> None
     | Some (ok, w') \<Rightarrow> if ok then sweep f xs w' else Some (False, w'))"

text \<open>The fields an order is assigned with: \<open>UpdatedAt\<close> is not among them and stays Go's zero time.\<close>

definition zero_time :: instant where "zero_time = - 62135596800 * second"

definition fields_of :: "lock_order \<Rightarrow> string \<Rightarrow> assign_fields" where
  "fields_of r p = \<lparr>af_id = lk_id r, af_provider = p, af_rate = lk_rate r, af_amount = lk_amount r, af_symbol = lk_symbol r,
     af_institution = lk_institution r, af_bucket = lk_bucket r, af_updated = zero_time\<rparr>"

definition provider_edge :: "lock_order \<Rightarrow> match_world \<Rightarrow> provider option" where
  "provider_edge r w = Option.bind (lk_provider r) (\<lambda>p. find_provider p w)"

definition edge_id :: "lock_order \<Rightarrow> match_world \<Rightarrow> string" where
  "edge_id r w = (case provider_edge r w of None \<Rightarrow> '''' | Some p \<Rightarrow> pv_id p)"

text \<open>An error of the assignment is logged.\<close>

definition assign_order :: "(nat \<Rightarrow> match_env) \<Rightarrow> assign_fields \<Rightarrow> match_world \<Rightarrow> (bool \<times> match_world) option" where
  "assign_order E ao w = map_option (\<lambda>(_, w'). (True, w')) (AssignLockPaymentOrder E 0 ao w)"

section \<open>Fulfilments of an order\<close>

definition fulfillments_of :: "nat \<Rightarrow> match_world \<Rightarrow> fulfillment list" where
  "fulfillments_of i w = filter (\<lambda>f. fu_order f = i) (mw_fulfillments w)"

definition has_fulfillment :: "(fulfillment \<Rightarrow> bool) \<Rightarrow> nat \<Rightarrow> match_world \<Rightarrow> bool" where
  "has_fulfillment P i w \<longleftrightarrow> (\<exists>f \<in> set (fulfillments_of i w). P f)"

definition unfulfilled :: "nat \<Rightarrow> match_world \<Rightarrow> bool" where
  "unfulfilled i w \<longleftrightarrow> fulfillments_of i w = [] \<or>
     has_fulfillment (\<lambda>f. fu_status f = ValFailed \<and> fu_status f \<noteq> ValSuccess \<and> fu_status f \<noteq> ValPending) i w"

definition paying :: "lock_order \<Rightarrow> bool" where
  "paying r \<longleftrightarrow> lk_payout r \<in> {PayPending, PaySuccess}"

text \<open>\<open>time.Now().Add(-validity * time.Minute)\<close>: the validity is a duration already, and the
  product of the two is taken in 64 bits.\<close>

definition cutoff :: "match_env \<Rightarrow> instant" where
  "cutoff e = m_now e + int64 (int64 (- m_fulfil_validity e) * minute)"

section \<open>The jobs\<close>

definition reassign_pending :: "match_env \<Rightarrow> (nat \<Rightarrow> nat \<Rightarrow> match_env) \<Rightarrow> lock_order \<Rightarrow> match_world \<Rightarrow> (bool \<times> match_world) option" where
  "reassign_pending e A r w = (if fails e (MExists (lk_id r)) \<or> live_request e (lk_id r) w \<noteq> None then Some (True, w)
     else assign_order (A (lk_id r)) (fields_of r (edge_id r w)) w)"

definition ReassignPendingOrders :: "match_env \<Rightarrow> (nat \<Rightarrow> nat \<Rightarrow> match_env) \<Rightarrow> match_world \<Rightarrow> (bool \<times> match_world) option" where
  "ReassignPendingOrders e A w =
     (let open_order = (\<lambda>r v. lk_status r = LkPending \<and> fulfillments_of (lk_id r) v = []);
          (n, w1) = run_state (update_locks e MSweep (\<lambda>r. open_order r w) (\<lambda>r. r\<lparr>lk_provider := None\<rparr>)) w in
      if n = None \<or> fails e MSweepQuery then Some (True, w1)
      else sweep (reassign_pending e A) (filter (\<lambda>r. open_order r w1) (mw_orders w1)) w1)"

definition unassignable :: "match_env \<Rightarrow> lock_order \<Rightarrow> match_world \<Rightarrow> bool" where
  "unassignable e r w \<longleftrightarrow> \<not> paying r \<and>
     (lk_status r = LkProcessing \<and> lk_updated r \<le> cutoff e \<or> lk_status r = LkCancelled) \<and> unfulfilled (lk_id r) w"

definition reassignable :: "match_env \<Rightarrow> lock_order \<Rightarrow> match_world \<Rightarrow> bool" where
  "reassignable e r w \<longleftrightarrow> \<not> paying r \<and> unfulfilled (lk_id r) w \<and> lk_status r \<in> {LkProcessing, LkCancelled} \<and>
     ((lk_status r = LkProcessing \<and> lk_updated r \<le> cutoff e \<or> lk_status r = LkCancelled) \<or>
      has_fulfillment (\<lambda>f. fu_created f \<le> cutoff e) (lk_id r) w)"

definition ReassignUnfulfilledLockOrders :: "match_env \<Rightarrow> (nat \<Rightarrow> nat \<Rightarrow> match_env) \<Rightarrow> match_world \<Rightarrow> (bool \<times> match_world) option" where
  "ReassignUnfulfilledLockOrders e A w =
     (let (n, w1) = run_state (update_locks e MSweep (\<lambda>r. unassignable e r w) (\<lambda>r. r\<lparr>lk_status := LkPending, lk_provider := None\<rparr>)) w in
      if n = None \<or> fails e MSweepQuery then Some (True, w1)
      else sweep (\<lambda>r. assign_order (A (lk_id r)) (fields_of r (edge_id r w1))) (filter (\<lambda>r. reassignable e r w1) (mw_orders w1)) w1)"

definition unvalidated :: "match_env \<Rightarrow> lock_order \<Rightarrow> match_world \<Rightarrow> bool" where
  "unvalidated e r w \<longleftrightarrow> \<not> paying r \<and>
     (lk_status r = LkFulfilled \<or> lk_status r = LkCancelled \<and> has_fulfillment (\<lambda>f. fu_status f = ValPending) (lk_id r) w) \<and>
     (has_fulfillment (\<lambda>f. fu_status f = ValFailed \<and> fu_status f \<noteq> ValSuccess \<and> fu_status f \<noteq> ValPending) (lk_id r) w \<or>
      has_fulfillment (\<lambda>f. fu_status f = ValPending) (lk_id r) w \<and>
        has_fulfillment (\<lambda>f. fu_updated f \<le> cutoff e \<and> \<not> cutoff e < fu_updated f) (lk_id r) w \<or>
      has_fulfillment (\<lambda>f. fu_status f = ValSuccess) (lk_id r) w)"

definition set_checked :: "match_env \<Rightarrow> nat \<Rightarrow> string \<Rightarrow> lock_status \<Rightarrow> (match_world, bool) state" where
  "set_checked e i tx s = do {
     _ \<leftarrow> update_locks e (MCheckedOrder tx) (by_id i) (\<lambda>r. r\<lparr>lk_status := s\<rparr>);
     return True
   }"

text \<open>A provider that is gone and an answer of another shape are panics.\<close>

definition check_pending :: "match_env \<Rightarrow> provider option \<Rightarrow> nat \<Rightarrow> string \<Rightarrow> (match_world, bool) state" where
  "check_pending e prov i tx = (case prov of None \<Rightarrow> return False
   | Some p \<Rightarrow> (case m_tx_status e (pv_host p) tx of NodeDown \<Rightarrow> return True | NodeGarbled \<Rightarrow> return False
     | NodeSays s err \<Rightarrow>
         if s = ''failed'' then (case err of None \<Rightarrow> return False
           | Some _ \<Rightarrow> do {
               ok \<leftarrow> set_validation e (MChecked tx) tx ValFailed;
               if ok then set_checked e i tx LkFulfilled else return True
             })
         else if s = ''success'' then do {
           ok \<leftarrow> set_validation e (MChecked tx) tx ValSuccess;
           if ok \<and> \<not> fails e (MCheckedLog tx) then set_checked e i tx LkValidated else return True
         }
         else return True))"

definition check_fulfillment ::
  "match_env \<Rightarrow> (string \<Rightarrow> nat \<Rightarrow> match_env) \<Rightarrow> lock_order \<Rightarrow> provider option \<Rightarrow> fulfillment \<Rightarrow> match_world \<Rightarrow> (bool \<times> match_world) option" where
  "check_fulfillment e A r prov f w = (case fu_status f of
     ValPending \<Rightarrow> Some (run_state (check_pending e prov (lk_id r) (fu_tx f)) w)
   | ValFailed \<Rightarrow> (case prov of None \<Rightarrow> Some (False, w)
       | Some p \<Rightarrow> if pv_private p then Some (True, w) else assign_order (A (fu_tx f)) (fields_of r '''') w)
   | ValSuccess \<Rightarrow> if fails e (MCheckedLog (fu_tx f)) then Some (True, w)
       else Some (run_state (set_checked e (lk_id r) (fu_tx f) LkValidated) w))"

definition ReassignUnvalidatedLockOrders ::
  "match_env \<Rightarrow> (string \<Rightarrow> nat \<Rightarrow> match_env) \<Rightarrow> match_world \<Rightarrow> (bool \<times> match_world) option" where
  "ReassignUnvalidatedLockOrders e A w = (if fails e MSweepQuery then Some (True, w)
     else sweep (\<lambda>r. sweep (check_fulfillment e A r (provider_edge r w)) (fulfillments_of (lk_id r) w))
       (filter (\<lambda>r. unvalidated e r w) (mw_orders w)) w)"

text \<open>A request that expired: the order is loaded without the bucket's currency and without its
  token and provider.\<close>

definition ReassignStaleOrderRequest :: "match_env \<Rightarrow> (nat \<Rightarrow> match_env) \<Rightarrow> nat option \<Rightarrow> match_world \<Rightarrow> (bool \<times> match_world) option" where
  "ReassignStaleOrderRequest e A orderID w = (case orderID of None \<Rightarrow> Some (True, w)
   | Some i \<Rightarrow> (case (if fails e MSweepQuery then None else find_lock i w) of None \<Rightarrow> Some (True, w)
     | Some r \<Rightarrow> assign_order A ((fields_of r '''')\<lparr>af_symbol := '''', af_bucket := None\<rparr>) w))"

end
