(* ===== verification/Match_Runs.thy ===== *)
theory Match_Runs imports Match_Tasks begin

text \<open>
  Runs of the matching engine and of the executions it starts. An execution is a sequence of
  steps (check, claim, transfer, result); the provider endpoints, the rail's webhook, the
  reconciler, the recurring jobs, other executions and crashes come between any two of them.
  Along every run with at most one execution of an order at a time and no transfer that is
  submitted and then reported as an error, an order is paid at most once.
\<close>

section \<open>Steps\<close>

datatype exec_stage = Checked lock_order provider | Claimed lock_order provider | Transferred lock_order transfer_res

type_synonym match_sys = "match_world \<times> (nat \<times> string \<times> exec_stage) list"

definition match_requests :: "(match_world, unit) state set" where
  "match_requests = {m. \<exists>e e' prov i f why p ref raw bs. m \<in> {
     do { _ \<leftarrow> AcceptOrder e prov i; return () }, do { _ \<leftarrow> DeclineOrder e prov i; return () },
     do { _ \<leftarrow> FulfillOrder e e' f prov i; return () }, do { _ \<leftarrow> CancelOrder e e' why p i; return () },
     applyFiatPayoutWebhook e e' ref raw, ReconcileFiatPayouts e, ProcessBucketQueues e bs}}"

definition match_jobs :: "(match_world \<Rightarrow> (bool \<times> match_world) option) set" where
  "match_jobs = {j. \<exists>e A B C ao i. j \<in> {ReassignPendingOrders e A, ReassignUnfulfilledLockOrders e A,
     ReassignUnvalidatedLockOrders e B, ReassignStaleOrderRequest e C i, assign_order C ao}}"

inductive match_step :: "match_sys \<Rightarrow> match_sys \<Rightarrow> bool" where
  created: "lk_id r \<notin> lk_id ` set (mw_orders w) \<Longrightarrow> lk_payout r = PayNone \<Longrightarrow>
     match_step (w, q) (w\<lparr>mw_orders := mw_orders w @ [r]\<rparr>, q)"
| started: "i \<notin> fst ` set q \<Longrightarrow> run_state (execute_check e i p) w = (Some (r, lp), w') \<Longrightarrow>
     match_step (w, q) (w', (i, p, Checked r lp) # q)"
| not_started: "i \<notin> fst ` set q \<Longrightarrow> run_state (execute_check e i p) w = (None, w') \<Longrightarrow> match_step (w, q) (w', q)"
| claimed: "run_state (execute_claim e i p) w = (True, w') \<Longrightarrow>
     match_step (w, a @ (i, p, Checked r lp) # b) (w', a @ (i, p, Claimed r lp) # b)"
| not_claimed: "run_state (execute_claim e i p) w = (False, w') \<Longrightarrow>
     match_step (w, a @ (i, p, Checked r lp) # b) (w', a @ b)"
| sent: "m_name_enquiry e (lk_institution r) (lk_account r) \<noteq> None \<Longrightarrow> m_transfer e i \<noteq> TransferErr True \<Longrightarrow>
     match_step (w, a @ (i, p, Claimed r lp) # b)
       (snd (run_state (log_match (payout_call e r p)) w), a @ (i, p, Transferred r (m_transfer e i)) # b)"
| not_sent: "m_name_enquiry e (lk_institution r) (lk_account r) = None \<Longrightarrow>
     match_step (w, a @ (i, p, Claimed r lp) # b) (snd (run_state (reassign e i p) w), a @ b)"
| finished: "match_step (w, a @ (i, p, Transferred r t) # b) (snd (run_state (payout_result e i p t) w), a @ b)"
| dropped: "match_step (w, a @ x # b) (w, a @ b)"
| requested: "m \<in> match_requests \<Longrightarrow> match_step (w, q) (snd (run_state m w), q)"
| job: "j \<in> match_jobs \<Longrightarrow> j w = Some (ok, w') \<Longrightarrow> match_step (w, q) (w', q)"

inductive match_run :: "match_sys \<Rightarrow> bool" where
  start: "mw_orders w = [] \<Longrightarrow> mw_calls w = [] \<Longrightarrow> match_run (w, [])"
| step: "match_run s \<Longrightarrow> match_step s t \<Longrightarrow> match_run t"

section \<open>Operations that leave orders and calls alone\<close>

definition book_at :: "lock_order list \<Rightarrow> match_call list \<Rightarrow> match_world \<Rightarrow> bool" where
  "book_at os cs w \<longleftrightarrow> mw_orders w = os \<and> mw_calls w = cs"

named_theorems book_intros \<open>operations that leave orders and calls alone\<close>

lemma book_modify:
  "(\<And>w. mw_orders (f w) = mw_orders w) \<Longrightarrow> (\<And>w. mw_calls (f w) = mw_calls w) \<Longrightarrow> keeps (book_at os cs) (modify f)"
  by (simp add: keeps_def book_at_def)

lemma book_ops [book_intros]:
  "keeps (book_at os cs) (notifyProvider e d ao)" "keeps (book_at os cs) (refresh_rate e p ao)"
  "keeps (book_at os cs) (rotate_queue e key i)" "keeps (book_at os cs) (exclude_provider e i' s)"
  "keeps (book_at os cs) (delete_request e i')" "keeps (book_at os cs) (remove_from_queue e s key)"
  "keeps (book_at os cs) (set_validation e st tx v)" "keeps (book_at os cs) (record_fulfillment e i' tx v)"
  "keeps (book_at os cs) (enqueue_token e b p t)"
  unfolding notifyProvider_def spawn_def refresh_rate_def rotate_queue_def exclude_provider_def delete_request_def
    remove_from_queue_def set_validation_def record_fulfillment_def enqueue_token_def Let_def
  by (intro keeps_intros book_modify; simp)+

lemma enqueue_book [book_intros]: "keeps (book_at os cs) (CreatePriorityQueueForBucket e b ps)"
  unfolding CreatePriorityQueueForBucket_def enqueue_provider_def by (intro keeps_intros book_intros book_modify; simp)

lemma buckets_book: "keeps (book_at os cs) (ProcessBucketQueues e bs)"
  unfolding ProcessBucketQueues_def by (intro keeps_intros book_intros)

lemma send_book [book_intros]: "keeps (book_at os cs) (sendOrderRequest e d ao)"
  unfolding sendOrderRequest_def by (intro keeps_intros book_intros book_modify; simp)

lemma direct_book [book_intros]: "keeps (book_at os cs) (direct_send e ao)"
  unfolding direct_send_def by (intro keeps_intros book_intros)

lemma queue_send_book [book_intros]: "keeps (book_at os cs) (queue_send e ex ao key)"
  unfolding queue_send_def Let_def by (intro keeps_intros book_intros book_modify; simp)

lemma round_book: "keeps (book_at os cs) (assign_round e ao)"
proof -
  have "keeps (book_at os cs) (case d of Sent \<Rightarrow> return (Stop True) | Private \<Rightarrow> return (Stop True)
       | Through ao' \<Rightarrow> (case af_bucket ao' of None \<Rightarrow> return (Stop True) | Some key \<Rightarrow> queue_send e ex ao' key))" for d ex
    by (cases d) (auto intro!: keeps_intros book_intros)
  then show ?thesis
    unfolding assign_round_def Let_def by (intro keeps_intros book_intros)
qed

lemma assign_book:
  "AssignLockPaymentOrder E n ao w = Some r \<Longrightarrow> book_at os cs w \<longrightarrow> book_at os cs (snd r)"
proof (erule AssignLockPaymentOrder.raw_induct [rotated -1])
  fix rec E n ao w r
  assume ih: "\<And>E n ao w r. rec E n ao w = Some r \<Longrightarrow> book_at os cs w \<longrightarrow> book_at os cs (snd r)"
    and r: "(case run_state (assign_round (E n) ao) w of (Stop b, w') \<Rightarrow> Some (b, w') | (Again ao', w') \<Rightarrow> rec E (Suc n) ao' w') = Some r"
  obtain out v where v: "run_state (assign_round (E n) ao) w = (out, v)" by fastforce
  have "book_at os cs w \<longrightarrow> book_at os cs v"
    using keepsD [OF round_book, of os cs w "E n" ao] v by simp
  with r v ih show "book_at os cs w \<longrightarrow> book_at os cs (snd r)" by (cases out) auto
qed

lemma book_unchanged:
  "(\<And>os cs. keeps (book_at os cs) m) \<Longrightarrow> mw_orders (snd (run_state m w)) = mw_orders w \<and> mw_calls (snd (run_state m w)) = mw_calls w"
  using keepsD [of "book_at (mw_orders w) (mw_calls w)" m w] by (simp add: book_at_def)

lemma assign_order_book: "assign_order E ao w = Some (ok, w') \<Longrightarrow> mw_orders w' = mw_orders w \<and> mw_calls w' = mw_calls w"
  using assign_book [of E 0 ao w _ "mw_orders w" "mw_calls w"] by (auto simp: assign_order_def book_at_def)


section \<open>Operations that reopen no payout\<close>

definition payments :: "nat \<Rightarrow> match_world \<Rightarrow> match_call list" where
  "payments i w = filter (\<lambda>c. case c of CallPay j _ _ _ oc \<Rightarrow> j = i \<and> oc \<noteq> Refused | _ \<Rightarrow> False) (mw_calls w)"

text \<open>The payments are the same, and so are the orders; a payout is returned to none only in \<open>X\<close>.\<close>

definition reopens :: "nat set \<Rightarrow> match_world \<Rightarrow> match_world \<Rightarrow> bool" where
  "reopens X w0 w \<longleftrightarrow> (\<forall>i. payments i w = payments i w0) \<and>
     list_all2 (\<lambda>r0 r. lk_id r = lk_id r0 \<and> (lk_payout r = PayNone \<longrightarrow> lk_payout r0 = PayNone \<or> lk_id r0 \<in> X)) (mw_orders w0) (mw_orders w)"

lemma reopens_refl [simp]: "reopens X w w"
  by (simp add: reopens_def list_all2_refl)

lemma reopens_book: "mw_orders w' = mw_orders w \<and> mw_calls w' = mw_calls w \<Longrightarrow> reopens X w0 w \<Longrightarrow> reopens X w0 w'"
  by (simp add: reopens_def payments_def)

lemma book_reopens:
  assumes "\<And>os cs. keeps (book_at os cs) m"
  shows "keeps (reopens X w0) m"
  using book_unchanged [OF assms] reopens_book by (auto simp: keeps_def)

lemma reopens_call:
  "(case c of CallPay i p ref a oc \<Rightarrow> False | _ \<Rightarrow> True) \<Longrightarrow> keeps (reopens X w0) (log_match c)"
  unfolding log_match_def by (rule keeps_update) (auto simp: reopens_def payments_def split: match_call.splits)

lemma reopens_update:
  assumes "\<And>r. lk_id (f r) = lk_id r" "\<And>r. g r \<Longrightarrow> lk_payout (f r) = PayNone \<Longrightarrow> lk_payout r = PayNone \<or> lk_id r \<in> X"
  shows "keeps (reopens X w0) (update_locks e s g f)"
proof -
  have "reopens X w0 (map_locks e g f w)" if "reopens X w0 w" for w
  proof -
    have "list_all2 (\<lambda>r0 r. lk_id r = lk_id r0 \<and> (lk_payout r = PayNone \<longrightarrow> lk_payout r0 = PayNone \<or> lk_id r0 \<in> X))
        (mw_orders w0) (map (\<lambda>r. if g r then (f r)\<lparr>lk_updated := m_now e\<rparr> else r) (mw_orders w))"
      unfolding list_all2_map2 using that [unfolded reopens_def, THEN conjunct2]
      by (rule list_all2_mono) (auto simp: assms(1) dest: assms(2))
    with that show ?thesis by (simp add: reopens_def map_locks_def payments_def)
  qed
  then show ?thesis
    unfolding update_locks_def by (intro keeps_intros keeps_update) auto
qed

named_theorems reopens_intros \<open>operations that return no payout to none\<close>

lemma SettleOrder_reopens [reopens_intros]: "keeps (reopens X w0) (SettleOrder e i)"
proof -
  have "keeps (reopens X w0) (case oc of Done d \<Rightarrow> do { n \<leftarrow> update_locks e MTxHash (\<lambda>r. lk_id r = i) (\<lambda>r. r\<lparr>lk_tx := d\<rparr>); return (n \<noteq> None) }
           | _ \<Rightarrow> return False)" for oc
    by (cases oc) (auto intro!: keeps_intros reopens_update)
  then show ?thesis unfolding SettleOrder_def by (intro keeps_intros reopens_call) auto
qed

lemma RefundOrder_reopens [reopens_intros]: "keeps (reopens X w0) (RefundOrder e gw)"
proof -
  have "keeps (reopens X w0) (case oc of Done d \<Rightarrow> do { n \<leftarrow> update_locks e MTxHash (\<lambda>x. lk_id x = i) (\<lambda>x. x\<lparr>lk_tx := d\<rparr>); return (n \<noteq> None) }
           | _ \<Rightarrow> return False)" for oc i
    by (cases oc) (auto intro!: keeps_intros reopens_update)
  then have one: "keeps (reopens X w0) (case l of [r] \<Rightarrow> do {
         log_match (CallRefund (lk_id r) (m_refund e (lk_id r)));
         case m_refund e (lk_id r) of Done d \<Rightarrow> do { n \<leftarrow> update_locks e MTxHash (\<lambda>x. lk_id x = lk_id r) (\<lambda>x. x\<lparr>lk_tx := d\<rparr>); return (n \<noteq> None) }
         | _ \<Rightarrow> return False
       } | _ \<Rightarrow> return False)" for l
    by (cases l rule: remdups_adj.cases) (auto intro!: keeps_intros reopens_call)
  show ?thesis unfolding RefundOrder_def by (intro keeps_intros one)
qed

lemma status_reopens [reopens_intros]:
  "keeps (reopens X w0) (update_locks e s g (\<lambda>r. r\<lparr>lk_status := st\<rparr>))"
  "keeps (reopens X w0) (update_locks e s g (\<lambda>r. r\<lparr>lk_session := ref\<rparr>))"
  "keeps (reopens X w0) (update_locks e s g (\<lambda>r. r\<lparr>lk_provider := p\<rparr>))"
  "keeps (reopens X w0) (update_locks e s g (\<lambda>r. r\<lparr>lk_status := st, lk_provider := p\<rparr>))"
  "keeps (reopens X w0) (update_locks e s g (\<lambda>r. r\<lparr>lk_status := st, lk_cancellations := n\<rparr>))"
  "v \<noteq> PayNone \<Longrightarrow> keeps (reopens X w0) (update_locks e s g (\<lambda>r. r\<lparr>lk_payout := v, lk_session := ref\<rparr>))"
  by (rule reopens_update; simp)+

lemma settle_reopens [reopens_intros]: "keeps (reopens X w0) (SettleAfterPayout e i)"
  unfolding SettleAfterPayout_def by (intro keeps_intros reopens_intros book_reopens book_intros)

lemma fulfilment_reopens [reopens_intros]: "keeps (reopens X w0) (FulfillOrder e e' f prov i)"
proof -
  have val: "keeps (reopens X w0) (case v of ValSuccess \<Rightarrow> m1 | ValFailed \<Rightarrow> m2 | ValPending \<Rightarrow> m3)"
    if "keeps (reopens X w0) m1" "keeps (reopens X w0) m2" "keeps (reopens X w0) m3" for v and m1 m2 m3 :: "(match_world, nat) state"
    using that by (cases v) auto
  show ?thesis
    unfolding FulfillOrder_def fulfillment_of_def update_active_def
    by (intro keeps_intros val reopens_intros book_reopens book_intros)
qed

lemma request_reopens [reopens_intros]:
  "keeps (reopens X w0) (AcceptOrder e prov i)" "keeps (reopens X w0) (DeclineOrder e prov i)"
  "keeps (reopens X w0) (CancelOrder e e' why p i)"
  unfolding AcceptOrder_def DeclineOrder_def CancelOrder_def with_request_def Let_def
  by (intro keeps_intros reopens_intros book_reopens book_intros)+


lemma keeps_payout_word:
  "keeps I m1 \<Longrightarrow> keeps I m2 \<Longrightarrow> keeps I m3 \<Longrightarrow>
   keeps I (case t of Some TransferSuccess \<Rightarrow> m1 | Some TransferFailed \<Rightarrow> m2 | _ \<Rightarrow> m3)"
  by (simp split: option.split tf_status.split)

lemma confirm_reopens [reopens_intros]:
  "keeps (reopens X w0) (applyFiatPayoutWebhook e e' ref raw)" "keeps (reopens X w0) (ReconcileFiatPayouts e)"
proof -
  have "webhook_status raw = Some s \<Longrightarrow> s \<noteq> PayNone" for s
    by (auto simp: webhook_status_def Let_def split: if_splits)
  then show "keeps (reopens X w0) (applyFiatPayoutWebhook e e' ref raw)"
    unfolding applyFiatPayoutWebhook_def
    by (intro keeps_intros keeps_option_eq reopens_intros) auto
  have "keeps (reopens X w0) (reconcile_order e r)" for r
    unfolding reconcile_order_def Let_def by (intro keeps_payout_word keeps_intros reopens_intros) simp_all
  then show "keeps (reopens X w0) (ReconcileFiatPayouts e)"
    unfolding ReconcileFiatPayouts_def by (intro keeps_intros)
qed

lemma match_requests_reopen: "m \<in> match_requests \<Longrightarrow> keeps (reopens X w0) m"
  unfolding match_requests_def by (auto intro!: keeps_intros reopens_intros book_reopens [OF buckets_book])

section \<open>The jobs\<close>

lemma sweep_invariant:
  assumes "\<And>x w ok w'. f x w = Some (ok, w') \<Longrightarrow> I w \<Longrightarrow> I w'"
  shows "sweep f xs w = Some (ok, w') \<Longrightarrow> I w \<Longrightarrow> I w'"
  by (induction xs arbitrary: w) (auto split: option.splits if_splits prod.splits dest: assms)

lemma assign_reopens: "assign_order E ao w = Some (ok, w') \<Longrightarrow> reopens X w0 w \<Longrightarrow> reopens X w0 w'"
  by (rule reopens_book [OF assign_order_book])

lemma run_reopens: "keeps (reopens X w0) m \<Longrightarrow> run_state m w = (r, w') \<Longrightarrow> reopens X w0 w \<Longrightarrow> reopens X w0 w'"
  using keepsD by fastforce

lemma set_checked_reopens [reopens_intros]: "keeps (reopens X w0) (set_checked e i tx s)"
  unfolding set_checked_def by (intro keeps_intros reopens_intros)

lemma check_pending_reopens [reopens_intros]: "keeps (reopens X w0) (check_pending e prov i tx)"
proof -
  have node: "keeps (reopens X w0) (case a of NodeDown \<Rightarrow> m1 | NodeGarbled \<Rightarrow> m2 | NodeSays s err \<Rightarrow> f s err)"
    if "keeps (reopens X w0) m1" "keeps (reopens X w0) m2" "\<And>s err. keeps (reopens X w0) (f s err)"
    for a m1 m2 and f :: "string \<Rightarrow> string option \<Rightarrow> (match_world, bool) state"
    using that by (cases a) auto
  show ?thesis
    unfolding check_pending_def by (intro keeps_intros node reopens_intros book_reopens book_intros)
qed

lemma check_fulfillment_reopens:
  "check_fulfillment e A r prov f w = Some (ok, w') \<Longrightarrow> reopens X w0 w \<Longrightarrow> reopens X w0 w'"
  unfolding check_fulfillment_def
  using run_reopens [OF check_pending_reopens] run_reopens [OF set_checked_reopens]
  by (auto split: validation.splits option.splits if_splits dest: assign_reopens)

lemma match_jobs_reopen:
  assumes "j \<in> match_jobs" "j w = Some (ok, w')" "reopens X w0 w"
  shows "reopens X w0 w'"
proof -
  have pending: "reopens X w0 v'" if "reassign_pending e A r v = Some (ok, v')" "reopens X w0 v" for e A r v ok v'
    using that by (auto simp: reassign_pending_def split: if_splits dest: assign_reopens)
  consider e A where "j = ReassignPendingOrders e A" | e A where "j = ReassignUnfulfilledLockOrders e A"
    | e B where "j = ReassignUnvalidatedLockOrders e B" | e C i where "j = ReassignStaleOrderRequest e C i"
    | C ao where "j = assign_order C ao"
    using assms(1) by (auto simp: match_jobs_def)
  then show ?thesis
  proof cases
    case 1
    let ?m = "update_locks e MSweep (\<lambda>r. lk_status r = LkPending \<and> fulfillments_of (lk_id r) w = []) (\<lambda>r. r\<lparr>lk_provider := None\<rparr>)"
    obtain n w1 where m: "run_state ?m w = (n, w1)" by fastforce
    then have "reopens X w0 w1" using assms(3) by (rule run_reopens [OF status_reopens(3)])
    then have "sweep (reassign_pending e A) xs w1 = Some (ok, w') \<Longrightarrow> reopens X w0 w'" for xs
      by (rule sweep_invariant [of "reassign_pending e A" "reopens X w0", rotated 2]) (rule pending)
    with 1 assms(2) m \<open>reopens X w0 w1\<close> show ?thesis
      by (auto simp: ReassignPendingOrders_def Let_def split: if_splits)
  next
    case 2
    let ?m = "update_locks e MSweep (\<lambda>r. unassignable e r w) (\<lambda>r. r\<lparr>lk_status := LkPending, lk_provider := None\<rparr>)"
    obtain n w1 where m: "run_state ?m w = (n, w1)" by fastforce
    then have "reopens X w0 w1" using assms(3) by (rule run_reopens [OF status_reopens(4)])
    then have "sweep (\<lambda>r. assign_order (A (lk_id r)) (fields_of r (edge_id r w1))) xs w1 = Some (ok, w') \<Longrightarrow> reopens X w0 w'" for xs
      by (rule sweep_invariant [of "\<lambda>r. assign_order (A (lk_id r)) (fields_of r (edge_id r w1))" "reopens X w0", rotated 2])
        (rule assign_reopens)
    with 2 assms(2) m \<open>reopens X w0 w1\<close> show ?thesis
      by (auto simp: ReassignUnfulfilledLockOrders_def Let_def split: if_splits)
  next
    case 3
    have "reopens X w0 v'" if "sweep (check_fulfillment e B r p) fs v = Some (ok, v')" "reopens X w0 v" for r p fs v ok v'
      by (rule sweep_invariant [of "check_fulfillment e B r p" "reopens X w0", OF _ that]) (rule check_fulfillment_reopens)
    then have "sweep (\<lambda>r. sweep (check_fulfillment e B r (provider_edge r w)) (fulfillments_of (lk_id r) w)) rs w = Some (ok, w')
        \<Longrightarrow> reopens X w0 w'" for rs
      by (rule sweep_invariant [of "\<lambda>r. sweep (check_fulfillment e B r (provider_edge r w)) (fulfillments_of (lk_id r) w)" "reopens X w0"])
        (use assms(3) in auto)
    with 3 assms(2,3) show ?thesis
      by (auto simp: ReassignUnvalidatedLockOrders_def split: if_splits)
  next
    case 4
    with assms(2,3) show ?thesis
      by (auto simp: ReassignStaleOrderRequest_def split: option.splits if_splits dest: assign_reopens)
  next
    case 5
    with assms show ?thesis by (auto dest: assign_reopens)
  qed
qed


section \<open>Executions\<close>

definition held :: "nat \<Rightarrow> match_world \<Rightarrow> bool" where
  "held i w \<longleftrightarrow> i \<in> lk_id ` set (mw_orders w) \<and> (\<forall>r \<in> set (mw_orders w). lk_id r = i \<longrightarrow> lk_payout r \<noteq> PayNone)"

definition stage_ok :: "match_world \<Rightarrow> nat \<Rightarrow> exec_stage \<Rightarrow> bool" where
  "stage_ok w i s = (case s of Checked r lp \<Rightarrow> lk_id r = i | Claimed r lp \<Rightarrow> lk_id r = i \<and> payments i w = [] \<and> held i w
     | Transferred r t \<Rightarrow> lk_id r = i \<and> (t \<in> {TransferOk TransferSuccess, TransferOk TransferPending} \<or> payments i w = []))"

definition paid_inv :: "match_sys \<Rightarrow> bool" where
  "paid_inv = (\<lambda>(w, q). (\<forall>i. length (payments i w) \<le> 1 \<and> (payments i w \<noteq> [] \<longrightarrow> held i w)) \<and> distinct (map fst q) \<and>
     (\<forall>(i, p, s) \<in> set q. stage_ok w i s))"

lemma find_lock_SomeD: "find_lock i w = Some r \<Longrightarrow> r \<in> set (mw_orders w) \<and> lk_id r = i"
  unfolding find_lock_def by (induction "mw_orders w") (auto simp: find_Some_iff)

lemma reopens_ids:
  assumes "reopens X w w'"
  shows "lk_id ` set (mw_orders w') = lk_id ` set (mw_orders w)"
proof -
  have "list_all2 (\<lambda>r0 r. lk_id r = lk_id r0) (mw_orders w) (mw_orders w')"
    using assms by (auto simp: reopens_def elim: list_all2_mono)
  then have "map lk_id (mw_orders w') = map lk_id (mw_orders w)"
    by (induction rule: list_all2_induct) auto
  then show ?thesis by (metis list.set_map)
qed

lemma held_reopens:
  assumes "reopens X w w'" "held i w" "i \<notin> X"
  shows "held i w'"
proof -
  have all2: "list_all2 (\<lambda>r0 r. lk_id r = lk_id r0 \<and> (lk_payout r = PayNone \<longrightarrow> lk_payout r0 = PayNone \<or> lk_id r0 \<in> X)) (mw_orders w) (mw_orders w')"
    using assms(1) by (simp add: reopens_def)
  have "lk_payout r \<noteq> PayNone" if "r \<in> set (mw_orders w')" "lk_id r = i" for r
    using list_all2_source [OF all2 that(1)] that(2) assms(2,3) by (auto simp: held_def)
  with reopens_ids [OF assms(1)] assms(2) show ?thesis by (auto simp: held_def)
qed

lemma paid_reopens:
  assumes "reopens X w w'" "paid_inv (w, q)" "\<And>i. i \<in> X \<Longrightarrow> payments i w = [] \<and> i \<notin> fst ` set q"
  shows "paid_inv (w', q)"
proof -
  have same: "payments i w' = payments i w" for i using assms(1) by (simp add: reopens_def)
  have "stage_ok w' i s" if "(i, p, s) \<in> set q" for i p s
  proof -
    have "i \<notin> X" using assms(3) [of i] that by force
    moreover have "stage_ok w i s" using assms(2) that by (auto simp: paid_inv_def)
    ultimately show ?thesis
      by (auto simp: stage_ok_def same split: exec_stage.splits intro: held_reopens [OF assms(1)])
  qed
  moreover have "held i w'" if "payments i w \<noteq> []" for i
    using assms that by (intro held_reopens [OF assms(1)]) (auto simp: paid_inv_def)
  ultimately show ?thesis using assms(2) by (auto simp: paid_inv_def same)
qed

lemma paid_drop: "paid_inv (w, a @ x # b) \<Longrightarrow> paid_inv (w, a @ b)"
  by (auto simp: paid_inv_def)

lemma paid_stage: "paid_inv (w, a @ (i, p, s) # b) \<Longrightarrow> stage_ok w i s \<and> i \<notin> fst ` set (a @ b)"
  by (auto simp: paid_inv_def)

lemma paid_move: "paid_inv (w, a @ (i, p, s) # b) \<Longrightarrow> stage_ok w i s' \<Longrightarrow> paid_inv (w, a @ (i, p, s') # b)"
  by (auto simp: paid_inv_def)

lemma paid_none: "paid_inv (w, q) \<Longrightarrow> r \<in> set (mw_orders w) \<Longrightarrow> lk_payout r = PayNone \<Longrightarrow> payments (lk_id r) w = []"
  by (auto simp: paid_inv_def held_def)

lemma reassign_reopens: "keeps (reopens {i} w0) (reassign e i p)"
  unfolding reassign_def by (intro keeps_intros reopens_intros book_reopens book_intros reopens_update) (auto simp: by_id_def)

lemma fail_reopens [reopens_intros]: "keeps (reopens X w0) (fail_payout e i)" "keeps (reopens X w0) (setPayoutSuccess e i)"
  unfolding fail_payout_def setPayoutSuccess_def by (intro keeps_intros reopens_intros; simp)+

lemma result_reopens:
  "keeps (reopens (if t \<in> {TransferOk TransferSuccess, TransferOk TransferPending} then {} else {i}) w0) (payout_result e i p t)"
  unfolding payout_result_def
  by (auto split: transfer_res.split tf_status.split intro!: keeps_intros reopens_intros reassign_reopens)

lemma check_reopens:
  assumes "run_state (execute_check e i p) w = (c, w')"
  shows "reopens {i} w w' \<and> (w' = w \<or> (\<exists>r \<in> set (mw_orders w). lk_id r = i \<and> lk_payout r = PayNone)) \<and>
    (\<forall>r lp. c = Some (r, lp) \<longrightarrow> lk_id r = i)"
proof -
  have "keeps (reopens {i} w) (execute_check e i p)"
    unfolding execute_check_def by (intro keeps_intros reopens_intros reassign_reopens)
  then have "reopens {i} w w'" by (rule run_reopens [OF _ assms]) simp
  moreover have "w' = w \<or> (\<exists>r \<in> set (mw_orders w). lk_id r = i \<and> lk_payout r = PayNone)"
  proof (cases "find_lock i w")
    case (Some r)
    then show ?thesis
      using assms find_lock_SomeD [OF Some] by (cases "lk_payout r = PayNone") (auto simp: execute_check_def split: if_splits)
  qed (use assms in \<open>auto simp: execute_check_def split: if_splits\<close>)
  moreover have "lk_id r = i" if "c = Some (r, lp)" for r lp
    using assms that
    by (auto simp: execute_check_def only_if_def case_prod_unfold split: if_splits option.splits dest: find_lock_SomeD)
  ultimately show ?thesis by blast
qed


lemma check_paid:
  assumes "run_state (execute_check e i p) w = (c, w')" "paid_inv (w, q)" "i \<notin> fst ` set q"
  shows "paid_inv (w', q)"
proof (cases "w' = w")
  case False
  then have "payments i w = []" using check_reopens [OF assms(1)] paid_none [OF assms(2)] by auto
  then show ?thesis using paid_reopens [of "{i}" w w' q] check_reopens [OF assms(1)] assms by blast
qed (use assms in simp)

lemma claim_held:
  assumes "run_state (execute_claim e i p) w = (True, w')"
  shows "reopens {} w w' \<and> held i w' \<and> (\<exists>r \<in> set (mw_orders w). lk_id r = i \<and> lk_payout r = PayNone)"
proof -
  let ?g = "\<lambda>r. lk_id r = i \<and> lk_payout r = PayNone"
  let ?f = "\<lambda>r. r\<lparr>lk_provider := Some p, lk_status := LkProcessing, lk_payout := PayPending, lk_pay_ref := PaymentReference ''routeB'' i\<rparr>"
  have "keeps (reopens {} w) (execute_claim e i p)"
    unfolding execute_claim_def by (intro keeps_intros reopens_update) auto
  then have "reopens {} w w'" by (rule run_reopens [OF _ assms]) simp
  moreover have w': "w' = map_locks e ?g ?f w" and some: "filter ?g (mw_orders w) \<noteq> []"
    using assms by (auto simp: execute_claim_def update_locks_def split: if_splits)
  then obtain r where r: "r \<in> set (mw_orders w)" "lk_id r = i" "lk_payout r = PayNone"
    by (auto simp: filter_empty_conv)
  then have "i \<in> lk_id ` set (mw_orders w')"
    unfolding reopens_ids [OF \<open>reopens {} w w'\<close>] by blast
  then have "held i w'"
    by (auto simp: held_def w' map_locks_def)
  ultimately show ?thesis using r by blast
qed

lemma claim_refused: "run_state (execute_claim e i p) w = (b, w') \<Longrightarrow> reopens {} w w'"
proof -
  assume "run_state (execute_claim e i p) w = (b, w')"
  moreover have "keeps (reopens {} w) (execute_claim e i p)"
    unfolding execute_claim_def by (intro keeps_intros reopens_update) auto
  ultimately show ?thesis by (auto dest: run_reopens)
qed

lemma paid_sent:
  assumes "paid_inv (w, a @ (i, p, Claimed r lp) # b)" "m_transfer e i \<noteq> TransferErr True"
  shows "paid_inv (snd (run_state (log_match (payout_call e r p)) w), a @ (i, p, Transferred r (m_transfer e i)) # b)"
proof -
  let ?w = "snd (run_state (log_match (payout_call e r p)) w)"
  have st: "lk_id r = i" "payments i w = []" "held i w" "i \<notin> fst ` set (a @ b)"
    using paid_stage [OF assms(1)] by (simp_all add: stage_ok_def)
  have pay: "payments j ?w = payments j w @ (if j = i \<and> pay_outcome (m_transfer e i) \<noteq> Refused then [payout_call e r p] else [])" for j
    using st(1) by (auto simp: payments_def log_match_def payout_call_def)
  have held: "held j ?w = held j w" for j by (simp add: held_def log_match_def)
  have "stage_ok ?w i (Transferred r (m_transfer e i))"
    using assms(2) st(1,2) unfolding stage_ok_def pay
    by (auto simp: pay_outcome_def split: transfer_res.splits tf_status.splits)
  moreover have "stage_ok ?w j s" if "(j, p', s) \<in> set (a @ b)" for j p' s
  proof -
    have "j \<noteq> i" using that st(4) by (metis fst_conv imageI)
    moreover have "stage_ok w j s" using that paid_drop [OF assms(1)] by (auto simp: paid_inv_def split_def dest!: bspec)
    ultimately
    show ?thesis by (simp add: stage_ok_def pay held split: exec_stage.splits)
  qed
  moreover have "length (payments j ?w) \<le> 1 \<and> (payments j ?w \<noteq> [] \<longrightarrow> held j ?w)" for j
    using assms(1) st(2,3) by (cases "j = i") (simp_all add: paid_inv_def pay held)
  moreover have "distinct (map fst (a @ (i, p, Transferred r (m_transfer e i)) # b))"
    using assms(1) by (simp add: paid_inv_def)
  ultimately show ?thesis by (auto simp: paid_inv_def)
qed

lemma paid_claim:
  assumes "run_state (execute_claim e i p) w = (True, w')" "paid_inv (w, a @ (i, p, Checked r lp) # b)"
  shows "paid_inv (w', a @ (i, p, Claimed r lp) # b)"
proof -
  have claim: "reopens {} w w'" "held i w'" "payments i w = []"
    using claim_held [OF assms(1)] paid_none [OF assms(2)] by auto
  then have inv: "paid_inv (w', a @ (i, p, Checked r lp) # b)"
    using paid_reopens [OF claim(1) assms(2)] by simp
  moreover have "stage_ok w' i (Claimed r lp)"
    using paid_stage [OF inv] claim by (simp add: stage_ok_def reopens_def)
  ultimately show ?thesis by (rule paid_move)
qed

lemma paid_step:
  assumes "match_step s t" "paid_inv s"
  shows "paid_inv t"
  using assms
proof cases
  case (created r w q)
  have new: "payments j (w\<lparr>mw_orders := mw_orders w @ [r]\<rparr>) = payments j w" for j by (simp add: payments_def)
  have "held j (w\<lparr>mw_orders := mw_orders w @ [r]\<rparr>) = held j w" if "held j w" for j
    using that created by (auto simp: held_def)
  with created assms(2) show ?thesis
    by (fastforce simp: paid_inv_def new stage_ok_def split: exec_stage.splits)
next
  case (started i q e p w r lp w')
  have "paid_inv (w', q)"
    using check_paid [OF started(4)] assms(2) started by simp
  with started check_reopens [OF started(4)] show ?thesis by (force simp: paid_inv_def stage_ok_def)
next
  case (not_started i q e p w w')
  then show ?thesis
    using check_paid [OF not_started(4)] assms(2) by simp
next
  case (claimed e i p w w' a r lp b)
  then show ?thesis using paid_claim assms(2) by simp
next
  case (not_claimed e i p w w' a r lp b)
  then show ?thesis
    using paid_reopens [OF claim_refused [OF not_claimed(3)]] paid_drop [of w' a _ b] assms(2) by blast
next
  case (sent e r i a p lp b w)
  then show ?thesis using paid_sent assms(2) by simp
next
  case (not_sent e r w a i p lp b)
  have "reopens {i} w (snd (run_state (reassign e i p) w))" by (rule keepsD [OF reassign_reopens]) simp
  moreover have "payments i w = [] \<and> i \<notin> fst ` set (a @ b)"
    using not_sent assms(2) paid_stage by (fastforce simp: stage_ok_def)
  ultimately show ?thesis
    using not_sent assms(2) paid_reopens [of "{i}"] by (blast dest: paid_drop)
next
  case (finished w a i p r t b e)
  let ?X = "if t \<in> {TransferOk TransferSuccess, TransferOk TransferPending} then {} else {i}"
  have "reopens ?X w (snd (run_state (payout_result e i p t) w))" by (rule keepsD [OF result_reopens]) simp
  moreover have "j \<in> ?X \<Longrightarrow> payments j w = [] \<and> j \<notin> fst ` set (a @ b)" for j
    using finished assms(2) paid_stage [of w a i p "Transferred r t" b] by (auto simp: stage_ok_def split: if_splits)
  ultimately show ?thesis
    using finished assms(2) paid_reopens [of ?X] by (blast dest: paid_drop)
next
  case (dropped w a x b)
  then show ?thesis using assms(2) paid_drop by simp
next
  case (requested m w q)
  then show ?thesis
    using paid_reopens [OF keepsD [OF match_requests_reopen [OF requested(3)], of "{}" w w]] assms(2) by simp
next
  case (job j w ok w' q)
  then show ?thesis
    using paid_reopens [OF match_jobs_reopen [OF job(3,4), of "{}" w]] assms(2) by simp
qed

section \<open>An order is paid once\<close>

lemma match_run_paid: "match_run s \<Longrightarrow> paid_inv s"
proof (induction rule: match_run.induct)
  case (step s t)
  then show ?case by (blast intro: paid_step)
qed (simp add: paid_inv_def payments_def)

text \<open>C20. Along every run of the matching engine, in which requests, webhooks, jobs, crashes and
  the steps of executions of other orders interleave with an execution, at most one transfer that
  was not refused is made for an order.\<close>

theorem match_run_pays_once: "match_run (w, q) \<Longrightarrow> length (payments i w) \<le> 1"
  using match_run_paid [of "(w, q)"] by (simp add: paid_inv_def)

end
