(* ===== verification/Match_Results.thy ===== *)
theory Match_Results imports Match_Runs begin

text \<open>
  What single operations of the matching engine achieve: a payout is settled once, and only when
  it is confirmed; the recurring jobs return, move no money and leave orders with a payout alone;
  and the window after which an order counts as stale.
\<close>

section \<open>Settlement\<close>

lemma find_lock_map:
  "(\<And>r. lk_id (h r) = lk_id r) \<Longrightarrow>
   find_lock i (w\<lparr>mw_orders := map h (mw_orders w)\<rparr>) = map_option h (find_lock i w)"
  by (simp add: find_lock_def find_map_same)

lemma update_find:
  assumes "run_state (update_locks e s (by_id i) f) w = (n, w')" "\<And>r. lk_id (f r) = lk_id r"
  shows "mw_calls w' = mw_calls w \<and> (find_lock i w' = find_lock i w \<or>
    find_lock i w' = map_option (\<lambda>r. (f r)\<lparr>lk_updated := m_now e\<rparr>) (find_lock i w)) \<and>
    (n \<noteq> None \<longrightarrow> find_lock i w' = map_option (\<lambda>r. (f r)\<lparr>lk_updated := m_now e\<rparr>) (find_lock i w))"
proof -
  have "find_lock i (map_locks e (by_id i) f w) = map_option (\<lambda>r. (f r)\<lparr>lk_updated := m_now e\<rparr>) (find_lock i w)"
    unfolding map_locks_def using assms(2)
    by (subst find_lock_map) (auto simp: by_id_def dest: find_lock_SomeD intro!: option.map_cong)
  then show ?thesis
    using assms(1) by (auto simp: update_locks_def map_locks_def split: if_splits)
qed

lemma SettleOrder_calls:
  assumes "run_state (SettleOrder e i) w = (b, w')"
  shows "(mw_calls w' = mw_calls w \<or> mw_calls w' = mw_calls w @ [CallSettle i (m_settle e i)]) \<and>
    map_option lk_status (find_lock i w') = map_option lk_status (find_lock i w)"
proof (cases "find_lock i w")
  case (Some r)
  have by_id: "(\<lambda>r. lk_id r = i) = by_id i" by (auto simp: by_id_def)
  show ?thesis
  proof (cases "fails e MSettleLoad \<or> lk_gateway r = '''' \<or> lk_provider r = None \<or> (\<forall>x. m_settle e i \<noteq> Done x)")
    case True
    then show ?thesis
      using assms Some by (cases "m_settle e i") (auto simp: SettleOrder_def log_match_def find_lock_def split: if_splits)
  next
    case False
    then obtain x where x: "m_settle e i = Done x" by blast
    let ?w = "w\<lparr>mw_calls := mw_calls w @ [CallSettle i (Done x)]\<rparr>"
    obtain n v where u: "run_state (update_locks e MTxHash (by_id i) (\<lambda>r. r\<lparr>lk_tx := x\<rparr>)) ?w = (n, v)" by fastforce
    have "find_lock i ?w = find_lock i w" by (simp add: find_lock_def)
    with update_find [OF u] assms False Some x u show ?thesis
      by (auto simp: SettleOrder_def log_match_def by_id)
  qed
qed (use assms in \<open>auto simp: SettleOrder_def split: if_splits\<close>)

text \<open>C22. The settlement of a payout asks the gateway only for an order that is being processed and
  whose payout is confirmed, and it asks once: whatever the gateway answered, no later settlement
  of the order does anything.\<close>

theorem SettleAfterPayout_once:
  assumes "run_state (SettleAfterPayout e i) w = (b, w1)" "mw_calls w1 \<noteq> mw_calls w"
  shows "(\<exists>r. find_lock i w = Some r \<and> lk_status r = LkProcessing \<and> lk_payout r = PaySuccess) \<and>
    mw_calls w1 = mw_calls w @ [CallSettle i (m_settle e i)] \<and>
    (\<forall>e'. snd (run_state (SettleAfterPayout e' i) w1) = w1)"
proof -
  obtain r where r: "find_lock i w = Some r" "lk_status r = LkProcessing" "lk_payout r = PaySuccess" "\<not> fails e MOrderLoad" "\<not> fails e MFulfillCheck"
    using assms by (auto simp: SettleAfterPayout_def split: if_splits option.splits)
  let ?rec = "if \<exists>f \<in> set (mw_fulfillments w). fu_tx f = lk_pay_ref r then return True else record_fulfillment e i (lk_pay_ref r) ValSuccess"
  obtain ok v where v: "run_state ?rec w = (ok, v)" by fastforce
  have "keeps (book_at os cs) ?rec" for os cs by (intro keeps_intros book_intros)
  from book_unchanged [of ?rec w, OF this] v have same: "mw_calls v = mw_calls w" "find_lock i v = find_lock i w"
    by (simp_all add: find_lock_def)
  obtain n u where u: "run_state (update_locks e MValidate (by_id i) (\<lambda>r. r\<lparr>lk_status := LkValidated\<rparr>)) v = (n, u)" by fastforce
  have upd: "mw_calls u = mw_calls v" "n \<noteq> None \<Longrightarrow> map_option lk_status (find_lock i u) = Some LkValidated"
    using update_find [OF u] same r by auto
  have ok: "ok" "n \<noteq> None" "n \<noteq> Some 0" and s: "run_state (SettleOrder e i) u = (b, w1)"
    using assms r v u same upd by (auto simp: SettleAfterPayout_def split: if_splits)
  have calls: "mw_calls w1 = mw_calls w @ [CallSettle i (m_settle e i)]" "map_option lk_status (find_lock i w1) = Some LkValidated"
    using SettleOrder_calls [OF s] assms(2) same upd ok by auto
  then have "snd (run_state (SettleAfterPayout e' i) w1) = w1" for e'
    by (auto simp: SettleAfterPayout_def)
  with r calls show ?thesis by blast
qed

section \<open>The jobs\<close>

lemma sweep_total:
  assumes "\<And>x w. x \<in> set xs \<Longrightarrow> I w \<Longrightarrow> \<exists>r. f x w = Some r \<and> I (snd r)" "I w"
  shows "\<exists>r. sweep f xs w = Some r \<and> I (snd r)"
  using assms
proof (induction xs arbitrary: w)
  case (Cons x xs)
  then obtain ok w' where f: "f x w = Some (ok, w')" "I w'" by (metis list.set_intros(1) prod.collapse)
  moreover have "\<exists>r. sweep f xs w' = Some r \<and> I (snd r)"
    using Cons.IH [OF Cons.prems(1) \<open>I w'\<close>] by simp
  ultimately show ?case by (cases ok) auto
qed simp

text \<open>The orders with a payout, and the calls, as they were.\<close>

definition spared :: "match_world \<Rightarrow> match_world \<Rightarrow> bool" where
  "spared w w' \<longleftrightarrow> mw_calls w' = mw_calls w \<and> map lk_id (mw_orders w') = map lk_id (mw_orders w) \<and>
     (\<forall>r \<in> set (mw_orders w). paying r \<longrightarrow> r \<in> set (mw_orders w'))"

lemma assign_spared:
  assumes "\<And>n. m_fault (E n) MExcludePush \<noteq> DbFail" "spared w v"
  shows "\<exists>r. assign_order E ao v = Some r \<and> spared w (snd r)"
proof -
  obtain r where "AssignLockPaymentOrder E 0 ao v = Some r" using assign_returns [of E] assms(1) by blast
  then have "assign_order E ao v = Some (True, snd r)" by (simp add: assign_order_def split_def)
  with assign_order_book [OF this] assms(2) show ?thesis by (auto simp: spared_def)
qed

lemma spared_update:
  assumes "spared w v" "\<And>r. lk_id (f r) = lk_id r" "\<And>r. r \<in> set (mw_orders w) \<Longrightarrow> paying r \<Longrightarrow> \<not> g r"
  shows "spared w (snd (run_state (update_locks e s g f) v))"
proof -
  let ?h = "\<lambda>r. if g r then (f r)\<lparr>lk_updated := m_now e\<rparr> else r"
  have "r \<in> ?h ` set (mw_orders v)" if "r \<in> set (mw_orders w)" "paying r" for r
    using assms(1) assms(3) [OF that] that by (intro image_eqI [of _ _ r]) (auto simp: spared_def)
  moreover have "lk_id \<circ> ?h = lk_id"
    by (simp add: fun_eq_iff assms(2))
  ultimately have "spared w (map_locks e g f v)"
    using assms(1) by (simp add: spared_def map_locks_def)
  with assms(1) show ?thesis by (simp add: update_locks_def)
qed

lemma spared_book: "(\<And>os cs. keeps (book_at os cs) m) \<Longrightarrow> spared w v \<Longrightarrow> spared w (snd (run_state m v))"
  using book_unchanged [of m v] by (simp add: spared_def)

lemma unfulfilled_spares:
  assumes "\<And>i n. m_fault (A i n) MExcludePush \<noteq> DbFail"
  shows "\<exists>r. ReassignUnfulfilledLockOrders e A w = Some r \<and> spared w (snd r)"
proof -
  obtain n w1 where m: "run_state (update_locks e MSweep (\<lambda>r. unassignable e r w) (\<lambda>r. r\<lparr>lk_status := LkPending, lk_provider := None\<rparr>)) w = (n, w1)"
    by fastforce
  have "spared w (snd (run_state (update_locks e MSweep (\<lambda>r. unassignable e r w) (\<lambda>r. r\<lparr>lk_status := LkPending, lk_provider := None\<rparr>)) w))"
    by (rule spared_update) (auto simp: spared_def unassignable_def)
  with m have w1: "spared w w1" by simp
  then have "\<exists>r. sweep (\<lambda>r. assign_order (A (lk_id r)) (fields_of r (edge_id r w1))) xs w1 = Some r \<and> spared w (snd r)" for xs
    by (intro sweep_total assign_spared assms(1))
  with m w1 show ?thesis by (simp add: ReassignUnfulfilledLockOrders_def Let_def del: split_paired_Ex)
qed

lemma set_checked_spared:
  assumes "spared w v" "\<And>r. r \<in> set (mw_orders w) \<Longrightarrow> paying r \<Longrightarrow> lk_id r \<noteq> i"
  shows "spared w (snd (run_state (set_checked e i tx s) v))"
  using spared_update [OF assms(1), of "\<lambda>r. r\<lparr>lk_status := s\<rparr>" "by_id i" e "MCheckedOrder tx"] assms(2)
  by (auto simp: set_checked_def by_id_def case_prod_unfold)

lemma check_pending_spared:
  assumes "spared w v" "\<And>r. r \<in> set (mw_orders w) \<Longrightarrow> paying r \<Longrightarrow> lk_id r \<noteq> i"
  shows "spared w (snd (run_state (check_pending e prov i tx) v))"
proof -
  have val: "spared w (snd (run_state (do { ok \<leftarrow> set_validation e st tx x; if ok \<and> b then set_checked e i tx s else return True }) v))" for st x b s
    using spared_book [of "set_validation e st tx x", OF book_ops(7) assms(1)] set_checked_spared [OF _ assms(2)]
    by (simp add: case_prod_unfold)
  from val [of _ _ True] have val': "spared w (snd (run_state (do { ok \<leftarrow> set_validation e st tx x; if ok then set_checked e i tx s else return True }) v))" for st x s
    by simp
  show ?thesis
    unfolding check_pending_def using val val' assms(1) by (auto split: option.split node_answer.split)
qed

lemma check_fulfillment_spared:
  assumes "\<And>t n. m_fault (A t n) MExcludePush \<noteq> DbFail" "spared w v"
    "\<And>x. x \<in> set (mw_orders w) \<Longrightarrow> paying x \<Longrightarrow> lk_id x \<noteq> lk_id r"
  shows "\<exists>x. check_fulfillment e A r prov f v = Some x \<and> spared w (snd x)"
proof (cases "fu_status f")
  case ValPending
  then show ?thesis
    using check_pending_spared [OF assms(2,3)] by (simp add: check_fulfillment_def del: split_paired_Ex)
next
  case ValSuccess
  then show ?thesis
    using set_checked_spared [OF assms(2,3)] assms(2) by (simp add: check_fulfillment_def del: split_paired_Ex)
next
  case ValFailed
  then show ?thesis
    using assign_spared [OF assms(1,2)] assms(2) by (auto simp: check_fulfillment_def split: option.split)
qed

lemma unvalidated_spares:
  assumes "\<And>t n. m_fault (A t n) MExcludePush \<noteq> DbFail" "distinct (map lk_id (mw_orders w))"
  shows "\<exists>r. ReassignUnvalidatedLockOrders e A w = Some r \<and> spared w (snd r)"
proof -
  have apart: "lk_id x \<noteq> lk_id r" if "r \<in> set (filter (\<lambda>r. unvalidated e r w) (mw_orders w))" "x \<in> set (mw_orders w)" "paying x" for r x
    using that assms(2) by (auto simp: unvalidated_def distinct_map dest: inj_onD)
  have "\<exists>x. sweep (\<lambda>r. sweep (check_fulfillment e A r (provider_edge r w)) (fulfillments_of (lk_id r) w))
      (filter (\<lambda>r. unvalidated e r w) (mw_orders w)) w = Some x \<and> spared w (snd x)"
  proof (rule sweep_total)
    show "\<exists>x. sweep (check_fulfillment e A r (provider_edge r w)) (fulfillments_of (lk_id r) w) v = Some x \<and> spared w (snd x)"
      if "r \<in> set (filter (\<lambda>r. unvalidated e r w) (mw_orders w))" "spared w v" for r v
      by (rule sweep_total [OF check_fulfillment_spared [OF assms(1) _ apart [OF that(1)]] that(2)])
  qed (simp add: spared_def)
  then show ?thesis by (simp add: ReassignUnvalidatedLockOrders_def spared_def del: split_paired_Ex)
qed


section \<open>The window\<close>

text \<open>With the default window of ten minutes the product of the two durations overflows, so
  that the instant before which an order counts as stale lies more than 250 years ahead: an order
  accepted at this moment is taken from its provider, where the code means to wait ten minutes.\<close>

theorem fulfilment_window_overflows:
  assumes "m_fulfil_validity e = 10 * minute" "lk_status r = LkProcessing" "\<not> paying r" "fulfillments_of (lk_id r) w = []"
    "lk_updated r \<le> m_now e"
  shows "m_now e + 250 * 365 * 24 * hour < cutoff e \<and> unassignable e r w"
proof -
  have "int64 (int64 (- (10 * minute)) * minute) = 8044431881044754432"
    by (simp add: int64_def)
  then have "cutoff e = m_now e + 8044431881044754432" using assms(1) by (simp add: cutoff_def)
  with assms show ?thesis by (simp add: unassignable_def unfulfilled_def)
qed

end
