(* ===== verification/Match_Samples.thy ===== *)
theory Match_Samples imports Match_Results begin

text \<open>
  Concrete executions of the matching engine: they show that the properties' hypotheses can hold,
  and the executions in which an order is paid twice, or its escrow goes to a provider that has
  not paid.
\<close>

section \<open>One order and three providers\<close>

definition match_calm :: match_env where
  "match_calm = \<lparr>m_now = 0, m_fault = (\<lambda>_. DbOk), m_parse_dec = (\<lambda>_. Some 5), m_dec_string = (\<lambda>_. ''5''), m_post = (\<lambda>_. True),
     m_tx_status = (\<lambda>_ _. NodeDown), m_rail = True, m_balance = (\<lambda>_. Some 10000), m_name_enquiry = (\<lambda>_ _. Some ''ne''),
     m_transfer = (\<lambda>_. TransferOk TransferSuccess), m_transfer_status = (\<lambda>_. None), m_session = ''s'', m_parse_id = (\<lambda>_. Some 7),
     m_settle = (\<lambda>_. Done ''d''), m_refund = (\<lambda>_. Done ''d''), m_production = False, m_max_deviation = 0,
     m_request_validity = 120 * second, m_fulfil_validity = 10 * minute, m_refund_count = 3\<rparr>"

definition sample_provider :: "string \<Rightarrow> provider" where
  "sample_provider p = \<lparr>pv_id = p, pv_host = '''', pv_account_id = p, pv_account_number = p, pv_private = False,
     pv_available = True, pv_active = True, pv_kyb = True, pv_market_rate = 1500\<rparr>"

definition sample_lock :: "nat \<Rightarrow> lock_order" where
  "sample_lock i = \<lparr>lk_id = i, lk_gateway = ''0xe'', lk_amount = 2, lk_rate = 1500, lk_status = LkPending, lk_institution = ''044'',
     lk_account = ''01'', lk_cancellations = 0, lk_pay_ref = '''', lk_session = '''', lk_payout = PayNone, lk_provider = None,
     lk_bucket = Some ''b'', lk_symbol = ''USDC'', lk_tx = '''', lk_updated = 0\<rparr>"

definition match_empty :: match_world where
  "match_empty = \<lparr>mw_orders = [], mw_fulfillments = [], mw_providers = map sample_provider [''p'', ''q'', ''s''], mw_tokens = [],
     mw_queues = (\<lambda>_. []), mw_requests = (\<lambda>_. None), mw_excludes = (\<lambda>_. []), mw_payment_rates = [], mw_spawned = [], mw_calls = []\<rparr>"

definition escrowed :: match_world where
  "escrowed = match_empty\<lparr>mw_orders := [sample_lock 7]\<rparr>"

lemma sample_amount: "amount_ngn (sample_lock 7) = 3000"
  by (simp add: amount_ngn_def sample_lock_def round_bank_def Let_def)

lemma sample_ref: "PaymentReference ''routeB'' 7 = ''routeB-7''"
  by code_simp

lemmas sample_defs = match_calm_def sample_provider_def sample_lock_def match_empty_def escrowed_def

lemma entry_roundtrip_witness:
  "split_at CHR '':'' (entry_text match_calm ''p'' ''USDC'' 1500 1 100) = [''p'', ''USDC'', ''5'', ''5'', ''5'']"
  using entry_roundtrip [of "''p''" "''USDC''" match_calm 1500 1 100] by (simp add: match_calm_def)

lemma AssignLockPaymentOrder_terminates_witness:
  "\<exists>r. AssignLockPaymentOrder (\<lambda>_. match_calm) 0 (fields_of (sample_lock 7) ''p'') escrowed = Some r"
  using AssignLockPaymentOrder_terminates [of "\<lambda>_. match_calm"] by (simp add: match_calm_def)


lemma fulfilment_window_overflows_witness:
  "m_now match_calm + 250 * 365 * 24 * hour < cutoff match_calm \<and>
   unassignable match_calm ((sample_lock 7)\<lparr>lk_status := LkProcessing\<rparr>) escrowed"
  by (rule fulfilment_window_overflows) (simp_all add: sample_defs paying_def fulfillments_of_def)

section \<open>A run\<close>

definition paying_env :: "transfer_res \<Rightarrow> match_env" where
  "paying_env t = match_calm\<lparr>m_transfer := (\<lambda>_. t)\<rparr>"


definition sample_claimed :: "string \<Rightarrow> lock_order" where
  "sample_claimed p = (sample_lock 7)\<lparr>lk_provider := Some p, lk_status := LkProcessing, lk_payout := PayPending,
     lk_pay_ref := ''routeB-7''\<rparr>"

definition sample_call :: "string \<Rightarrow> outcome \<Rightarrow> match_call" where
  "sample_call p oc = CallPay 7 p ''routeB-7'' 3000 oc"

text \<open>The order's row, the providers it excludes, and the calls so far.\<close>

definition one_order :: "lock_order \<Rightarrow> string list \<Rightarrow> match_call list \<Rightarrow> match_world" where
  "one_order r x c = match_empty\<lparr>mw_orders := [r], mw_excludes := (\<lambda>i. if i = 7 then x else []), mw_calls := c\<rparr>"

lemma sample_check:
  "p \<in> {''p'', ''q'', ''s''} \<Longrightarrow> lk_payout r = PayNone \<Longrightarrow> lk_id r = 7 \<Longrightarrow> lk_institution r = ''044'' \<Longrightarrow> lk_account r = ''01'' \<Longrightarrow>
   amount_ngn r = 3000 \<Longrightarrow>
   run_state (execute_check (paying_env t) 7 p) (one_order r x c) = (Some (r, sample_provider p), one_order r x c)"
  by (auto simp: execute_check_def sample_defs paying_env_def one_order_def find_lock_def find_provider_def)

lemma sample_claim:
  "lk_payout r = PayNone \<Longrightarrow> lk_id r = 7 \<Longrightarrow>
   run_state (execute_claim (paying_env t) 7 p) (one_order r x c) =
    (True, one_order (r\<lparr>lk_provider := Some p, lk_status := LkProcessing, lk_payout := PayPending,
     lk_pay_ref := ''routeB-7'', lk_updated := 0\<rparr>) x c)"
  by (simp add: execute_claim_def update_locks_def map_locks_def sample_defs paying_env_def one_order_def sample_ref)

lemma sample_paid:
  "lk_id r = 7 \<Longrightarrow> amount_ngn r = 3000 \<Longrightarrow> payout_call (paying_env t) r p = sample_call p (pay_outcome t)"
  by (simp add: payout_call_def sample_call_def sample_ref) (simp add: sample_defs paying_env_def)

lemma sample_logged: "run_state (log_match k) (one_order r x c) = ((), one_order r x (c @ [k]))"
  by (simp add: log_match_def one_order_def)


lemma sample_reassigned:
  "lk_id r = 7 \<Longrightarrow> lk_updated r = 0 \<Longrightarrow> run_state (reassign (paying_env t) 7 p) (one_order r x c) =
    ((), one_order (r\<lparr>lk_status := LkPending, lk_provider := None, lk_payout := PayNone, lk_session := ''''\<rparr>) (x @ [p]) c)"
  by (auto simp: reassign_def exclude_provider_def delete_request_def update_locks_def map_locks_def by_id_def sample_defs
      paying_env_def one_order_def only_if_def fun_eq_iff)

definition processing :: "string \<Rightarrow> string \<Rightarrow> payout_status \<Rightarrow> lock_order" where
  "processing p session v = (sample_lock 7)\<lparr>lk_provider := Some p, lk_status := LkProcessing, lk_payout := v,
     lk_pay_ref := ''routeB-7'', lk_session := session\<rparr>"

lemma sample_pending:
  "run_state (payout_result (paying_env t) 7 p (TransferOk TransferPending)) (one_order (processing p '''' PayPending) x c) =
    (True, one_order (processing p ''s'' PayPending) x c)"
  by (simp add: payout_result_def update_locks_def map_locks_def by_id_def sample_defs paying_env_def one_order_def processing_def)

lemma sample_order_facts:
  "lk_payout (sample_lock 7) = PayNone" "lk_id (sample_lock 7) = 7" "lk_institution (sample_lock 7) = ''044''"
  "lk_account (sample_lock 7) = ''01''" "lk_updated (sample_lock 7) = 0" "amount_ngn (sample_lock 7) = 3000"
  by (simp_all add: sample_lock_def amount_ngn_def round_bank_def Let_def)

lemma sample_run: "match_run (one_order (processing ''p'' ''s'' PayPending) [] [sample_call ''p'' (Done '''')], [])"
proof -
  let ?e = "paying_env (TransferOk TransferPending)"
  let ?r = "sample_lock 7" and ?lp = "sample_provider ''p''"
  have claim: "run_state (execute_claim ?e 7 ''p'') (one_order ?r [] []) = (True, one_order (processing ''p'' '''' PayPending) [] [])"
    by (simp add: sample_claim sample_order_facts) (simp add: processing_def sample_lock_def)
  have "match_run (match_empty, [])" by (rule match_run.start) (simp_all add: match_empty_def)
  moreover have "match_step (match_empty, []) (one_order ?r [] [], [])"
    using match_step.created [of ?r match_empty "[]"] by (simp add: sample_order_facts one_order_def match_empty_def)
  moreover have "match_step (one_order ?r [] [], []) (one_order ?r [] [], [(7, ''p'', Checked ?r ?lp)])"
    by (rule match_step.started [OF _ sample_check]) (simp_all add: sample_order_facts)
  moreover have "match_step (one_order ?r [] [], [(7, ''p'', Checked ?r ?lp)]) (one_order (processing ''p'' '''' PayPending) [] [], [(7, ''p'', Claimed ?r ?lp)])"
    using match_step.claimed [OF claim, of "[]" ?r ?lp "[]"] by simp
  moreover have "match_step (one_order (processing ''p'' '''' PayPending) [] [], [(7, ''p'', Claimed ?r ?lp)])
      (one_order (processing ''p'' '''' PayPending) [] [sample_call ''p'' (Done '''')], [(7, ''p'', Transferred ?r (TransferOk TransferPending))])"
    using match_step.sent [of ?e ?r 7 "one_order (processing ''p'' '''' PayPending) [] []" "[]" "''p''" ?lp "[]"]
    by (simp add: sample_paid sample_order_facts sample_logged pay_outcome_def) (simp add: paying_env_def match_calm_def)
  moreover have "match_step (one_order (processing ''p'' '''' PayPending) [] [sample_call ''p'' (Done '''')], [(7, ''p'', Transferred ?r (TransferOk TransferPending))])
      (one_order (processing ''p'' ''s'' PayPending) [] [sample_call ''p'' (Done '''')], [])"
    using match_step.finished [of "one_order (processing ''p'' '''' PayPending) [] [sample_call ''p'' (Done '''')]" "[]" 7 "''p''" ?r "TransferOk TransferPending" "[]" ?e]
    by (simp add: sample_pending)
  ultimately show ?thesis by (meson match_run.step)
qed

lemma match_run_pays_once_witness:
  "length (payments 7 (one_order (processing ''p'' ''s'' PayPending) [] [sample_call ''p'' (Done '''')])) \<le> 1 \<and>
   payments 7 (one_order (processing ''p'' ''s'' PayPending) [] [sample_call ''p'' (Done '''')]) \<noteq> []"
  using match_run_pays_once [OF sample_run, of 7] by (simp add: payments_def one_order_def sample_call_def)

lemma sample_settled:
  "run_state (SettleAfterPayout match_calm 7) (one_order (processing ''p'' '''' PaySuccess) x c) =
    (True, (one_order ((processing ''p'' '''' PaySuccess)\<lparr>lk_status := LkValidated, lk_tx := ''d''\<rparr>) x (c @ [CallSettle 7 (Done ''d'')]))
      \<lparr>mw_fulfillments := [\<lparr>fu_tx = ''routeB-7'', fu_order = 7, fu_status = ValSuccess, fu_created = 0, fu_updated = 0\<rparr>]\<rparr>)"
  by (simp add: SettleAfterPayout_def record_fulfillment_def SettleOrder_def log_match_def update_locks_def map_locks_def
      find_lock_def by_id_def sample_defs one_order_def processing_def)

lemma SettleAfterPayout_once_witness:
  "snd (run_state (SettleAfterPayout match_calm 7) (snd (run_state (SettleAfterPayout match_calm 7) (one_order (processing ''p'' '''' PaySuccess) [] [])))) =
   snd (run_state (SettleAfterPayout match_calm 7) (one_order (processing ''p'' '''' PaySuccess) [] []))"
proof -
  have "mw_calls (one_order r x [CallSettle 7 (Done ''d'')]\<lparr>mw_fulfillments := f\<rparr>) \<noteq> mw_calls (one_order r' x' [])" for r x f r' x'
    by (simp add: one_order_def)
  then show ?thesis
    unfolding sample_settled snd_conv append_Nil using SettleAfterPayout_once [OF sample_settled [of "[]" "[]"]] by simp
qed


section \<open>Executions that go wrong\<close>

definition unpaid :: match_world where "unpaid = one_order (sample_lock 7) [] []"

lemma Execute_steps:
  "run_state (execute_check e i p) w = (Some (r, lp), w) \<Longrightarrow> run_state (execute_claim e i p) w = (True, w') \<Longrightarrow>
   m_name_enquiry e (lk_institution r) (lk_account r) \<noteq> None \<Longrightarrow> run_state (log_match (payout_call e r p)) w' = ((), w'') \<Longrightarrow>
   run_state (Execute e i p) w = run_state (payout_result e (lk_id r) p (m_transfer e (lk_id r))) w''"
  by (auto simp: Execute_def execute_pay_def)

text \<open>What an execution makes of an order that is not paid: a transfer whose outcome is pending,
  and one that is submitted and reported as an error.\<close>

lemma sample_executed:
  assumes "p \<in> {''p'', ''q'', ''s''}" "r \<in> {sample_lock 7, (sample_lock 7)\<lparr>lk_pay_ref := ''routeB-7''\<rparr>}"
  shows "run_state (Execute (paying_env (TransferOk TransferPending)) 7 p) (one_order r x c) =
      (True, one_order (processing p ''s'' PayPending) x (c @ [sample_call p (Done '''')]))"
    and "run_state (Execute (paying_env (TransferErr True)) 7 p) (one_order r x c) =
      (True, one_order ((sample_lock 7)\<lparr>lk_pay_ref := ''routeB-7''\<rparr>) (x @ [p]) (c @ [sample_call p Lost]))"
proof -
  have r: "lk_payout r = PayNone" "lk_id r = 7" "lk_institution r = ''044''" "lk_account r = ''01''" "amount_ngn r = 3000"
    "r\<lparr>lk_provider := Some p, lk_status := LkProcessing, lk_payout := PayPending, lk_pay_ref := ''routeB-7'', lk_updated := 0\<rparr> =
     processing p '''' PayPending"
    using assms(2) by (auto simp: sample_lock_def processing_def amount_ngn_def round_bank_def Let_def)
  have bank: "m_name_enquiry (paying_env t) (lk_institution r) (lk_account r) \<noteq> None" for t
    by (simp add: paying_env_def match_calm_def)
  have run: "run_state (Execute (paying_env t) 7 p) (one_order r x c) =
      run_state (payout_result (paying_env t) 7 p t) (one_order (processing p '''' PayPending) x (c @ [sample_call p (pay_outcome t)]))" for t
    using Execute_steps [OF sample_check [OF assms(1) r(1-5)] sample_claim [OF r(1,2)] bank] 
    by (simp add: r sample_paid sample_logged) (simp add: paying_env_def)
  show "run_state (Execute (paying_env (TransferOk TransferPending)) 7 p) (one_order r x c) =
      (True, one_order (processing p ''s'' PayPending) x (c @ [sample_call p (Done '''')]))"
    by (simp add: run sample_pending pay_outcome_def)
  have "run_state (reassign (paying_env (TransferErr True)) 7 p) (one_order (processing p '''' PayPending) x c') =
      ((), one_order ((sample_lock 7)\<lparr>lk_pay_ref := ''routeB-7''\<rparr>) (x @ [p]) c')" for c'
    by (subst sample_reassigned) (simp_all add: processing_def sample_lock_def)
  then show "run_state (Execute (paying_env (TransferErr True)) 7 p) (one_order r x c) =
      (True, one_order ((sample_lock 7)\<lparr>lk_pay_ref := ''routeB-7''\<rparr>) (x @ [p]) (c @ [sample_call p Lost]))"
    by (simp add: run payout_result_def pay_outcome_def)
qed

text \<open>A transfer that was submitted and then reported as an error (a timeout) returns the order
  to the queue at once, and the next provider pays the recipient a second time.\<close>

theorem lost_transfer_pays_twice:
  "payments 7 (snd (run_state (Execute (paying_env (TransferOk TransferPending)) 7 ''q'')
     (snd (run_state (Execute (paying_env (TransferErr True)) 7 ''p'') unpaid)))) =
   [sample_call ''p'' Lost, sample_call ''q'' (Done '''')]"
  by (simp add: unpaid_def sample_executed) (simp add: payments_def one_order_def sample_call_def)

text \<open>Two executions of an order: the second one has loaded the unpaid order and finds its
  provider short of money only after the first has claimed the order and paid. Its reset is not
  guarded, so that the payout in flight is forgotten and a third execution pays again.\<close>

theorem stale_execution_pays_twice:
  "run_state (execute_check (match_calm\<lparr>m_balance := \<lambda>_. Some 0\<rparr>) 7 ''q'') unpaid =
     (None, snd (run_state (reassign (match_calm\<lparr>m_balance := \<lambda>_. Some 0\<rparr>) 7 ''q'') unpaid)) \<and>
   payments 7 (snd (run_state (Execute (paying_env (TransferOk TransferPending)) 7 ''s'')
     (snd (run_state (reassign (match_calm\<lparr>m_balance := \<lambda>_. Some 0\<rparr>) 7 ''q'')
       (snd (run_state (Execute (paying_env (TransferOk TransferPending)) 7 ''p'') unpaid)))))) =
   [sample_call ''p'' (Done ''''), sample_call ''s'' (Done '''')]"
proof -
  let ?e = "match_calm\<lparr>m_balance := \<lambda>_. Some 0\<rparr>"
  have "run_state (reassign ?e 7 ''q'') (one_order (processing ''p'' ''s'' PayPending) x c) =
      ((), one_order ((sample_lock 7)\<lparr>lk_pay_ref := ''routeB-7''\<rparr>) (x @ [''q'']) c)" for x c
    by (auto simp: reassign_def exclude_provider_def delete_request_def update_locks_def map_locks_def by_id_def sample_defs
        one_order_def only_if_def processing_def fun_eq_iff)
  moreover have "run_state (execute_check ?e 7 ''q'') unpaid = (None, snd (run_state (reassign ?e 7 ''q'') unpaid))"
    using sample_order_facts by (simp add: execute_check_def unpaid_def one_order_def find_lock_def find_provider_def)
      (simp add: sample_defs split_def)
  ultimately show ?thesis
    by (simp add: unpaid_def sample_executed) (simp add: payments_def one_order_def sample_call_def)
qed

text \<open>A validation is checked against the fulfilment's own order and applied to the order in
  the path: with the transaction of another order, a provider has an order settled that nobody
  has fulfilled.\<close>

theorem foreign_fulfilment_settles:
  "run_state (FulfillOrder match_calm match_calm (Some \<lparr>fr_tx = ''t'', fr_status = ValSuccess\<rparr>) (Some ''q'') (Some 8))
     (match_empty\<lparr>mw_orders := [(sample_lock 7)\<lparr>lk_status := LkFulfilled\<rparr>, (sample_lock 8)\<lparr>lk_status := LkProcessing, lk_provider := Some ''q''\<rparr>],
        mw_fulfillments := [\<lparr>fu_tx = ''t'', fu_order = 7, fu_status = ValPending, fu_created = 0, fu_updated = 0\<rparr>]\<rparr>) =
   (200, match_empty\<lparr>mw_orders := [(sample_lock 7)\<lparr>lk_status := LkFulfilled\<rparr>, (sample_lock 8)\<lparr>lk_status := LkValidated, lk_provider := Some ''q'', lk_tx := ''d''\<rparr>],
        mw_fulfillments := [\<lparr>fu_tx = ''t'', fu_order = 7, fu_status = ValSuccess, fu_created = 0, fu_updated = 0\<rparr>],
        mw_calls := [CallSettle 8 (Done ''d'')]\<rparr>)"
  by (simp add: FulfillOrder_def fulfillment_of_def find_fulfillment_def set_validation_def update_active_def SettleOrder_def
      log_match_def update_locks_def map_locks_def find_lock_def sample_defs)

text \<open>A provider cancels an order whose payout is in flight: the escrow is refunded to the
  sender although the recipient is being paid.\<close>

theorem cancel_refunds_payout_in_flight:
  "mw_calls (snd (run_state (CancelOrder match_calm match_calm (Some ''Invalid recipient bank details'') (Some (sample_provider ''p'')) (Some 7))
     (snd (run_state (Execute (paying_env (TransferOk TransferPending)) 7 ''p'') unpaid)))) =
   [sample_call ''p'' (Done ''''), CallRefund 7 (Done ''d'')]"
proof -
  have "mw_calls (snd (run_state (CancelOrder match_calm match_calm (Some ''Invalid recipient bank details'') (Some (sample_provider ''p'')) (Some 7))
     (one_order (processing ''p'' ''s'' PayPending) [] c))) = c @ [CallRefund 7 (Done ''d'')]" for c
    by (simp add: CancelOrder_def RefundOrder_def find_lock_def cancellations_def only_if_def update_locks_def map_locks_def by_id_def
        log_match_def exclude_provider_def sample_defs one_order_def processing_def Let_def)
  then show ?thesis by (simp add: unpaid_def sample_executed)
qed

end
