(* ===== verification/Esc_Codec.thy ===== *)
theory Esc_Codec imports Card_Codec Money begin

text \<open>
  How the event indexer reads Move events (services/sui_event_indexer.go): package ids up to
  prefix, case and leading zeros, event types, base64, and the typed accessors over the decoded
  JSON of an event; and the integer in which an order's rate goes on-chain (rateAsU64 of
  services/order/sui.go) next to the one the indexer reads.
\<close>

section \<open>Package ids\<close>

definition package_digits :: "string \<Rightarrow> string" where
  "package_digits s = to_lower (dropWhile (\<lambda>c. c = CHR ''0'') (trim_prefix ''0x'' s))"

definition pkgIDsMatch :: "string \<Rightarrow> string \<Rightarrow> bool" where
  "pkgIDsMatch a b \<longleftrightarrow> package_digits a = package_digits b"

text \<open>The number a text of hexadecimal digits denotes.\<close>

definition base16 :: "nat list \<Rightarrow> nat" where
  "base16 ds = foldl (\<lambda>a d. 16 * a + d) 0 ds"

definition package_number :: "string \<Rightarrow> nat" where
  "package_number s = base16 (map (the \<circ> hex_value) (trim_prefix ''0x'' s))"

lemma base16_simps [simp]: "base16 [] = 0" "base16 (ds @ [d]) = 16 * base16 ds + d"
  by (simp_all add: base16_def)

lemma base16_zeros [simp]: "base16 (0 # ds) = base16 ds"
  by (simp add: base16_def)

lemma base16_less: "\<forall>d \<in> set ds. d < 16 \<Longrightarrow> base16 ds < 16 ^ length ds"
  by (induction ds rule: rev_induct) auto

lemma base16_ge: "ds \<noteq> [] \<Longrightarrow> hd ds \<noteq> 0 \<Longrightarrow> 16 ^ (length ds - 1) \<le> base16 ds"
proof (induction ds rule: rev_induct)
  case (snoc d ds)
  show ?case
  proof (cases "ds = []")
    case False
    with snoc have "16 ^ (length ds - 1) \<le> base16 ds" by simp
    then have "16 * 16 ^ (length ds - 1) \<le> 16 * base16 ds" by simp
    moreover have "16 * 16 ^ (length ds - 1) = (16 :: nat) ^ length ds" using False by (cases ds) auto
    ultimately show ?thesis by simp
  qed (use snoc in \<open>simp add: base16_def\<close>)
qed simp

lemma base16_same_length:
  "length ds = length es \<Longrightarrow> \<forall>d \<in> set ds. d < 16 \<Longrightarrow> \<forall>d \<in> set es. d < 16 \<Longrightarrow> base16 ds = base16 es \<Longrightarrow> ds = es"
proof (induction ds arbitrary: es rule: rev_induct)
  case (snoc d ds)
  then obtain es' e where es: "es = es' @ [e]" by (cases es rule: rev_cases) auto
  with snoc.prems have eq: "16 * base16 ds + d = 16 * base16 es' + e" and less: "d < 16" "e < 16" by auto
  from arg_cong [OF eq, of "\<lambda>x. x div 16"] less have "base16 ds = base16 es'" by simp
  with eq have "d = e" by simp
  with \<open>base16 ds = base16 es'\<close> snoc es show ?case by simp
qed simp

lemma base16_inject:
  assumes "\<forall>d \<in> set ds. d < 16" "\<forall>d \<in> set es. d < 16" "ds = [] \<or> hd ds \<noteq> 0" "es = [] \<or> hd es \<noteq> 0"
  shows "base16 ds = base16 es \<longleftrightarrow> ds = es"
proof
  have shorter: "length xs \<le> length ys" if "base16 xs = base16 ys" "\<forall>d \<in> set ys. d < 16" "xs = [] \<or> hd xs \<noteq> 0" for xs ys
  proof (cases "xs = []")
    case False
    with that have "16 ^ (length xs - 1) \<le> base16 ys" using base16_ge [of xs] by simp
    also have "\<dots> < 16 ^ length ys" using that by (intro base16_less)
    finally show ?thesis using False by (cases xs) auto
  qed simp
  assume "base16 ds = base16 es"
  with shorter [of ds es] shorter [of es ds] assms show "ds = es"
    by (intro base16_same_length) auto
qed simp

lemma hex_value_is_hex: "is_hex c \<longleftrightarrow> hex_value c \<noteq> None"
  by (auto simp: is_hex_def hex_value_def Let_def)

lemma hex_digits: "is_hex c \<Longrightarrow> the (hex_value c) < 16 \<and> lower_char c = hex_digit (the (hex_value c))"
proof -
  assume "is_hex c"
  then obtain n where "hex_value c = Some n" using hex_value_is_hex by auto
  moreover from this have "n < 16 \<and> lower_char c = hex_digit n" by (simp only: hex_value_iff)
  ultimately show ?thesis by simp
qed

lemma hex_zero: "is_hex c \<Longrightarrow> the (hex_value c) = 0 \<longleftrightarrow> c = CHR ''0''"
proof -
  assume "is_hex c"
  have "of_char c = (48 :: nat) \<longleftrightarrow> of_char c = (of_char CHR ''0'' :: nat)" by simp
  then have "of_char c = (48 :: nat) \<longleftrightarrow> c = CHR ''0''" by (simp only: of_char_eq_iff)
  with \<open>is_hex c\<close> show ?thesis by (auto simp: is_hex_def hex_value_def Let_def split: if_splits)
qed

lemma hex_digit_inject: "m < 16 \<Longrightarrow> n < 16 \<Longrightarrow> hex_digit m = hex_digit n \<longleftrightarrow> m = n"
  by (metis hex_value_digit option.inject)

text \<open>C29. Two package ids of hexadecimal digits match exactly when they are the same number, with
  or without the prefix, in either case, and with any leading zeros.\<close>

theorem pkgIDsMatch_iff:
  assumes "list_all is_hex (trim_prefix ''0x'' a)" "list_all is_hex (trim_prefix ''0x'' b)"
  shows "pkgIDsMatch a b \<longleftrightarrow> package_number a = package_number b"
proof -
  let ?z = "dropWhile (\<lambda>c. c = CHR ''0'')"
  let ?v = "map (the \<circ> hex_value)"
  have digits: "\<forall>d \<in> set (?v (?z s)). d < 16" "?v (?z s) = [] \<or> hd (?v (?z s)) \<noteq> 0"
    "to_lower (?z s) = map hex_digit (?v (?z s))" "base16 (?v s) = base16 (?v (?z s))" if "list_all is_hex s" for s
  proof -
    have hex: "is_hex c" if "c \<in> set (?z s)" for c
      using \<open>list_all is_hex s\<close> set_dropWhileD [OF that] by (auto simp: list_all_iff)
    show "\<forall>d \<in> set (?v (?z s)). d < 16" using hex hex_digits by auto
    show "?v (?z s) = [] \<or> hd (?v (?z s)) \<noteq> 0"
    proof (cases "?z s")
      case (Cons c cs)
      then have "c \<noteq> CHR ''0''" using hd_dropWhile [of "\<lambda>c. c = CHR ''0''" s] by simp
      with Cons hex [of c] show ?thesis by (simp add: hex_zero)
    qed simp
    show "to_lower (?z s) = map hex_digit (?v (?z s))" using hex hex_digits by (auto simp: to_lower_def)
    have "the (hex_value CHR ''0'') = 0" by (subst hex_zero) (simp_all add: is_hex_def)
    then show "base16 (?v s) = base16 (?v (?z s))" by (induction s) auto
  qed
  have "map hex_digit xs = map hex_digit ys \<longleftrightarrow> xs = ys" if "\<forall>d \<in> set xs. d < 16" "\<forall>d \<in> set ys. d < 16" for xs ys
    using that by (intro inj_on_map_eq_map inj_onI) (auto simp: hex_digit_inject)
  with digits [OF assms(1)] digits [OF assms(2)] show ?thesis
    by (simp add: pkgIDsMatch_def package_digits_def package_number_def base16_inject del: map_map list.map_comp)
qed


text \<open>The parts of a text between its double colons.\<close>

fun split_colons :: "string \<Rightarrow> string list" where
  "split_colons (c # d # s) = (if c = CHR '':'' \<and> d = CHR '':'' then [] # split_colons s
     else case split_colons (d # s) of [] \<Rightarrow> [[c]] | p # ps \<Rightarrow> (c # p) # ps)"
| "split_colons s = [s]"

definition eventTypeMatches :: "string \<Rightarrow> string \<Rightarrow> string \<Rightarrow> bool" where
  "eventTypeMatches packageID eventType eventName = (case split_colons eventType of
     [p, m, n] \<Rightarrow> pkgIDsMatch p packageID \<and> m = ''events'' \<and> n = eventName
   | _ \<Rightarrow> False)"

section \<open>Base64\<close>

definition b64_char :: "nat \<Rightarrow> char" where
  "b64_char n = (if n < 26 then char_of (65 + n) else if n < 52 then char_of (71 + n)
     else if n < 62 then char_of (n - 4) else if n = 62 then CHR ''+'' else CHR ''/'')"

definition b64_value :: "char \<Rightarrow> nat option" where
  "b64_value c = (let n = of_char c in
     if 65 \<le> n \<and> n \<le> 90 then Some (n - 65)
     else if 97 \<le> n \<and> n \<le> 122 then Some (n - 71)
     else if 48 \<le> n \<and> n \<le> 57 then Some (n + 4)
     else if c = CHR ''+'' then Some 62 else if c = CHR ''/'' then Some 63 else None)"

fun b64_encode :: "byte list \<Rightarrow> string" where
  "b64_encode [] = []"
| "b64_encode [a] = [b64_char (unat a div 4), b64_char (unat a mod 4 * 16), CHR ''='', CHR ''='']"
| "b64_encode [a, b] = [b64_char (unat a div 4), b64_char (unat a mod 4 * 16 + unat b div 16), b64_char (unat b mod 16 * 4), CHR ''='']"
| "b64_encode (a # b # c # bs) = b64_char (unat a div 4) # b64_char (unat a mod 4 * 16 + unat b div 16)
     # b64_char (unat b mod 16 * 4 + unat c div 64) # b64_char (unat c mod 64) # b64_encode bs"

text \<open>Line breaks are ignored; padding ends the text; the unused bits before it are not checked.\<close>

fun b64_groups :: "string \<Rightarrow> byte list option" where
  "b64_groups [] = Some []"
| "b64_groups (a # b # c # d # s) = (case (b64_value a, b64_value b) of
     (Some x, Some y) \<Rightarrow>
       (case (b64_value c, b64_value d) of
          (Some z, Some v) \<Rightarrow> map_option (\<lambda>bs. word_of_nat (x * 4 + y div 16) # word_of_nat (y mod 16 * 16 + z div 4)
              # word_of_nat (z mod 4 * 64 + v) # bs) (b64_groups s)
        | (Some z, None) \<Rightarrow> if d = CHR ''='' \<and> s = [] then Some [word_of_nat (x * 4 + y div 16), word_of_nat (y mod 16 * 16 + z div 4)] else None
        | (None, _) \<Rightarrow> if c = CHR ''='' \<and> d = CHR ''='' \<and> s = [] then Some [word_of_nat (x * 4 + y div 16)] else None)
   | _ \<Rightarrow> None)"
| "b64_groups s = None"

definition b64_decode :: "string \<Rightarrow> byte list option" where
  "b64_decode s = b64_groups (filter (\<lambda>c. c \<noteq> CHR 0x0A \<and> c \<noteq> CHR 0x0D) s)"

lemma b64_value_char: "n < 64 \<Longrightarrow> b64_value (b64_char n) = Some n"
  by (auto simp: b64_char_def b64_value_def Let_def of_char_of)

lemma b64_outside: "b64_value CHR ''='' = None" "b64_value CHR 0x0A = None" "b64_value CHR 0x0D = None"
  by (simp_all add: b64_value_def)

lemma b64_char_plain: "n < 64 \<Longrightarrow> b64_char n \<noteq> CHR 0x0A \<and> b64_char n \<noteq> CHR 0x0D"
  using b64_value_char [of n] b64_outside by auto

lemma unat_byte: "unat (b :: byte) < 256"
  using unsigned_less [where ?'a = nat, of b] by simp

lemma pack_digits: "r < n \<Longrightarrow> (k * n + r) div n = (k :: nat)" "r < n \<Longrightarrow> (k * n + r) mod n = r"
  by simp_all

lemma byte_parts:
  "unat (a :: byte) div 4 < 64" "unat a div 16 < 16" "unat a div 64 < 4"
  "unat a mod 4 < 4" "unat a mod 16 < 16" "unat a mod 64 < 64"
  using unat_byte [of a] by (simp_all add: div_less_iff_less_mult)

lemma b64_parts:
  "unat (a :: byte) mod 4 * 16 < 64" "unat a mod 4 * 16 + unat (b :: byte) div 16 < 64"
  "unat b mod 16 * 4 < 64" "unat b mod 16 * 4 + unat (c :: byte) div 64 < 64"
  using byte_parts [of a] byte_parts [of b] byte_parts [of c] by linarith+

lemma b64_bytes:
  "word_of_nat (unat (a :: byte) div 4 * 4 + unat a mod 4 * 16 div 16) = a"
  "word_of_nat (unat (a :: byte) div 4 * 4 + (unat a mod 4 * 16 + unat (b :: byte) div 16) div 16) = a"
  "word_of_nat ((unat a mod 4 * 16 + unat b div 16) mod 16 * 16 + unat b mod 16 * 4 div 4) = b"
  "word_of_nat ((unat a mod 4 * 16 + unat b div 16) mod 16 * 16 + (unat b mod 16 * 4 + unat (c :: byte) div 64) div 4) = b"
  "word_of_nat ((unat b mod 16 * 4 + unat c div 64) mod 4 * 64 + unat c mod 64) = c"
  by (simp_all add: pack_digits byte_parts del: of_nat_add of_nat_mult)

lemma b64_groups_encode: "b64_groups (b64_encode bs) = Some bs"
  by (induction bs rule: b64_encode.induct)
    (simp_all add: b64_value_char byte_parts b64_parts b64_bytes b64_outside del: of_nat_add of_nat_mult)

lemma b64_encode_plain: "c \<in> set (b64_encode bs) \<Longrightarrow> c \<noteq> CHR 0x0A \<and> c \<noteq> CHR 0x0D"
  by (induction bs rule: b64_encode.induct) (auto simp: b64_char_plain byte_parts b64_parts)

lemma b64_decode_encode [simp]: "b64_decode (b64_encode bs) = Some bs"
proof -
  have "filter (\<lambda>c. c \<noteq> CHR 0x0A \<and> c \<noteq> CHR 0x0D) (b64_encode bs) = b64_encode bs"
    by (rule filter_True) (use b64_encode_plain in blast)
  then show ?thesis by (simp add: b64_decode_def b64_groups_encode)
qed

section \<open>Fields of an event\<close>

text \<open>Decoded JSON; the text of a value that is not a string is Go's formatting of it.\<close>

datatype json = JString string | JNumber decimal | JList "json list" | JOther

type_synonym fields = "string \<Rightarrow> json option"

definition getString :: "(json \<Rightarrow> string) \<Rightarrow> fields \<Rightarrow> string \<Rightarrow> string" where
  "getString fmt m key = (case m key of None \<Rightarrow> '''' | Some (JString s) \<Rightarrow> s | Some v \<Rightarrow> fmt v)"

definition isPrintable :: "byte list \<Rightarrow> bool" where
  "isPrintable bs \<longleftrightarrow> (\<forall>b \<in> set bs. \<not> (b < 32 \<and> b \<noteq> 10 \<and> b \<noteq> 13 \<and> b \<noteq> 9))"

definition text_of :: "byte list \<Rightarrow> string" where
  "text_of bs = map (\<lambda>b. char_of (unat b)) bs"

definition bytes_of :: "string \<Rightarrow> byte list" where
  "bytes_of s = map (\<lambda>c. word_of_nat (of_char c)) s"

definition getMoveString :: "(json \<Rightarrow> string) \<Rightarrow> fields \<Rightarrow> string \<Rightarrow> string" where
  "getMoveString fmt m key = (let val = getString fmt m key in
     if val = '''' \<or> sublist ''::'' val \<or> prefix ''0x'' val then val
     else case b64_decode val of None \<Rightarrow> val | Some bs \<Rightarrow> if isPrintable bs then text_of bs else val)"

text \<open>\<open>fmt.Sscanf(x, "%d", &out)\<close> into a \<open>uint64\<close>: the digits after leading spaces, nothing on overflow.\<close>

definition scan_uint64 :: "string \<Rightarrow> 64 word" where
  "scan_uint64 s = (let ds = takeWhile is_digit (dropWhile (\<lambda>c. c = CHR '' '' \<or> c = CHR 0x09 \<or> c = CHR 0x0D) s) in
     if ds = [] \<or> 2 ^ 64 \<le> digits_val ds then 0 else word_of_nat (digits_val ds))"

definition getUint64 :: "fields \<Rightarrow> string \<Rightarrow> 64 word" where
  "getUint64 m key = (case m key of
     Some (JString s) \<Rightarrow> scan_uint64 s
   | Some (JNumber x) \<Rightarrow> word_of_int \<lfloor>x\<rfloor>
   | _ \<Rightarrow> 0)"

definition getBytes :: "fields \<Rightarrow> string \<Rightarrow> byte list" where
  "getBytes m key = (case m key of
     Some (JString s) \<Rightarrow>
       (case (if prefix ''0x'' s then DecodeHex (drop 2 s) else None) of Some bs \<Rightarrow> bs
        | None \<Rightarrow> (case b64_decode s of Some bs \<Rightarrow> bs | None \<Rightarrow> bytes_of s))
   | Some (JList vs) \<Rightarrow> concat (map (\<lambda>v. case v of JNumber x \<Rightarrow> [word_of_int \<lfloor>x\<rfloor>] | _ \<Rightarrow> []) vs)
   | _ \<Rightarrow> [])"

text \<open>A \<open>u64\<close> of a Move event is decimal text.\<close>

lemma scan_uint64_show: "n < 2 ^ 64 \<Longrightarrow> scan_uint64 (show_nat n) = word_of_nat n"
proof -
  assume n: "n < 2 ^ 64"
  have digits: "list_all is_digit (show_nat n)" by (rule show_nat_digits)
  have drop: "dropWhile (\<lambda>c. c = CHR '' '' \<or> c = CHR 0x09 \<or> c = CHR 0x0D) (show_nat n) = show_nat n"
  proof (cases "show_nat n")
    case (Cons c cs)
    with digits have "is_digit c" by simp
    then have "c \<noteq> CHR '' '' \<and> c \<noteq> CHR 0x09 \<and> c \<noteq> CHR 0x0D" by (auto simp: is_digit_def)
    with Cons show ?thesis by simp
  qed simp
  have take: "takeWhile is_digit (show_nat n) = show_nat n"
    using digits by (simp add: takeWhile_eq_all_conv list_all_iff)
  show ?thesis using n by (simp add: scan_uint64_def drop take digits_val_show_nat Let_def)
qed

section \<open>The recipient of an order\<close>

text \<open>The bytes that \<open>handleOrderCreated\<close> encodes and \<open>decryptMessageHash\<close> hands to RSA.\<close>

definition message_cipher :: "fields \<Rightarrow> byte list option" where
  "message_cipher m = b64_decode (b64_encode (getBytes m ''message_hash''))"

lemma DecodeHex_plain: "DecodeHex s = Some bs \<Longrightarrow> list_all is_hex s"
  by (induction s arbitrary: bs rule: DecodeHex.induct) (auto simp: hex_value_is_hex split: option.splits)

text \<open>The ciphertext that \<open>CreateOrder\<close> puts on-chain as base64 text (256 bytes of RSA) reaches the
  indexer's decryption unchanged, even where the text starts like a hexadecimal number: padded
  base64 is never hexadecimal.\<close>

theorem message_cipher_roundtrip:
  assumes "m ''message_hash'' = Some (JString (b64_encode cipher))" "length cipher = 256"
  shows "message_cipher m = Some cipher"
proof -
  have "CHR ''='' \<in> set (b64_encode bs)" if "length bs mod 3 \<noteq> 0" for bs
    using that by (induction bs rule: b64_encode.induct) auto
  then have pad: "CHR ''='' \<in> set (b64_encode cipher)" using assms(2) by simp
  have "DecodeHex (drop 2 (b64_encode cipher)) = None" if pre: "prefix ''0x'' (b64_encode cipher)"
  proof (cases "DecodeHex (drop 2 (b64_encode cipher))")
    case (Some bs)
    obtain s where s: "b64_encode cipher = CHR ''0'' # CHR ''x'' # s" using pre by (auto simp: prefix_def)
    with pad have "CHR ''='' \<in> set s" by auto
    moreover have "list_all is_hex s" using DecodeHex_plain [OF Some] s by simp
    ultimately have "is_hex CHR ''=''" by (auto simp: list_all_iff)
    then show ?thesis by (simp add: is_hex_def)
  qed simp
  then show ?thesis using assms(1) by (simp add: message_cipher_def getBytes_def)
qed

section \<open>Rates\<close>

text \<open>\<open>decimal.IntPart\<close> is an \<open>int64\<close>.\<close>

definition rateAsU64 :: "decimal \<Rightarrow> 64 word" where
  "rateAsU64 rate = (let scaled = sint (word_of_int (trunc (rate * 1000000)) :: 64 word) in
     if scaled < 0 then 0 else word_of_int scaled)"

definition event_rate :: "64 word \<Rightarrow> decimal" where
  "event_rate r = of_int (uint r)"

end
