(* ===== verification/Esc_Store.thy ===== *)
theory Esc_Store imports Esc_Codec Route_Events Match_Tasks begin

text \<open>
  The tables and the environment of the escrow gateway: the per-order receive addresses
  (ent/schema/sui_receive_address.go), the gateway ids of payment orders, the transaction logs,
  and beside them the tables of the dispatcher and of the matching engine, which the deposit
  watcher and the event indexer write. Notifications and gateway calls are traces.
\<close>

datatype recv_status = RcUnused | RcDeposited | RcForwarded | RcSettled | RcExpired

text \<open>An address of a private order has Go's zero time as its expiry, here \<open>None\<close>.\<close>

record recv_addr =
  ra_address :: string
  ra_coin :: string
  ra_expected :: "64 word"
  ra_status :: recv_status
  ra_deposit_tx :: string
  ra_forward_tx :: string
  ra_until :: "instant option"
  ra_payment :: "nat option"

text \<open>A coin object as the node lists it.\<close>

record deposit_coin =
  dc_id :: string
  dc_balance :: string
  dc_previous :: string

text \<open>The escrow creation of a payment order with a coin, and a self-settlement to the aggregator.\<close>

datatype escrow_call = CallForward nat string outcome | CallSelfSettle string string outcome

record escrow_world =
  ew_addrs :: "recv_addr list"
  ew_gateway :: "nat \<Rightarrow> string"
  ew_logs :: "(po_status \<times> string) list"
  ew_hooks :: "(nat \<times> po_status) list"
  ew_notes :: "(nat \<times> string \<times> nat) list"
  ew_calls :: "escrow_call list"
  ew_routes :: world
  ew_match :: match_world

datatype escrow_site = XExpire | XDetect | XLinked | XMark string | XForward | XOrder nat | XForwarded nat
  | XReconcile | XGateway nat | XSeen | XReference | XStamp | XPayment | XBegin | XLog | XLocks | XPayUpdate | XCommit | XDebited

record move_event =
  mv_type :: string
  mv_fields :: "fields option"
  mv_tx :: string

record tx_block =
  tb_digest :: string
  tb_status :: string
  tb_events :: "move_event list"

text \<open>The decrypted recipient of an order.\<close>

record order_recipient =
  or_institution :: string
  or_account :: string
  or_provider :: string
  or_reference :: string

record escrow_env =
  x_now :: instant
  x_fault :: "escrow_site \<Rightarrow> db_fault"
  x_route :: env
  x_assign :: "nat \<Rightarrow> match_env"
  x_signer :: bool
  x_seed :: "string \<Rightarrow> nat option"
  x_coins :: "string \<Rightarrow> string \<Rightarrow> deposit_coin list option"
  x_pick :: "string \<Rightarrow> string \<Rightarrow> deposit_coin list option"
  x_prepared :: "nat \<Rightarrow> bool"
  x_forward :: "nat \<Rightarrow> string \<Rightarrow> outcome"
  x_address_ok :: "string \<Rightarrow> bool"
  x_settle_ready :: "string \<Rightarrow> bool"
  x_self_settle :: "string \<Rightarrow> string \<Rightarrow> outcome"
  x_active :: bool
  x_tx_block :: "string \<Rightarrow> tx_block option"
  x_package :: string
  x_fmt :: "json \<Rightarrow> string"
  x_decrypt :: "byte list \<Rightarrow> order_recipient option"
  x_parse_uuid :: "string \<Rightarrow> nat option"
  x_token :: "string \<Rightarrow> (string \<times> nat) option"
  x_currency :: "string \<Rightarrow> string option"
  x_float :: "decimal \<Rightarrow> decimal"
  x_bucket :: "string \<Rightarrow> decimal \<Rightarrow> string option"
  x_webhook :: "nat \<Rightarrow> bool"

abbreviation xfails :: "escrow_env \<Rightarrow> escrow_site \<Rightarrow> bool" where
  "xfails e s \<equiv> x_fault e s \<noteq> DbOk"

text \<open>An operation of the dispatcher's audit log.\<close>

definition on_routes :: "(world, 'a) state \<Rightarrow> (escrow_world, 'a) state" where
  "on_routes m = do {
     w \<leftarrow> fetch;
     let (x, r) = run_state m (ew_routes w);
     modify (\<lambda>w. w\<lparr>ew_routes := r\<rparr>);
     return x
   }"

definition log_escrow :: "escrow_call \<Rightarrow> (escrow_world, unit) state" where
  "log_escrow c = modify (\<lambda>w. w\<lparr>ew_calls := ew_calls w @ [c]\<rparr>)"

definition put_addr :: "string \<Rightarrow> (recv_addr \<Rightarrow> recv_addr) \<Rightarrow> escrow_world \<Rightarrow> escrow_world" where
  "put_addr a f w = w\<lparr>ew_addrs := map (\<lambda>x. if ra_address x = a then f x else x) (ew_addrs w)\<rparr>"

text \<open>\<open>addr.Update().Set..(f).Save\<close>, by the address alone; whether it is known to have succeeded.\<close>

definition update_addr :: "escrow_env \<Rightarrow> escrow_site \<Rightarrow> string \<Rightarrow> (recv_addr \<Rightarrow> recv_addr) \<Rightarrow> (escrow_world, bool) state" where
  "update_addr e s a f = do {
     only_if (x_fault e s \<noteq> DbFail) (modify (put_addr a f));
     return (x_fault e s = DbOk)
   }"

text \<open>The payment order of an address, and the Route A order of a payment order.\<close>

definition payment_of :: "recv_addr \<Rightarrow> escrow_world \<Rightarrow> payment_order option" where
  "payment_of a w = Option.bind (ra_payment a) (\<lambda>i. find_pay i (ew_routes w))"

definition route_of :: "nat \<Rightarrow> escrow_world \<Rightarrow> route_order option" where
  "route_of i w = find (\<lambda>r. ord_payment r = Some i) (orders (ew_routes w))"

definition address_of :: "nat \<Rightarrow> escrow_world \<Rightarrow> recv_addr option" where
  "address_of i w = find (\<lambda>a. ra_payment a = Some i) (ew_addrs w)"

end
