(* ===== verification/Esc_Watcher.thy ===== *)
theory Esc_Watcher imports Esc_Store begin

text \<open>
  The deposit watcher (services/sui_deposit_watcher.go) and the creation of the escrow from a
  deposit (CreateOrder of services/order/sui.go). A pass expires stale addresses, detects
  deposits, forwards them into the gateway and self-settles forwarded Route A orders. A panic
  inside the SDK is recovered by the watcher and leaves what its last statement left, as an error
  does.
\<close>

section \<open>Detection\<close>

definition expireStale :: "escrow_env \<Rightarrow> (escrow_world, bool) state" where
  "expireStale e = do {
     only_if (x_fault e XExpire \<noteq> DbFail) (modify (\<lambda>w. w\<lparr>ew_addrs := map (\<lambda>a.
       if ra_status a = RcUnused \<and> (case ra_until a of None \<Rightarrow> False | Some t \<Rightarrow> t < x_now e)
       then a\<lparr>ra_status := RcExpired\<rparr> else a) (ew_addrs w)\<rparr>));
     return (\<not> xfails e XExpire)
   }"

text \<open>\<open>strconv.ParseUint(s, 10, 64)\<close>\<close>

definition parse_uint64 :: "string \<Rightarrow> 64 word option" where
  "parse_uint64 s = (case parse_digits s of None \<Rightarrow> None | Some n \<Rightarrow> if n < 2 ^ 64 then Some (word_of_nat n) else None)"

text \<open>The first coin that covers the expected amount, among the first fifty.\<close>

definition covers :: "64 word \<Rightarrow> deposit_coin \<Rightarrow> bool" where
  "covers expected c \<longleftrightarrow> (case parse_uint64 (dc_balance c) of None \<Rightarrow> False | Some b \<Rightarrow> expected \<le> b)"

definition findMatchingDeposit :: "escrow_env \<Rightarrow> recv_addr \<Rightarrow> deposit_coin option option" where
  "findMatchingDeposit e a = map_option (\<lambda>cs. find (covers (ra_expected a)) (take 50 cs)) (x_coins e (ra_address a) (ra_coin a))"

definition linkedRouteAOrderID :: "escrow_env \<Rightarrow> recv_addr \<Rightarrow> escrow_world \<Rightarrow> nat option" where
  "linkedRouteAOrderID e a w = (if xfails e XLinked then None
     else Option.bind (payment_of a w) (\<lambda>p. map_option ord_id (route_of (po_id p) w)))"

definition log_linked :: "escrow_env \<Rightarrow> nat option \<Rightarrow> step \<Rightarrow> event_status \<Rightarrow> (escrow_world, unit) state" where
  "log_linked e i s st = (case i of None \<Rightarrow> return () | Some i \<Rightarrow> on_routes (LogOnce (x_route e) i s st))"

definition detect_address :: "escrow_env \<Rightarrow> recv_addr \<Rightarrow> (escrow_world, unit) state" where
  "detect_address e a = do {
     w \<leftarrow> fetch;
     let linked = linkedRouteAOrderID e a w;
     case findMatchingDeposit e a of
       None \<Rightarrow> log_linked e linked DepositCheck FailedEv
     | Some None \<Rightarrow> log_linked e linked DepositCheck Skipped
     | Some (Some c) \<Rightarrow> do {
         ok \<leftarrow> update_addr e (XMark (ra_address a)) (ra_address a) (\<lambda>x. x\<lparr>ra_status := RcDeposited,
           ra_deposit_tx := (if dc_previous c \<noteq> '''' then dc_previous c else ra_deposit_tx x)\<rparr>);
         log_linked e linked DepositDetected (if ok then Succeeded else FailedEv)
       }
   }"

definition detectDeposits :: "escrow_env \<Rightarrow> (escrow_world, bool) state" where
  "detectDeposits e = (if xfails e XDetect then return False
   else do {
     w \<leftarrow> fetch;
     for_each (filter (\<lambda>a. ra_status a = RcUnused \<and> (case ra_until a of None \<Rightarrow> True | Some t \<Rightarrow> x_now e \<le> t)) (ew_addrs w))
       (detect_address e);
     return True
   })"

section \<open>Forwarding\<close>

text \<open>The parts of a Move type: an empty last part is dropped.\<close>

definition splitMoveType :: "string \<Rightarrow> string list" where
  "splitMoveType s = (let ps = split_colons s in if last ps = '''' then butlast ps else ps)"

definition parseCoinTypeTag :: "escrow_env \<Rightarrow> string \<Rightarrow> bool" where
  "parseCoinTypeTag e s \<longleftrightarrow> length (splitMoveType s) = 3 \<and> x_address_ok e (hd (splitMoveType s))"

text \<open>The coin of the escrow is the first one the node lists, whatever its balance.\<close>

definition submit_forward :: "escrow_env \<Rightarrow> nat \<Rightarrow> recv_addr \<Rightarrow> (escrow_world, bool) state" where
  "submit_forward e i a = (case x_pick e (ra_address a) (ra_coin a) of
     None \<Rightarrow> return False
   | Some [] \<Rightarrow> return False
   | Some (c # _) \<Rightarrow> if \<not> parseCoinTypeTag e (ra_coin a) \<or> \<not> x_prepared e i then return False
     else do {
       log_escrow (CallForward i (dc_id c) (x_forward e i (dc_id c)));
       case x_forward e i (dc_id c) of
         Done digest \<Rightarrow> if digest = '''' then return False
           else update_addr e (XForwarded i) (ra_address a) (\<lambda>x. x\<lparr>ra_status := RcForwarded, ra_forward_tx := digest\<rparr>)
       | _ \<Rightarrow> return False
     })"

definition CreateOrder_sui :: "escrow_env \<Rightarrow> nat \<Rightarrow> (escrow_world, bool) state" where
  "CreateOrder_sui e i = (if \<not> x_signer e then return False
   else do {
     w \<leftarrow> fetch;
     case (if xfails e (XOrder i) then None else find_pay i (ew_routes w)) of None \<Rightarrow> return False
     | Some p \<Rightarrow> (case address_of i w of None \<Rightarrow> return False
       | Some a \<Rightarrow>
           if po_status p \<in> {PoRefunded, PoCancelled, PoExpired} \<or> ra_forward_tx a \<noteq> ''''
           then update_addr e (XForwarded i) (ra_address a) (\<lambda>x. x\<lparr>ra_status := RcForwarded\<rparr>)
           else if ra_status a \<noteq> RcDeposited \<or> x_seed e (ra_address a) \<noteq> Some 32 then return False
           else submit_forward e i a)
   })"

definition forwardDeposits :: "escrow_env \<Rightarrow> (escrow_world, bool) state" where
  "forwardDeposits e = (if xfails e XForward then return False
   else do {
     w \<leftarrow> fetch;
     for_each (filter (\<lambda>a. ra_status a = RcDeposited) (ew_addrs w)) (\<lambda>a.
       case payment_of a w of None \<Rightarrow> return () | Some p \<Rightarrow> do { _ \<leftarrow> CreateOrder_sui e (po_id p); return () });
     return True
   })"

section \<open>Reconciliation\<close>

definition SelfSettleToAggregator :: "escrow_env \<Rightarrow> string \<Rightarrow> string \<Rightarrow> (escrow_world, bool) state" where
  "SelfSettleToAggregator e g coin = (if \<not> x_signer e \<or> g = '''' \<or> \<not> parseCoinTypeTag e coin \<or> \<not> x_settle_ready e g then return False
   else do {
     log_escrow (CallSelfSettle g coin (x_self_settle e g coin));
     return (case x_self_settle e g coin of Done _ \<Rightarrow> True | _ \<Rightarrow> False)
   })"

text \<open>A dispatcher that runs in this process starts a burst.\<close>

definition KickRouteA :: "escrow_env \<Rightarrow> (escrow_world, unit) state" where
  "KickRouteA e = only_if (x_active e) (on_routes (ExtendBurst (x_route e)))"

definition suiTxSuccess :: "tx_block \<Rightarrow> bool" where
  "suiTxSuccess b \<longleftrightarrow> tb_digest b \<noteq> '''' \<and> (tb_status b = '''' \<or> tb_status b = ''success'')"

definition gatewayOrderIDFromForwardTx :: "escrow_env \<Rightarrow> string \<Rightarrow> string option" where
  "gatewayOrderIDFromForwardTx e digest = (case x_tx_block e digest of None \<Rightarrow> None
   | Some b \<Rightarrow> if \<not> suiTxSuccess b then None
     else (case find (\<lambda>v. eventTypeMatches (x_package e) (mv_type v) ''OrderCreated'') (tb_events b) of None \<Rightarrow> None
     | Some v \<Rightarrow> (let g = getString (x_fmt e) (case mv_fields v of None \<Rightarrow> (\<lambda>_. None) | Some m \<Rightarrow> m) ''order_id'' in
         if g = '''' then None else Some g)))"

definition self_settle_route :: "escrow_env \<Rightarrow> nat \<Rightarrow> string \<Rightarrow> string \<Rightarrow> (escrow_world, unit) state" where
  "self_settle_route e j g coin = do {
     settled \<leftarrow> on_routes (hasSuccessfulRouteAEvent (x_route e) j SelfSettle);
     if settled then return ()
     else do {
       ok \<leftarrow> SelfSettleToAggregator e g coin;
       on_routes (LogOnce (x_route e) j SelfSettle (if ok then Succeeded else FailedEv));
       only_if ok (KickRouteA e)
     }
   }"

definition set_gateway :: "escrow_env \<Rightarrow> escrow_site \<Rightarrow> nat \<Rightarrow> string \<Rightarrow> (escrow_world, bool) state" where
  "set_gateway e s i g = do {
     only_if (x_fault e s \<noteq> DbFail) (modify (\<lambda>w. w\<lparr>ew_gateway := (ew_gateway w)(i := g)\<rparr>));
     return (x_fault e s = DbOk)
   }"

definition reconcile_address :: "escrow_env \<Rightarrow> escrow_world \<Rightarrow> recv_addr \<Rightarrow> (escrow_world, unit) state" where
  "reconcile_address e v a = (case payment_of a v of None \<Rightarrow> return ()
   | Some p \<Rightarrow> (case route_of (po_id p) v of None \<Rightarrow> return ()
   | Some r \<Rightarrow>
       if po_token p = None \<or> bridge_status r \<notin> {Pending, AwaitingFunds} then return ()
       else if ew_gateway v (po_id p) \<noteq> '''' then self_settle_route e (ord_id r) (ew_gateway v (po_id p)) (ra_coin a)
       else (case gatewayOrderIDFromForwardTx e (ra_forward_tx a) of
         None \<Rightarrow> on_routes (LogOnce (x_route e) (ord_id r) OrderCreatedEvent FailedEv)
       | Some g \<Rightarrow> do {
           ok \<leftarrow> set_gateway e (XGateway (po_id p)) (po_id p) g;
           if \<not> ok then return ()
           else do {
             on_routes (LogOnce (x_route e) (ord_id r) OrderCreatedEvent Succeeded);
             self_settle_route e (ord_id r) g (ra_coin a)
           }
         })))"

definition reconcileForwardedRouteA :: "escrow_env \<Rightarrow> (escrow_world, bool) state" where
  "reconcileForwardedRouteA e = (if xfails e XReconcile then return False
   else do {
     w \<leftarrow> fetch;
     for_each (filter (\<lambda>a. ra_status a = RcForwarded \<and> ra_forward_tx a \<noteq> '''') (ew_addrs w)) (reconcile_address e w);
     return True
   })"

definition CheckDeposits :: "escrow_env \<Rightarrow> (escrow_world, bool) state" where
  "CheckDeposits e = do {
     ok \<leftarrow> expireStale e;
     if \<not> ok then return False
     else do {
       ok \<leftarrow> detectDeposits e;
       if \<not> ok then return False
       else do {
         ok \<leftarrow> forwardDeposits e;
         if \<not> ok then return False else reconcileForwardedRouteA e
       }
     }
   }"

end
