(* ===== verification/Esc_Indexer.thy ===== *)
theory Esc_Indexer imports Esc_Watcher begin

text \<open>
  The event indexer (services/sui_event_indexer.go): a created order is either self-settled to the
  aggregator (Route A) or handed to the matching engine; a settled or refunded order moves its
  escrow rows, its payment order and the transaction log in one transaction and then notifies; a
  card debit settles the payment it names. A handler returns whether it ended without an error,
  and \<open>None\<close> when the assignment of an order does not return.
\<close>

type_synonym handled = "(bool \<times> escrow_world) option"

definition decodeMoveEvent :: "move_event \<Rightarrow> fields option" where
  "decodeMoveEvent raw = mv_fields raw"

definition publish_note :: "payment_order \<Rightarrow> string \<Rightarrow> (escrow_world, unit) state" where
  "publish_note p x = (case po_sender p of None \<Rightarrow> return ()
     | Some s \<Rightarrow> modify (\<lambda>w. w\<lparr>ew_notes := ew_notes w @ [(s, x, po_id p)]\<rparr>))"

section \<open>Created orders\<close>

record created_order =
  co_order :: string
  co_coin :: string
  co_amount :: "64 word"
  co_rate :: "64 word"
  co_tx :: string

definition created_order_of :: "escrow_env \<Rightarrow> move_event \<Rightarrow> fields \<Rightarrow> created_order" where
  "created_order_of e raw m = \<lparr>co_order = getString (x_fmt e) m ''order_id'', co_coin = getMoveString (x_fmt e) m ''coin_type'',
     co_amount = getUint64 m ''amount'', co_rate = getUint64 m ''rate'', co_tx = mv_tx raw\<rparr>"

text \<open>The event was seen when an escrow row has its order or its transaction.\<close>

definition already_locked :: "created_order \<Rightarrow> escrow_world \<Rightarrow> bool" where
  "already_locked v w \<longleftrightarrow> (\<exists>r \<in> set (mw_orders (ew_match w)). lk_gateway r = co_order v \<or> lk_tx r = co_tx v)"

text \<open>The payment order a reference names: no UUID or no row is \<open>Inr None\<close>, a failed query is \<open>Inl\<close>.\<close>

definition payment_by_reference :: "escrow_env \<Rightarrow> escrow_site \<Rightarrow> string \<Rightarrow> escrow_world \<Rightarrow> unit + payment_order option" where
  "payment_by_reference e s ref w = (case x_parse_uuid e ref of None \<Rightarrow> Inr None
     | Some i \<Rightarrow> if xfails e s then Inl () else Inr (find_pay i (ew_routes w)))"

text \<open>Whether the order is of Route A; its errors are only logged by the caller.\<close>

definition handleRouteAIfApplicable :: "escrow_env \<Rightarrow> created_order \<Rightarrow> string \<Rightarrow> (escrow_world, bool) state" where
  "handleRouteAIfApplicable e v ref = do {
     w \<leftarrow> fetch;
     case payment_by_reference e XReference ref w of
       Inr (Some p) \<Rightarrow> (case route_of (po_id p) w of None \<Rightarrow> return False
         | Some r \<Rightarrow> do {
             ok \<leftarrow> SelfSettleToAggregator e (co_order v) (co_coin v);
             on_routes (LogOnce (x_route e) (ord_id r) SelfSettle (if ok then Succeeded else FailedEv));
             if ok then do {
               KickRouteA e;
               _ \<leftarrow> set_gateway e XStamp (po_id p) (co_order v);
               return True
             } else return True
           })
     | _ \<Rightarrow> return False
   }"

text \<open>\<open>FromSubunit\<close> goes through a binary64.\<close>

definition FromSubunit :: "escrow_env \<Rightarrow> 64 word \<Rightarrow> nat \<Rightarrow> decimal" where
  "FromSubunit e amount decimals = x_float e (of_int (uint amount) / 10 ^ decimals)"

text \<open>The order's fields for the matching engine; the row has no id yet, so that the id stays zero.\<close>

definition lock_fields :: "escrow_env \<Rightarrow> created_order \<Rightarrow> order_recipient \<Rightarrow> assign_fields option" where
  "lock_fields e v r = (case x_token e (co_coin v) of None \<Rightarrow> None
   | Some (symbol, decimals) \<Rightarrow> (case x_currency e (or_institution r) of None \<Rightarrow> None
     | Some currency \<Rightarrow> (let amount = FromSubunit e (co_amount v) decimals; rate = event_rate (co_rate v) in
         Some \<lparr>af_id = 0, af_provider = or_provider r, af_rate = rate, af_amount = amount, af_symbol = symbol,
           af_institution = or_institution r, af_bucket = x_bucket e currency (amount * rate), af_updated = zero_time\<rparr>)))"

definition createLockPaymentOrderWithRecipient :: "escrow_env \<Rightarrow> created_order \<Rightarrow> order_recipient \<Rightarrow> escrow_world \<Rightarrow> handled" where
  "createLockPaymentOrderWithRecipient e v r w = (case lock_fields e v r of None \<Rightarrow> Some (False, w)
     | Some ao \<Rightarrow> map_option (\<lambda>(ok, m). (ok, w\<lparr>ew_match := m\<rparr>)) (AssignLockPaymentOrder (x_assign e) 0 ao (ew_match w)))"

definition publish_deposited :: "escrow_env \<Rightarrow> string \<Rightarrow> (escrow_world, unit) state" where
  "publish_deposited e ref = do {
     w \<leftarrow> fetch;
     case (if ref = '''' then Inr None else payment_by_reference e XPayment ref w) of
       Inr (Some p) \<Rightarrow> publish_note p ''payment.deposited''
     | _ \<Rightarrow> return ()
   }"

definition lock_and_publish :: "escrow_env \<Rightarrow> created_order \<Rightarrow> order_recipient \<Rightarrow> escrow_world \<Rightarrow> handled" where
  "lock_and_publish e v r w = map_option (\<lambda>(ok, w').
     if ok then (True, snd (run_state (publish_deposited e (or_reference r)) w')) else (False, w'))
     (createLockPaymentOrderWithRecipient e v r w)"

definition handleOrderCreated :: "escrow_env \<Rightarrow> move_event \<Rightarrow> escrow_world \<Rightarrow> handled" where
  "handleOrderCreated e raw w = (case decodeMoveEvent raw of None \<Rightarrow> Some (False, w)
   | Some m \<Rightarrow> (let v = created_order_of e raw m in
       if xfails e XSeen then Some (False, w)
       else if already_locked v w then Some (True, w)
       else (case Option.bind (message_cipher m) (x_decrypt e) of None \<Rightarrow> Some (False, w)
         | Some r \<Rightarrow>
             (case (if or_reference r = '''' then (False, w) else run_state (handleRouteAIfApplicable e v (or_reference r)) w) of
                (True, w') \<Rightarrow> Some (True, w')
              | (False, w') \<Rightarrow> lock_and_publish e v r w'))))"

section \<open>Settled and refunded orders\<close>

definition SendPaymentOrderWebhook :: "escrow_env \<Rightarrow> payment_order \<Rightarrow> po_status \<Rightarrow> (escrow_world, unit) state" where
  "SendPaymentOrderWebhook e p st = only_if (po_sender p \<noteq> None \<and> x_webhook e (po_id p))
     (modify (\<lambda>w. w\<lparr>ew_hooks := ew_hooks w @ [(po_id p, st)]\<rparr>))"

definition pays_of_gateway :: "string \<Rightarrow> escrow_world \<Rightarrow> payment_order list" where
  "pays_of_gateway g w = (if g = '''' then [] else filter (\<lambda>p. ew_gateway w (po_id p) = g) (pays (ew_routes w)))"

text \<open>The statements of the transaction: the log keyed by status and order, the escrow rows, and the
  payment unless it has the status already.\<close>

definition upsert_log :: "po_status \<Rightarrow> string \<Rightarrow> escrow_world \<Rightarrow> escrow_world" where
  "upsert_log st g w = (if (st, g) \<in> set (ew_logs w) then w else w\<lparr>ew_logs := ew_logs w @ [(st, g)]\<rparr>)"

definition lock_update :: "escrow_env \<Rightarrow> lock_status \<Rightarrow> string \<Rightarrow> string \<Rightarrow> escrow_world \<Rightarrow> escrow_world" where
  "lock_update e lst g d w = w\<lparr>ew_match := (ew_match w)\<lparr>mw_orders := map (\<lambda>r.
     if lk_gateway r = g then r\<lparr>lk_tx := d, lk_status := lst, lk_updated := x_now e\<rparr> else r) (mw_orders (ew_match w))\<rparr>\<rparr>"

definition pay_update :: "po_status \<Rightarrow> nat \<Rightarrow> escrow_world \<Rightarrow> escrow_world" where
  "pay_update st i w = w\<lparr>ew_routes := (ew_routes w)\<lparr>pays :=
     map (\<lambda>q. if po_id q = i then q\<lparr>po_status := st\<rparr> else q) (pays (ew_routes w))\<rparr>\<rparr>"

text \<open>A statement that fails leaves the transaction uncommitted.\<close>

definition updateOrderStatus :: "escrow_env \<Rightarrow> po_status \<Rightarrow> lock_status \<Rightarrow> string \<Rightarrow> string \<Rightarrow> string \<Rightarrow> (escrow_world, bool) state" where
  "updateOrderStatus e st lst topic g d = do {
     w \<leftarrow> fetch;
     if xfails e XPayment \<or> 1 < length (pays_of_gateway g w) then return False
     else (let stale = filter (\<lambda>p. po_status p \<noteq> st) (pays_of_gateway g w) in
       if xfails e XBegin \<or> xfails e XLog \<or> xfails e XLocks \<or> (stale \<noteq> [] \<and> xfails e XPayUpdate) then return False
       else do {
         only_if (x_fault e XCommit \<noteq> DbFail)
           (modify (\<lambda>w. fold (pay_update st \<circ> po_id) stale (lock_update e lst g d (upsert_log st g w))));
         if xfails e XCommit then return False
         else do {
           for_each stale (\<lambda>p. do { SendPaymentOrderWebhook e p st; publish_note p topic });
           return True
         }
       })
   }"

definition updateOrderStatusSettled :: "escrow_env \<Rightarrow> string \<Rightarrow> string \<Rightarrow> (escrow_world, bool) state" where
  "updateOrderStatusSettled e = updateOrderStatus e PoSettled LkSettled ''payment.settled''"

definition updateOrderStatusRefunded :: "escrow_env \<Rightarrow> string \<Rightarrow> string \<Rightarrow> (escrow_world, bool) state" where
  "updateOrderStatusRefunded e = updateOrderStatus e PoRefunded LkRefunded ''payment.refunded''"

definition handleOrderSettled :: "escrow_env \<Rightarrow> move_event \<Rightarrow> (escrow_world, bool) state" where
  "handleOrderSettled e raw = (case decodeMoveEvent raw of None \<Rightarrow> return False
     | Some m \<Rightarrow> updateOrderStatusSettled e (getString (x_fmt e) m ''order_id'') (mv_tx raw))"

definition handleOrderRefunded :: "escrow_env \<Rightarrow> move_event \<Rightarrow> (escrow_world, bool) state" where
  "handleOrderRefunded e raw = (case decodeMoveEvent raw of None \<Rightarrow> return False
     | Some m \<Rightarrow> updateOrderStatusRefunded e (getString (x_fmt e) m ''order_id'') (mv_tx raw))"

definition handleSenderFeeTransferred :: "move_event \<Rightarrow> (escrow_world, bool) state" where
  "handleSenderFeeTransferred raw = return (decodeMoveEvent raw \<noteq> None)"

section \<open>Card debits\<close>

definition handleCardDebited :: "escrow_env \<Rightarrow> move_event \<Rightarrow> (escrow_world, bool) state" where
  "handleCardDebited e raw = (case decodeMoveEvent raw of None \<Rightarrow> return False
   | Some m \<Rightarrow> do {
       w \<leftarrow> fetch;
       case x_parse_uuid e (text_of (getBytes m ''fiat_reference'')) of None \<Rightarrow> return False
       | Some i \<Rightarrow> if xfails e XPayment then return False
         else (case find_pay i (ew_routes w) of None \<Rightarrow> return True
           | Some p \<Rightarrow> if po_status p = PoSettled then return True
             else do {
               only_if (x_fault e XDebited \<noteq> DbFail) (modify (pay_update PoSettled i));
               if xfails e XDebited then return False
               else do { publish_note p ''payment.settled''; return True }
             })
     })"

section \<open>Dispatch\<close>

datatype subscriber = OnCreated | OnSettled | OnRefunded | OnFee | OnDebited

definition subscribers :: "(string \<times> subscriber) list" where
  "subscribers = [(''OrderCreated'', OnCreated), (''OrderSettled'', OnSettled), (''OrderRefunded'', OnRefunded),
     (''SenderFeeTransferred'', OnFee), (''CardDebited'', OnDebited)]"

definition handle_event :: "escrow_env \<Rightarrow> subscriber \<Rightarrow> move_event \<Rightarrow> escrow_world \<Rightarrow> handled" where
  "handle_event e h raw w = (case h of
     OnCreated \<Rightarrow> handleOrderCreated e raw w
   | OnSettled \<Rightarrow> Some (run_state (handleOrderSettled e raw) w)
   | OnRefunded \<Rightarrow> Some (run_state (handleOrderRefunded e raw) w)
   | OnFee \<Rightarrow> Some (run_state (handleSenderFeeTransferred raw) w)
   | OnDebited \<Rightarrow> Some (run_state (handleCardDebited e raw) w))"

text \<open>An event of a checkpoint, with the package of the call that emitted it. Errors are logged.\<close>

definition dispatch_event :: "escrow_env \<Rightarrow> string \<times> move_event \<Rightarrow> escrow_world \<Rightarrow> escrow_world option" where
  "dispatch_event e pv w = (let (p, raw) = pv in
     if \<not> pkgIDsMatch p (x_package e) then Some w
     else (case find (\<lambda>s. eventTypeMatches (x_package e) (mv_type raw) (fst s)) subscribers of None \<Rightarrow> Some w
       | Some (_, h) \<Rightarrow> if mv_fields raw = None then Some w else map_option snd (handle_event e h raw w)))"

fun subscribeGrpcCheckpoints :: "(nat \<Rightarrow> escrow_env) \<Rightarrow> (string \<times> move_event) list \<Rightarrow> escrow_world \<Rightarrow> escrow_world option" where
  "subscribeGrpcCheckpoints E [] w = Some w"
| "subscribeGrpcCheckpoints E (v # vs) w = Option.bind (dispatch_event (E 0) v w) (subscribeGrpcCheckpoints (E \<circ> Suc) vs)"

definition httpToWsURL :: "string \<Rightarrow> string" where
  "httpToWsURL u = (if prefix ''wss://'' u \<or> prefix ''ws://'' u then u
     else if prefix ''https://'' u then ''wss://'' @ trim_prefix ''https://'' u
     else if prefix ''http://'' u then ''ws://'' @ trim_prefix ''http://'' u
     else ''wss://'' @ u)"

end
