(* ===== verification/Esc_Runs.thy ===== *)
theory Esc_Runs imports Esc_Indexer begin

text \<open>
  Runs of the escrow gateway: watcher passes and indexer events interleaved statement group by
  statement group, also with snapshots that have grown stale. A pass is such a run, and in every
  run the deposit of a payment order goes into the gateway once.
\<close>

section \<open>What only depends on addresses and forwards\<close>

fun is_forward :: "escrow_call \<Rightarrow> bool" where
  "is_forward (CallForward i c oc) = True"
| "is_forward (CallSelfSettle g c oc) = False"

text \<open>An invariant of the receive addresses and the forwards: the indexer and the reconciliation
  keep it, whatever they do to the other tables.\<close>

locale forward_invariant =
  fixes I :: "escrow_world \<Rightarrow> bool"
  assumes frame: "ew_addrs v = ew_addrs w \<Longrightarrow> filter is_forward (ew_calls v) = filter is_forward (ew_calls w) \<Longrightarrow> I w \<Longrightarrow> I v"
begin

lemma frame_update:
  "(\<And>w. ew_addrs (f w) = ew_addrs w) \<Longrightarrow> (\<And>w. filter is_forward (ew_calls (f w)) = filter is_forward (ew_calls w)) \<Longrightarrow> keeps I (modify f)"
  by (rule keeps_update) (metis frame)

lemma on_routes_keeps: "keeps I (on_routes m)"
  unfolding on_routes_def Let_def by (intro keeps_intros frame_update) simp_all

lemma log_settle: "keeps I (log_escrow (CallSelfSettle g c oc))"
  unfolding log_escrow_def by (rule frame_update) simp_all

lemma settle_keeps: "keeps I (SelfSettleToAggregator e g c)"
  unfolding SelfSettleToAggregator_def by (intro keeps_intros log_settle)

lemma kick_keeps: "keeps I (KickRouteA e)"
  unfolding KickRouteA_def by (intro keeps_intros on_routes_keeps)

lemma gateway_keeps: "keeps I (set_gateway e s i g)"
  unfolding set_gateway_def by (intro keeps_intros frame_update) simp_all

lemma self_settle_keeps: "keeps I (self_settle_route e j g c)"
  unfolding self_settle_route_def by (intro keeps_intros on_routes_keeps settle_keeps kick_keeps)

lemma reconcile_keeps: "keeps I (reconcile_address e v a)"
  unfolding reconcile_address_def by (intro keeps_intros on_routes_keeps self_settle_keeps gateway_keeps)

lemma linked_keeps: "keeps I (log_linked e i s st)"
  unfolding log_linked_def by (intro keeps_intros on_routes_keeps)

lemma note_keeps: "keeps I (publish_note p x)"
  unfolding publish_note_def by (intro keeps_intros frame_update) simp_all

lemma hook_keeps: "keeps I (SendPaymentOrderWebhook e p st)"
  unfolding SendPaymentOrderWebhook_def by (intro keeps_intros frame_update) simp_all

lemma route_event_keeps: "keeps I (handleRouteAIfApplicable e v ref)"
  unfolding handleRouteAIfApplicable_def by (intro keeps_intros on_routes_keeps settle_keeps kick_keeps gateway_keeps)

lemma deposited_keeps: "keeps I (publish_deposited e ref)"
  unfolding publish_deposited_def by (intro keeps_intros note_keeps)

lemma pay_update_fields: "ew_addrs (fold (pay_update st \<circ> po_id) ps w) = ew_addrs w \<and> ew_calls (fold (pay_update st \<circ> po_id) ps w) = ew_calls w"
  by (induction ps arbitrary: w) (simp_all add: pay_update_def)

lemma status_keeps: "keeps I (updateOrderStatus e st lst t g d)"
  unfolding updateOrderStatus_def Let_def
  by (intro keeps_intros note_keeps hook_keeps frame_update)
    (simp_all add: pay_update_fields lock_update_def upsert_log_def)

lemma debit_keeps: "keeps I (handleCardDebited e raw)"
  unfolding handleCardDebited_def by (intro keeps_intros note_keeps frame_update) (simp_all add: pay_update_def)

lemma created_keeps:
  assumes "I w" "handleOrderCreated e raw w = Some (ok, w')"
  shows "I w'"
proof -
  have lock: "I v'" if "I v" "lock_and_publish e c r v = Some (ok', v')" for c r v ok' v'
  proof -
    from that(2) obtain b u where u: "createLockPaymentOrderWithRecipient e c r v = Some (b, u)"
      and v': "(ok', v') = (if b then (True, snd (run_state (publish_deposited e (or_reference r)) u)) else (False, u))"
      by (auto simp: lock_and_publish_def)
    have "I u"
      using u that(1) by (auto simp: createLockPaymentOrderWithRecipient_def intro: frame [of _ v] split: option.splits)
    then show ?thesis using keepsD [OF deposited_keeps] v' by (cases b) simp_all
  qed
  have route: "I v" if "run_state (handleRouteAIfApplicable e c r) w = (b, v)" for c r b v
    using keepsD [OF route_event_keeps assms(1), of e c r] that by simp
  show ?thesis
    using assms route lock [OF assms(1)] lock [OF route]
    by (auto simp: handleOrderCreated_def Let_def split: option.splits if_splits prod.splits bool.splits)
qed

lemma event_keeps: "I w \<Longrightarrow> dispatch_event e pv w = Some w' \<Longrightarrow> I w'"
proof -
  assume I: "I w" and d: "dispatch_event e pv w = Some w'"
  have run: "I v" if "run_state m w = (b, v)" "keeps I m" for m :: "(escrow_world, bool) state" and b v
    using keepsD [OF that(2) I] that(1) by simp
  have status: "keeps I (handleOrderSettled e raw)" "keeps I (handleOrderRefunded e raw)" "keeps I (handleSenderFeeTransferred raw)" for raw
    unfolding handleOrderSettled_def handleOrderRefunded_def handleSenderFeeTransferred_def
      updateOrderStatusSettled_def updateOrderStatusRefunded_def
    by (intro keeps_intros status_keeps)+
  have "I v" if "handle_event e h raw w = Some (b, v)" for h raw b v
    using that run [OF _ status(1)] run [OF _ status(2)] run [OF _ status(3)] run [OF _ debit_keeps] created_keeps [OF I]
    by (cases h) (simp_all add: handle_event_def)
  then show ?thesis
    using d I by (cases pv) (auto simp: dispatch_event_def Let_def split: if_splits option.splits)
qed

end

section \<open>Forwarding once\<close>

definition is_forward_of :: "nat \<Rightarrow> escrow_call \<Rightarrow> bool" where
  "is_forward_of i c = (case c of CallForward j _ (Done d) \<Rightarrow> j = i \<and> d \<noteq> '''' | _ \<Rightarrow> False)"

definition forwards_of :: "nat \<Rightarrow> escrow_world \<Rightarrow> nat" where
  "forwards_of i w = length (filter (is_forward_of i) (ew_calls w))"

text \<open>An escrow has been created for the payment at most once, and only if its address has the digest.\<close>

definition forwarded_ok :: "nat \<Rightarrow> escrow_world \<Rightarrow> bool" where
  "forwarded_ok i w \<longleftrightarrow> forwards_of i w \<le> 1 \<and>
     (0 < forwards_of i w \<longrightarrow> (\<exists>a. address_of i w = Some a \<and> ra_forward_tx a \<noteq> ''''))"

lemma forwards_of_filter: "forwards_of i w = length (filter (is_forward_of i) (filter is_forward (ew_calls w)))"
proof -
  have "is_forward_of i c \<Longrightarrow> is_forward c" for c
    by (cases c) (auto simp: is_forward_of_def)
  then have "filter (is_forward_of i) (filter is_forward cs) = filter (is_forward_of i) cs" for cs
    by (auto simp: filter_filter intro: filter_cong)
  then show ?thesis by (simp add: forwards_of_def)
qed

interpretation once: forward_invariant "forwarded_ok i" for i
proof
  fix v w :: escrow_world
  assume "ew_addrs v = ew_addrs w" "filter is_forward (ew_calls v) = filter is_forward (ew_calls w)" "forwarded_ok i w"
  then show "forwarded_ok i v"
    unfolding forwarded_ok_def forwards_of_filter address_of_def by simp
qed

text \<open>Updates of an address that keep its payment and do not erase its digest.\<close>

definition gentle :: "(recv_addr \<Rightarrow> recv_addr) \<Rightarrow> bool" where
  "gentle f \<longleftrightarrow> (\<forall>a. ra_payment (f a) = ra_payment a \<and> (ra_forward_tx a \<noteq> '''' \<longrightarrow> ra_forward_tx (f a) \<noteq> ''''))"

lemma forwarded_map: "gentle f \<Longrightarrow> forwarded_ok i w \<Longrightarrow> forwarded_ok i (w\<lparr>ew_addrs := map f (ew_addrs w)\<rparr>)"
  by (auto simp: forwarded_ok_def forwards_of_def address_of_def gentle_def find_map_same)

lemma put_addr_ok: "gentle f \<Longrightarrow> forwarded_ok i w \<Longrightarrow> forwarded_ok i (put_addr a f w)"
  unfolding put_addr_def by (rule forwarded_map) (simp_all add: gentle_def)

lemma update_addr_ok: "gentle f \<Longrightarrow> keeps (forwarded_ok i) (update_addr e s a f)"
  unfolding update_addr_def by (intro keeps_intros keeps_update put_addr_ok) simp_all

lemma expire_ok: "keeps (forwarded_ok i) (expireStale e)"
  unfolding expireStale_def by (intro keeps_intros keeps_update forwarded_map) (simp_all add: gentle_def)

lemma detect_ok: "keeps (forwarded_ok i) (detect_address e a)"
  unfolding detect_address_def Let_def
  by (intro keeps_intros once.linked_keeps update_addr_ok) (simp_all add: gentle_def)

text \<open>A write of the digest that is acknowledged.\<close>

definition forwards_saved :: "escrow_env \<Rightarrow> bool" where
  "forwards_saved e \<longleftrightarrow> (\<forall>i. x_fault e (XForwarded i) = DbOk)"

lemma submit_ok:
  assumes "forwards_saved e" "forwarded_ok i w" "address_of j w = Some a" "ra_forward_tx a = ''''"
  shows "forwarded_ok i (snd (run_state (submit_forward e j a) w))"
proof -
  have none: "i = j \<Longrightarrow> forwards_of i w = 0" using assms(2-4) by (auto simp: forwarded_ok_def)
  have call: "forwards_of i (w\<lparr>ew_calls := ew_calls w @ [CallForward j c oc]\<rparr>) =
      forwards_of i w + (if i = j \<and> (\<exists>d. oc = Done d \<and> d \<noteq> '''') then 1 else 0)" for c oc
    by (auto simp: forwards_of_def is_forward_of_def split: outcome.split)
  have same: "address_of i (w\<lparr>ew_calls := cs\<rparr>) = address_of i w" for cs
    by (simp add: address_of_def)
  have put: "forwarded_ok i (put_addr (ra_address a) (\<lambda>x. x\<lparr>ra_status := RcForwarded, ra_forward_tx := d\<rparr>) (w\<lparr>ew_calls := ew_calls w @ [CallForward j c (Done d)]\<rparr>))"
    if "d \<noteq> ''''" for d c
  proof (cases "i = j")
    case True
    let ?v = "w\<lparr>ew_calls := ew_calls w @ [CallForward j c (Done d)]\<rparr>"
    let ?f = "\<lambda>x. x\<lparr>ra_status := RcForwarded, ra_forward_tx := d\<rparr>"
    have "forwards_of i (put_addr (ra_address a) ?f ?v) = forwards_of i ?v" by (simp add: forwards_of_def put_addr_def)
    moreover have "address_of i (put_addr (ra_address a) ?f ?v) = Some (?f a)"
      using assms(3) True by (simp add: address_of_def put_addr_def find_map_same)
    ultimately show ?thesis
      using none that True call [of c "Done d"] by (auto simp: forwarded_ok_def)
  next
    case False
    with that call assms(2) have "forwarded_ok i (w\<lparr>ew_calls := ew_calls w @ [CallForward j c (Done d)]\<rparr>)"
      by (simp add: forwarded_ok_def same)
    with that show ?thesis by (intro put_addr_ok) (simp_all add: gentle_def)
  qed
  have lost: "forwarded_ok i (w\<lparr>ew_calls := ew_calls w @ [CallForward j c oc]\<rparr>)" if "\<forall>d. oc = Done d \<longrightarrow> d = ''''" for c oc
    using assms(2) that by (auto simp: forwarded_ok_def call same)
  show ?thesis
    using assms(1,2) put lost
    by (auto simp: submit_forward_def log_escrow_def update_addr_def only_if_def forwards_saved_def
        split: option.splits list.splits outcome.splits)
qed

lemma create_ok: "forwards_saved e \<Longrightarrow> keeps (forwarded_ok i) (CreateOrder_sui e j)"
proof -
  assume saved: "forwards_saved e"
  have "forwarded_ok i (snd (run_state (CreateOrder_sui e j) w))" if "forwarded_ok i w" for w
    using that keepsD [OF update_addr_ok that] submit_ok [OF saved that]
    by (auto simp: CreateOrder_sui_def gentle_def split: option.splits)
  then show ?thesis by (simp add: keeps_def)
qed

section \<open>Runs\<close>

text \<open>One statement group of the watcher, with the rows it was handed, or one event. Every request has an
  environment of its own, about which \<open>G\<close> may assume something.\<close>

inductive escrow_step :: "(escrow_env \<Rightarrow> bool) \<Rightarrow> escrow_world \<Rightarrow> escrow_world \<Rightarrow> bool" for G where
  expire: "G e \<Longrightarrow> escrow_step G w (snd (run_state (expireStale e) w))"
| detect: "G e \<Longrightarrow> escrow_step G w (snd (run_state (detect_address e a) w))"
| forward: "G e \<Longrightarrow> escrow_step G w (snd (run_state (CreateOrder_sui e i) w))"
| reconcile: "G e \<Longrightarrow> escrow_step G w (snd (run_state (reconcile_address e v a) w))"
| event: "G e \<Longrightarrow> dispatch_event e pv w = Some w' \<Longrightarrow> escrow_step G w w'"

abbreviation escrow_run :: "(escrow_env \<Rightarrow> bool) \<Rightarrow> escrow_world \<Rightarrow> escrow_world \<Rightarrow> bool" where
  "escrow_run G \<equiv> (escrow_step G)\<^sup>*\<^sup>*"

lemma step_ok: "escrow_step forwards_saved w w' \<Longrightarrow> forwarded_ok i w \<Longrightarrow> forwarded_ok i w'"
  by (induction rule: escrow_step.induct)
    (auto intro: keepsD [OF expire_ok] keepsD [OF detect_ok] keepsD [OF create_ok] keepsD [OF once.reconcile_keeps] once.event_keeps)

text \<open>The deposit of a payment order goes into the gateway at most once, however watcher passes
  (also with rows read earlier) and chain events are interleaved, if every write of a forward's
  digest is acknowledged.\<close>

theorem forwarded_at_most_once:
  assumes "escrow_run forwards_saved w w'" "ew_calls w = []"
  shows "forwards_of i w' \<le> 1"
proof -
  have "forwarded_ok i w" using assms(2) by (simp add: forwarded_ok_def forwards_of_def)
  with assms(1) have "forwarded_ok i w'"
    by (induction rule: rtranclp_induct) (auto intro: step_ok)
  then show ?thesis by (simp add: forwarded_ok_def)
qed

definition runs_to :: "(escrow_env \<Rightarrow> bool) \<Rightarrow> (escrow_world, 'a) state \<Rightarrow> bool" where
  "runs_to G m \<longleftrightarrow> (\<forall>w. escrow_run G w (snd (run_state m w)))"

lemma runs_return: "runs_to G (return x)"
  by (simp add: runs_to_def)

lemma runs_get: "runs_to G fetch"
  by (simp add: runs_to_def)

lemma runs_bind: "runs_to G m \<Longrightarrow> (\<And>r. runs_to G (f r)) \<Longrightarrow> runs_to G (m \<bind> f)"
  by (simp add: runs_to_def split: prod.split) (metis rtranclp_trans snd_conv)

lemma runs_if: "runs_to G m \<Longrightarrow> runs_to G n \<Longrightarrow> runs_to G (if c then m else n)"
  by simp

lemma runs_option: "runs_to G m \<Longrightarrow> (\<And>x. runs_to G (f x)) \<Longrightarrow> runs_to G (case x of None \<Rightarrow> m | Some x \<Rightarrow> f x)"
  by (cases x) auto

lemma runs_each: "(\<And>x. runs_to G (f x)) \<Longrightarrow> runs_to G (for_each xs f)"
  by (induction xs) (auto intro: runs_return runs_bind)

lemma runs_step: "(\<And>w. escrow_step G w (snd (run_state m w))) \<Longrightarrow> runs_to G m"
  by (simp add: runs_to_def r_into_rtranclp)

lemmas runs_intros = runs_return runs_get runs_bind runs_if runs_option runs_each

lemma CheckDeposits_run:
  assumes "G e"
  shows "escrow_run G w (snd (run_state (CheckDeposits e) w))"
proof -
  have "runs_to G (expireStale e)" "\<And>a. runs_to G (detect_address e a)" "\<And>i. runs_to G (CreateOrder_sui e i)"
    "\<And>v a. runs_to G (reconcile_address e v a)"
    using assms by (auto intro: runs_step escrow_step.intros)
  then have "runs_to G (CheckDeposits e)"
    unfolding CheckDeposits_def detectDeposits_def forwardDeposits_def reconcileForwardedRouteA_def
    by (intro runs_intros)
  then show ?thesis by (simp add: runs_to_def)
qed

definition pass :: "escrow_env \<Rightarrow> escrow_world \<Rightarrow> escrow_world" where
  "pass e w = snd (run_state (CheckDeposits e) w)"


end
