(* ===== verification/Esc_Results.thy ===== *)
theory Esc_Results imports Esc_Runs begin

text \<open>
  What the event indexer does to the rows: a settled or refunded order moves its escrow rows and its
  payment together and tells the sender once; a created order of no Route A order leaves no trace
  by which its settlement could find the payment; and the rate an order carries on-chain is not
  the rate the indexer reads.
\<close>

section \<open>Settlement and refund\<close>

definition settled_rows :: "escrow_env \<Rightarrow> po_status \<Rightarrow> lock_status \<Rightarrow> string \<Rightarrow> string \<Rightarrow> escrow_world \<Rightarrow> escrow_world" where
  "settled_rows e st lst g d w = fold (pay_update st \<circ> po_id) (filter (\<lambda>p. po_status p \<noteq> st) (pays_of_gateway g w))
     (lock_update e lst g d (upsert_log st g w))"

lemma pay_updates:
  "pays (ew_routes (fold (pay_update st \<circ> po_id) ps w)) =
     map (\<lambda>q. if po_id q \<in> po_id ` set ps then q\<lparr>po_status := st\<rparr> else q) (pays (ew_routes w))"
  "ew_gateway (fold (pay_update st \<circ> po_id) ps w) = ew_gateway w" "ew_logs (fold (pay_update st \<circ> po_id) ps w) = ew_logs w"
  "ew_match (fold (pay_update st \<circ> po_id) ps w) = ew_match w" "ew_hooks (fold (pay_update st \<circ> po_id) ps w) = ew_hooks w"
  "ew_notes (fold (pay_update st \<circ> po_id) ps w) = ew_notes w"
  by (induction ps arbitrary: w) (auto simp: pay_update_def)

lemma before_pays [simp]:
  "pays (ew_routes (lock_update e lst g d (upsert_log st g w))) = pays (ew_routes w)"
  "ew_gateway (lock_update e lst g d (upsert_log st g w)) = ew_gateway w"
  "ew_hooks (lock_update e lst g d (upsert_log st g w)) = ew_hooks w"
  "ew_notes (lock_update e lst g d (upsert_log st g w)) = ew_notes w"
  by (simp_all add: lock_update_def upsert_log_def)

definition by_gateway :: "string \<Rightarrow> escrow_world \<Rightarrow> payment_order \<Rightarrow> bool" where
  "by_gateway g w p \<longleftrightarrow> g \<noteq> '''' \<and> ew_gateway w (po_id p) = g"

lemma set_pays_of_gateway: "pays_of_gateway g w = filter (by_gateway g w) (pays (ew_routes w))"
  by (cases "g = ''''") (simp_all add: pays_of_gateway_def by_gateway_def [abs_def])

lemma settled_pays:
  "pays (ew_routes (settled_rows e st lst g d w)) =
     map (\<lambda>q. if by_gateway g w q then q\<lparr>po_status := st\<rparr> else q) (pays (ew_routes w))"
proof -
  have "(if po_id q \<in> po_id ` set (filter (\<lambda>p. po_status p \<noteq> st) (pays_of_gateway g w)) then q\<lparr>po_status := st\<rparr> else q)
      = (if by_gateway g w q then q\<lparr>po_status := st\<rparr> else q)" if "q \<in> set (pays (ew_routes w))" for q
    using that by (auto simp: set_pays_of_gateway by_gateway_def)
  then show ?thesis by (simp add: settled_rows_def pay_updates)
qed

text \<open>The trace of the notifications.\<close>

definition told :: "escrow_world \<Rightarrow> (nat \<times> po_status) list \<times> (nat \<times> string \<times> nat) list" where
  "told w = (ew_hooks w, ew_notes w)"

definition rest_of :: "escrow_world \<Rightarrow> world \<times> (nat \<Rightarrow> string) \<times> (po_status \<times> string) list \<times> match_world \<times> recv_addr list" where
  "rest_of w = (ew_routes w, ew_gateway w, ew_logs w, ew_match w, ew_addrs w)"

lemma tell_rest: "run_state (for_each ps (\<lambda>p. do { SendPaymentOrderWebhook e p st; publish_note p t })) w = (r, w') \<Longrightarrow> rest_of w' = rest_of w"
proof -
  have "keeps (\<lambda>v. rest_of v = rest_of w) (for_each ps (\<lambda>p. do { SendPaymentOrderWebhook e p st; publish_note p t }))"
    unfolding SendPaymentOrderWebhook_def publish_note_def
    by (intro keeps_intros keeps_update) (simp_all add: rest_of_def)
  then show "run_state (for_each ps (\<lambda>p. do { SendPaymentOrderWebhook e p st; publish_note p t })) w = (r, w') \<Longrightarrow> ?thesis"
    using keepsD by fastforce
qed

lemma status_done:
  assumes "run_state (updateOrderStatus e st lst t g d) w = (True, w')"
  shows "rest_of w' = rest_of (settled_rows e st lst g d w) \<and>
    (filter (\<lambda>p. po_status p \<noteq> st) (pays_of_gateway g w) = [] \<longrightarrow> told w' = told w) \<and> length (pays_of_gateway g w) \<le> 1"
proof -
  let ?stale = "filter (\<lambda>p. po_status p \<noteq> st) (pays_of_gateway g w)"
  have tell: "run_state (for_each ?stale (\<lambda>p. do { SendPaymentOrderWebhook e p st; publish_note p t })) (settled_rows e st lst g d w) = ((), w')"
    and one: "length (pays_of_gateway g w) \<le> 1"
    using assms by (auto simp: updateOrderStatus_def Let_def only_if_def settled_rows_def split: if_splits prod.splits)
  have "told w' = told w" if "?stale = []"
    using tell that unfolding that by (auto simp: settled_rows_def told_def that lock_update_def upsert_log_def)
  with tell_rest [OF tell] one show ?thesis by blast
qed

text \<open>When a settled (or refunded) event is handled without an error, its escrow rows have the
  new status and the event's transaction, its payment order has the new status, the transaction
  log has an entry, and every other escrow row and payment order is as it was.\<close>

theorem updateOrderStatus_rows:
  assumes "run_state (updateOrderStatus e st lst t g d) w = (True, w')"
  shows "mw_orders (ew_match w') =
      map (\<lambda>r. if lk_gateway r = g then r\<lparr>lk_tx := d, lk_status := lst, lk_updated := x_now e\<rparr> else r) (mw_orders (ew_match w)) \<and>
    pays (ew_routes w') = map (\<lambda>q. if by_gateway g w q then q\<lparr>po_status := st\<rparr> else q) (pays (ew_routes w)) \<and>
    (st, g) \<in> set (ew_logs w')"
proof -
  have "rest_of w' = rest_of (settled_rows e st lst g d w)" using status_done [OF assms] by blast
  then have fields: "ew_match w' = ew_match (settled_rows e st lst g d w)" "ew_routes w' = ew_routes (settled_rows e st lst g d w)"
    "ew_logs w' = ew_logs (settled_rows e st lst g d w)" by (simp_all add: rest_of_def)
  have "(st, g) \<in> set (ew_logs w')" by (simp add: fields(3) settled_rows_def pay_updates lock_update_def upsert_log_def)
  moreover have "mw_orders (ew_match w') =
      map (\<lambda>r. if lk_gateway r = g then r\<lparr>lk_tx := d, lk_status := lst, lk_updated := x_now e\<rparr> else r) (mw_orders (ew_match w))"
    by (simp add: fields(1) settled_rows_def pay_updates lock_update_def upsert_log_def)
  ultimately show ?thesis using settled_pays by (simp add: fields(2))
qed

lemma settled_twice:
  assumes "rest_of w' = rest_of (settled_rows e st lst g d w)" "q \<in> set (pays_of_gateway g w')"
  shows "po_status q = st"
proof -
  have routes: "ew_routes w' = ew_routes (settled_rows e st lst g d w)" and "ew_gateway w' = ew_gateway (settled_rows e st lst g d w)"
    using assms(1) by (simp_all add: rest_of_def)
  then have gateway: "ew_gateway w' = ew_gateway w" by (simp add: settled_rows_def pay_updates)
  from assms(2) have q: "q \<in> set (pays (ew_routes w'))" "g \<noteq> ''''" "ew_gateway w (po_id q) = g"
    by (simp_all add: set_pays_of_gateway by_gateway_def gateway)
  from q(1) have "q \<in> (\<lambda>p. if by_gateway g w p then p\<lparr>po_status := st\<rparr> else p) ` set (pays (ew_routes w))"
    by (simp only: routes settled_pays set_map)
  then obtain p where "q = (if by_gateway g w p then p\<lparr>po_status := st\<rparr> else p)" by (rule imageE)
  with q(2,3) show ?thesis by (cases "by_gateway g w p") (simp_all add: by_gateway_def)
qed

text \<open>A settled (or refunded) event delivered again tells nobody anything: no webhook and no
  message, in whatever environment and with whatever transaction it comes back.\<close>

theorem redelivery_is_silent:
  assumes "run_state (updateOrderStatus e st lst t g d) w = (True, w1)"
    "run_state (updateOrderStatus e' st lst t g d') w1 = (b, w2)"
  shows "told w2 = told w1"
proof -
  have none: "filter (\<lambda>p. po_status p \<noteq> st) (pays_of_gateway g w1) = []"
    using settled_twice [OF conjunct1 [OF status_done [OF assms(1)]]] by (simp add: filter_empty_conv)
  show ?thesis
  proof (cases b)
    case True
    with assms(2) none show ?thesis using status_done [of e' st lst t g d' w1 w2] by simp
  next
    case False
    have "told w2 = told w1" if "\<not> b"
      using assms(2) that none
      by (auto simp: updateOrderStatus_def Let_def only_if_def told_def lock_update_def upsert_log_def split: if_splits)
    with False show ?thesis by simp
  qed
qed

section \<open>Created orders without a Route A order\<close>

lemma created_gateway:
  assumes "handleOrderCreated e raw w = Some (ok, w')" "\<And>i. route_of i w = None"
  shows "ew_gateway w' = ew_gateway w \<and> ew_routes w' = ew_routes w"
proof -
  have route: "run_state (handleRouteAIfApplicable e v ref) w = (False, w)" for v ref
    using assms(2) by (simp add: handleRouteAIfApplicable_def split: sum.split option.split)
  have "ew_gateway u' = ew_gateway u \<and> ew_routes u' = ew_routes u" if "lock_and_publish e v r u = Some (b, u')" for v r u b u'
    using that
    by (auto simp: lock_and_publish_def createLockPaymentOrderWithRecipient_def publish_deposited_def publish_note_def
        split: if_splits option.splits sum.splits)
  then show ?thesis
    using assms(1) route
    by (auto simp: handleOrderCreated_def Let_def split: if_splits option.splits)
qed

text \<open>A deposit that is not of a Route A order is never marked settled: the creation event does
  not record the gateway's order on the payment, so that the settlement event, which looks the
  payment up by it, changes no payment and tells no sender.\<close>

theorem settlement_of_locked_order_lost:
  assumes "handleOrderCreated e raw w = Some (ok, w1)" "\<And>i. route_of i w = None" "\<And>i. ew_gateway w i \<noteq> g"
    "run_state (updateOrderStatusSettled e' g d) w1 = (b, w2)"
  shows "pays (ew_routes w2) = pays (ew_routes w) \<and> told w2 = told w1"
proof -
  have same: "ew_gateway w1 = ew_gateway w" "ew_routes w1 = ew_routes w"
    using created_gateway [OF assms(1,2)] by simp_all
  then have "pays_of_gateway g w1 = []" using assms(3) by (simp add: pays_of_gateway_def)
  with assms(4) have "pays (ew_routes w2) = pays (ew_routes w1) \<and> told w2 = told w1"
    by (auto simp: updateOrderStatusSettled_def updateOrderStatus_def Let_def only_if_def told_def
        lock_update_def upsert_log_def split: if_splits)
  with same show ?thesis by simp
qed

lemma created_returns:
  assumes "\<And>n. m_fault (x_assign e n) MExcludePush \<noteq> DbFail"
  shows "\<exists>r. handleOrderCreated e raw w = Some r"
proof -
  have "\<exists>r. lock_and_publish e v r' u = Some r" for v r' u
  proof (cases "lock_fields e v r'")
    case (Some ao)
    obtain x where "AssignLockPaymentOrder (x_assign e) 0 ao (ew_match u) = Some x" using assign_returns [where E = "x_assign e", OF assms] by blast
    with Some show ?thesis by (simp add: lock_and_publish_def createLockPaymentOrderWithRecipient_def)
  qed (auto simp: lock_and_publish_def createLockPaymentOrderWithRecipient_def)
  then show ?thesis
    by (auto simp: handleOrderCreated_def Let_def split: option.split prod.split bool.split)
qed

text \<open>The events of a subscription are handled to the end: the indexer does not hang in the
  matching engine, if the exclude lists can be written.\<close>

theorem subscription_returns:
  assumes "\<And>k n. m_fault (x_assign (E k) n) MExcludePush \<noteq> DbFail"
  shows "\<exists>w'. subscribeGrpcCheckpoints E vs w = Some w'"
  using assms
proof (induction vs arbitrary: E w)
  case (Cons v vs)
  obtain p raw where v: "v = (p, raw)" by fastforce
  have handled: "\<exists>r. handle_event (E 0) h raw w = Some r" for h
    using created_returns [of "E 0" raw w] Cons.prems by (cases h) (simp_all add: handle_event_def)
  have "\<exists>u. dispatch_event (E 0) v w = Some u"
  proof (cases "find (\<lambda>s. eventTypeMatches (x_package (E 0)) (mv_type raw) (fst s)) subscribers")
    case (Some s)
    obtain r where "handle_event (E 0) (snd s) raw w = Some r" using handled by blast
    with Some show ?thesis by (cases s) (simp add: dispatch_event_def v)
  qed (simp add: dispatch_event_def v)
  then obtain u where "dispatch_event (E 0) v w = Some u" by blast
  moreover have "\<exists>w'. subscribeGrpcCheckpoints (E \<circ> Suc) vs u = Some w'"
    by (rule Cons.IH) (simp add: Cons.prems)
  ultimately show ?case by simp
qed simp

section \<open>Rates\<close>

text \<open>The rate that \<open>CreateOrder\<close> writes on-chain is a million times the payment's rate, and the
  indexer takes it as the rate: for every non-negative rate of at most six decimals in range.\<close>

theorem indexer_rate_scaled:
  assumes "rate * 10 ^ 6 = of_int n" "0 \<le> n" "n < 2 ^ 63"
  shows "event_rate (rateAsU64 rate) = rate * 10 ^ 6"
proof -
  have r: "trunc (rate * 1000000) = n" using assms(1,2) by (simp add: trunc_def)
  have s: "sint (word_of_int n :: 64 word) = n"
    using assms(2,3) by (simp add: sint_sbintrunc' signed_take_bit_int_eq_self)
  have "uint (word_of_int n :: 64 word) = n"
    using assms(2,3) by (simp add: uint_word_of_int)
  with assms r s show ?thesis by (simp add: event_rate_def rateAsU64_def Let_def)
qed

end
