(* ===== verification/Esc_Samples.thy ===== *)
theory Esc_Samples imports Esc_Results Route_Samples Match_Samples begin

text \<open>
  Concrete executions of the escrow gateway: they show that the properties' hypotheses can hold,
  and the executions in which a deposit goes into the gateway twice, a coin is forwarded that does
  not cover the order, or a Route A escrow is settled twice.
\<close>

section \<open>One address\<close>

definition sample_coin :: "string \<Rightarrow> string \<Rightarrow> deposit_coin" where
  "sample_coin i b = \<lparr>dc_id = i, dc_balance = b, dc_previous = ''tx''\<rparr>"

definition escrow_calm :: escrow_env where
  "escrow_calm = \<lparr>x_now = 0, x_fault = (\<lambda>_. DbOk), x_route = calm, x_assign = (\<lambda>_. match_calm), x_signer = True,
     x_seed = (\<lambda>_. Some 32), x_coins = (\<lambda>_ _. Some [sample_coin ''c1'' ''9'']), x_pick = (\<lambda>_ _. Some [sample_coin ''c1'' ''9'']),
     x_prepared = (\<lambda>_. True), x_forward = (\<lambda>_ _. Done ''fw''), x_address_ok = (\<lambda>_. True), x_settle_ready = (\<lambda>_. True),
     x_self_settle = (\<lambda>_ _. Done ''ss''), x_active = True, x_tx_block = (\<lambda>_. None), x_package = ''0x2'', x_fmt = (\<lambda>_. ''''),
     x_decrypt = (\<lambda>_. Some \<lparr>or_institution = ''044'', or_account = ''01'', or_provider = '''', or_reference = ''u''\<rparr>),
     x_parse_uuid = (\<lambda>_. Some 1), x_token = (\<lambda>_. Some (''USDC'', 6)), x_currency = (\<lambda>_. Some ''NGN''), x_float = id,
     x_bucket = (\<lambda>_ _. None), x_webhook = (\<lambda>_. True)\<rparr>"

definition sample_addr :: recv_addr where
  "sample_addr = \<lparr>ra_address = ''0xr'', ra_coin = ''0x2::usdc::USDC'', ra_expected = 9, ra_status = RcUnused, ra_deposit_tx = '''',
     ra_forward_tx = '''', ra_until = Some 5, ra_payment = Some 1\<rparr>"

definition escrow_start :: "world \<Rightarrow> recv_addr list \<Rightarrow> escrow_world" where
  "escrow_start r as = \<lparr>ew_addrs = as, ew_gateway = (\<lambda>_. ''''), ew_logs = [], ew_hooks = [], ew_notes = [], ew_calls = [],
     ew_routes = r, ew_match = escrowed\<rparr>"

lemmas escrow_sample_defs = escrow_calm_def sample_coin_def sample_addr_def escrow_start_def empty_world_def sample_pay_def

definition created_fields :: fields where
  "created_fields k = (if k = ''order_id'' then Some (JString ''0xee'') else if k = ''coin_type'' then Some (JString ''0x2::usdc::USDC'')
     else if k = ''amount'' \<or> k = ''rate'' then Some (JString ''5'') else None)"

definition created_event :: move_event where
  "created_event = \<lparr>mv_type = ''0x2::events::OrderCreated'', mv_fields = Some created_fields, mv_tx = ''t1''\<rparr>"

section \<open>Witnesses\<close>

lemma forwarded_at_most_once_witness:
  "forwards_of 1 (snd (run_state (CheckDeposits escrow_calm) (escrow_start empty_world [sample_addr]))) \<le> 1"
  by (rule forwarded_at_most_once [OF CheckDeposits_run])
    (simp_all add: forwards_saved_def escrow_sample_defs)


lemma subscription_returns_witness:
  "\<exists>w. subscribeGrpcCheckpoints (\<lambda>_. escrow_calm) [(''0x2'', created_event), (''0x02'', created_event)] (escrow_start empty_world [sample_addr]) = Some w"
  by (rule subscription_returns) (simp add: escrow_calm_def match_calm_def)

lemma indexer_rate_scaled_witness: "event_rate (rateAsU64 1500) = 1500 * 10 ^ 6"
  by (rule indexer_rate_scaled [of _ 1500000000]) simp_all

lemma pkgIDsMatch_iff_witness: "pkgIDsMatch ''0x00AB'' ''ab'' \<longleftrightarrow> package_number ''0x00AB'' = package_number ''ab''"
  by (rule pkgIDsMatch_iff) (simp_all add: trim_prefix_def is_hex_def)

lemma message_cipher_roundtrip_witness:
  "message_cipher (\<lambda>_. Some (JString (b64_encode (replicate 256 7)))) = Some (replicate 256 7)"
  by (rule message_cipher_roundtrip) simp_all

definition stamped :: escrow_world where
  "stamped = (escrow_start empty_world [])\<lparr>ew_gateway := (\<lambda>i. if i = 1 then ''0xe'' else '''')\<rparr>"

lemma stamped_settles: "\<exists>w. run_state (updateOrderStatusSettled escrow_calm ''0xe'' ''d'') stamped = (True, w)"
  by (simp add: updateOrderStatusSettled_def updateOrderStatus_def Let_def only_if_def escrow_calm_def split: prod.split)
    (simp add: stamped_def escrow_start_def pays_of_gateway_def empty_world_def)

lemma updateOrderStatus_rows_witness:
  "\<exists>w :: escrow_world. map po_status (pays (ew_routes w)) = [PoSettled] \<and> map lk_status (mw_orders (ew_match w)) = [LkSettled]"
proof -
  obtain w where "run_state (updateOrderStatusSettled escrow_calm ''0xe'' ''d'') stamped = (True, w)" using stamped_settles by blast
  then have "run_state (updateOrderStatus escrow_calm PoSettled LkSettled ''payment.settled'' ''0xe'' ''d'') stamped = (True, w)"
    by (simp add: updateOrderStatusSettled_def)
  from updateOrderStatus_rows [OF this] have "map po_status (pays (ew_routes w)) = [PoSettled] \<and> map lk_status (mw_orders (ew_match w)) = [LkSettled]"
    by (simp add: stamped_def escrow_sample_defs by_gateway_def sample_defs)
  then show ?thesis by (rule exI)
qed

lemma redelivery_is_silent_witness:
  "\<exists>w1 b w2. run_state (updateOrderStatusSettled escrow_calm ''0xe'' ''d'') stamped = (True, w1) \<and>
     run_state (updateOrderStatusSettled escrow_calm ''0xe'' ''d2'') w1 = (b, w2) \<and> told w2 = told w1"
proof -
  obtain w1 where 1: "run_state (updateOrderStatusSettled escrow_calm ''0xe'' ''d'') stamped = (True, w1)" using stamped_settles by blast
  obtain b w2 where 2: "run_state (updateOrderStatusSettled escrow_calm ''0xe'' ''d2'') w1 = (b, w2)" by fastforce
  show ?thesis
    using 1 2 redelivery_is_silent [OF 1 [unfolded updateOrderStatusSettled_def] 2 [unfolded updateOrderStatusSettled_def]] by blast
qed

lemma settlement_of_locked_order_lost_witness:
  "\<exists>ok w1 b w2. handleOrderCreated escrow_calm created_event (escrow_start empty_world []) = Some (ok, w1) \<and>
     run_state (updateOrderStatusSettled escrow_calm ''0xee'' ''d'') w1 = (b, w2) \<and>
     map po_status (pays (ew_routes w2)) = [PoInitiated] \<and> ew_notes w2 = ew_notes w1"
proof -
  have "m_fault (x_assign escrow_calm n) MExcludePush \<noteq> DbFail" for n by (simp add: escrow_calm_def match_calm_def)
  then obtain r where "handleOrderCreated escrow_calm created_event (escrow_start empty_world []) = Some r"
    using created_returns by blast
  then obtain ok w1 where 1: "handleOrderCreated escrow_calm created_event (escrow_start empty_world []) = Some (ok, w1)"
    by (cases r) simp
  obtain b w2 where 2: "run_state (updateOrderStatusSettled escrow_calm ''0xee'' ''d'') w1 = (b, w2)" by fastforce
  have "pays (ew_routes w2) = pays (ew_routes (escrow_start empty_world [])) \<and> told w2 = told w1"
    by (rule settlement_of_locked_order_lost [OF 1 _ _ 2]) (simp_all add: route_of_def escrow_start_def empty_world_def)
  with 1 2 show ?thesis by (auto simp: told_def escrow_sample_defs)
qed

section \<open>Executions that go wrong\<close>

text \<open>Two deposits: a coin too small for the order is the first one the node lists.\<close>

definition with_dust :: escrow_env where
  "with_dust = escrow_calm\<lparr>x_coins := (\<lambda>_ _. Some [sample_coin ''dust'' ''1'', sample_coin ''c1'' ''9'']),
     x_pick := (\<lambda>_ _. Some [sample_coin ''dust'' ''1''])\<rparr>"

lemma sample_parse: "parse_uint64 ''9'' = Some 9" "parse_uint64 ''1'' = Some 1"
  by (simp_all add: parse_uint64_def parse_digits_def is_digit_def digits_val_def)

lemma sample_short: "\<not> (9 :: 64 word) \<le> 1"
  by (simp add: word_le_nat_alt)

lemma sample_type: "splitMoveType ''0x2::usdc::USDC'' = [''0x2'', ''usdc'', ''USDC'']"
  by code_simp

lemmas pass_defs = pass_def CheckDeposits_def expireStale_def detectDeposits_def detect_address_def findMatchingDeposit_def
  covers_def linkedRouteAOrderID_def log_linked_def forwardDeposits_def CreateOrder_sui_def submit_forward_def parseCoinTypeTag_def
  update_addr_def put_addr_def log_escrow_def reconcileForwardedRouteA_def reconcile_address_def payment_of_def route_of_def
  address_of_def find_pay_def only_if_def Let_def

text \<open>The watcher finds a coin that covers the order and then forwards another one, of a balance
  below the expected amount: the escrow is created with the dust.\<close>

theorem small_coin_forwarded:
  "findMatchingDeposit with_dust sample_addr = Some (Some (sample_coin ''c1'' ''9'')) \<and>
   \<not> covers (ra_expected sample_addr) (sample_coin ''dust'' ''1'') \<and>
   ew_calls (pass with_dust (escrow_start empty_world [sample_addr])) = [CallForward 1 ''dust'' (Done ''fw'')] \<and>
   map ra_status (ew_addrs (pass with_dust (escrow_start empty_world [sample_addr]))) = [RcForwarded]"
  by (simp add: pass_defs with_dust_def escrow_sample_defs sample_parse sample_type sample_short)

text \<open>The digest of a forward cannot be stored, and another coin arrives before the next pass.\<close>

definition lost_digest :: escrow_env where
  "lost_digest = escrow_calm\<lparr>x_fault := (\<lambda>s. if s = XForwarded 1 then DbFail else DbOk)\<rparr>"

definition next_coin :: escrow_env where
  "next_coin = escrow_calm\<lparr>x_pick := (\<lambda>_ _. Some [sample_coin ''c2'' ''3'']), x_forward := (\<lambda>_ _. Done ''fw2'')\<rparr>"

text \<open>Without the acknowledged write the escrow of a payment is created twice: the status and
  the digest are stored by the one statement that failed, so that nothing tells the next pass.\<close>

theorem lost_forward_repeats:
  "ew_calls (pass next_coin (pass lost_digest (escrow_start empty_world [sample_addr]))) =
     [CallForward 1 ''c1'' (Done ''fw''), CallForward 1 ''c2'' (Done ''fw2'')]"
  by (simp add: pass_defs lost_digest_def next_coin_def escrow_sample_defs sample_parse sample_type)

lemma sample_created:
  "created_order_of escrow_calm created_event created_fields =
     \<lparr>co_order = ''0xee'', co_coin = ''0x2::usdc::USDC'', co_amount = 5, co_rate = 5, co_tx = ''t1''\<rparr>"
proof -
  have "scan_uint64 ''5'' = 5" by (simp add: scan_uint64_def is_digit_def digits_val_def Let_def)
  moreover have "prefix ''0x'' ''0x2::usdc::USDC''" by (simp add: prefix_def)
  ultimately show ?thesis
    by (simp add: created_order_of_def created_event_def created_fields_def getString_def getMoveString_def getUint64_def Let_def)
qed

lemma sample_cipher: "message_cipher created_fields = Some []"
  by (simp add: message_cipher_def getBytes_def created_fields_def b64_decode_def)

definition routed :: escrow_world where
  "routed = escrow_start (with_order Lp) []"

lemma sample_route_event:
  assumes "orders (ew_routes w) = [new_row Lp]" "pays (ew_routes w) = [sample_pay]" "mw_orders (ew_match w) = [sample_lock 7]"
  shows "\<exists>v. handleOrderCreated escrow_calm created_event w = Some (True, v) \<and> orders (ew_routes v) = [new_row Lp] \<and>
    pays (ew_routes v) = [sample_pay] \<and> mw_orders (ew_match v) = [sample_lock 7] \<and>
    ew_calls v = ew_calls w @ [CallSelfSettle ''0xee'' ''0x2::usdc::USDC'' (Done ''ss'')]"
proof -
  have "mv_fields created_event = Some created_fields" by (simp add: created_event_def)
  moreover have "x_decrypt escrow_calm [] = Some \<lparr>or_institution = ''044'', or_account = ''01'', or_provider = '''', or_reference = ''u''\<rparr>"
    "x_fault escrow_calm s = DbOk" "x_parse_uuid escrow_calm r = Some 1" "x_signer escrow_calm" "x_settle_ready escrow_calm r"
    "x_address_ok escrow_calm r" "x_self_settle escrow_calm r r' = Done ''ss''" "x_route escrow_calm = calm" "x_active escrow_calm" for s r r'
    by (simp_all add: escrow_calm_def)
  ultimately show ?thesis
    using assms
    by (simp add: handleOrderCreated_def decodeMoveEvent_def Let_def sample_created sample_cipher already_locked_def sample_lock_def
        handleRouteAIfApplicable_def payment_by_reference_def find_pay_def sample_pay_def route_of_def new_row_def
        SelfSettleToAggregator_def parseCoinTypeTag_def sample_type log_escrow_def on_routes_def LogOnce_def KickRouteA_def
        ExtendBurst_def set_gateway_def only_if_def)
qed

text \<open>A creation event of a Route A order that is delivered again is handled again: the escrow rows
  it looks for are not written on this path, and the self-settlement is submitted a second time.\<close>

theorem redelivered_creation_settles_again:
  "\<exists>v w. handleOrderCreated escrow_calm created_event routed = Some (True, v) \<and>
     handleOrderCreated escrow_calm created_event v = Some (True, w) \<and>
     ew_calls w = [CallSelfSettle ''0xee'' ''0x2::usdc::USDC'' (Done ''ss''), CallSelfSettle ''0xee'' ''0x2::usdc::USDC'' (Done ''ss'')]"
proof -
  have start: "orders (ew_routes routed) = [new_row Lp]" "pays (ew_routes routed) = [sample_pay]"
    "mw_orders (ew_match routed) = [sample_lock 7]" "ew_calls routed = []"
    by (simp_all add: routed_def escrow_start_def with_order_def empty_world_def escrowed_def)
  from sample_route_event [OF start(1-3)] obtain v where v: "handleOrderCreated escrow_calm created_event routed = Some (True, v)"
    "orders (ew_routes v) = [new_row Lp]" "pays (ew_routes v) = [sample_pay]" "mw_orders (ew_match v) = [sample_lock 7]"
    "ew_calls v = [CallSelfSettle ''0xee'' ''0x2::usdc::USDC'' (Done ''ss'')]"
    unfolding start(4) by auto
  from sample_route_event [OF v(2-4)] obtain w where "handleOrderCreated escrow_calm created_event v = Some (True, w)"
    "ew_calls w = [CallSelfSettle ''0xee'' ''0x2::usdc::USDC'' (Done ''ss''), CallSelfSettle ''0xee'' ''0x2::usdc::USDC'' (Done ''ss'')]"
    unfolding v(5) by auto
  with v(1) show ?thesis by blast
qed

end
