(* ===== verification/Acc_Store.thy ===== *)
theory Acc_Store imports Route_Store begin

text \<open>
  The tables behind accounts (ent/schema/user.go, refreshtoken.go, verificationtoken.go, API keys
  and profiles), the attempt counters in Redis, and one request's environment. Passwords and tokens
  are stored as hashes: bcrypt and SHA-256 are parameters, and so are the random generator, the
  mail service, Google's token check and the signing of access tokens.
\<close>

section \<open>Rows\<close>

record user =
  us_id :: nat
  us_email :: string
  us_password :: string
  us_scope :: string
  us_verified :: bool
  us_early :: bool
  us_wallet :: bool

record refresh_token =
  rt_id :: nat
  rt_hash :: string
  rt_family :: nat
  rt_parent :: "nat option"
  rt_replaced :: "nat option"
  rt_expires :: instant
  rt_revoked :: "instant option"
  rt_owner :: nat

datatype otp_scope = EmailVerification | ResetPasswordScope

record verification_token =
  vt_id :: nat
  vt_hash :: string
  vt_scope :: otp_scope
  vt_expires :: instant
  vt_owner :: nat

datatype profile_kind = SenderProfile | ProviderProfile

record api_key =
  ak_id :: nat
  ak_secret :: string
  ak_kind :: "profile_kind option"
  ak_user :: nat

text \<open>The failure counter of a scope and address, with the end of its window.\<close>

record otp_counter =
  oc_count :: nat
  oc_until :: "instant option"

record acc_world =
  aw_users :: "user list"
  aw_tokens :: "refresh_token list"
  aw_codes :: "verification_token list"
  aw_profiles :: "(nat \<times> profile_kind) list"
  aw_keys :: "api_key list"
  aw_counters :: "otp_scope \<Rightarrow> string \<Rightarrow> otp_counter option"
  aw_mails :: "(string \<times> otp_scope \<times> string) list"

section \<open>Environment\<close>

datatype acc_site = AUserQuery | AUserCreate | AUserUpdate | ACodeQuery | ACodeCreate | ACodeDelete | AProfileCreate
  | AKeyCreate | ATxBegin | ACommit | ATokenQuery | ATokenRevoke | ATokenCreate | ATokenReplaced | AFamily | AAllForUser
  | ACounterGet | ACounterIncr | ACounterExpire | ACounterDel | ACurrencyQuery | AKeyQuery

text \<open>A Google token's claims: the address and whether Google verified it.\<close>

record acc_env =
  a_now :: instant
  a_fault :: "acc_site \<Rightarrow> db_fault"
  a_hash :: "string \<Rightarrow> string"
  a_bcrypt :: "string \<Rightarrow> string option"
  a_check :: "string \<Rightarrow> string \<Rightarrow> bool"
  a_otp :: "string option"
  a_opaque :: "string option"
  a_new_id :: nat
  a_new_family :: nat
  a_new_user :: nat
  a_new_code :: nat
  a_new_key :: "profile_kind \<Rightarrow> nat"
  a_wallet :: bool
  a_key_secret :: "string option"
  a_mail_ok :: bool
  a_jwt_ok :: bool
  a_google :: "string \<Rightarrow> (string \<times> bool) option"
  a_google_client :: bool
  a_currency_ok :: "string \<Rightarrow> bool"
  a_local :: bool
  a_guarded_env :: bool
  a_redis :: bool
  a_reset_lifespan :: duration
  a_verify_lifespan :: duration
  a_refresh_lifespan :: duration

abbreviation afails :: "acc_env \<Rightarrow> acc_site \<Rightarrow> bool" where
  "afails e s \<equiv> a_fault e s \<noteq> DbOk"

section \<open>Statements\<close>

text \<open>A statement of its own: it takes effect unless it failed; the result is whether it is known to.\<close>

definition exec :: "acc_env \<Rightarrow> acc_site \<Rightarrow> (acc_world \<Rightarrow> acc_world) \<Rightarrow> (acc_world, bool) state" where
  "exec e s f = do { only_if (a_fault e s \<noteq> DbFail) (modify f); return (a_fault e s = DbOk) }"

definition find_user :: "(user \<Rightarrow> bool) \<Rightarrow> acc_world \<Rightarrow> user option" where
  "find_user P w = find P (aw_users w)"

definition user_by_email :: "acc_env \<Rightarrow> string \<Rightarrow> acc_world \<Rightarrow> user option" where
  "user_by_email e m w = (if afails e AUserQuery then None else find_user (\<lambda>x. us_email x = m) w)"

definition map_user :: "nat \<Rightarrow> (user \<Rightarrow> user) \<Rightarrow> acc_world \<Rightarrow> acc_world" where
  "map_user i f w = w\<lparr>aw_users := map (\<lambda>x. if us_id x = i then f x else x) (aw_users w)\<rparr>"

definition map_tokens :: "(refresh_token \<Rightarrow> bool) \<Rightarrow> (refresh_token \<Rightarrow> refresh_token) \<Rightarrow> acc_world \<Rightarrow> acc_world" where
  "map_tokens g f w = w\<lparr>aw_tokens := map (\<lambda>t. if g t then f t else t) (aw_tokens w)\<rparr>"

definition add_token :: "refresh_token \<Rightarrow> acc_world \<Rightarrow> acc_world" where
  "add_token t w = w\<lparr>aw_tokens := aw_tokens w @ [t]\<rparr>"

definition add_code :: "verification_token \<Rightarrow> acc_world \<Rightarrow> acc_world" where
  "add_code c w = w\<lparr>aw_codes := aw_codes w @ [c]\<rparr>"

definition delete_code :: "nat \<Rightarrow> acc_world \<Rightarrow> acc_world" where
  "delete_code i w = w\<lparr>aw_codes := filter (\<lambda>c. vt_id c \<noteq> i) (aw_codes w)\<rparr>"

definition live :: "refresh_token \<Rightarrow> bool" where
  "live t \<longleftrightarrow> rt_revoked t = None"

end
