(* ===== verification/Acc_Sessions.thy ===== *)
theory Acc_Sessions imports Acc_Store begin

text \<open>
  Refresh tokens (services/auth/refresh.go): families of tokens, rotation, replay detection and
  revocation. Rotation reads the row before its transaction; the two halves are definitions of
  their own, because requests may interleave between them.
\<close>

type_synonym issued = "string \<times> nat"

definition new_token :: "acc_env \<Rightarrow> nat \<Rightarrow> nat \<Rightarrow> nat option \<Rightarrow> duration \<Rightarrow> string \<Rightarrow> refresh_token" where
  "new_token e owner family parent ttl raw = \<lparr>rt_id = a_new_id e, rt_hash = a_hash e raw, rt_family = family,
     rt_parent = parent, rt_replaced = None, rt_expires = a_now e + ttl, rt_revoked = None, rt_owner = owner\<rparr>"

text \<open>\<open>None\<close>: no random token, or the row could not be inserted.\<close>

definition issueInTx :: "acc_env \<Rightarrow> nat \<Rightarrow> nat \<Rightarrow> nat option \<Rightarrow> duration \<Rightarrow> acc_world \<Rightarrow> (string \<times> acc_world) option" where
  "issueInTx e owner family parent ttl w = (case a_opaque e of None \<Rightarrow> None
   | Some raw \<Rightarrow> if afails e ATokenCreate \<or> a_hash e raw \<in> rt_hash ` set (aw_tokens w) then None
       else Some (raw, add_token (new_token e owner family parent ttl raw) w))"

text \<open>A transaction commits, fails, or commits without an answer.\<close>

definition commit :: "acc_env \<Rightarrow> acc_world \<Rightarrow> (acc_world, bool) state" where
  "commit e w' = exec e ACommit (\<lambda>_. w')"

definition issue :: "acc_env \<Rightarrow> nat \<Rightarrow> nat \<Rightarrow> nat option \<Rightarrow> duration \<Rightarrow> (acc_world, string option) state" where
  "issue e owner family parent ttl = do {
     w \<leftarrow> fetch;
     case (if afails e ATxBegin then None else issueInTx e owner family parent ttl w) of None \<Rightarrow> return None
     | Some (raw, w') \<Rightarrow> do { ok \<leftarrow> commit e w'; return (if ok then Some raw else None) }
   }"

definition IssueNewFamily :: "acc_env \<Rightarrow> nat \<Rightarrow> duration \<Rightarrow> (acc_world, string option) state" where
  "IssueNewFamily e owner ttl = issue e owner (a_new_family e) None ttl"

definition revokeFamily :: "acc_env \<Rightarrow> nat \<Rightarrow> (acc_world, bool) state" where
  "revokeFamily e family = exec e AFamily (map_tokens (\<lambda>t. rt_family t = family \<and> live t) (\<lambda>t. t\<lparr>rt_revoked := Some (a_now e)\<rparr>))"

definition token_by_raw :: "acc_env \<Rightarrow> string \<Rightarrow> acc_world \<Rightarrow> refresh_token option" where
  "token_by_raw e raw w = (if afails e ATokenQuery then None else find (\<lambda>t. rt_hash t = a_hash e raw) (aw_tokens w))"

text \<open>The checks: a known token that has not been consumed, has not expired and has its owner.\<close>

definition rotate_check :: "acc_env \<Rightarrow> string \<Rightarrow> (acc_world, refresh_token option) state" where
  "rotate_check e raw = do {
     w \<leftarrow> fetch;
     case token_by_raw e raw w of None \<Rightarrow> return None
     | Some t \<Rightarrow>
         if \<not> live t then do { _ \<leftarrow> revokeFamily e (rt_family t); return None }
         else if rt_expires t < a_now e then return None
         else if find_user (\<lambda>x. us_id x = rt_owner t) w = None then return None
         else return (Some t)
   }"

text \<open>The transaction updates the row by its id only.\<close>

definition rotate_commit :: "acc_env \<Rightarrow> duration \<Rightarrow> refresh_token \<Rightarrow> (acc_world, string option) state" where
  "rotate_commit e ttl t = do {
     w \<leftarrow> fetch;
     if afails e ATxBegin \<or> afails e ATokenRevoke \<or> rt_id t \<notin> rt_id ` set (aw_tokens w) then return None
     else (case issueInTx e (rt_owner t) (rt_family t) (Some (rt_id t)) ttl
             (map_tokens (\<lambda>x. rt_id x = rt_id t) (\<lambda>x. x\<lparr>rt_revoked := Some (a_now e)\<rparr>) w) of None \<Rightarrow> return None
       | Some (raw, w') \<Rightarrow> if afails e ATokenReplaced then return None
           else do {
             ok \<leftarrow> commit e (map_tokens (\<lambda>x. rt_id x = rt_id t) (\<lambda>x. x\<lparr>rt_replaced := Some (a_new_id e)\<rparr>) w');
             return (if ok then Some raw else None)
           })
   }"

definition Rotate :: "acc_env \<Rightarrow> string \<Rightarrow> duration \<Rightarrow> (acc_world, (string \<times> nat) option) state" where
  "Rotate e raw ttl = do {
     t \<leftarrow> rotate_check e raw;
     case t of None \<Rightarrow> return None
     | Some t \<Rightarrow> do { r \<leftarrow> rotate_commit e ttl t; return (map_option (\<lambda>new. (new, rt_owner t)) r) }
   }"

text \<open>Whether the logout succeeded; an unknown token counts as one.\<close>

definition RevokeByRaw :: "acc_env \<Rightarrow> string \<Rightarrow> (acc_world, bool) state" where
  "RevokeByRaw e raw = do {
     w \<leftarrow> fetch;
     case token_by_raw e raw w of None \<Rightarrow> return True | Some t \<Rightarrow> revokeFamily e (rt_family t)
   }"

definition RevokeAllForUser :: "acc_env \<Rightarrow> nat \<Rightarrow> (acc_world, bool) state" where
  "RevokeAllForUser e i = exec e AAllForUser (map_tokens (\<lambda>t. rt_owner t = i \<and> live t) (\<lambda>t. t\<lparr>rt_revoked := Some (a_now e)\<rparr>))"

end
