(* ===== verification/Acc_Auth.thy ===== *)
theory Acc_Auth imports Acc_Sessions begin

text \<open>
  The account endpoints (controllers/accounts/auth.go, google.go, otp_guard.go): registration, login,
  Google sign-in, the one-time codes with their attempt counters, and passwords. A reply is a
  status, a session (user and refresh token), or a status that carries a code.
\<close>

datatype acc_reply = Denied nat | Fine nat | Session nat string | DevCode string

section \<open>The attempt counters\<close>

definition otpMaxAttempts :: nat where "otpMaxAttempts = 5"

text \<open>A key of Redis is gone when its window has ended.\<close>

definition counter_at :: "instant \<Rightarrow> otp_scope \<Rightarrow> string \<Rightarrow> acc_world \<Rightarrow> nat" where
  "counter_at t s m w = (case aw_counters w s m of None \<Rightarrow> 0
     | Some c \<Rightarrow> (case oc_until c of None \<Rightarrow> oc_count c | Some u \<Rightarrow> if t < u then oc_count c else 0))"

definition set_counter :: "otp_scope \<Rightarrow> string \<Rightarrow> otp_counter option \<Rightarrow> acc_world \<Rightarrow> acc_world" where
  "set_counter s m c w = w\<lparr>aw_counters := (aw_counters w)(s := (aw_counters w s)(m := c))\<rparr>"

definition otpAttemptsExceeded :: "acc_env \<Rightarrow> otp_scope \<Rightarrow> string \<Rightarrow> acc_world \<Rightarrow> bool" where
  "otpAttemptsExceeded e s m w \<longleftrightarrow> a_redis e \<and> \<not> afails e ACounterGet \<and> otpMaxAttempts \<le> counter_at (a_now e) s m w"

text \<open>The window starts with the first failure; an increment keeps it.\<close>

definition recordOTPFailure :: "acc_env \<Rightarrow> otp_scope \<Rightarrow> string \<Rightarrow> duration \<Rightarrow> (acc_world, unit) state" where
  "recordOTPFailure e s m ttl = (if \<not> a_redis e \<or> a_fault e ACounterIncr = DbFail then return ()
   else do {
     w \<leftarrow> fetch;
     let n = counter_at (a_now e) s m w + 1;
     let until = (if n = 1 then None else Option.bind (aw_counters w s m) oc_until);
     modify (set_counter s m (Some \<lparr>oc_count = n, oc_until = until\<rparr>));
     only_if (a_fault e ACounterIncr = DbOk \<and> n = 1 \<and> a_fault e ACounterExpire \<noteq> DbFail)
       (modify (set_counter s m (Some \<lparr>oc_count = n, oc_until = Some (a_now e + ttl)\<rparr>)))
   })"

definition clearOTPAttempts :: "acc_env \<Rightarrow> otp_scope \<Rightarrow> string \<Rightarrow> (acc_world, unit) state" where
  "clearOTPAttempts e s m = only_if (a_redis e \<and> a_fault e ACounterDel \<noteq> DbFail) (modify (set_counter s m None))"

section \<open>Codes\<close>

definition lifespan :: "acc_env \<Rightarrow> otp_scope \<Rightarrow> duration" where
  "lifespan e s = (case s of ResetPasswordScope \<Rightarrow> a_reset_lifespan e | EmailVerification \<Rightarrow> a_verify_lifespan e)"

definition new_code :: "acc_env \<Rightarrow> otp_scope \<Rightarrow> nat \<Rightarrow> string \<Rightarrow> verification_token" where
  "new_code e s i raw = \<lparr>vt_id = a_new_code e, vt_hash = a_hash e raw, vt_scope = s, vt_expires = a_now e + lifespan e s, vt_owner = i\<rparr>"

definition send_code :: "acc_env \<Rightarrow> otp_scope \<Rightarrow> string \<Rightarrow> string \<Rightarrow> (acc_world, bool) state" where
  "send_code e s m raw = do { only_if (a_mail_ok e) (modify (\<lambda>w. w\<lparr>aw_mails := aw_mails w @ [(m, s, raw)]\<rparr>)); return (a_mail_ok e) }"

text \<open>The only code with this hash and owner address, and of this scope if one is asked for.\<close>

definition code_row :: "acc_env \<Rightarrow> otp_scope option \<Rightarrow> string \<Rightarrow> string \<Rightarrow> acc_world \<Rightarrow> (verification_token \<times> user) option" where
  "code_row e s m raw w = (if afails e ACodeQuery then None
     else (case filter (\<lambda>c. vt_hash c = a_hash e raw \<and> (case s of None \<Rightarrow> True | Some s \<Rightarrow> vt_scope c = s) \<and>
         find_user (\<lambda>x. us_id x = vt_owner c \<and> us_email x = m) w \<noteq> None) (aw_codes w) of
       [c] \<Rightarrow> map_option (\<lambda>x. (c, x)) (find_user (\<lambda>x. us_id x = vt_owner c \<and> us_email x = m) w)
     | _ \<Rightarrow> None))"

text \<open>A guess of a code: the counter is asked first, and an unknown code counts as a failure. The code's
  scope is a parameter: \<open>ConfirmEmail\<close> asks for none.\<close>

definition try_code :: "acc_env \<Rightarrow> otp_scope \<Rightarrow> otp_scope option \<Rightarrow> string \<Rightarrow> string \<Rightarrow>
    (verification_token \<Rightarrow> user \<Rightarrow> (acc_world, acc_reply) state) \<Rightarrow> (acc_world, acc_reply) state" where
  "try_code e s asked m raw accept = do {
     w \<leftarrow> fetch;
     if otpAttemptsExceeded e s m w then return (Denied 429)
     else (case code_row e asked m raw w of
         None \<Rightarrow> do { recordOTPFailure e s m (lifespan e s); return (Denied 400) }
       | Some (c, x) \<Rightarrow>
           if vt_expires c < a_now e then do { _ \<leftarrow> exec e ACodeDelete (delete_code (vt_id c)); return (Denied 400) }
           else accept c x)
   }"

definition ConfirmEmail :: "acc_env \<Rightarrow> string \<Rightarrow> string \<Rightarrow> (acc_world, acc_reply) state" where
  "ConfirmEmail e m raw = try_code e EmailVerification None m raw (\<lambda>c x. do {
     ok \<leftarrow> exec e AUserUpdate (map_user (us_id x) (\<lambda>x. x\<lparr>us_verified := True\<rparr>));
     if \<not> ok then return (Denied 400)
     else do {
       _ \<leftarrow> exec e ACodeDelete (delete_code (vt_id c));
       clearOTPAttempts e EmailVerification m;
       return (Fine 200)
     }
   })"

definition ResetPassword :: "acc_env \<Rightarrow> string \<Rightarrow> string \<Rightarrow> string \<Rightarrow> (acc_world, acc_reply) state" where
  "ResetPassword e m raw password = try_code e ResetPasswordScope (Some ResetPasswordScope) m raw (\<lambda>c x.
     case a_bcrypt e password of None \<Rightarrow> return (Denied 500)
     | Some h \<Rightarrow> do {
         ok \<leftarrow> exec e AUserUpdate (map_user (us_id x) (\<lambda>x. x\<lparr>us_password := h\<rparr>));
         if \<not> ok then return (Denied 500)
         else do {
           _ \<leftarrow> exec e ACodeDelete (delete_code (vt_id c));
           clearOTPAttempts e ResetPasswordScope m;
           _ \<leftarrow> RevokeAllForUser e (us_id x);
           return (Fine 200)
         }
       })"

definition issue_code :: "acc_env \<Rightarrow> otp_scope \<Rightarrow> user \<Rightarrow> nat \<Rightarrow> nat \<Rightarrow> (string \<Rightarrow> (acc_world, acc_reply) state) \<Rightarrow> (acc_world, acc_reply) state" where
  "issue_code e s x none failed sent = (case a_otp e of None \<Rightarrow> return (Denied none)
     | Some raw \<Rightarrow> do {
         ok \<leftarrow> exec e ACodeCreate (add_code (new_code e s (us_id x) raw));
         if \<not> ok then return (Denied failed)
         else do { clearOTPAttempts e s (us_email x); sent raw }
       })"

definition ResendVerificationToken :: "acc_env \<Rightarrow> string \<Rightarrow> otp_scope \<Rightarrow> (acc_world, acc_reply) state" where
  "ResendVerificationToken e m s = do {
     w \<leftarrow> fetch;
     case user_by_email e m w of None \<Rightarrow> return (Denied 400)
     | Some x \<Rightarrow> issue_code e s x 500 400 (\<lambda>raw. do {
         ok \<leftarrow> send_code e s (us_email x) raw;
         return (if ok then Fine 200 else Denied 400)
       })
   }"

definition ResetPasswordToken :: "acc_env \<Rightarrow> string \<Rightarrow> (acc_world, acc_reply) state" where
  "ResetPasswordToken e m = do {
     w \<leftarrow> fetch;
     case user_by_email e m w of None \<Rightarrow> return (Denied 400)
     | Some x \<Rightarrow> issue_code e ResetPasswordScope x 500 500 (\<lambda>raw. do {
         ok \<leftarrow> send_code e ResetPasswordScope (us_email x) raw;
         return (if ok then Fine 200 else DevCode raw)
       })
   }"

section \<open>Passwords and sessions\<close>

definition ChangePassword :: "acc_env \<Rightarrow> nat \<Rightarrow> string \<Rightarrow> string \<Rightarrow> (acc_world, acc_reply) state" where
  "ChangePassword e i old new = do {
     w \<leftarrow> fetch;
     case (if afails e AUserQuery then None else find_user (\<lambda>x. us_id x = i) w) of None \<Rightarrow> return (Denied 400)
     | Some x \<Rightarrow>
         if \<not> a_check e old (us_password x) \<or> a_check e new (us_password x) then return (Denied 400)
         else (case a_bcrypt e new of None \<Rightarrow> return (Denied 500)
           | Some h \<Rightarrow> do {
               ok \<leftarrow> exec e AUserUpdate (map_user i (\<lambda>x. x\<lparr>us_password := h\<rparr>));
               return (if ok then Fine 200 else Denied 500)
             })
   }"

text \<open>\<open>time.Duration(JwtRefreshLifespan) * time.Minute\<close>: the lifespan is a duration already.\<close>

definition refreshTTL :: "acc_env \<Rightarrow> duration" where
  "refreshTTL e = int64 (a_refresh_lifespan e * minute)"

definition open_session :: "acc_env \<Rightarrow> nat \<Rightarrow> (acc_world, acc_reply) state" where
  "open_session e i = (if \<not> a_jwt_ok e then return (Denied 500)
     else do {
       r \<leftarrow> IssueNewFamily e i (refreshTTL e);
       return (case r of None \<Rightarrow> Denied 500 | Some raw \<Rightarrow> Session i raw)
     })"

text \<open>\<open>strings.Fields\<close>\<close>

fun split_when :: "(char \<Rightarrow> bool) \<Rightarrow> string \<Rightarrow> string list" where
  "split_when p [] = [[]]"
| "split_when p (x # xs) = (if p x then [] # split_when p xs
     else case split_when p xs of [] \<Rightarrow> [[x]] | y # ys \<Rightarrow> (x # y) # ys)"

definition str_fields :: "string \<Rightarrow> string list" where
  "str_fields s = filter (\<lambda>x. x \<noteq> '''') (split_when is_space s)"

definition early_blocked :: "acc_env \<Rightarrow> user \<Rightarrow> bool" where
  "early_blocked e x \<longleftrightarrow> \<not> us_early x \<and> ''provider'' \<notin> set (str_fields (us_scope x)) \<and> a_guarded_env e"

text \<open>A user without a wallet gets one, and with it a verified address.\<close>

definition ensure_wallet :: "acc_env \<Rightarrow> user \<Rightarrow> (acc_world, unit) state" where
  "ensure_wallet e x = only_if (\<not> us_wallet x \<and> a_wallet e)
     (do { _ \<leftarrow> exec e AUserUpdate (map_user (us_id x) (\<lambda>x. x\<lparr>us_wallet := True, us_verified := True\<rparr>)); return () })"

definition Login :: "acc_env \<Rightarrow> string \<Rightarrow> string \<Rightarrow> (acc_world, acc_reply) state" where
  "Login e m password = do {
     w \<leftarrow> fetch;
     case user_by_email e (to_lower m) w of None \<Rightarrow> return (Denied 401)
     | Some x \<Rightarrow>
         if \<not> a_check e password (us_password x) \<or> early_blocked e x then return (Denied 401)
         else do { ensure_wallet e x; open_session e (us_id x) }
   }"

definition RefreshJWT :: "acc_env \<Rightarrow> string \<Rightarrow> (acc_world, acc_reply) state" where
  "RefreshJWT e raw = do {
     r \<leftarrow> Rotate e raw (refreshTTL e);
     return (case r of None \<Rightarrow> Denied 401 | Some (new, i) \<Rightarrow> if a_jwt_ok e then Session i new else Denied 500)
   }"

definition Logout :: "acc_env \<Rightarrow> string \<Rightarrow> (acc_world, acc_reply) state" where
  "Logout e raw = do { _ \<leftarrow> (if raw \<noteq> '''' then RevokeByRaw e raw else return True); return (Fine 200) }"

text \<open>\<open>strings.Join\<close>\<close>

fun joined_with :: "string \<Rightarrow> string list \<Rightarrow> string" where
  "joined_with sep [] = []"
| "joined_with sep [x] = x"
| "joined_with sep (x # y # ys) = x @ sep @ joined_with sep (y # ys)"

section \<open>Registration and Google\<close>

text \<open>The statements of a transaction: a status, or the rows it would leave.\<close>

type_synonym tx = "nat + acc_world"

definition add_user :: "acc_env \<Rightarrow> user \<Rightarrow> acc_world \<Rightarrow> tx" where
  "add_user e x w = (if afails e AUserCreate \<or> us_email x \<in> us_email ` set (aw_users w) then Inl 500
     else Inr (w\<lparr>aw_users := aw_users w @ [x]\<rparr>))"

text \<open>A profile and its API key; a provider names a currency.\<close>

definition add_profile :: "acc_env \<Rightarrow> profile_kind \<Rightarrow> nat \<Rightarrow> acc_world \<Rightarrow> tx" where
  "add_profile e k i w = (if afails e AProfileCreate \<or> (i, k) \<in> set (aw_profiles w) then Inl 500
     else (case a_key_secret e of None \<Rightarrow> Inl 500
       | Some secret \<Rightarrow> if afails e AKeyCreate then Inl 500
           else Inr (w\<lparr>aw_profiles := aw_profiles w @ [(i, k)],
             aw_keys := aw_keys w @ [\<lparr>ak_id = a_new_key e k, ak_secret = secret, ak_kind = Some k, ak_user = i\<rparr>]\<rparr>)))"

definition add_provider :: "acc_env \<Rightarrow> string \<Rightarrow> nat \<Rightarrow> acc_world \<Rightarrow> tx" where
  "add_provider e currency i w = (if afails e ACurrencyQuery then Inl 500
     else if \<not> a_currency_ok e currency then Inl 400 else add_profile e ProviderProfile i w)"

definition then_tx :: "tx \<Rightarrow> (acc_world \<Rightarrow> tx) \<Rightarrow> tx" where
  "then_tx r f = (case r of Inl s \<Rightarrow> Inl s | Inr w \<Rightarrow> f w)"

definition run_tx :: "acc_env \<Rightarrow> (acc_world \<Rightarrow> tx) \<Rightarrow> (acc_world, nat option) state" where
  "run_tx e f = do {
     w \<leftarrow> fetch;
     case f w of Inl s \<Rightarrow> return (Some s)
     | Inr w' \<Rightarrow> do { ok \<leftarrow> commit e w'; return (if ok then None else Some 500) }
   }"

record registration =
  rg_email :: string
  rg_password :: string
  rg_scopes :: "string list"
  rg_currency :: string

text \<open>The account and its verification code: the address counts as verified from the start.\<close>

definition register_user :: "acc_env \<Rightarrow> registration \<Rightarrow> acc_world \<Rightarrow> nat + string \<times> acc_world" where
  "register_user e r w = (if afails e ATxBegin then Inl 500
     else if user_by_email e (to_lower (rg_email r)) w \<noteq> None then Inl 400
     else (case (a_bcrypt e (rg_password r), a_otp e) of
         (Some h, Some raw) \<Rightarrow>
           (case add_user e \<lparr>us_id = a_new_user e, us_email = to_lower (rg_email r), us_password = h,
               us_scope = joined_with '' '' (rg_scopes r), us_verified = True, us_early = True, us_wallet = a_wallet e\<rparr> w of Inl s \<Rightarrow> Inl s
            | Inr v \<Rightarrow> if afails e AUserQuery then Inl 500
                else if afails e ACodeCreate
                then Inl (if ''provider'' \<in> set (rg_scopes r) \<and> rg_currency r = '''' then 400 else 500)
                else Inr (raw, add_code (new_code e EmailVerification (a_new_user e) raw) v))
       | _ \<Rightarrow> Inl 500))"

definition register_profiles :: "acc_env \<Rightarrow> registration \<Rightarrow> acc_world \<Rightarrow> tx" where
  "register_profiles e r w = then_tx (if ''provider'' \<in> set (rg_scopes r) then
         (if rg_currency r = '''' then Inl 400 else add_provider e (rg_currency r) (a_new_user e) w) else Inr w)
     (\<lambda>w. if ''sender'' \<in> set (rg_scopes r) then add_profile e SenderProfile (a_new_user e) w else Inr w)"

text \<open>The mail goes out before the transaction ends. A statement that failed inside the transaction
  fails the rest of it.\<close>

definition Register :: "acc_env \<Rightarrow> registration \<Rightarrow> (acc_world, acc_reply) state" where
  "Register e r = do {
     w \<leftarrow> fetch;
     case register_user e r w of Inl s \<Rightarrow> return (Denied s)
     | Inr (raw, v) \<Rightarrow> do {
         only_if (\<not> a_local e) (do {
           clearOTPAttempts e EmailVerification (to_lower (rg_email r));
           _ \<leftarrow> send_code e EmailVerification (to_lower (rg_email r)) raw;
           return () });
         s \<leftarrow> run_tx e (\<lambda>u. register_profiles e r (v\<lparr>aw_counters := aw_counters u, aw_mails := aw_mails u\<rparr>));
         case s of Some s \<Rightarrow> return (Denied s) | None \<Rightarrow> open_session e (a_new_user e)
       }
   }"

text \<open>The password every account created by Google gets.\<close>

definition google_password :: string where
  "google_password = ''google-oauth''"

definition google_user :: "acc_env \<Rightarrow> string \<Rightarrow> string \<Rightarrow> string \<Rightarrow> bool \<Rightarrow> user" where
  "google_user e m h scope early = \<lparr>us_id = a_new_user e, us_email = m, us_password = h, us_scope = scope,
     us_verified = True, us_early = early, us_wallet = False\<rparr>"

definition new_google_user :: "acc_env \<Rightarrow> string \<Rightarrow> string \<Rightarrow> bool \<Rightarrow> acc_world \<Rightarrow> tx" where
  "new_google_user e m scope early w = (case a_bcrypt e google_password of None \<Rightarrow> Inl 500
     | Some h \<Rightarrow> add_user e (google_user e m h scope early) w)"

definition grant_scope :: "acc_env \<Rightarrow> user \<Rightarrow> string \<Rightarrow> string \<Rightarrow> acc_world \<Rightarrow> tx" where
  "grant_scope e x scope new w = (if sublist scope (us_scope x) then Inr w
     else if afails e AUserUpdate then Inl 500
     else Inr (map_user (us_id x) (\<lambda>x. x\<lparr>us_scope := new, us_verified := True\<rparr>) w))"

definition google_provider :: "acc_env \<Rightarrow> string \<Rightarrow> string \<Rightarrow> user option \<Rightarrow> acc_world \<Rightarrow> tx" where
  "google_provider e m currency x w = (
     let i = (case x of None \<Rightarrow> a_new_user e | Some x \<Rightarrow> us_id x);
         needs = (x = None \<or> (i, ProviderProfile) \<notin> set (aw_profiles w)) in
     if needs \<and> trim_space currency = '''' then Inl 400
     else if afails e ATxBegin then Inl 500
     else then_tx (case x of None \<Rightarrow> new_google_user e m ''provider'' False w
         | Some x \<Rightarrow> grant_scope e x ''provider'' (trim_space (us_scope x @ '' provider'')) w)
       (\<lambda>w. if needs then add_provider e currency i w else Inr w))"

text \<open>A cardholder's row is written without a transaction.\<close>

definition google_cardholder :: "acc_env \<Rightarrow> string \<Rightarrow> user option \<Rightarrow> (acc_world, nat option) state" where
  "google_cardholder e m x = (case x of
     None \<Rightarrow> do {
       w \<leftarrow> fetch;
       case new_google_user (e\<lparr>a_fault := (a_fault e)(AUserCreate := DbOk)\<rparr>) m ''cardholder'' True w of Inl s \<Rightarrow> return (Some s)
       | Inr v \<Rightarrow> do { ok \<leftarrow> exec e AUserCreate (\<lambda>_. v); return (if ok then None else Some 500) }
     }
   | Some x \<Rightarrow>
       if sublist ''cardholder'' (us_scope x) then return None
       else do {
         ok \<leftarrow> exec e AUserUpdate (map_user (us_id x) (\<lambda>x.
           x\<lparr>us_scope := joined_with '' '' (str_fields (us_scope x) @ [''cardholder'']), us_verified := True\<rparr>));
         return (if ok then None else Some 500)
       })"

definition GoogleAuth :: "acc_env \<Rightarrow> string \<Rightarrow> string \<Rightarrow> string \<Rightarrow> (acc_world, acc_reply) state" where
  "GoogleAuth e idtoken scope currency = (if \<not> a_google_client e then return (Denied 503)
   else (case a_google e idtoken of None \<Rightarrow> return (Denied 401)
   | Some (m, verified) \<Rightarrow>
       if m = '''' \<or> \<not> verified then return (Denied 401)
       else if afails e AUserQuery then return (Denied 500)
       else do {
         w \<leftarrow> fetch;
         let x = find_user (\<lambda>x. us_email x = to_lower m) w;
         s \<leftarrow> (if to_lower (trim_space scope) = ''provider'' then run_tx e (google_provider e (to_lower m) currency x)
           else google_cardholder e (to_lower m) x);
         case s of Some s \<Rightarrow> return (Denied s)
         | None \<Rightarrow> open_session e (case x of None \<Rightarrow> a_new_user e | Some x \<Rightarrow> us_id x)
       }))"

end
