(* ===== verification/Acc_Gate.thy ===== *)
theory Acc_Gate imports Acc_Auth begin

text \<open>
  The middleware in front of the handlers (routers/middleware/auth.go, ratelimit.go): a request is
  stopped with a status, or goes on with the user and the profiles it was given. A middleware of
  gin that returns without \<open>Abort\<close> lets the chain go on, whatever it has answered.
\<close>

section \<open>Requests\<close>

datatype http_method = MethodGet | MethodDelete | MethodOther

text \<open>The timestamp of the decoded payload: absent or of another type, text, or a number.\<close>

datatype stamp = NoStamp | StampText string | StampNumber decimal

record http_request =
  hr_authorization :: string
  hr_client :: string
  hr_api_key :: string
  hr_path :: string
  hr_method :: http_method
  hr_payload_ok :: bool
  hr_stamp :: stamp
  hr_payload :: string

record gate_ctx =
  gx_user :: "string option"
  gx_sender :: "nat option"
  gx_provider :: "nat option"

datatype gate = Stopped nat | Passed gate_ctx

text \<open>\<open>g_jwt\<close> gives the subject and scope of a token that is valid, each if it is text.\<close>

record gate_env =
  g_now :: int
  g_acc :: acc_env
  g_jwt :: "string \<Rightarrow> (string option \<times> string option) option"
  g_parse_uuid :: "string \<Rightarrow> nat option"
  g_parse_float :: "string \<Rightarrow> decimal option"
  g_decrypt :: "string \<Rightarrow> string option"
  g_hmac :: "string \<Rightarrow> string \<Rightarrow> string"
  g_window :: int

definition no_ctx :: gate_ctx where
  "no_ctx = \<lparr>gx_user = None, gx_sender = None, gx_provider = None\<rparr>"

text \<open>\<open>strings.SplitN(s, c, 2)\<close>: the text before and after the first separator, if there is one.\<close>

definition split_first :: "char \<Rightarrow> string \<Rightarrow> (string \<times> string) option" where
  "split_first c s = (if c \<in> set s then Some (takeWhile (\<lambda>x. x \<noteq> c) s, tl (dropWhile (\<lambda>x. x \<noteq> c) s)) else None)"

section \<open>Access tokens\<close>

definition profile_of :: "gate_env \<Rightarrow> profile_kind \<Rightarrow> string \<Rightarrow> acc_world \<Rightarrow> nat option" where
  "profile_of e k sub w = (case g_parse_uuid e sub of None \<Rightarrow> None
     | Some i \<Rightarrow> if (i, k) \<in> set (aw_profiles w) \<and> \<not> afails (g_acc e) AProfileCreate then Some i else None)"

text \<open>A valid token without a subject dereferences a nil error.\<close>

definition JWTMiddleware :: "gate_env \<Rightarrow> http_request \<Rightarrow> acc_world \<Rightarrow> gate" where
  "JWTMiddleware e r w = (case split_first CHR '' '' (hr_authorization r) of None \<Rightarrow> Stopped 401
   | Some (scheme, raw) \<Rightarrow>
       if scheme \<noteq> ''Bearer'' then Stopped 401
       else (case g_jwt e raw of None \<Rightarrow> Stopped 401
         | Some (None, _) \<Rightarrow> Stopped 500
         | Some (Some sub, None) \<Rightarrow> Stopped 401
         | Some (Some sub, Some scope) \<Rightarrow> (let both = (sublist ''sender'' scope \<and> sublist ''provider'' scope) in
             Passed \<lparr>gx_user = Some sub,
               gx_sender = (if scope = ''sender'' \<or> both then profile_of e SenderProfile sub w else None),
               gx_provider = (if scope = ''provider'' \<or> both then profile_of e ProviderProfile sub w else None)\<rparr>)))"

section \<open>API keys\<close>

definition key_row :: "gate_env \<Rightarrow> nat \<Rightarrow> acc_world \<Rightarrow> api_key option" where
  "key_row e i w = find (\<lambda>k. ak_id k = i) (aw_keys w)"

definition key_ctx :: "api_key \<Rightarrow> gate_ctx option" where
  "key_ctx k = (case ak_kind k of None \<Rightarrow> None
     | Some SenderProfile \<Rightarrow> Some (no_ctx\<lparr>gx_sender := Some (ak_user k)\<rparr>)
     | Some ProviderProfile \<Rightarrow> Some (no_ctx\<lparr>gx_provider := Some (ak_user k)\<rparr>))"

definition with_key :: "gate_env \<Rightarrow> string \<Rightarrow> acc_world \<Rightarrow> (api_key \<Rightarrow> gate_ctx \<Rightarrow> gate) \<Rightarrow> gate" where
  "with_key e key w f = (case g_parse_uuid e key of None \<Rightarrow> Stopped 400
   | Some i \<Rightarrow> if afails (g_acc e) AKeyQuery then Stopped 500
       else (case key_row e i w of None \<Rightarrow> Stopped 404
         | Some k \<Rightarrow> (case key_ctx k of None \<Rightarrow> Stopped 401 | Some c \<Rightarrow> f k c)))"

definition APIKeyMiddleware :: "gate_env \<Rightarrow> http_request \<Rightarrow> acc_world \<Rightarrow> gate" where
  "APIKeyMiddleware e r w = (if hr_api_key r = '''' then Stopped 401 else with_key e (hr_api_key r) w (\<lambda>k c. Passed c))"

section \<open>Signed requests\<close>

definition hmac_credentials :: "http_request \<Rightarrow> (string \<times> string) option" where
  "hmac_credentials r = (case split_first CHR '' '' (hr_authorization r) of None \<Rightarrow> None
   | Some (scheme, rest) \<Rightarrow>
       if scheme \<noteq> ''HMAC'' \<or> length rest < 4 then None
       else (case split_first CHR '':'' rest of None \<Rightarrow> None
         | Some (key, sig) \<Rightarrow> if key = '''' \<or> sig = '''' then None else Some (key, sig)))"

definition stamp_of :: "gate_env \<Rightarrow> stamp \<Rightarrow> decimal option" where
  "stamp_of e t = (case (case t of NoStamp \<Rightarrow> None | StampText s \<Rightarrow> g_parse_float e s | StampNumber n \<Rightarrow> Some n) of
     None \<Rightarrow> None | Some n \<Rightarrow> if n = 0 then None else Some n)"

definition payload_status :: "http_request \<Rightarrow> nat option" where
  "payload_status r = (if hr_method r = MethodOther \<and> \<not> hr_payload_ok r then Some 400 else None)"

text \<open>A secret that cannot be read answers 500 without stopping the chain. A timestamp is too old, never
  too new.\<close>

definition HMACVerificationMiddleware :: "gate_env \<Rightarrow> http_request \<Rightarrow> acc_world \<Rightarrow> gate" where
  "HMACVerificationMiddleware e r w = (case hmac_credentials r of None \<Rightarrow> Stopped 401
   | Some (key, sig) \<Rightarrow> (case payload_status r of Some s \<Rightarrow> Stopped s
     | None \<Rightarrow> (case stamp_of e (hr_stamp r) of None \<Rightarrow> Stopped 401
       | Some t \<Rightarrow>
           if g_window e < g_now e - trunc t then Stopped 401
           else with_key e key w (\<lambda>k c. case g_decrypt e (ak_secret k) of None \<Rightarrow> Passed c
             | Some secret \<Rightarrow> if g_hmac e secret (hr_payload r) = sig then Passed c else Stopped 401))))"

definition DynamicAuthMiddleware :: "gate_env \<Rightarrow> http_request \<Rightarrow> acc_world \<Rightarrow> gate" where
  "DynamicAuthMiddleware e r w = (if prefix ''Bearer '' (hr_authorization r) \<or> hr_client r = ''web'' then JWTMiddleware e r w
     else if sublist ''/sender/'' (hr_path r) \<and> hr_api_key r \<noteq> '''' then APIKeyMiddleware e r w
     else HMACVerificationMiddleware e r w)"

definition OnlySenderMiddleware :: "gate_ctx \<Rightarrow> gate" where
  "OnlySenderMiddleware c = (if gx_sender c = None then Stopped 401 else Passed c)"

definition OnlyProviderMiddleware :: "gate_ctx \<Rightarrow> gate" where
  "OnlyProviderMiddleware c = (if gx_provider c = None then Stopped 401 else Passed c)"

definition then_gate :: "gate \<Rightarrow> (gate_ctx \<Rightarrow> gate) \<Rightarrow> gate" where
  "then_gate g f = (case g of Stopped s \<Rightarrow> Stopped s | Passed c \<Rightarrow> f c)"

section \<open>Rate limits\<close>

text \<open>One window of a key: the count in Redis and its end. A request is let through, or told to come
  back; a failing Redis lets it through.\<close>

record window =
  wn_count :: nat
  wn_until :: "instant option"

definition window_at :: "instant \<Rightarrow> window option \<Rightarrow> window" where
  "window_at t x = (case x of None \<Rightarrow> \<lparr>wn_count = 0, wn_until = None\<rparr>
     | Some v \<Rightarrow> (case wn_until v of None \<Rightarrow> v | Some u \<Rightarrow> if t < u then v else \<lparr>wn_count = 0, wn_until = None\<rparr>))"

definition RateLimit :: "nat \<Rightarrow> duration \<Rightarrow> db_fault \<Rightarrow> db_fault \<Rightarrow> instant \<Rightarrow> window option \<Rightarrow> bool \<times> window option" where
  "RateLimit limit len incr expire t x = (if incr = DbFail then (True, x)
     else (let v = window_at t x; n = wn_count v + 1;
         v' = \<lparr>wn_count = n, wn_until = (if incr = DbOk \<and> n = 1 \<and> expire \<noteq> DbFail then Some (t + len) else wn_until v)\<rparr> in
       (incr = DbLostAck \<or> n \<le> limit, Some v')))"

text \<open>Trimmed, lowercase, non-empty parts.\<close>

definition CompositeKey :: "string list \<Rightarrow> string" where
  "CompositeKey parts = joined_with ''|'' (filter (\<lambda>p. p \<noteq> '''') (map (\<lambda>p. trim_space (to_lower p)) parts))"

text \<open>Decimal digits by repeated division; only used on positive numbers.\<close>

fun itoa_loop :: "nat \<Rightarrow> string \<Rightarrow> string" where
  "itoa_loop n ds = (if n = 0 then ds else itoa_loop (n div 10) (digit_char (n mod 10) # ds))"

declare itoa_loop.simps [simp del]

definition itoa :: "nat \<Rightarrow> string" where
  "itoa n = (if n = 0 then ''0'' else itoa_loop n [])"

end
