(* ===== verification/Acc_Runs.thy ===== *)
theory Acc_Runs imports Acc_Gate begin

text \<open>
  What requests do to the refresh tokens: each is one step of a token automaton (a new family, a
  rotation, a revocation), from which the properties of families along every run follow.
\<close>

section \<open>The token automaton\<close>

definition revoke_row :: "instant \<Rightarrow> refresh_token \<Rightarrow> refresh_token" where
  "revoke_row t x = x\<lparr>rt_revoked := Some t\<rparr>"

definition rotated :: "acc_env \<Rightarrow> refresh_token \<Rightarrow> refresh_token \<Rightarrow> refresh_token list \<Rightarrow> refresh_token list" where
  "rotated e t new ts = map (\<lambda>x. if rt_id x = rt_id t then x\<lparr>rt_replaced := Some (a_new_id e)\<rparr> else x)
     (map (\<lambda>x. if rt_id x = rt_id t then revoke_row (a_now e) x else x) ts @ [new])"

inductive token_step :: "acc_env \<Rightarrow> refresh_token list \<Rightarrow> refresh_token list \<Rightarrow> bool" for e where
  same: "token_step e ts ts"
| family: "a_hash e raw \<notin> rt_hash ` set ts \<Longrightarrow> token_step e ts (ts @ [new_token e i (a_new_family e) None ttl raw])"
| rotate: "t \<in> set ts \<Longrightarrow> live t \<Longrightarrow> a_hash e raw \<notin> rt_hash ` set ts \<Longrightarrow>
     token_step e ts (rotated e t (new_token e (rt_owner t) (rt_family t) (Some (rt_id t)) ttl raw) ts)"
| revoke: "token_step e ts (map (\<lambda>x. if P x \<and> live x then revoke_row (a_now e) x else x) ts)"

inductive_cases token_stepE: "token_step e ts ts'"

section \<open>Requests\<close>

datatype acc_request = ReqRegister registration | ReqLogin string string | ReqGoogle string string string
  | ReqRefresh string | ReqLogout string | ReqConfirm string string | ReqResend string otp_scope
  | ReqReset string string string | ReqResetToken string | ReqChange nat string string

definition perform :: "acc_env \<Rightarrow> acc_request \<Rightarrow> (acc_world, acc_reply) state" where
  "perform e q = (case q of
     ReqRegister r \<Rightarrow> Register e r | ReqLogin m p \<Rightarrow> Login e m p | ReqGoogle i s c \<Rightarrow> GoogleAuth e i s c
   | ReqRefresh raw \<Rightarrow> RefreshJWT e raw | ReqLogout raw \<Rightarrow> Logout e raw | ReqConfirm m raw \<Rightarrow> ConfirmEmail e m raw
   | ReqResend m s \<Rightarrow> ResendVerificationToken e m s | ReqReset m raw p \<Rightarrow> ResetPassword e m raw p
   | ReqResetToken m \<Rightarrow> ResetPasswordToken e m | ReqChange i old new \<Rightarrow> ChangePassword e i old new)"

section \<open>Requests are token steps\<close>

definition tokens_at :: "refresh_token list \<Rightarrow> acc_world \<Rightarrow> bool" where
  "tokens_at ts w \<longleftrightarrow> aw_tokens w = ts"

named_theorems token_intros \<open>operations that leave the tokens alone\<close>

lemma exec_tokens: "(\<And>w. tokens_at ts w \<Longrightarrow> tokens_at ts (f w)) \<Longrightarrow> keeps (tokens_at ts) (exec e s f)"
  unfolding exec_def by (intro keeps_intros keeps_update) simp

lemma tokens_map_user [token_intros]: "keeps (tokens_at ts) (exec e s (map_user i f))"
  by (rule exec_tokens) (simp add: tokens_at_def map_user_def)

lemma tokens_codes [token_intros]: "keeps (tokens_at ts) (exec e s (add_code c))" "keeps (tokens_at ts) (exec e s (delete_code i))"
  by (rule exec_tokens, simp add: tokens_at_def add_code_def delete_code_def)+

lemma tokens_counters [token_intros]: "keeps (tokens_at ts) (clearOTPAttempts e s m)" "keeps (tokens_at ts) (recordOTPFailure e s m d)"
  unfolding clearOTPAttempts_def recordOTPFailure_def Let_def
  by (intro keeps_intros keeps_update; simp add: tokens_at_def set_counter_def)+

lemma tokens_send [token_intros]: "keeps (tokens_at ts) (send_code e s m raw)"
  unfolding send_code_def by (intro keeps_intros keeps_update) (simp add: tokens_at_def)

lemma tokens_wallet [token_intros]: "keeps (tokens_at ts) (ensure_wallet e x)"
  unfolding ensure_wallet_def by (intro keeps_intros token_intros)

lemma tokens_tx:
  "(\<And>w w'. tokens_at ts w \<Longrightarrow> f w = Inr w' \<Longrightarrow> tokens_at ts w') \<Longrightarrow> keeps (tokens_at ts) (run_tx e f)"
proof -
  assume f: "\<And>w w'. tokens_at ts w \<Longrightarrow> f w = Inr w' \<Longrightarrow> tokens_at ts w'"
  have "tokens_at ts (snd (run_state (run_tx e f) w))" if "tokens_at ts w" for w
    using that f [OF that] by (auto simp: run_tx_def commit_def exec_def only_if_def split: sum.split)
  then show ?thesis by (simp add: keeps_def)
qed

lemma add_rows_tokens:
  "add_user e x w = Inr w' \<Longrightarrow> aw_tokens w' = aw_tokens w" "add_profile e k i w = Inr w' \<Longrightarrow> aw_tokens w' = aw_tokens w"
  "add_provider e c i w = Inr w' \<Longrightarrow> aw_tokens w' = aw_tokens w" "new_google_user e m s b w = Inr w' \<Longrightarrow> aw_tokens w' = aw_tokens w"
  "grant_scope e x s n w = Inr w' \<Longrightarrow> aw_tokens w' = aw_tokens w"
  by (auto simp: add_user_def add_profile_def add_provider_def new_google_user_def grant_scope_def map_user_def
      split: if_splits option.splits)

lemma register_tokens:
  "register_user e r w = Inr (raw, v) \<Longrightarrow> aw_tokens v = aw_tokens w"
  "register_profiles e r w = Inr w' \<Longrightarrow> aw_tokens w' = aw_tokens w"
  by (auto simp: register_user_def register_profiles_def then_tx_def add_code_def dest!: add_rows_tokens
      split: if_splits option.splits sum.splits)

lemma google_tokens: "google_provider e m c x w = Inr w' \<Longrightarrow> aw_tokens w' = aw_tokens w"
  by (auto simp: google_provider_def Let_def then_tx_def dest!: add_rows_tokens split: if_splits option.splits sum.splits)

text \<open>An operation that starts with the tokens \<open>ts\<close> and makes one step of them.\<close>

definition steps_from :: "acc_env \<Rightarrow> refresh_token list \<Rightarrow> (acc_world, 'a) state \<Rightarrow> bool" where
  "steps_from e ts m \<longleftrightarrow> (\<forall>w. tokens_at ts w \<longrightarrow> token_step e ts (aw_tokens (snd (run_state m w))))"

lemma steps_kept: "keeps (tokens_at ts) m \<Longrightarrow> steps_from e ts m"
  by (auto simp: steps_from_def keeps_def tokens_at_def token_step.same)

lemma steps_bind: "keeps (tokens_at ts) m \<Longrightarrow> (\<And>r. steps_from e ts (f r)) \<Longrightarrow> steps_from e ts (m \<bind> f)"
  by (simp add: steps_from_def keeps_def split: prod.split) (metis snd_conv)

lemma steps_fetch: "(\<And>w. tokens_at ts w \<Longrightarrow> steps_from e ts (f w)) \<Longrightarrow> steps_from e ts (fetch \<bind> f)"
  by (simp add: steps_from_def)

lemma steps_last: "steps_from e ts m \<Longrightarrow> (\<And>r ts. keeps (tokens_at ts) (f r)) \<Longrightarrow> steps_from e ts (m \<bind> f)"
  by (simp add: steps_from_def keeps_def tokens_at_def split: prod.split) (metis snd_conv)

lemma steps_if: "(c \<Longrightarrow> steps_from e ts m) \<Longrightarrow> (\<not> c \<Longrightarrow> steps_from e ts n) \<Longrightarrow> steps_from e ts (if c then m else n)"
  by simp

lemma steps_option: "(x = None \<Longrightarrow> steps_from e ts m) \<Longrightarrow> (\<And>y. x = Some y \<Longrightarrow> steps_from e ts (f y)) \<Longrightarrow>
    steps_from e ts (case x of None \<Rightarrow> m | Some y \<Rightarrow> f y)"
  by (cases x) auto

lemma steps_exec: "(\<And>w. aw_tokens w = ts \<Longrightarrow> token_step e ts (aw_tokens (f w))) \<Longrightarrow> steps_from e ts (exec e s f)"
  by (auto simp: steps_from_def exec_def only_if_def tokens_at_def token_step.same)

lemma revoke_steps: "steps_from e ts (exec e s (map_tokens (\<lambda>t. P t \<and> live t) (\<lambda>t. t\<lparr>rt_revoked := Some (a_now e)\<rparr>)))"
  by (rule steps_exec) (simp add: map_tokens_def token_step.revoke [unfolded revoke_row_def])

lemma issue_steps: "steps_from e ts (IssueNewFamily e i ttl)"
  unfolding IssueNewFamily_def issue_def commit_def
proof (rule steps_fetch, rule steps_option, rule steps_kept, rule keeps_return)
  fix w x
  assume w: "tokens_at ts w" and x: "(if afails e ATxBegin then None else issueInTx e i (a_new_family e) None ttl w) = Some x"
  then obtain raw v where v: "x = (raw, v)" "a_hash e raw \<notin> rt_hash ` set ts" "aw_tokens v = ts @ [new_token e i (a_new_family e) None ttl raw]"
    by (cases x) (auto simp: issueInTx_def add_token_def tokens_at_def split: if_splits option.splits)
  then show "steps_from e ts (case x of (raw, w') \<Rightarrow> exec e ACommit (\<lambda>_. w') \<bind> (\<lambda>ok. return (if ok then Some raw else None)))"
    by (auto intro!: steps_last [OF steps_exec] token_step.family keeps_intros)
qed

lemma session_steps: "steps_from e ts (open_session e i)"
  unfolding open_session_def by (intro steps_if steps_kept steps_last issue_steps keeps_intros)

lemma commit_steps:
  assumes "t \<in> set ts" "live t"
  shows "steps_from e ts (rotate_commit e ttl t)"
  unfolding rotate_commit_def commit_def
proof (rule steps_fetch, rule steps_if, rule steps_kept, rule keeps_return, rule steps_option, rule steps_kept, rule keeps_return)
  fix w x
  let ?w = "map_tokens (\<lambda>x. rt_id x = rt_id t) (\<lambda>x. x\<lparr>rt_revoked := Some (a_now e)\<rparr>) w"
  assume w: "tokens_at ts w" and x: "issueInTx e (rt_owner t) (rt_family t) (Some (rt_id t)) ttl ?w = Some x"
  have hashes: "rt_hash ` set (aw_tokens ?w) = rt_hash ` set (aw_tokens w)"
  proof -
    have "map rt_hash (aw_tokens ?w) = map rt_hash (aw_tokens w)" by (simp add: map_tokens_def)
    then show ?thesis by (metis list.set_map)
  qed
  from x obtain raw v where v: "x = (raw, v)" "a_hash e raw \<notin> rt_hash ` set ts"
    "aw_tokens v = map (\<lambda>x. if rt_id x = rt_id t then revoke_row (a_now e) x else x) ts @ [new_token e (rt_owner t) (rt_family t) (Some (rt_id t)) ttl raw]"
    using w hashes by (cases x) (auto simp: issueInTx_def add_token_def tokens_at_def map_tokens_def revoke_row_def split: if_splits option.splits)
  have "token_step e ts (aw_tokens (map_tokens (\<lambda>x. rt_id x = rt_id t) (\<lambda>x. x\<lparr>rt_replaced := Some (a_new_id e)\<rparr>) v))"
    using token_step.rotate [OF assms v(2), of ttl] by (simp add: map_tokens_def v(3) rotated_def)
  then show "steps_from e ts (case x of (raw, w') \<Rightarrow> if afails e ATokenReplaced then return None
      else exec e ACommit (\<lambda>_. map_tokens (\<lambda>x. rt_id x = rt_id t) (\<lambda>x. x\<lparr>rt_replaced := Some (a_new_id e)\<rparr>) w') \<bind>
        (\<lambda>ok. return (if ok then Some raw else None)))"
    unfolding v(1) prod.case
    by (intro steps_if) (simp_all add: steps_kept keeps_return steps_last [OF steps_exec])
qed

lemma rotate_steps: "steps_from e ts (Rotate e raw ttl)"
  unfolding Rotate_def
proof (unfold steps_from_def, intro allI impI)
  fix w
  assume w: "tokens_at ts w"
  obtain r w' where r: "run_state (rotate_check e raw) w = (r, w')" by fastforce
  show "token_step e ts (aw_tokens (snd (run_state (rotate_check e raw \<bind> (\<lambda>t. case t of None \<Rightarrow> return None
       | Some t \<Rightarrow> rotate_commit e ttl t \<bind> (\<lambda>r. return (map_option (\<lambda>new. (new, rt_owner t)) r)))) w)))"
  proof (cases r)
    case None
    have "steps_from e ts (rotate_check e raw)"
      unfolding rotate_check_def revokeFamily_def
      by (intro steps_fetch steps_option steps_if steps_last [OF revoke_steps] steps_kept keeps_return)
    then have "token_step e ts (aw_tokens w')" using r w by (auto simp: steps_from_def)
    with None r show ?thesis by simp
  next
    case (Some t)
    with r have same: "w' = w" and t: "find (\<lambda>t. rt_hash t = a_hash e raw) (aw_tokens w) = Some t" "live t"
      by (auto simp: rotate_check_def token_by_raw_def split: option.splits if_splits prod.splits)
    from t(1) w have "t \<in> set ts" by (auto simp: find_Some_iff tokens_at_def)
    from commit_steps [OF this t(2)] have "steps_from e ts (rotate_commit e ttl t \<bind> (\<lambda>r. return (map_option (\<lambda>new. (new, rt_owner t)) r)))"
      by (intro steps_last keeps_return)
    with w Some r same show ?thesis by (simp add: steps_from_def)
  qed
qed

lemma code_steps:
  assumes "\<And>c x. steps_from e ts (accept c x)"
  shows "steps_from e ts (try_code e s asked m raw accept)"
  unfolding try_code_def
proof (rule steps_fetch, rule steps_if, rule steps_kept, rule keeps_return, rule steps_option)
  fix y
  have late: "keeps (tokens_at ts) (exec e ACodeDelete (delete_code i) \<bind> (\<lambda>_. return (Denied 400)))" for i
    by (intro keeps_intros token_intros)
  show "steps_from e ts (case y of (c, x) \<Rightarrow> if vt_expires c < a_now e
      then exec e ACodeDelete (delete_code (vt_id c)) \<bind> (\<lambda>_. return (Denied 400)) else accept c x)"
    using assms steps_kept [OF late] by (cases y) simp
qed (intro steps_kept keeps_intros token_intros)

lemma issue_code_kept: "(\<And>raw. keeps (tokens_at ts) (sent raw)) \<Longrightarrow> keeps (tokens_at ts) (issue_code e s x a b sent)"
  unfolding issue_code_def by (intro keeps_intros token_intros)

lemma register_steps: "steps_from e ts (Register e r)"
  unfolding Register_def
proof (rule steps_fetch)
  fix w
  assume w: "tokens_at ts w"
  show "steps_from e ts (case register_user e r w of Inl s \<Rightarrow> return (Denied s)
     | Inr (raw, v) \<Rightarrow> do {
         only_if (\<not> a_local e) (do {
           clearOTPAttempts e EmailVerification (to_lower (rg_email r));
           _ \<leftarrow> send_code e EmailVerification (to_lower (rg_email r)) raw;
           return () });
         s \<leftarrow> run_tx e (\<lambda>u. register_profiles e r (v\<lparr>aw_counters := aw_counters u, aw_mails := aw_mails u\<rparr>));
         case s of Some s \<Rightarrow> return (Denied s) | None \<Rightarrow> open_session e (a_new_user e)
       })"
  proof (cases "register_user e r w")
    case (Inl s)
    then show ?thesis by (simp add: steps_kept keeps_return)
  next
    case (Inr x)
    then obtain raw v where x: "register_user e r w = Inr (raw, v)" by (cases x) simp
    then have "tokens_at ts v" using register_tokens(1) [OF x] w by (simp add: tokens_at_def)
    then have "keeps (tokens_at ts) (run_tx e (\<lambda>u. register_profiles e r (v\<lparr>aw_counters := aw_counters u, aw_mails := aw_mails u\<rparr>)))"
      by (intro tokens_tx) (auto simp: tokens_at_def dest: register_tokens(2))
    then show ?thesis
      unfolding x sum.case prod.case
      by (intro steps_bind steps_option session_steps keeps_intros token_intros steps_kept) auto
  qed
qed

lemma google_steps: "steps_from e ts (GoogleAuth e i s c)"
proof -
  have holder: "keeps (tokens_at ts) (google_cardholder e m x)" for m x
  proof (cases x)
    case None
    have "tokens_at ts (snd (run_state (google_cardholder e m x) w))" if "tokens_at ts w" for w
      using that None by (auto simp: google_cardholder_def exec_def only_if_def tokens_at_def dest: add_rows_tokens split: sum.split)
    then show ?thesis by (simp add: keeps_def)
  next
    case (Some y)
    have "keeps (tokens_at ts) (if sublist ''cardholder'' (us_scope y) then return None
       else exec e AUserUpdate (map_user (us_id y) (\<lambda>x. x\<lparr>us_scope := joined_with '' '' (str_fields (us_scope x) @ [''cardholder'']), us_verified := True\<rparr>))
         \<bind> (\<lambda>ok. return (if ok then None else Some 500)))"
      by (intro keeps_intros token_intros)
    with Some show ?thesis by (simp add: google_cardholder_def)
  qed
  have rest: "steps_from e ts (fetch \<bind> (\<lambda>w. (if P then run_tx e (google_provider e m c (find_user Q w)) else google_cardholder e m (find_user Q w)) \<bind>
      (\<lambda>s. case s of None \<Rightarrow> open_session e (k w) | Some s \<Rightarrow> return (Denied s))))" for P Q m k
  proof (rule steps_fetch, rule steps_bind)
    fix w
    show "keeps (tokens_at ts) (if P then run_tx e (google_provider e m c (find_user Q w)) else google_cardholder e m (find_user Q w))"
      by (intro keeps_if holder tokens_tx) (simp add: tokens_at_def google_tokens)
    show "steps_from e ts (case s of None \<Rightarrow> open_session e (k w) | Some s \<Rightarrow> return (Denied s))" for s
      by (intro steps_option session_steps steps_kept keeps_return)
  qed
  have stop: "steps_from e ts (return (Denied n))" for n by (intro steps_kept keeps_return)
  show ?thesis
    unfolding GoogleAuth_def Let_def using rest stop by (simp split: option.split)
qed

lemma login_steps: "steps_from e ts (Login e m p)"
  unfolding Login_def
proof (rule steps_fetch, rule steps_option, rule steps_kept, rule keeps_return)
  fix x
  show "steps_from e ts (if \<not> a_check e p (us_password x) \<or> early_blocked e x then return (Denied 401)
      else ensure_wallet e x \<bind> (\<lambda>_. open_session e (us_id x)))"
    by (rule steps_if) (simp_all add: steps_kept keeps_return steps_bind [OF tokens_wallet] session_steps)
qed

lemma refresh_steps: "steps_from e ts (RefreshJWT e raw)"
  unfolding RefreshJWT_def by (intro steps_last rotate_steps keeps_return)

lemma logout_steps: "steps_from e ts (Logout e raw)"
proof -
  have "steps_from e ts (RevokeByRaw e raw)"
    unfolding RevokeByRaw_def revokeFamily_def
    by (rule steps_fetch, rule steps_option) (simp_all add: steps_kept keeps_return revoke_steps)
  then show ?thesis
    unfolding Logout_def by (intro steps_last keeps_return) (simp add: steps_kept keeps_return)
qed

lemma reset_steps: "steps_from e ts (ResetPassword e m raw p)"
  unfolding ResetPassword_def
proof (rule code_steps, rule steps_option, rule steps_kept, rule keeps_return)
  fix c x h
  have end_all: "steps_from e ts (RevokeAllForUser e (us_id x) \<bind> (\<lambda>_. return (Fine 200)))"
    unfolding RevokeAllForUser_def by (intro steps_last revoke_steps keeps_return)
  show "steps_from e ts (exec e AUserUpdate (map_user (us_id x) (\<lambda>x. x\<lparr>us_password := h\<rparr>)) \<bind> (\<lambda>ok.
      if \<not> ok then return (Denied 500)
      else exec e ACodeDelete (delete_code (vt_id c)) \<bind> (\<lambda>_. clearOTPAttempts e ResetPasswordScope m \<bind>
        (\<lambda>_. RevokeAllForUser e (us_id x) \<bind> (\<lambda>_. return (Fine 200))))))"
    by (rule steps_bind, rule tokens_map_user, rule steps_if)
      (simp_all add: steps_kept keeps_return steps_bind [OF tokens_codes(2)] steps_bind [OF tokens_counters(1)] end_all)
qed

lemma kept_requests:
  "keeps (tokens_at ts) (ConfirmEmail e m raw)" "keeps (tokens_at ts) (ResendVerificationToken e m s)"
  "keeps (tokens_at ts) (ResetPasswordToken e m)" "keeps (tokens_at ts) (ChangePassword e i old new)"
  unfolding ConfirmEmail_def try_code_def ResendVerificationToken_def ResetPasswordToken_def ChangePassword_def
  by (intro keeps_intros token_intros issue_code_kept)+

lemma perform_steps: "token_step e (aw_tokens w) (aw_tokens (snd (run_state (perform e q) w)))"
proof -
  have "steps_from e (aw_tokens w) (perform e q)"
    by (cases q) (simp_all add: perform_def register_steps google_steps login_steps refresh_steps logout_steps reset_steps
        kept_requests [THEN steps_kept])
  then show ?thesis by (simp add: steps_from_def tokens_at_def)
qed

end
