(* ===== verification/Acc_Guards.thy ===== *)
theory Acc_Guards imports Acc_Results begin

text \<open>
  Bounds and guards: what a password reset ends, how many codes can be guessed and requests sent in a
  window, what a request had to show to act as a sender, and the lifespan of a session.
\<close>

section \<open>Password resets\<close>

lemma exec_run: "run_state (exec e s f) w = (a_fault e s = DbOk, if a_fault e s = DbFail then w else f w)"
  by (simp add: exec_def only_if_def)

lemma clear_run: "run_state (clearOTPAttempts e s m) w =
    ((), if a_redis e \<and> a_fault e ACounterDel \<noteq> DbFail then set_counter s m None w else w)"
  by (simp add: clearOTPAttempts_def only_if_def)


section \<open>Guesses\<close>

type_synonym guess = "acc_env \<times> string \<times> string"

text \<open>How many of the attempts were compared with the stored codes and were wrong, and whether one was right.\<close>

fun wrong_guesses :: "string \<Rightarrow> guess list \<Rightarrow> acc_world \<Rightarrow> nat" where
  "wrong_guesses m [] w = 0"
| "wrong_guesses m ((e, raw, p) # gs) w =
     (if \<not> otpAttemptsExceeded e ResetPasswordScope m w \<and> code_row e (Some ResetPasswordScope) m raw w = None then 1 else 0) +
     wrong_guesses m gs (snd (run_state (ResetPassword e m raw p) w))"

fun no_success :: "string \<Rightarrow> guess list \<Rightarrow> acc_world \<Rightarrow> bool" where
  "no_success m [] w = True"
| "no_success m ((e, raw, p) # gs) w = (case run_state (ResetPassword e m raw p) w of (r, w') \<Rightarrow> r \<noteq> Fine 200 \<and> no_success m gs w')"

definition steady :: "instant \<Rightarrow> duration \<Rightarrow> acc_env \<Rightarrow> bool" where
  "steady t0 len e \<longleftrightarrow> a_redis e \<and> a_fault e ACounterGet = DbOk \<and> a_fault e ACounterIncr = DbOk \<and> a_fault e ACounterExpire = DbOk \<and>
     t0 \<le> a_now e \<and> a_now e < t0 + len \<and> a_reset_lifespan e = len"

definition counted :: "instant \<Rightarrow> nat \<Rightarrow> otp_counter option \<Rightarrow> bool" where
  "counted t1 k x \<longleftrightarrow> (case x of None \<Rightarrow> k = 0 | Some c \<Rightarrow> oc_count c = k \<and> 0 < k \<and> (\<exists>u. oc_until c = Some u \<and> t1 \<le> u))"

lemma counted_at: "counted t1 k (aw_counters w s m) \<Longrightarrow> t < t1 \<Longrightarrow> counter_at t s m w = k"
  by (auto simp: counted_def counter_at_def split: option.splits)

lemma recorded:
  assumes "steady t0 len e" "counted (t0 + len) k (aw_counters w ResetPasswordScope m)"
  shows "counted (t0 + len) (Suc k) (aw_counters (snd (run_state (recordOTPFailure e ResetPasswordScope m len) w)) ResetPasswordScope m)"
proof -
  have "counter_at (a_now e) ResetPasswordScope m w = k"
    using assms by (intro counted_at) (auto simp: steady_def)
  with assms show ?thesis
    by (cases "k = 0")
      (auto simp: recordOTPFailure_def Let_def only_if_def steady_def counted_def set_counter_def split: option.splits)
qed

lemma kept_counter:
  assumes "run_state (ResetPassword e m raw p) w = (r, w')" "r \<noteq> Fine 200"
    "otpAttemptsExceeded e ResetPasswordScope m w \<or> code_row e (Some ResetPasswordScope) m raw w \<noteq> None"
  shows "aw_counters w' = aw_counters w"
  using assms
  by (auto simp: ResetPassword_def try_code_def exec_run clear_run RevokeAllForUser_def map_user_def delete_code_def
      split: if_splits option.splits)

lemma guesses_counted:
  assumes "\<forall>(e, raw, p) \<in> set gs. steady t0 len e" "counted (t0 + len) k (aw_counters w ResetPasswordScope m)" "k \<le> 5" "no_success m gs w"
  shows "k + wrong_guesses m gs w \<le> 5"
  using assms
proof (induction gs arbitrary: k w)
  case (Cons g gs)
  obtain e raw p where g: "g = (e, raw, p)" by (cases g)
  with Cons.prems have steady: "steady t0 len e" by simp
  obtain r w' where r: "run_state (ResetPassword e m raw p) w = (r, w')" by fastforce
  with Cons.prems(4) g have ok: "r \<noteq> Fine 200" "no_success m gs w'" by auto
  have at: "counter_at (a_now e) ResetPasswordScope m w = k"
    using Cons.prems(2) steady by (intro counted_at) (auto simp: steady_def)
  show ?case
  proof (cases "\<not> otpAttemptsExceeded e ResetPasswordScope m w \<and> code_row e (Some ResetPasswordScope) m raw w = None")
    case True
    with at steady have "k < 5" by (simp add: otpAttemptsExceeded_def otpMaxAttempts_def steady_def)
    from True r have "w' = snd (run_state (recordOTPFailure e ResetPasswordScope m (a_reset_lifespan e)) w)"
      by (auto simp: ResetPassword_def try_code_def lifespan_def split: prod.splits)
    then have "counted (t0 + len) (Suc k) (aw_counters w' ResetPasswordScope m)"
      using recorded [OF steady Cons.prems(2)] steady by (simp add: steady_def)
    with Cons.IH [of "Suc k" w'] Cons.prems(1) ok \<open>k < 5\<close> have "Suc k + wrong_guesses m gs w' \<le> 5" by simp
    with True r show ?thesis by (simp add: g)
  next
    case False
    with kept_counter [OF r ok(1)] Cons.prems(2) have "counted (t0 + len) k (aw_counters w' ResetPasswordScope m)" by auto
    with Cons.IH [of k w'] Cons.prems(1,3) ok have "k + wrong_guesses m gs w' \<le> 5" by simp
    with False r show ?thesis by (auto simp: g)
  qed
qed simp



section \<open>Rate limits\<close>

text \<open>The requests of one key that get through, for their times.\<close>

fun passes :: "nat \<Rightarrow> duration \<Rightarrow> instant list \<Rightarrow> window option \<Rightarrow> nat" where
  "passes limit len [] x = 0"
| "passes limit len (t # ts) x = (case RateLimit limit len DbOk DbOk t x of (ok, x') \<Rightarrow>
     (if ok then 1 else 0) + passes limit len ts x')"

lemma passes_open:
  assumes "\<forall>t \<in> set ts. t < u" "0 < k"
  shows "k + passes limit len ts (Some \<lparr>wn_count = k, wn_until = Some u\<rparr>) \<le> max k limit"
  using assms
proof (induction ts arbitrary: k)
  case (Cons t ts)
  have "passes limit len (t # ts) (Some \<lparr>wn_count = k, wn_until = Some u\<rparr>) =
      (if Suc k \<le> limit then 1 else 0) + passes limit len ts (Some \<lparr>wn_count = Suc k, wn_until = Some u\<rparr>)"
    using Cons.prems by (auto simp: RateLimit_def window_at_def Let_def)
  moreover have "Suc k + passes limit len ts (Some \<lparr>wn_count = Suc k, wn_until = Some u\<rparr>) \<le> max (Suc k) limit"
    using Cons.IH [of "Suc k"] Cons.prems by simp
  ultimately show ?case by (auto split: if_splits)
qed simp

text \<open>Of the requests of one key that arrive within a window, no more than the limit get through.\<close>

theorem RateLimit_bounds:
  assumes "\<forall>t \<in> set (t0 # ts). t0 \<le> t \<and> t < t0 + len"
  shows "passes limit len (t0 # ts) None \<le> limit"
proof -
  have "passes limit len (t0 # ts) None = (if 1 \<le> limit then 1 else 0) + passes limit len ts (Some \<lparr>wn_count = 1, wn_until = Some (t0 + len)\<rparr>)"
    by (simp add: RateLimit_def window_at_def Let_def)
  moreover have "1 + passes limit len ts (Some \<lparr>wn_count = 1, wn_until = Some (t0 + len)\<rparr>) \<le> max 1 limit"
    by (rule passes_open) (use assms in auto)
  ultimately show ?thesis by (auto split: if_splits)
qed

section \<open>Access\<close>

lemma with_key_passed:
  assumes "with_key e key w f = Passed c"
  obtains k c' where "k \<in> set (aw_keys w)" "g_parse_uuid e key = Some (ak_id k)" "key_ctx k = Some c'" "f k c' = Passed c"
proof -
  from assms obtain i k c' where "g_parse_uuid e key = Some i" "key_row e i w = Some k" "key_ctx k = Some c'" "f k c' = Passed c"
    by (auto simp: with_key_def split: option.splits if_splits)
  moreover from \<open>key_row e i w = Some k\<close> have "k \<in> set (aw_keys w)" "ak_id k = i"
    by (auto simp: key_row_def find_Some_iff)
  ultimately show ?thesis using that by blast
qed

lemma key_sender: "key_ctx k = Some c \<Longrightarrow> gx_sender c = Some i \<Longrightarrow> ak_kind k = Some SenderProfile \<and> ak_user k = i"
  by (auto simp: key_ctx_def no_ctx_def split: option.splits profile_kind.splits)

lemma jwt_sender:
  "JWTMiddleware e r w = Passed c \<Longrightarrow> gx_sender c = Some i \<Longrightarrow>
   \<exists>raw sub scope. split_first CHR '' '' (hr_authorization r) = Some (''Bearer'', raw) \<and> g_jwt e raw = Some (Some sub, Some scope) \<and>
     sublist ''sender'' scope \<and> g_parse_uuid e sub = Some i \<and> (i, SenderProfile) \<in> set (aw_profiles w)"
  by (auto simp: JWTMiddleware_def Let_def profile_of_def split: option.splits if_splits prod.splits)

text \<open>What a signed request shows: a key of a sender, and a signature of its payload under the key's secret,
  not older than the window; or a key whose secret cannot be read.\<close>

definition signed_by :: "gate_env \<Rightarrow> http_request \<Rightarrow> api_key \<Rightarrow> bool" where
  "signed_by e r k \<longleftrightarrow> (\<exists>key sig t. hmac_credentials r = Some (key, sig) \<and> g_parse_uuid e key = Some (ak_id k) \<and>
     stamp_of e (hr_stamp r) = Some t \<and> g_now e - trunc t \<le> g_window e \<and>
     (case g_decrypt e (ak_secret k) of None \<Rightarrow> True | Some secret \<Rightarrow> g_hmac e secret (hr_payload r) = sig))"

lemma hmac_passed:
  assumes "HMACVerificationMiddleware e r w = Passed c"
  obtains k where "k \<in> set (aw_keys w)" "key_ctx k = Some c" "signed_by e r k"
proof -
  from assms obtain key sig t where c: "hmac_credentials r = Some (key, sig)" "stamp_of e (hr_stamp r) = Some t" "g_now e - trunc t \<le> g_window e"
    and k: "with_key e key w (\<lambda>k c. case g_decrypt e (ak_secret k) of None \<Rightarrow> Passed c
       | Some secret \<Rightarrow> if g_hmac e secret (hr_payload r) = sig then Passed c else Stopped 401) = Passed c"
    by (auto simp: HMACVerificationMiddleware_def split: option.splits if_splits prod.splits)
  from with_key_passed [OF k] obtain k c' where "k \<in> set (aw_keys w)" "g_parse_uuid e key = Some (ak_id k)" "key_ctx k = Some c'"
    "(case g_decrypt e (ak_secret k) of None \<Rightarrow> Passed c'
       | Some secret \<Rightarrow> if g_hmac e secret (hr_payload r) = sig then Passed c' else Stopped 401) = Passed c" .
  with c that show ?thesis
    by (auto simp: signed_by_def split: option.splits if_splits)
qed

text \<open>Whoever passes the middleware as a sender showed a valid access token of this sender's user with
  the scope, or a sender's API key on a sender's path, or signed the payload with the key's secret
  within the window. (A key whose secret cannot be read also passes.)\<close>

theorem sender_access:
  assumes "then_gate (DynamicAuthMiddleware e r w) OnlySenderMiddleware = Passed c"
  shows "\<exists>i. gx_sender c = Some i \<and>
    ((\<exists>raw sub scope. split_first CHR '' '' (hr_authorization r) = Some (''Bearer'', raw) \<and> g_jwt e raw = Some (Some sub, Some scope) \<and>
        sublist ''sender'' scope \<and> g_parse_uuid e sub = Some i \<and> (i, SenderProfile) \<in> set (aw_profiles w)) \<or>
     (\<exists>k \<in> set (aw_keys w). ak_kind k = Some SenderProfile \<and> ak_user k = i \<and>
        (sublist ''/sender/'' (hr_path r) \<and> g_parse_uuid e (hr_api_key r) = Some (ak_id k) \<or> signed_by e r k)))"
proof -
  from assms obtain i where c: "DynamicAuthMiddleware e r w = Passed c" "gx_sender c = Some i"
    by (auto simp: then_gate_def OnlySenderMiddleware_def split: gate.splits if_splits)
  consider (jwt) "JWTMiddleware e r w = Passed c" | (key) "APIKeyMiddleware e r w = Passed c" "sublist ''/sender/'' (hr_path r)"
    | (hmac) "HMACVerificationMiddleware e r w = Passed c"
    using c(1) by (auto simp: DynamicAuthMiddleware_def split: if_splits)
  then show ?thesis
  proof cases
    case jwt
    with jwt_sender c(2) show ?thesis by blast
  next
    case key
    then have "with_key e (hr_api_key r) w (\<lambda>k c. Passed c) = Passed c"
      by (auto simp: APIKeyMiddleware_def split: if_splits)
    then obtain k where "k \<in> set (aw_keys w)" "g_parse_uuid e (hr_api_key r) = Some (ak_id k)" "key_ctx k = Some c"
      by (rule with_key_passed) simp
    with key_sender [OF this(3) c(2)] key(2) c(2) show ?thesis by blast
  next
    case hmac
    then obtain k where "k \<in> set (aw_keys w)" "key_ctx k = Some c" "signed_by e r k" by (rule hmac_passed)
    with key_sender [OF this(2) c(2)] c(2) show ?thesis by blast
  qed
qed

section \<open>Lifespans and texts\<close>

text \<open>A refresh token that should live a week is accepted for more than 246 years: the lifespan is
  multiplied by a minute twice, and the product wraps.\<close>

theorem refresh_lifespan_overflows:
  assumes "a_refresh_lifespan e = 10080 * minute"
  shows "rt_expires (new_token e i f p (refreshTTL e) raw) - a_now e = 7780056339090243584 \<and>
    246 * 365 * 24 * hour < (7780056339090243584 :: duration)"
  by (simp add: new_token_def refreshTTL_def int64_def assms sint_sbintrunc' signed_take_bit_eq_if_positive signed_take_bit_eq_if_negative)

lemma itoa_loop_show: "0 < n \<Longrightarrow> itoa_loop n ds = show_nat n @ ds"
proof (induction n arbitrary: ds rule: show_nat.induct)
  case (1 n)
  show ?case
  proof (cases "n < 10")
    case True
    with 1 show ?thesis by (simp add: itoa_loop.simps [of n] itoa_loop.simps [of 0] show_nat.simps [of n])
  next
    case False
    with 1 have "itoa_loop (n div 10) (digit_char (n mod 10) # ds) = show_nat (n div 10) @ digit_char (n mod 10) # ds" by simp
    with False show ?thesis by (simp add: itoa_loop.simps [of n] show_nat.simps [of n])
  qed
qed

text \<open>The rate limiter's own conversion of numbers is the standard one.\<close>

lemma itoa_show: "itoa n = show_nat n"
proof (cases "n = 0")
  case True
  have "show_nat 0 = ''0''" by code_simp
  with True show ?thesis by (simp add: itoa_def)
qed (simp add: itoa_def itoa_loop_show)

end
