(* ===== verification/Acc_Samples.thy ===== *)
theory Acc_Samples imports Acc_Guards begin

text \<open>
  Concrete executions of accounts and sessions: they show that the properties' hypotheses can hold,
  and the executions in which a session forks, an account opens with a constant password, or a reset
  code is handed to whoever asked for it.
\<close>

section \<open>One account\<close>

definition acc_calm :: acc_env where
  "acc_calm = \<lparr>a_now = 0, a_fault = (\<lambda>_. DbOk), a_hash = id, a_bcrypt = (\<lambda>p. Some (CHR ''h'' # p)), a_check = (\<lambda>p h. h = CHR ''h'' # p),
     a_otp = Some ''123456'', a_opaque = Some ''r1'', a_new_id = 11, a_new_family = 21, a_new_user = 31, a_new_code = 41,
     a_new_key = (\<lambda>_. 51), a_wallet = True, a_key_secret = Some ''s'', a_mail_ok = True, a_jwt_ok = True,
     a_google = (\<lambda>t. if t = ''google'' then Some (''ann'', True) else None), a_google_client = True, a_currency_ok = (\<lambda>c. c = ''NGN''),
     a_local = False, a_guarded_env = True, a_redis = True, a_reset_lifespan = 15 * minute, a_verify_lifespan = 24 * hour,
     a_refresh_lifespan = 10080 * minute\<rparr>"

definition no_accounts :: acc_world where
  "no_accounts = \<lparr>aw_users = [], aw_tokens = [], aw_codes = [], aw_profiles = [], aw_keys = [], aw_counters = (\<lambda>_ _. None), aw_mails = []\<rparr>"

definition bob :: user where
  "bob = \<lparr>us_id = 7, us_email = ''bob'', us_password = ''hpw'', us_scope = ''sender'', us_verified = True, us_early = True, us_wallet = True\<rparr>"

definition one_account :: acc_world where
  "one_account = no_accounts\<lparr>aw_users := [bob], aw_profiles := [(7, SenderProfile)]\<rparr>"

definition bob_token :: "nat \<Rightarrow> string \<Rightarrow> instant option \<Rightarrow> refresh_token" where
  "bob_token i raw r = \<lparr>rt_id = i, rt_hash = raw, rt_family = 21, rt_parent = None, rt_replaced = None, rt_expires = 9, rt_revoked = r, rt_owner = 7\<rparr>"

definition second_draw :: acc_env where
  "second_draw = acc_calm\<lparr>a_opaque := Some ''r2'', a_new_id := 12\<rparr>"

definition third_draw :: acc_env where
  "third_draw = acc_calm\<lparr>a_opaque := Some ''r3'', a_new_id := 13\<rparr>"

lemmas acc_sample_defs = acc_calm_def no_accounts_def bob_def one_account_def bob_token_def second_draw_def third_draw_def

lemmas session_defs = RefreshJWT_def Rotate_def rotate_check_def rotate_commit_def token_by_raw_def issueInTx_def commit_def
  exec_run add_token_def new_token_def map_tokens_def find_user_def live_def

lemma sample_lower: "to_lower ''bob'' = ''bob''" "to_lower ''ann'' = ''ann''"
  by code_simp+

section \<open>Witnesses\<close>

lemma login_step:
  "\<exists>raw. acc_step one_account (one_account\<lparr>aw_tokens := [new_token acc_calm 7 21 None (refreshTTL acc_calm) raw]\<rparr>)"
proof -
  have "run_state (perform acc_calm (ReqLogin ''bob'' ''pw'')) one_account =
      (Session 7 ''r1'', one_account\<lparr>aw_tokens := [new_token acc_calm 7 21 None (refreshTTL acc_calm) ''r1'']\<rparr>)"
    by (simp add: perform_def Login_def user_by_email_def find_user_def sample_lower early_blocked_def ensure_wallet_def only_if_def
        open_session_def IssueNewFamily_def issue_def issueInTx_def commit_def exec_run add_token_def acc_sample_defs)
  then show ?thesis
    using acc_step.request [of acc_calm one_account "ReqLogin ''bob'' ''pw''"]
    by (auto simp: fresh_ids_def acc_sample_defs)
qed

lemma acc_run_one_live_witness:
  "\<exists>w' x. acc_run one_account w' \<and> aw_tokens w' = [x] \<and> live x \<and> (\<forall>y. y = x \<longrightarrow> x = y)"
proof -
  obtain raw where s: "acc_step one_account (one_account\<lparr>aw_tokens := [new_token acc_calm 7 21 None (refreshTTL acc_calm) raw]\<rparr>)"
    using login_step by blast
  let ?x = "new_token acc_calm 7 21 None (refreshTTL acc_calm) raw"
  have r: "acc_run one_account (one_account\<lparr>aw_tokens := [?x]\<rparr>)" using s by blast
  have "?x = y" if "y = ?x" for y
    by (rule acc_run_one_live [OF r]) (simp_all add: that acc_sample_defs)
  with r show ?thesis by (intro exI [of _ "one_account\<lparr>aw_tokens := [?x]\<rparr>"] exI [of _ ?x]) simp
qed

lemma replay_ends_session_witness:
  "\<exists>r w1. run_state (RefreshJWT acc_calm ''old'') (one_account\<lparr>aw_tokens := [bob_token 1 ''old'' (Some 0), bob_token 2 ''new'' None]\<rparr>) = (r, w1) \<and>
     r = Denied 401 \<and> (\<forall>x \<in> set (aw_tokens w1). rt_family x = 21 \<longrightarrow> \<not> live x)"
proof -
  let ?w = "one_account\<lparr>aw_tokens := [bob_token 1 ''old'' (Some 0), bob_token 2 ''new'' None]\<rparr>"
  obtain r w1 where r: "run_state (RefreshJWT acc_calm ''old'') ?w = (r, w1)" by fastforce
  have "r = Denied 401 \<and> (\<forall>x \<in> set (aw_tokens w1). rt_family x = rt_family (bob_token 1 ''old'' (Some 0)) \<longrightarrow> \<not> live x)"
    by (rule replay_ends_session [OF _ _ _ _ r]) (simp_all add: acc_sample_defs live_def)
  with r show ?thesis by (simp add: bob_token_def)
qed

definition with_code :: acc_world where
  "with_code = one_account\<lparr>aw_tokens := [bob_token 2 ''new'' None],
     aw_codes := [\<lparr>vt_id = 41, vt_hash = ''123456'', vt_scope = ResetPasswordScope, vt_expires = 9, vt_owner = 7\<rparr>]\<rparr>"

lemma code_found: "code_row acc_calm (Some ResetPasswordScope) ''bob'' ''123456'' with_code =
    Some (\<lparr>vt_id = 41, vt_hash = ''123456'', vt_scope = ResetPasswordScope, vt_expires = 9, vt_owner = 7\<rparr>, bob)"
  by (simp add: code_row_def find_user_def with_code_def acc_sample_defs)


lemma wrong_guess: "run_state (ResetPassword acc_calm ''bob'' ''9'' ''n'') with_code =
    (Denied 400, set_counter ResetPasswordScope ''bob'' (Some \<lparr>oc_count = 1, oc_until = Some (15 * minute)\<rparr>) with_code)"
  by (simp add: ResetPassword_def try_code_def otpAttemptsExceeded_def otpMaxAttempts_def counter_at_def code_row_def
      recordOTPFailure_def Let_def lifespan_def only_if_def set_counter_def with_code_def acc_sample_defs)


lemma RateLimit_bounds_witness: "passes 2 minute [0, second, 2 * second] None \<le> 2"
  by (rule RateLimit_bounds) simp

definition gate_calm :: gate_env where
  "gate_calm = \<lparr>g_now = 0, g_acc = acc_calm, g_jwt = (\<lambda>t. if t = ''tok'' then Some (Some ''7'', Some ''sender'') else None),
     g_parse_uuid = (\<lambda>s. if s = ''7'' then Some 7 else if s = ''key'' then Some 51 else None), g_parse_float = (\<lambda>_. None),
     g_decrypt = (\<lambda>_. None), g_hmac = (\<lambda>k p. k @ p), g_window = 300\<rparr>"

definition plain_request :: http_request where
  "plain_request = \<lparr>hr_authorization = '''', hr_client = '''', hr_api_key = '''', hr_path = ''/v1/sender/orders'', hr_method = MethodOther,
     hr_payload_ok = True, hr_stamp = StampNumber 1, hr_payload = ''p''\<rparr>"

lemmas gate_defs = DynamicAuthMiddleware_def JWTMiddleware_def HMACVerificationMiddleware_def split_first_def profile_of_def
  then_gate_def OnlySenderMiddleware_def hmac_credentials_def payload_status_def stamp_of_def with_key_def key_row_def key_ctx_def
  no_ctx_def Let_def gate_calm_def plain_request_def

definition bearer :: http_request where
  "bearer = plain_request\<lparr>hr_authorization := ''Bearer tok''\<rparr>"

lemma bearer_passes: "then_gate (DynamicAuthMiddleware gate_calm bearer one_account) OnlySenderMiddleware =
    Passed \<lparr>gx_user = Some ''7'', gx_sender = Some 7, gx_provider = None\<rparr>"
  by (simp add: bearer_def gate_defs acc_sample_defs sublist_code)

lemma sender_access_witness:
  "\<exists>c. then_gate (DynamicAuthMiddleware gate_calm bearer one_account) OnlySenderMiddleware = Passed c \<and> (\<exists>i. gx_sender c = Some i)"
  using bearer_passes sender_access [OF bearer_passes] by blast

lemma refresh_lifespan_overflows_witness:
  "7780056339090243584 = rt_expires (new_token acc_calm 7 21 None (refreshTTL acc_calm) ''r1'')"
  using refresh_lifespan_overflows [of acc_calm 7 21 None "''r1''"] by (simp add: acc_calm_def)

section \<open>Executions that go wrong\<close>


text \<open>Whoever knows the address of an account that Google sign-in created opens a session of it with
  a password that is the same for all of them.\<close>

theorem google_account_opens:
  "\<exists>w w2. run_state (GoogleAuth acc_calm ''google'' '''' '''') no_accounts = (Session 31 ''r1'', w) \<and>
     run_state (Login (second_draw\<lparr>a_new_family := 22\<rparr>) ''ann'' ''google-oauth'') w = (Session 31 ''r2'', w2)"
proof -
  have scope: "to_lower (trim_space '''') \<noteq> ''provider''" by code_simp
  show ?thesis
    by (simp add: GoogleAuth_def Let_def scope google_cardholder_def new_google_user_def google_password_def google_user_def add_user_def
        sample_lower find_user_def open_session_def IssueNewFamily_def issue_def issueInTx_def commit_def exec_run add_token_def
        new_token_def Login_def user_by_email_def early_blocked_def ensure_wallet_def only_if_def map_user_def acc_sample_defs)
qed

text \<open>While the mail service fails, the reply to a request for a reset code carries the code: anyone
  takes over the account of any address.\<close>

theorem reset_code_handed_out:
  "\<exists>w w'. run_state (ResetPasswordToken (acc_calm\<lparr>a_mail_ok := False\<rparr>) ''bob'') one_account = (DevCode ''123456'', w) \<and>
     run_state (ResetPassword acc_calm ''bob'' ''123456'' ''mine'') w = (Fine 200, w') \<and> map us_password (aw_users w') = [''hmine'']"
  by (simp add: ResetPasswordToken_def issue_code_def send_code_def user_by_email_def find_user_def exec_run clear_run add_code_def
      new_code_def lifespan_def set_counter_def only_if_def ResetPassword_def try_code_def otpAttemptsExceeded_def otpMaxAttempts_def
      counter_at_def code_row_def map_user_def delete_code_def RevokeAllForUser_def map_tokens_def acc_sample_defs)

text \<open>A request that is signed with anything passes as the sender when the secret of the key cannot be
  decrypted: the middleware answers 500 and does not stop the chain.\<close>

theorem unreadable_secret_passes:
  "then_gate (DynamicAuthMiddleware gate_calm (plain_request\<lparr>hr_authorization := ''HMAC key:x''\<rparr>)
     (one_account\<lparr>aw_keys := [\<lparr>ak_id = 51, ak_secret = ''s'', ak_kind = Some SenderProfile, ak_user = 7\<rparr>]\<rparr>)) OnlySenderMiddleware =
   Passed \<lparr>gx_user = None, gx_sender = Some 7, gx_provider = None\<rparr>"
  using trunc_of_int [of 1] by (simp add: gate_defs acc_sample_defs sublist_code)

end
