(* ===== verification/Snd_Quote.thy ===== *)
theory Snd_Quote imports Route_Cctp begin

text \<open>
  Quotes of Route A (services/route_a_quote.go): what a token on Sui is worth in naira at the end
  of the bridge and the settlement, and the token amount that pays a fiat amount. LiFi's quote and
  the aggregator's rate are parameters; a division by zero is a panic.
\<close>

record quote_env =
  qe_conf :: conf
  qe_usdc :: string
  qe_lifi :: "string \<Rightarrow> string \<Rightarrow> bool \<Rightarrow> string option"
  qe_rate :: "decimal \<Rightarrow> decimal option"

record composite_rate =
  cr_rate :: decimal
  cr_usdc :: decimal
  cr_usdc_rate :: decimal
  cr_bridged :: decimal
  cr_via :: string

datatype quoted = QuoteErr | QuotePanic | Quoted composite_rate

definition BridgeProvider :: "composite_rate \<Rightarrow> string" where
  "BridgeProvider r = (if cr_via r = '''' then ''lifi'' else cr_via r)"

definition cctpQuoteAvailable :: "conf \<Rightarrow> string \<Rightarrow> bool" where
  "cctpQuoteAvailable c fromToken \<longleftrightarrow> c_cctp_enabled c \<and>
     (case ForBaseChainID (c_chain_id c) of None \<Rightarrow> False | Some net \<Rightarrow> fromToken = SuiUSDCCoinType net)"

text \<open>The amount that crosses the bridge: a native SUI order keeps the gas of the bridge back.\<close>

definition quote_bridged :: "string \<Rightarrow> decimal \<Rightarrow> decimal option" where
  "quote_bridged tok amount = (if IsNativeSui tok
     then (let b = amount - unshift NativeSuiGasReservation NativeSuiDecimals in if b \<le> 0 then None else Some b)
     else Some amount)"

text \<open>What arrives on Base, and over which rail.\<close>

definition quote_delivery :: "quote_env \<Rightarrow> string \<Rightarrow> nat \<Rightarrow> decimal \<Rightarrow> (decimal \<times> string) option" where
  "quote_delivery q tok decimals b = (if cctpQuoteAvailable (qe_conf q) tok then Some (b, ''cctp'')
     else (case qe_lifi q tok (show_int (trunc (shift b (if IsNativeSui tok then NativeSuiDecimals else decimals)))) (IsNativeSui tok) of
         None \<Rightarrow> None
       | Some s \<Rightarrow> (case parse_int s of None \<Rightarrow> None
         | Some n \<Rightarrow> if n \<le> 0 then None else Some (unshift (of_int n) (c_usdc_decimals (qe_conf q)), ''lifi''))))"

definition QuoteSuiTokenToNgn :: "quote_env \<Rightarrow> decimal \<Rightarrow> string \<Rightarrow> nat \<Rightarrow> quoted" where
  "QuoteSuiTokenToNgn q amount tok decimals = (let c = qe_conf q; D = c_dec c in
     if \<not> c_signer c \<or> qe_usdc q = '''' \<or> c_agg_address c = '''' \<or> c_chain_id c = 0 then QuoteErr
     else (case quote_bridged tok amount of None \<Rightarrow> QuoteErr
     | Some b \<Rightarrow> (case quote_delivery q tok decimals b of None \<Rightarrow> QuoteErr
     | Some (usdc, via) \<Rightarrow> (let net = usdc * (1 - dl_div D (of_int (c_fee_bps c)) 10000) in
         case qe_rate q net of None \<Rightarrow> QuoteErr
         | Some r \<Rightarrow> if b = 0 then QuotePanic
             else Quoted \<lparr>cr_rate = dl_div D net b * r, cr_usdc = usdc, cr_usdc_rate = r, cr_bridged = b, cr_via = via\<rparr>))))"

definition QuoteSuiToNgn :: "quote_env \<Rightarrow> decimal \<Rightarrow> quoted" where
  "QuoteSuiToNgn q amount = QuoteSuiTokenToNgn q amount NativeSuiCoinType NativeSuiDecimals"

text \<open>The source amount for a fiat amount: quoted at the market rate, then again at the rate found. The loop
  runs twice; its result is the last quote and the amount derived from it.\<close>

fun quote_rounds :: "nat \<Rightarrow> quote_env \<Rightarrow> decimal \<Rightarrow> string \<Rightarrow> nat \<Rightarrow> decimal \<Rightarrow> quoted \<Rightarrow> quoted \<times> decimal" where
  "quote_rounds 0 q target tok decimals source prev = (prev, source)"
| "quote_rounds (Suc n) q target tok decimals source prev = (case QuoteSuiTokenToNgn q source tok decimals of
     Quoted r \<Rightarrow> if cr_rate r \<le> 0 then (QuoteErr, 0)
       else quote_rounds n q target tok decimals (round_away decimals (dl_div (c_dec (qe_conf q)) target (cr_rate r))) (Quoted r)
   | x \<Rightarrow> (x, 0))"

definition QuoteSuiTokenAmountForFiat :: "quote_env \<Rightarrow> decimal \<Rightarrow> decimal \<Rightarrow> string \<Rightarrow> nat \<Rightarrow> quoted \<times> decimal" where
  "QuoteSuiTokenAmountForFiat q target fallback tok decimals =
     (if target \<le> 0 \<or> fallback \<le> 0 then (QuoteErr, 0)
      else quote_rounds 2 q target tok decimals (round_away decimals (dl_div (c_dec (qe_conf q)) target fallback)) QuoteErr)"

section \<open>The amount pays the fiat target\<close>

lemma rounded_quotient:
  assumes "declib_ok D" "0 < r"
  shows "\<bar>round_away n (dl_div D t r) * r - t\<bar> \<le> r * (1 / (2 * 10 ^ n) + 1 / (2 * 10 ^ 16))"
proof -
  have "\<bar>dl_div D t r - t / r\<bar> \<le> 1 / (2 * 10 ^ 16)" using assms by (simp add: declib_ok_def)
  with round_away_error [of n "dl_div D t r"]
  have "\<bar>round_away n (dl_div D t r) - t / r\<bar> \<le> 1 / (2 * 10 ^ n) + 1 / (2 * 10 ^ 16)" by linarith
  then have "r * \<bar>round_away n (dl_div D t r) - t / r\<bar> \<le> r * (1 / (2 * 10 ^ n) + 1 / (2 * 10 ^ 16))"
    using assms(2) by (intro mult_left_mono) simp_all
  moreover have "r * \<bar>round_away n (dl_div D t r) - t / r\<bar> = \<bar>round_away n (dl_div D t r) * r - t\<bar>"
  proof -
    have "round_away n (dl_div D t r) * r - t = r * (round_away n (dl_div D t r) - t / r)"
      using assms(2) by (simp add: field_simps)
    then show ?thesis using assms(2) by (simp add: abs_mult)
  qed
  ultimately show ?thesis by simp
qed

lemma quote_rounds_amount:
  assumes "quote_rounds n q t tok d src x = (Quoted r, a)"
    and "\<And>r. x = Quoted r \<Longrightarrow> 0 < cr_rate r \<and> src = round_away d (dl_div (c_dec (qe_conf q)) t (cr_rate r))"
  shows "0 < cr_rate r \<and> a = round_away d (dl_div (c_dec (qe_conf q)) t (cr_rate r))"
  using assms
proof (induction n arbitrary: src x)
  case (Suc n)
  from Suc.prems(1) obtain r' where r': "QuoteSuiTokenToNgn q src tok d = Quoted r'" "\<not> cr_rate r' \<le> 0"
    "quote_rounds n q t tok d (round_away d (dl_div (c_dec (qe_conf q)) t (cr_rate r'))) (Quoted r') = (Quoted r, a)"
    by (auto split: quoted.splits if_splits)
  show ?case by (rule Suc.IH [OF r'(3)]) (use r'(2) in simp)
qed auto

text \<open>The token amount of a fiat payment, at the quoted rate, is worth the fiat amount up to half a unit
  of the token's last place.\<close>

lemma fiat_amount_paid:
  assumes "declib_ok (c_dec (qe_conf q))" "QuoteSuiTokenAmountForFiat q target fallback tok d = (Quoted r, a)"
  shows "0 < cr_rate r \<and> \<bar>a * cr_rate r - target\<bar> \<le> cr_rate r * (1 / (2 * 10 ^ d) + 1 / (2 * 10 ^ 16))"
proof -
  have "quote_rounds 2 q target tok d (round_away d (dl_div (c_dec (qe_conf q)) target fallback)) QuoteErr = (Quoted r, a)"
    using assms(2) unfolding QuoteSuiTokenAmountForFiat_def by (simp only: prod.inject quoted.simps simp_thms split: if_splits)
  then have a: "0 < cr_rate r" "a = round_away d (dl_div (c_dec (qe_conf q)) target (cr_rate r))"
    using quote_rounds_amount by blast+
  show ?thesis unfolding a(2) using a(1) rounded_quotient [OF assms(1) a(1)] by (rule conjI)
qed

section \<open>A quote over CCTP can be dispatched\<close>

lemma cctp_quote:
  assumes "QuoteSuiTokenToNgn q a tok d = Quoted r" "cr_via r = ''cctp''" "\<not> IsNativeSui tok"
  shows "a \<noteq> 0 \<and> cr_rate r = dl_div (c_dec (qe_conf q)) (a * (1 - dl_div (c_dec (qe_conf q)) (of_int (c_fee_bps (qe_conf q))) 10000)) a * cr_usdc_rate r"
  using assms by (auto simp: QuoteSuiTokenToNgn_def Let_def quote_bridged_def quote_delivery_def split: if_splits option.splits)

lemma small_error:
  fixes x :: rat
  assumes "0 \<le> f" "f \<le> 1" "0 \<le> x" "x \<le> 1000000000"
  shows "(x * (1 - f + 1 / 10 ^ 16) + 1 / (2 * 10 ^ 16)) * (1 + f) \<le> x + 1 / 2000000"
proof -
  define e :: rat where "e = 1 / 10 ^ 16"
  have "x * (1 - f) * (1 + f) \<le> x"
    using assms mult_nonneg_nonneg [of x "f * f"] by (simp add: algebra_simps)
  moreover have "x * e * (1 + f) \<le> 1000000000 * e * 2"
    using assms by (intro mult_mono) (simp_all add: e_def)
  moreover have "e / 2 * (1 + f) \<le> e / 2 * 2"
    using assms by (intro mult_left_mono) (simp_all add: e_def)
  moreover have "(x * (1 - f + e) + e / 2) * (1 + f) = x * (1 - f) * (1 + f) + x * e * (1 + f) + e / 2 * (1 + f)"
    by (simp add: algebra_simps)
  moreover have "1000000000 * e * 2 + e / 2 * 2 \<le> 1 / 2000000" by (simp add: e_def)
  ultimately have "(x * (1 - f + e) + e / 2) * (1 + f) \<le> x + 1 / 2000000" by linarith
  then show ?thesis by (simp add: e_def)
qed

lemma payout_fits:
  assumes "declib_ok D" "0 \<le> bps" "bps \<le> 10000" "0 < b" "b \<le> 1000000000" "0 < r" "r \<le> live" "0 \<le> rate"
    and "rate = dl_div D (b * (1 - dl_div D (of_int bps) 10000)) b * r"
  shows "dl_div D (b * rate) live * (1 + of_int bps / 10000) \<le> b + 1 / 2000000"
proof -
  define f :: rat where "f = of_int bps / 10000"
  define per where "per = dl_div D (b * (1 - dl_div D (of_int bps) 10000)) b"
  note bounds = decimal_library.div_bounds [OF decimal_library.intro, OF assms(1)]
  have f: "0 \<le> f" "f \<le> 1" using assms(2,3) by (simp_all add: f_def)
  have "f - 1 / (2 * 10 ^ 16) \<le> dl_div D (of_int bps) 10000" using bounds(2) [of 10000 "of_int bps"] by (simp add: f_def)
  moreover have "per \<le> 1 - dl_div D (of_int bps) 10000 + 1 / (2 * 10 ^ 16)"
    using bounds(1) [of b "b * (1 - dl_div D (of_int bps) 10000)"] assms(4) by (simp add: per_def)
  ultimately have per: "per \<le> 1 - f + 1 / 10 ^ 16" by linarith
  have live: "0 < live" using assms(6,7) by linarith
  have rate: "rate = per * r" using assms(9) by (simp add: per_def)
  with assms(6,8) have "0 \<le> per" by (simp add: zero_le_mult_iff)
  then have "b * rate \<le> b * per * live"
    unfolding rate using assms(4,7) mult_left_mono [of r live "b * per"] by (simp add: mult.assoc)
  then have "b * rate / live \<le> b * per" using live by (simp add: divide_le_eq)
  also have "\<dots> \<le> b * (1 - f + 1 / 10 ^ 16)" using per assms(4) by (intro mult_left_mono) simp_all
  finally have "dl_div D (b * rate) live \<le> b * (1 - f + 1 / 10 ^ 16) + 1 / (2 * 10 ^ 16)"
    using bounds(1) [of live "b * rate"] live by simp
  then have "dl_div D (b * rate) live * (1 + f) \<le> (b * (1 - f + 1 / 10 ^ 16) + 1 / (2 * 10 ^ 16)) * (1 + f)"
    using f by (intro mult_right_mono) simp_all
  also have "\<dots> \<le> b + 1 / 2000000" using small_error [OF f, of b] assms(4,5) by simp
  finally show ?thesis by (simp add: f_def)
qed

text \<open>C7. An order that was quoted over CCTP can be paid out: if the aggregator's rate has not fallen since
  the quote, the dispatch of the bridged amount fits the promised payout and the full fee, with no
  trimming and no shortfall (up to a billion USDC).\<close>

theorem cctp_quote_dispatches:
  assumes "declib_ok D" "D = c_dec (qe_conf q)" "bps = c_fee_bps (qe_conf q)" "0 \<le> bps" "bps \<le> 10000"
    and "QuoteSuiTokenToNgn q (unshift (of_int m) 6) tok 6 = Quoted r" "cr_via r = ''cctp''" "\<not> IsNativeSui tok"
    and "0 < m" "m \<le> 10 ^ 15" "0 < cr_rate r" "0 < cr_usdc_rate r" "cr_usdc_rate r \<le> live"
    and "amount = decimalToSubunit (dl_div D (unshift (of_int m) 6 * cr_rate r) live) 6"
  shows "dispatch_amounts bps m amount wallet = Inr (amount, amount * bps div 10000)"
proof -
  define b :: rat where "b = unshift (of_int m) 6"
  define f :: rat where "f = of_int bps / 10000"
  define t where "t = b * cr_rate r"
  have b: "0 < b" using assms(9) by (simp add: b_def unshift_def)
  have "(of_int m :: rat) \<le> of_int (10 ^ 15)" using assms(10) by (simp only: of_int_le_iff)
  then have b2: "b \<le> 1000000000" by (simp add: b_def unshift_def)
  have f: "0 \<le> f" using assms(4) by (simp add: f_def)
  have hi: "dl_div D t live * (1 + f) \<le> b + 1 / 2000000"
    unfolding t_def f_def using assms(11) cctp_quote [OF assms(6,7,8)] assms(2,3)
    by (intro payout_fits [OF assms(1,4,5) b b2 assms(12,13)]) (simp_all add: b_def)
  have t: "0 < t" using b assms(11) by (simp add: t_def)
  have a: "amount = decimalToSubunit (dl_div D t live) 6" using assms(14) by (simp add: t_def b_def)
  have a0: "0 \<le> amount" using quotient_nonneg [OF assms(1) t, of live] a assms(12,13) by simp
  have "of_int amount * (1 + f) \<le> (of_int m + 1 / 2 :: rat)"
  proof (cases "0 \<le> dl_div D t live")
    case True
    then have "of_int amount \<le> shift (dl_div D t live) 6"
      using trunc_le [of "shift (dl_div D t live) 6"] a by (simp add: decimalToSubunit_def shift_def)
    then have "of_int amount * (1 + f) \<le> shift (dl_div D t live) 6 * (1 + f)" using f by (intro mult_right_mono) simp_all
    also have "\<dots> = dl_div D t live * (1 + f) * 10 ^ 6" by (simp add: shift_def)
    also have "\<dots> \<le> (b + 1 / 2000000) * 10 ^ 6" using hi by (intro mult_right_mono) simp_all
    finally show ?thesis by (simp add: b_def unshift_def algebra_simps)
  next
    case False
    then have "amount \<le> 0" by (simp add: a decimalToSubunit_def trunc_def shift_def mult_less_0_iff)
    with a0 assms(9) f show ?thesis by simp
  qed
  then have "of_int amount * of_int (10000 + bps) / 10000 \<le> of_int m + (1 / 2 :: rat)"
    by (simp add: f_def field_simps)
  then have "amount + amount * bps div 10000 \<le> m" by (rule fee_total_le [OF assms(4) a0])
  moreover have "0 \<le> amount * bps div 10000" using a0 assms(4) by (simp add: pos_imp_zdiv_nonneg_iff)
  ultimately show ?thesis
    using a0 assms(4) by (simp add: dispatch_amounts_def shortfall_check_def fee_split_def Let_def)
qed

end
