(* ===== verification/Snd_Orders.thy ===== *)
theory Snd_Orders imports Snd_Quote Esc_Runs "HOL-Library.AList" begin

text \<open>
  Orders of senders (controllers/sender/sender.go, merchant.go): a plain deposit order, a Route A
  order, a tap payment to the merchant's saved bank account, the cancellation, the payer's
  confirmation (controllers/index.go) and the bank account. An order is a payment order with its
  receive address, which the deposit watcher polls. Log rows of the creation are left out: nothing
  reads them.
\<close>

section \<open>Tables and requests\<close>

record sender_profile =
  sp_id :: nat
  sp_active :: bool
  sp_partner :: bool

record token_row =
  tr_id :: nat
  tr_token :: token
  tr_network :: string
  tr_enabled :: bool

record sender_token =
  st_sender :: nat
  st_token :: nat
  st_percent :: decimal
  st_fee_address :: string
  st_refund_address :: string

text \<open>A provider's token settings: its networks and the limits of an order.\<close>

record payee =
  pe_id :: string
  pe_private :: bool
  pe_tokens :: "(string list \<times> decimal \<times> decimal) list"

record merchant_bank =
  mb_currency :: string
  mb_code :: string
  mb_number :: string
  mb_name :: string
  mb_verified :: instant

text \<open>The columns of a payment order that the dispatcher does not read.\<close>

record order_detail =
  od_fee_percent :: decimal
  od_sender_fee :: decimal
  od_fee_address :: string
  od_return_address :: string
  od_reference :: string
  od_tx_hash :: string

record send_world =
  sw_escrow :: escrow_world
  sw_details :: "(nat \<times> order_detail) list"
  sw_banks :: "(nat \<times> merchant_bank) list"

datatype send_site = SnToken | SnAnyToken | SnOrderToken | SnReference | SnInstitution | SnProvider | SnCurrency
  | SnAddress | SnBegin | SnLog | SnPayment | SnRecipient | SnRoute | SnCommit | SnBank | SnBankSave | SnOrder | SnCancel | SnConfirm

record send_env =
  sn_now :: instant
  sn_fault :: "send_site \<Rightarrow> db_fault"
  sn_sender :: "sender_profile option"
  sn_debug :: bool
  sn_tokens :: "token_row list"
  sn_order_tokens :: "sender_token list"
  sn_institutions :: "(string \<times> string option) list"
  sn_payees :: "payee list"
  sn_currencies :: "(string \<times> decimal) list"
  sn_quote :: quote_env
  sn_key :: "string option"
  sn_validity :: duration
  sn_new_payment :: nat
  sn_new_route :: nat
  sn_show_id :: "nat \<Rightarrow> string"
  sn_fraction :: "decimal \<Rightarrow> int"
  sn_parse_uuid :: "string \<Rightarrow> nat option"

abbreviation sfails :: "send_env \<Rightarrow> send_site \<Rightarrow> bool" where
  "sfails e s \<equiv> sn_fault e s \<noteq> DbOk"

record new_order =
  np_amount :: decimal
  np_token :: string
  np_rate :: decimal
  np_network :: string
  np_recipient :: recipient
  np_reference :: string
  np_return_address :: string
  np_fee_percent :: decimal
  np_fee_address :: string

datatype send_reply = Refused nat | Created nat | Answer po_status | Saved

text \<open>\<open>Only\<close> of the query library: exactly one row.\<close>

definition only_row :: "'a list \<Rightarrow> 'a option" where
  "only_row xs = (case xs of [x] \<Rightarrow> Some x | _ \<Rightarrow> None)"

section \<open>Checks\<close>

text \<open>\<open>ToSubunit\<close> reads the decimal text of the product as an integer: for an amount with more places than
  the token has, that text has a point, and Go does not say what the result is.\<close>

definition ToSubunit :: "send_env \<Rightarrow> decimal \<Rightarrow> nat \<Rightarrow> int" where
  "ToSubunit e amount decimals = (let x = shift amount decimals in if of_int \<lfloor>x\<rfloor> = x then \<lfloor>x\<rfloor> else sn_fraction e x)"

definition IsValidEthereumAddress :: "string \<Rightarrow> bool" where
  "IsValidEthereumAddress a \<longleftrightarrow> length a = 42 \<and> prefix ''0x'' a \<and> list_all is_hex (drop 2 a)"

definition IsValidTronAddress :: "string \<Rightarrow> bool" where
  "IsValidTronAddress a = False"

definition valid_address :: "string \<Rightarrow> string \<Rightarrow> bool" where
  "valid_address net a = (if prefix ''tron'' net then IsValidTronAddress a else IsValidEthereumAddress a)"

definition reference_char :: "char \<Rightarrow> bool" where
  "reference_char c = (let n = of_char c :: nat in 48 \<le> n \<and> n \<le> 57 \<or> 65 \<le> n \<and> n \<le> 90 \<or> 97 \<le> n \<and> n \<le> 122 \<or> c = CHR ''-'' \<or> c = CHR ''_'')"

definition fee_terms :: "new_order \<Rightarrow> sender_profile \<Rightarrow> sender_token \<Rightarrow> (decimal \<times> string) option" where
  "fee_terms p s t = (if np_fee_address p = '''' then Some (st_percent t, st_fee_address t)
     else if \<not> sp_partner s \<or> np_fee_percent p = 0 \<or> \<not> valid_address (np_network p) (np_fee_address p) then None
     else Some (np_fee_percent p, np_fee_address p))"

definition return_terms :: "new_order \<Rightarrow> sender_token \<Rightarrow> string option" where
  "return_terms p t = (if np_return_address p = '''' then Some (st_refund_address t)
     else if valid_address (np_network p) (np_return_address p) then Some (np_return_address p) else None)"

text \<open>A status that refuses the request, if there is one.\<close>

definition reference_check :: "send_env \<Rightarrow> string \<Rightarrow> send_world \<Rightarrow> nat option" where
  "reference_check e ref w = (if ref = '''' then None
     else if \<not> list_all reference_char ref then Some 400
     else if sfails e SnReference then Some 500
     else if ref \<in> od_reference ` snd ` set (sw_details w) then Some 400 else None)"

definition institution_check :: "send_env \<Rightarrow> string \<Rightarrow> nat option" where
  "institution_check e code = (if sfails e SnInstitution then Some 500
     else if code \<in> fst ` set (sn_institutions e) then None else Some 400)"

text \<open>A named provider: the order's network must be one of its tokens', and the limits are those of the
  first of its tokens, for a private provider.\<close>

definition payee_check :: "send_env \<Rightarrow> new_order \<Rightarrow> string \<Rightarrow> nat option" where
  "payee_check e p net = (if rcpt_provider (np_recipient p) = '''' then None
     else if sfails e SnProvider then Some 500
     else (case only_row (filter (\<lambda>x. pe_id x = rcpt_provider (np_recipient p)) (sn_payees e)) of None \<Rightarrow> Some 400
       | Some x \<Rightarrow> (case pe_tokens x of [] \<Rightarrow> Some 400
         | (nets, least, most) # ts \<Rightarrow>
             if \<not> (\<exists>y \<in> set (pe_tokens x). net \<in> set (fst y)) then Some 400
             else if pe_private x \<and> (np_amount p < least \<or> most < np_amount p) then Some 400 else None)))"

text \<open>The first check that refuses.\<close>

definition first_error :: "nat option list \<Rightarrow> nat option" where
  "first_error xs = Option.bind (find (\<lambda>x. x \<noteq> None) xs) id"

section \<open>Creation\<close>

definition new_address :: "send_env \<Rightarrow> string \<Rightarrow> token \<Rightarrow> decimal \<Rightarrow> instant option \<Rightarrow> recv_addr" where
  "new_address e a tok amount until = \<lparr>ra_address = a, ra_coin = tok_contract tok,
     ra_expected = big_uint64 (ToSubunit e amount (tok_decimals tok)), ra_status = RcUnused, ra_deposit_tx = '''',
     ra_forward_tx = '''', ra_until = until, ra_payment = None\<rparr>"

text \<open>The address of an order is saved before its transaction.\<close>

definition save_address :: "send_env \<Rightarrow> token \<Rightarrow> decimal \<Rightarrow> instant option \<Rightarrow> (send_world, string option) state" where
  "save_address e tok amount until = (case sn_key e of None \<Rightarrow> return None
   | Some a \<Rightarrow> do {
       w \<leftarrow> fetch;
       if sn_fault e SnAddress = DbFail \<or> a \<in> ra_address ` set (ew_addrs (sw_escrow w)) then return None
       else do {
         modify (\<lambda>w. w\<lparr>sw_escrow := (sw_escrow w)\<lparr>ew_addrs := ew_addrs (sw_escrow w) @ [new_address e a tok amount until]\<rparr>\<rparr>);
         return (if sn_fault e SnAddress = DbOk then Some a else None)
       }
     })"

definition new_route :: "send_env \<Rightarrow> order_mode \<Rightarrow> string \<Rightarrow> route_order" where
  "new_route e m provider = \<lparr>ord_id = sn_new_route e, ord_mode = m, lifi_quote_id = '''', lifi_tool = '''', bridge_provider = provider,
     bridge_tx_sui = '''', bridge_tx_dest = '''', bridge_status = Pending, gateway_order_id = '''',
     gateway_chain_id = 0, sender_fee_subunit = None, settlement_status = '''', settlement_polled_at = None,
     treasury_payout_ref = '''', bridged_amount = None, failure_reason = NoReason, created_at = sn_now e,
     updated_at = sn_now e, ord_payment = Some (sn_new_payment e)\<rparr>"

definition new_payment :: "send_env \<Rightarrow> sender_profile \<Rightarrow> token \<Rightarrow> decimal \<Rightarrow> decimal \<Rightarrow> recipient \<Rightarrow> payment_order" where
  "new_payment e s tok amount rate r = \<lparr>po_id = sn_new_payment e, po_amount = amount, po_rate = rate, po_status = PoInitiated,
     po_token = Some tok, po_recipient = Some r, po_sender = Some (sp_id s)\<rparr>"

definition add_order :: "string \<Rightarrow> payment_order \<Rightarrow> order_detail \<Rightarrow> route_order list \<Rightarrow> send_world \<Rightarrow> send_world" where
  "add_order a p d rs w = w\<lparr>
     sw_escrow := (sw_escrow w)\<lparr>
       ew_addrs := map (\<lambda>x. if ra_address x = a then x\<lparr>ra_payment := Some (po_id p)\<rparr> else x) (ew_addrs (sw_escrow w)),
       ew_routes := (ew_routes (sw_escrow w))\<lparr>pays := pays (ew_routes (sw_escrow w)) @ [p], orders := orders (ew_routes (sw_escrow w)) @ rs\<rparr>\<rparr>,
     sw_details := sw_details w @ [(po_id p, d)]\<rparr>"

text \<open>The schema's limits on the texts of a payment order.\<close>

definition detail_ok :: "order_detail \<Rightarrow> bool" where
  "detail_ok d \<longleftrightarrow> length (od_return_address d) \<le> 100 \<and> length (od_fee_address d) \<le> 100 \<and> length (od_reference d) \<le> 70"

text \<open>The transaction: log, payment order, recipient, and the Route A order if there is one.\<close>

definition tx_fails :: "send_env \<Rightarrow> send_site list \<Rightarrow> bool" where
  "tx_fails e ss \<longleftrightarrow> list_ex (\<lambda>s. sfails e s) ss \<or> sn_fault e SnCommit = DbFail"

definition persist_order :: "send_env \<Rightarrow> send_site list \<Rightarrow> string \<Rightarrow> payment_order \<Rightarrow> order_detail \<Rightarrow> route_order list \<Rightarrow> (send_world, send_reply) state" where
  "persist_order e ss a p d rs = do {
     w \<leftarrow> fetch;
     if tx_fails e ss \<or> \<not> detail_ok d \<or> po_id p \<in> po_id ` set (pays (ew_routes (sw_escrow w))) then return (Refused 500)
     else do { modify (add_order a p d rs); return (if sn_fault e SnCommit = DbOk then Created (po_id p) else Refused 500) }
   }"

text \<open>The address, then the transaction.\<close>

definition create :: "send_env \<Rightarrow> send_site list \<Rightarrow> instant option \<Rightarrow> token \<Rightarrow> payment_order \<Rightarrow> order_detail \<Rightarrow> route_order list \<Rightarrow> (send_world, send_reply) state" where
  "create e ss until tok p d rs = do {
     a \<leftarrow> save_address e tok (po_amount p) until;
     case a of None \<Rightarrow> return (Refused 500) | Some a \<Rightarrow> persist_order e ss a p d rs
   }"

section \<open>Plain orders\<close>

definition order_token :: "send_env \<Rightarrow> new_order \<Rightarrow> token_row option" where
  "order_token e p = (if sfails e SnToken then None
     else only_row (filter (\<lambda>t. tok_symbol (tr_token t) = np_token p \<and> tr_network t = np_network p \<and> tr_enabled t) (sn_tokens e)))"

definition sender_settings :: "send_env \<Rightarrow> sender_profile \<Rightarrow> token_row \<Rightarrow> sender_token option" where
  "sender_settings e s t = (case (if sfails e SnOrderToken then None
       else only_row (filter (\<lambda>x. st_token x = tr_id t \<and> st_sender x = sp_id s) (sn_order_tokens e))) of
     None \<Rightarrow> None | Some x \<Rightarrow> if st_fee_address x = '''' \<or> st_refund_address x = '''' then None else Some x)"

text \<open>A private order's address does not expire.\<close>

definition order_until :: "send_env \<Rightarrow> new_order \<Rightarrow> instant option" where
  "order_until e p = (if prefix ''P#P'' (rcpt_memo (np_recipient p)) then None else Some (sn_now e + sn_validity e))"

definition InitiatePaymentOrder :: "send_env \<Rightarrow> new_order option \<Rightarrow> (send_world, send_reply) state" where
  "InitiatePaymentOrder e req = (case req of None \<Rightarrow> return (Refused 400)
   | Some p \<Rightarrow> (case sn_sender e of None \<Rightarrow> return (Refused 401)
   | Some s \<Rightarrow> if \<not> sp_active s \<and> \<not> sn_debug e then return (Refused 403)
     else (case order_token e p of None \<Rightarrow> return (Refused 400)
   | Some t \<Rightarrow> (case sender_settings e s t of None \<Rightarrow> return (Refused 400)
   | Some st \<Rightarrow> (case (fee_terms p s st, return_terms p st) of
       (Some (percent, fee_address), Some return_address) \<Rightarrow> do {
         w \<leftarrow> fetch;
         case first_error [reference_check e (np_reference p) w, institution_check e (rcpt_institution (np_recipient p)),
             payee_check e p (tr_network t)] of Some code \<Rightarrow> return (Refused code)
         | None \<Rightarrow> create e [SnBegin, SnLog, SnPayment, SnRecipient] (order_until e p) (tr_token t)
             (new_payment e s (tr_token t) (np_amount p) (np_rate p) (np_recipient p))
             \<lparr>od_fee_percent = percent, od_sender_fee = round_away 4 (dl_div (c_dec (qe_conf (sn_quote e))) (percent * np_amount p) 100),
               od_fee_address = fee_address, od_return_address = return_address, od_reference = np_reference p, od_tx_hash = ''''\<rparr> []
       }
     | _ \<Rightarrow> return (Refused 400))))))"

section \<open>Route A orders\<close>

definition order_mode_of :: "string \<Rightarrow> order_mode option" where
  "order_mode_of s = (let m = to_lower (trim_space s) in
     if m = '''' \<or> m = ''treasury'' then Some Treasury else if m = ''lp'' then Some Lp else None)"

definition bare_detail :: "string \<Rightarrow> string \<Rightarrow> order_detail" where
  "bare_detail return_address ref = \<lparr>od_fee_percent = 0, od_sender_fee = 0, od_fee_address = '''', od_return_address = return_address,
     od_reference = ref, od_tx_hash = ''''\<rparr>"

text \<open>The rate of the request is replaced by the quote's; a panic of the quote is answered by the server.\<close>

definition InitiateRouteAOrder :: "send_env \<Rightarrow> (new_order \<times> string) option \<Rightarrow> (send_world, send_reply) state" where
  "InitiateRouteAOrder e req = (case req of None \<Rightarrow> return (Refused 400)
   | Some (p, mode) \<Rightarrow> (case order_mode_of mode of None \<Rightarrow> return (Refused 400)
   | Some m \<Rightarrow> (case sn_sender e of None \<Rightarrow> return (Refused 401)
   | Some s \<Rightarrow> (case (if sfails e SnToken then None
         else only_row (filter (\<lambda>t. tok_symbol (tr_token t) = to_upper (np_token p) \<and> tr_enabled t) (sn_tokens e))) of
       None \<Rightarrow> return (Refused 400)
     | Some t \<Rightarrow> if \<not> c_signer (qe_conf (sn_quote e)) then return (Refused 503)
       else (case QuoteSuiTokenToNgn (sn_quote e) (np_amount p) (tok_contract (tr_token t)) (tok_decimals (tr_token t)) of
         QuoteErr \<Rightarrow> return (Refused 502)
       | QuotePanic \<Rightarrow> return (Refused 500)
       | Quoted r \<Rightarrow> create e [SnBegin, SnPayment, SnRecipient, SnRoute] (Some (sn_now e + sn_validity e)) (tr_token t)
           (new_payment e s (tr_token t) (np_amount p) (cr_rate r) (np_recipient p))
           (bare_detail (np_return_address p) (np_reference p)) [new_route e m (BridgeProvider r)])))))"

section \<open>Tap payments\<close>

record tap_order =
  tp_amount :: decimal
  tp_currency :: string
  tp_memo :: string

definition bank_of :: "nat \<Rightarrow> send_world \<Rightarrow> merchant_bank option" where
  "bank_of s w = map_of (sw_banks w) s"

text \<open>The first enabled USDC on a Sui network, or else the first enabled USDC.\<close>

definition tap_token :: "send_env \<Rightarrow> token_row option" where
  "tap_token e = (case (if sfails e SnToken then None
       else find (\<lambda>t. tr_enabled t \<and> tok_symbol (tr_token t) = ''USDC'' \<and> prefix ''sui-'' (tr_network t)) (sn_tokens e)) of
     Some t \<Rightarrow> Some t
   | None \<Rightarrow> if sfails e SnAnyToken then None else find (\<lambda>t. tr_enabled t \<and> tok_symbol (tr_token t) = ''USDC'') (sn_tokens e))"

definition bank_recipient :: "merchant_bank \<Rightarrow> string \<Rightarrow> recipient" where
  "bank_recipient b memo = \<lparr>rcpt_institution = mb_code b, rcpt_account = mb_number b, rcpt_name = mb_name b, rcpt_memo = memo, rcpt_provider = ''''\<rparr>"

definition InitiateTapPayment :: "send_env \<Rightarrow> tap_order option \<Rightarrow> (send_world, send_reply) state" where
  "InitiateTapPayment e req = (case req of None \<Rightarrow> return (Refused 400)
   | Some p \<Rightarrow> if tp_amount p \<le> 0 then return (Refused 400)
     else (case sn_sender e of None \<Rightarrow> return (Refused 401)
   | Some s \<Rightarrow> do {
       w \<leftarrow> fetch;
       if sfails e SnBank then return (Refused 500)
       else (case bank_of (sp_id s) w of None \<Rightarrow> return (Refused 412)
       | Some b \<Rightarrow> (let code = to_upper (trim_space (tp_currency p)); currency = (if code = '''' then mb_currency b else code) in
           if currency \<noteq> mb_currency b then return (Refused 400)
           else (case (if sfails e SnCurrency then None else map_of (sn_currencies e) currency) of None \<Rightarrow> return (Refused 400)
           | Some market \<Rightarrow> if market \<le> 0 then return (Refused 424)
             else (case tap_token e of None \<Rightarrow> return (Refused 424)
             | Some t \<Rightarrow> if \<not> c_signer (qe_conf (sn_quote e)) then return (Refused 503)
               else (case QuoteSuiTokenAmountForFiat (sn_quote e) (tp_amount p) market (tok_contract (tr_token t)) (tok_decimals (tr_token t)) of
                 (Quoted r, amount) \<Rightarrow> if amount \<le> 0 then return (Refused 400)
                   else create e [SnBegin, SnLog, SnPayment, SnRecipient, SnRoute] (Some (sn_now e + sn_validity e)) (tr_token t)
                     (new_payment e s (tr_token t) amount (cr_rate r) (bank_recipient b (tp_memo p)))
                     (bare_detail '''' (sn_show_id e (sn_new_payment e))) [new_route e Lp (BridgeProvider r)]
               | (QuotePanic, _) \<Rightarrow> return (Refused 500)
               | (QuoteErr, _) \<Rightarrow> return (Refused 502))))))
     }))"

text \<open>The institution must be one of the currency, and the number ten digits.\<close>

definition SaveMerchantBankAccount :: "send_env \<Rightarrow> merchant_bank option \<Rightarrow> (send_world, send_reply) state" where
  "SaveMerchantBankAccount e req = (case req of None \<Rightarrow> return (Refused 400)
   | Some b \<Rightarrow> (case sn_sender e of None \<Rightarrow> return (Refused 401)
   | Some s \<Rightarrow> (let currency = to_upper (trim_space (mb_currency b)) in
       if currency \<noteq> ''NGN'' \<or> sfails e SnInstitution \<or> map_of (sn_institutions e) (mb_code b) \<noteq> Some (Some currency) \<or>
         length (mb_number b) \<noteq> 10 \<or> \<not> list_all is_digit (mb_number b) then return (Refused 400)
       else if sfails e SnBank then return (Refused 500)
       else do {
         only_if (sn_fault e SnBankSave \<noteq> DbFail) (modify (\<lambda>w. w\<lparr>sw_banks :=
           AList.update (sp_id s) (b\<lparr>mb_currency := currency, mb_verified := sn_now e\<rparr>) (sw_banks w)\<rparr>));
         return (if sn_fault e SnBankSave = DbOk then Saved else Refused 500)
       })))"

section \<open>Cancellation and confirmation\<close>

definition on_payment :: "nat \<Rightarrow> (payment_order \<Rightarrow> payment_order) \<Rightarrow> send_world \<Rightarrow> send_world" where
  "on_payment i f w = w\<lparr>sw_escrow := (sw_escrow w)\<lparr>ew_routes := (ew_routes (sw_escrow w))\<lparr>
     pays := map (\<lambda>p. if po_id p = i then f p else p) (pays (ew_routes (sw_escrow w)))\<rparr>\<rparr>\<rparr>"

text \<open>Any status that is not final is cancelled, by the order's id.\<close>

definition CancelOrder_sender :: "send_env \<Rightarrow> string \<Rightarrow> (send_world, send_reply) state" where
  "CancelOrder_sender e raw = (case sn_parse_uuid e raw of None \<Rightarrow> return (Refused 400)
   | Some i \<Rightarrow> (case sn_sender e of None \<Rightarrow> return (Refused 401)
   | Some s \<Rightarrow> if sfails e SnOrder then return (Refused 500)
     else do {
       w \<leftarrow> fetch;
       case find (\<lambda>p. po_id p = i \<and> po_sender p = Some (sp_id s)) (pays (ew_routes (sw_escrow w))) of None \<Rightarrow> return (Refused 404)
       | Some p \<Rightarrow>
           if po_status p \<in> {PoCancelled, PoExpired, PoSettled, PoRefunded} then return (Answer (po_status p))
           else do {
             only_if (sn_fault e SnCancel \<noteq> DbFail) (modify (on_payment i (\<lambda>p. p\<lparr>po_status := PoCancelled\<rparr>)));
             return (if sn_fault e SnCancel = DbOk then Answer PoCancelled else Refused 500)
           }
     }))"

text \<open>Anyone who knows the order's id; the digest is not checked.\<close>

definition ConfirmOrderPayment :: "send_env \<Rightarrow> string \<Rightarrow> string option \<Rightarrow> (send_world, send_reply) state" where
  "ConfirmOrderPayment e raw digest = (case (sn_parse_uuid e raw, digest) of
     (Some i, Some d) \<Rightarrow> if sfails e SnOrder then return (Refused 500)
       else do {
         w \<leftarrow> fetch;
         case find_pay i (ew_routes (sw_escrow w)) of None \<Rightarrow> return (Refused 404)
         | Some p \<Rightarrow> do {
             only_if (sn_fault e SnConfirm \<noteq> DbFail) (modify (\<lambda>w. w\<lparr>sw_details :=
               map (\<lambda>(j, x). (j, if j = i \<and> od_tx_hash x = '''' then x\<lparr>od_tx_hash := d\<rparr> else x)) (sw_details w)\<rparr>));
             modify (\<lambda>w. w\<lparr>sw_escrow := snd (run_state (publish_note p ''payment.deposited'') (sw_escrow w))\<rparr>);
             return (Answer (po_status p))
           }
       }
   | _ \<Rightarrow> return (Refused 400))"

end
