(* ===== verification/Snd_Results.thy ===== *)
theory Snd_Results imports Snd_Orders begin

text \<open>
  What requests of senders do: a created order is the payment order, its address and, on Route A,
  the pending order of the quoted rail, and nothing else changes; a refused request creates no
  order; a tap payment pays the saved account its fiat amount; and the deposit of every order goes
  into the gateway once, with requests between the watcher's passes.
\<close>

section \<open>Creation\<close>

definition with_address :: "recv_addr \<Rightarrow> send_world \<Rightarrow> send_world" where
  "with_address a w = w\<lparr>sw_escrow := (sw_escrow w)\<lparr>ew_addrs := ew_addrs (sw_escrow w) @ [a]\<rparr>\<rparr>"

definition all_pays :: "send_world \<Rightarrow> payment_order list" where
  "all_pays w = pays (ew_routes (sw_escrow w))"

definition all_routes :: "send_world \<Rightarrow> route_order list" where
  "all_routes w = orders (ew_routes (sw_escrow w))"

text \<open>The world with the order: its address is linked to the payment.\<close>

definition ordered :: "recv_addr \<Rightarrow> payment_order \<Rightarrow> order_detail \<Rightarrow> route_order list \<Rightarrow> send_world \<Rightarrow> send_world" where
  "ordered a p d rs w = w\<lparr>
     sw_escrow := (sw_escrow w)\<lparr>
       ew_addrs := ew_addrs (sw_escrow w) @ [a\<lparr>ra_payment := Some (po_id p)\<rparr>],
       ew_routes := (ew_routes (sw_escrow w))\<lparr>pays := all_pays w @ [p], orders := all_routes w @ rs\<rparr>\<rparr>,
     sw_details := sw_details w @ [(po_id p, d)]\<rparr>"

lemma add_order_fresh:
  assumes "ra_address a \<notin> ra_address ` set (ew_addrs (sw_escrow w))"
  shows "add_order (ra_address a) p d rs (with_address a w) = ordered a p d rs w"
proof -
  have "map (\<lambda>x. if ra_address x = ra_address a then x\<lparr>ra_payment := Some (po_id p)\<rparr> else x) (ew_addrs (sw_escrow w)) = ew_addrs (sw_escrow w)"
    using assms by (intro map_idI) (metis image_eqI)
  then show ?thesis by (simp add: add_order_def ordered_def with_address_def all_pays_def all_routes_def)
qed

lemma create_cases:
  assumes "run_state (create e ss until tok p d rs) w = (r, w')"
  obtains (none) "r = Refused 500" "w' = w"
  | (orphan) a where "r = Refused 500" "w' = with_address (new_address e a tok (po_amount p) until) w"
  | (added) a where "sn_key e = Some a" "a \<notin> ra_address ` set (ew_addrs (sw_escrow w))" "po_id p \<notin> po_id ` set (all_pays w)"
      "w' = ordered (new_address e a tok (po_amount p) until) p d rs w"
      "r = (if sn_fault e SnCommit = DbOk then Created (po_id p) else Refused 500)" "detail_ok d" "\<not> tx_fails e ss"
proof -
  have addr: "w\<lparr>sw_escrow := (sw_escrow w)\<lparr>ew_addrs := ew_addrs (sw_escrow w) @ [new_address e a tok (po_amount p) until]\<rparr>\<rparr> =
      with_address (new_address e a tok (po_amount p) until) w" for a
    by (simp add: with_address_def)
  have key: "ra_address (new_address e a tok (po_amount p) until) = a" for a by (simp add: new_address_def)
  show ?thesis
  proof (cases "\<exists>a. sn_key e = Some a \<and> a \<notin> ra_address ` set (ew_addrs (sw_escrow w)) \<and> sn_fault e SnAddress \<noteq> DbFail")
    case False
    with assms none show ?thesis by (auto simp: create_def save_address_def split: option.splits if_splits)
  next
    case True
    then obtain a where a: "sn_key e = Some a" "a \<notin> ra_address ` set (ew_addrs (sw_escrow w))" "sn_fault e SnAddress \<noteq> DbFail" by blast
    let ?v = "with_address (new_address e a tok (po_amount p) until) w"
    have save: "run_state (save_address e tok (po_amount p) until) w = (if sn_fault e SnAddress = DbOk then Some a else None, ?v)"
      using a by (simp add: save_address_def addr)
    have same: "pays (ew_routes (sw_escrow ?v)) = all_pays w" by (simp add: with_address_def all_pays_def)
    have add: "add_order a p d rs ?v = ordered (new_address e a tok (po_amount p) until) p d rs w"
      using add_order_fresh [of "new_address e a tok (po_amount p) until" w p d rs] a(2) by (simp add: key)
    show ?thesis
    proof (cases "sn_fault e SnAddress = DbOk \<and> \<not> (tx_fails e ss \<or> \<not> detail_ok d \<or> po_id p \<in> po_id ` set (all_pays w))")
      case True
      with assms save same add have "w' = ordered (new_address e a tok (po_amount p) until) p d rs w"
        "r = (if sn_fault e SnCommit = DbOk then Created (po_id p) else Refused 500)"
        by (simp_all add: create_def persist_order_def)
      with True a added show ?thesis by blast
    next
      case False
      with assms save same have "w' = ?v" "r = Refused 500"
        by (auto simp: create_def persist_order_def split: if_splits)
      with orphan show ?thesis by blast
    qed
  qed
qed

datatype send_request = RPlain "new_order option" | RRouteA "(new_order \<times> string) option" | RTap "tap_order option"
  | RBank "merchant_bank option" | RCancel string | RConfirm string "string option"

definition send_perform :: "send_env \<Rightarrow> send_request \<Rightarrow> (send_world, send_reply) state" where
  "send_perform e q = (case q of RPlain p \<Rightarrow> InitiatePaymentOrder e p | RRouteA p \<Rightarrow> InitiateRouteAOrder e p | RTap p \<Rightarrow> InitiateTapPayment e p
   | RBank b \<Rightarrow> SaveMerchantBankAccount e b | RCancel i \<Rightarrow> CancelOrder_sender e i | RConfirm i d \<Rightarrow> ConfirmOrderPayment e i d)"

definition creates :: "send_request \<Rightarrow> bool" where
  "creates q \<longleftrightarrow> (case q of RPlain _ \<Rightarrow> True | RRouteA _ \<Rightarrow> True | RTap _ \<Rightarrow> True | _ \<Rightarrow> False)"

text \<open>A creation request is refused by its checks or goes through \<open>create\<close>.\<close>

lemma creates_by:
  assumes "creates q" "run_state (send_perform e q) w = (r, w')"
  shows "((\<exists>code. r = Refused code) \<and> w' = w) \<or>
    (\<exists>ss until tok p d rs. po_id p = sn_new_payment e \<and> run_state (create e ss until tok p d rs) w = (r, w'))"
proof (cases q)
  case (RPlain p)
  with assms(2) show ?thesis
    by (auto simp: send_perform_def InitiatePaymentOrder_def new_payment_def split: option.splits if_splits)
next
  case (RRouteA p)
  with assms(2) show ?thesis
    by (auto simp: send_perform_def InitiateRouteAOrder_def new_payment_def split: option.splits if_splits quoted.splits)
next
  case (RTap p)
  with assms(2) show ?thesis
    by (auto simp: send_perform_def InitiateTapPayment_def new_payment_def Let_def split: option.splits if_splits quoted.splits prod.splits)
qed (use assms(1) in \<open>simp_all add: creates_def\<close>)

text \<open>A request for an order that is refused creates none, unless the commit itself took effect
  without an answer: payments, Route A orders and the gateway's calls are as before.\<close>

theorem refused_creates_nothing:
  assumes "creates q" "run_state (send_perform e q) w = (Refused code, w')" "sn_fault e SnCommit \<noteq> DbLostAck"
  shows "all_pays w' = all_pays w \<and> all_routes w' = all_routes w \<and> sw_details w' = sw_details w \<and>
    ew_calls (sw_escrow w') = ew_calls (sw_escrow w)"
  using creates_by [OF assms(1,2)]
proof
  assume "\<exists>ss until tok p d rs. po_id p = sn_new_payment e \<and> run_state (create e ss until tok p d rs) w = (Refused code, w')"
  then obtain ss until tok p d rs where c: "run_state (create e ss until tok p d rs) w = (Refused code, w')" by blast
  show ?thesis
  proof (rule create_cases [OF c])
    fix a
    assume "Refused code = (if sn_fault e SnCommit = DbOk then Created (po_id p) else Refused 500)" "\<not> tx_fails e ss"
    with assms(3) show ?thesis by (cases "sn_fault e SnCommit") (simp_all add: tx_fails_def)
  qed (simp_all add: with_address_def all_pays_def all_routes_def)
qed simp

text \<open>C26. A Route A order that is created has the quoted rate, the quoted rail, status pending and an address
  of its own that expects its amount; nothing else changes.\<close>

theorem route_order_created:
  assumes "run_state (InitiateRouteAOrder e (Some (p, mode))) w = (Created i, w')"
  shows "\<exists>m s t r a. order_mode_of mode = Some m \<and> sn_sender e = Some s \<and> t \<in> set (sn_tokens e) \<and> tr_enabled t \<and>
    QuoteSuiTokenToNgn (sn_quote e) (np_amount p) (tok_contract (tr_token t)) (tok_decimals (tr_token t)) = Quoted r \<and>
    i = sn_new_payment e \<and> i \<notin> po_id ` set (all_pays w) \<and> a \<notin> ra_address ` set (ew_addrs (sw_escrow w)) \<and>
    w' = ordered (new_address e a (tr_token t) (np_amount p) (Some (sn_now e + sn_validity e)))
      (new_payment e s (tr_token t) (np_amount p) (cr_rate r) (np_recipient p)) (bare_detail (np_return_address p) (np_reference p))
      [new_route e m (BridgeProvider r)] w"
proof -
  from assms obtain m s t r where q: "order_mode_of mode = Some m" "sn_sender e = Some s"
    "only_row (filter (\<lambda>t. tok_symbol (tr_token t) = to_upper (np_token p) \<and> tr_enabled t) (sn_tokens e)) = Some t"
    "QuoteSuiTokenToNgn (sn_quote e) (np_amount p) (tok_contract (tr_token t)) (tok_decimals (tr_token t)) = Quoted r"
    and c: "run_state (create e [SnBegin, SnPayment, SnRecipient, SnRoute] (Some (sn_now e + sn_validity e)) (tr_token t)
      (new_payment e s (tr_token t) (np_amount p) (cr_rate r) (np_recipient p)) (bare_detail (np_return_address p) (np_reference p))
      [new_route e m (BridgeProvider r)]) w = (Created i, w')"
    by (auto simp: InitiateRouteAOrder_def split: option.splits if_splits quoted.splits)
  from q(3) have "filter (\<lambda>t. tok_symbol (tr_token t) = to_upper (np_token p) \<and> tr_enabled t) (sn_tokens e) = [t]"
    by (auto simp: only_row_def split: list.splits)
  then have "t \<in> set (filter (\<lambda>t. tok_symbol (tr_token t) = to_upper (np_token p) \<and> tr_enabled t) (sn_tokens e))" by simp
  then have t: "t \<in> set (sn_tokens e)" "tr_enabled t" by simp_all
  show ?thesis
  proof (rule create_cases [OF c])
    fix a
    assume "sn_key e = Some a" "a \<notin> ra_address ` set (ew_addrs (sw_escrow w))"
      "po_id (new_payment e s (tr_token t) (np_amount p) (cr_rate r) (np_recipient p)) \<notin> po_id ` set (all_pays w)"
      "Created i = (if sn_fault e SnCommit = DbOk then Created (po_id (new_payment e s (tr_token t) (np_amount p) (cr_rate r) (np_recipient p))) else Refused 500)"
      "w' = ordered (new_address e a (tr_token t) (po_amount (new_payment e s (tr_token t) (np_amount p) (cr_rate r) (np_recipient p))) (Some (sn_now e + sn_validity e)))
        (new_payment e s (tr_token t) (np_amount p) (cr_rate r) (np_recipient p)) (bare_detail (np_return_address p) (np_reference p))
        [new_route e m (BridgeProvider r)] w"
    with q t show ?thesis by (auto simp: new_payment_def split: if_splits)
  qed simp_all
qed

section \<open>Tap payments\<close>

lemma bank_saved:
  assumes "run_state (SaveMerchantBankAccount e (Some b)) w = (Saved, w1)" "sn_sender e = Some s"
  shows "\<exists>b'. bank_of (sp_id s) w1 = Some b' \<and> mb_code b' = mb_code b \<and> mb_number b' = mb_number b \<and> mb_name b' = mb_name b \<and>
    length (mb_number b) = 10 \<and> list_all is_digit (mb_number b)"
  using assms by (auto simp: SaveMerchantBankAccount_def Let_def only_if_def bank_of_def update_conv' split: if_splits)

text \<open>C27. A tap payment after the merchant saved a bank account pays this account, of ten digits; at the
  order's rate its token amount is worth the fiat amount of the tap up to half a unit of the token's
  last place.\<close>

theorem tap_payment_terms:
  assumes "run_state (SaveMerchantBankAccount e1 (Some b)) w = (Saved, w1)" "sn_sender e1 = Some s1"
    "run_state (InitiateTapPayment e (Some p)) w1 = (Created i, w2)" "sn_sender e = Some s" "sp_id s = sp_id s1"
    "declib_ok (c_dec (qe_conf (sn_quote e)))"
  shows "\<exists>x (t :: token_row). all_pays w2 = all_pays w1 @ [x] \<and> po_id x = i \<and> po_token x = Some (tr_token t) \<and>
    po_recipient x = Some \<lparr>rcpt_institution = mb_code b, rcpt_account = mb_number b, rcpt_name = mb_name b, rcpt_memo = tp_memo p, rcpt_provider = ''''\<rparr> \<and>
    length (mb_number b) = 10 \<and> list_all is_digit (mb_number b) \<and> 0 < po_amount x \<and>
    \<bar>po_amount x * po_rate x - tp_amount p\<bar> \<le> po_rate x * (1 / (2 * 10 ^ tok_decimals (tr_token t)) + 1 / (2 * 10 ^ 16))"
proof -
  from bank_saved [OF assms(1,2)] obtain b' where b': "bank_of (sp_id s1) w1 = Some b'"
    "mb_code b' = mb_code b" "mb_number b' = mb_number b" "mb_name b' = mb_name b" "length (mb_number b) = 10" "list_all is_digit (mb_number b)" by blast
  from assms(3,4,5) b'(1) obtain t :: token_row and market r a where q: "QuoteSuiTokenAmountForFiat (sn_quote e) (tp_amount p) market (tok_contract (tr_token t)) (tok_decimals (tr_token t)) = (Quoted r, a)"
    "\<not> a \<le> 0"
    and c: "run_state (create e [SnBegin, SnLog, SnPayment, SnRecipient, SnRoute] (Some (sn_now e + sn_validity e)) (tr_token t)
      (new_payment e s (tr_token t) a (cr_rate r) (bank_recipient b' (tp_memo p)))
      (bare_detail '''' (sn_show_id e (sn_new_payment e))) [new_route e Lp (BridgeProvider r)]) w1 = (Created i, w2)"
    by (auto simp: InitiateTapPayment_def Let_def split: option.splits if_splits quoted.splits prod.splits)
  let ?x = "new_payment e s (tr_token t) a (cr_rate r) (bank_recipient b' (tp_memo p))"
  have "all_pays w2 = all_pays w1 @ [?x] \<and> po_id ?x = i"
    by (rule create_cases [OF c]) (simp_all add: ordered_def all_pays_def split: if_splits)
  with fiat_amount_paid [OF assms(6) q(1)] q(2) b' show ?thesis
    by (intro exI [of _ ?x] exI [of _ t]) (simp add: new_payment_def bank_recipient_def)
qed

section \<open>Deposits\<close>

text \<open>The gateway's steps between requests of senders.\<close>

inductive send_step :: "(escrow_env \<Rightarrow> bool) \<Rightarrow> send_world \<Rightarrow> send_world \<Rightarrow> bool" for G where
  gateway: "escrow_step G (sw_escrow w) v \<Longrightarrow> send_step G w (w\<lparr>sw_escrow := v\<rparr>)"
| request: "send_step G w (snd (run_state (send_perform e q) w))"

abbreviation send_run :: "(escrow_env \<Rightarrow> bool) \<Rightarrow> send_world \<Rightarrow> send_world \<Rightarrow> bool" where
  "send_run G \<equiv> (send_step G)\<^sup>*\<^sup>*"

lemma gateway_run: "escrow_run G (sw_escrow u) v \<Longrightarrow> send_run G u (u\<lparr>sw_escrow := v\<rparr>)"
proof (induction rule: rtranclp_induct)
  case (step v v')
  have "send_step G (u\<lparr>sw_escrow := v\<rparr>) (u\<lparr>sw_escrow := v'\<rparr>)"
    using send_step.gateway [of G "u\<lparr>sw_escrow := v\<rparr>" v'] step.hyps(2) by simp
  with step.IH show ?case by (rule rtranclp.rtrancl_into_rtrancl)
qed simp

text \<open>A new address without a digest takes no other order's place.\<close>

lemma find_append: "find P (xs @ ys) = (case find P xs of None \<Rightarrow> find P ys | Some x \<Rightarrow> Some x)"
  by (induction xs) auto

lemma appended_ok:
  assumes "forwarded_ok i w" "ew_addrs v = ew_addrs w @ [a]" "ew_calls v = ew_calls w"
  shows "forwarded_ok i v"
  using assms by (auto simp: forwarded_ok_def forwards_of_def address_of_def find_append split: option.splits)

lemma create_forwarded:
  assumes "forwarded_ok i (sw_escrow w)" "run_state (create e ss until tok p d rs) w = (r, w')"
  shows "forwarded_ok i (sw_escrow w')"
proof (rule create_cases [OF assms(2)])
  fix a
  assume "w' = with_address (new_address e a tok (po_amount p) until) w"
  then show ?thesis by (intro appended_ok [OF assms(1)]) (simp_all add: with_address_def)
next
  fix a
  assume "w' = ordered (new_address e a tok (po_amount p) until) p d rs w"
  then show ?thesis by (intro appended_ok [OF assms(1)]) (simp_all add: ordered_def)
qed (use assms(1) in simp)

text \<open>The other requests leave addresses and calls alone.\<close>

definition gateway_is :: "recv_addr list \<Rightarrow> escrow_call list \<Rightarrow> send_world \<Rightarrow> bool" where
  "gateway_is as cs w \<longleftrightarrow> ew_addrs (sw_escrow w) = as \<and> ew_calls (sw_escrow w) = cs"

lemma publish_gateway: "gateway_is as cs w \<Longrightarrow> gateway_is as cs (w\<lparr>sw_escrow := snd (run_state (publish_note p x) (sw_escrow w))\<rparr>)"
  by (simp add: gateway_is_def publish_note_def split: option.split)

lemma other_requests: "\<not> creates q \<Longrightarrow> keeps (gateway_is as cs) (send_perform e q)"
proof (cases q)
  case (RBank b)
  show ?thesis
    unfolding RBank send_perform_def send_request.case SaveMerchantBankAccount_def Let_def
    by (intro keeps_intros keeps_update) (simp add: gateway_is_def)
next
  case (RCancel j)
  show ?thesis
    unfolding RCancel send_perform_def send_request.case CancelOrder_sender_def
    by (intro keeps_intros keeps_update) (simp add: gateway_is_def on_payment_def)
next
  case (RConfirm j d)
  show ?thesis
    unfolding RConfirm send_perform_def send_request.case ConfirmOrderPayment_def prod.case
    by (intro keeps_intros keeps_update publish_gateway) (simp_all add: gateway_is_def)
qed (simp_all add: creates_def)

lemma request_forwarded:
  assumes "forwarded_ok i (sw_escrow w)"
  shows "forwarded_ok i (sw_escrow (snd (run_state (send_perform e q) w)))"
proof (cases "creates q")
  case True
  obtain r w' where r: "run_state (send_perform e q) w = (r, w')" by fastforce
  from creates_by [OF True r] have "forwarded_ok i (sw_escrow w')"
    using assms create_forwarded [OF assms] by blast
  with r show ?thesis by simp
next
  case False
  have "gateway_is (ew_addrs (sw_escrow w)) (ew_calls (sw_escrow w)) (snd (run_state (send_perform e q) w))"
    by (rule keepsD [OF other_requests [OF False]]) (simp add: gateway_is_def)
  then show ?thesis by (intro once.frame [OF _ _ assms]) (simp_all add: gateway_is_def)
qed

lemma send_step_forwarded:
  "send_step forwards_saved u v \<Longrightarrow> forwarded_ok i (sw_escrow u) \<Longrightarrow> forwarded_ok i (sw_escrow v)"
  by (cases rule: send_step.cases, assumption) (auto intro: step_ok request_forwarded)

text \<open>However requests of senders, passes of the watcher and chain events are interleaved, the deposit
  of a payment order goes into the gateway at most once, if every write of a forward's digest is
  acknowledged.\<close>

theorem deposits_forward_once:
  assumes "send_run forwards_saved w w'" "ew_calls (sw_escrow w) = []"
  shows "forwards_of i (sw_escrow w') \<le> 1"
proof -
  have "forwarded_ok i (sw_escrow w)" using assms(2) by (simp add: forwarded_ok_def forwards_of_def)
  with assms(1) have "forwarded_ok i (sw_escrow w')"
  proof (induction rule: rtranclp_induct)
    case (step v u)
    from send_step_forwarded [OF step.hyps(2) step.IH [OF step.prems]] show ?case .
  qed
  then show ?thesis by (simp add: forwarded_ok_def)
qed

end
