(* ===== verification/Snd_Samples.thy ===== *)
theory Snd_Samples imports Snd_Results Esc_Samples Card_Samples begin

text \<open>
  Concrete requests of senders: they show that the properties' hypotheses can hold, and the
  executions in which a cancelled order is paid all the same and an order of a negative amount is
  taken.
\<close>

section \<open>One sender\<close>

definition sui_usdc :: token where
  "sui_usdc = \<lparr>tok_symbol = ''USDC'', tok_contract = SuiUSDCCoinType mainnet, tok_decimals = 6\<rparr>"

definition quote_calm :: quote_env where
  "quote_calm = \<lparr>qe_conf = sample_conf\<lparr>c_cctp_enabled := True\<rparr>, qe_usdc = ''0xusdc'', qe_lifi = (\<lambda>_ _ _. None), qe_rate = (\<lambda>_. Some 1500)\<rparr>"

definition send_calm :: send_env where
  "send_calm = \<lparr>sn_now = 0, sn_fault = (\<lambda>_. DbOk), sn_sender = Some \<lparr>sp_id = 3, sp_active = True, sp_partner = False\<rparr>, sn_debug = False,
     sn_tokens = [\<lparr>tr_id = 1, tr_token = sui_usdc, tr_network = ''sui-mainnet'', tr_enabled = True\<rparr>],
     sn_order_tokens = [\<lparr>st_sender = 3, st_token = 1, st_percent = 0, st_fee_address = ''0xf'', st_refund_address = ''0xr''\<rparr>],
     sn_institutions = [(''044'', Some ''NGN'')], sn_payees = [], sn_currencies = [(''NGN'', 1500)], sn_quote = quote_calm,
     sn_key = Some ''0xnew'', sn_validity = 30 * minute, sn_new_payment = 9, sn_new_route = 19, sn_show_id = (\<lambda>_. ''id''),
     sn_fraction = floor, sn_parse_uuid = (\<lambda>s. if s = ''1'' then Some 1 else None)\<rparr>"

definition send_start :: send_world where
  "send_start = \<lparr>sw_escrow = escrow_start empty_world [sample_addr], sw_details = [], sw_banks = []\<rparr>"

definition sample_order :: "decimal \<Rightarrow> new_order" where
  "sample_order a = \<lparr>np_amount = a, np_token = ''USDC'', np_rate = 1, np_network = ''sui-mainnet'', np_recipient = merchant,
     np_reference = '''', np_return_address = '''', np_fee_percent = 0, np_fee_address = ''''\<rparr>"

lemmas send_sample_defs = send_calm_def quote_calm_def sample_conf_def sui_usdc_def send_start_def sample_order_def merchant_def
  std_dec_def escrow_start_def empty_world_def sample_addr_def

lemma send_fields:
  "sn_now send_calm = 0" "sn_fault send_calm x = DbOk" "sn_sender send_calm = Some \<lparr>sp_id = 3, sp_active = True, sp_partner = False\<rparr>"
  "sn_tokens send_calm = [\<lparr>tr_id = 1, tr_token = sui_usdc, tr_network = ''sui-mainnet'', tr_enabled = True\<rparr>]"
  "sn_order_tokens send_calm = [\<lparr>st_sender = 3, st_token = 1, st_percent = 0, st_fee_address = ''0xf'', st_refund_address = ''0xr''\<rparr>]"
  "sn_institutions send_calm = [(''044'', Some ''NGN'')]" "sn_currencies send_calm = [(''NGN'', 1500)]" "sn_quote send_calm = quote_calm"
  "sn_key send_calm = Some ''0xnew''" "sn_new_payment send_calm = 9" "sn_show_id send_calm i = ''id''" "c_signer (qe_conf quote_calm)"
  "sn_parse_uuid send_calm ''1'' = Some 1" "c_dec (qe_conf quote_calm) = std_dec" "c_fee_bps (qe_conf quote_calm) = 50"
  by (simp_all add: send_calm_def quote_calm_def sample_conf_def)

lemma usdc_fields: "tok_symbol sui_usdc = ''USDC''" "tok_contract sui_usdc = SuiUSDCCoinType mainnet" "tok_decimals sui_usdc = 6"
  by (simp_all add: sui_usdc_def)

lemma order_fields: "np_amount (sample_order a) = a" "np_token (sample_order a) = ''USDC''" "np_reference (sample_order a) = ''''"
    "np_return_address (sample_order a) = ''''" "np_recipient (sample_order a) = merchant" "np_network (sample_order a) = ''sui-mainnet''"
    "np_fee_address (sample_order a) = ''''" "np_rate (sample_order a) = 1"
  by (simp_all add: sample_order_def)

lemma start_fields: "ew_addrs (sw_escrow send_start) = [sample_addr]" "pays (ew_routes (sw_escrow send_start)) = [sample_pay]"
    "ra_address sample_addr = ''0xr''" "po_id sample_pay = 1" "ew_calls (sw_escrow send_start) = []" "sw_details send_start = []"
    "orders (ew_routes (sw_escrow send_start)) = []" "po_rate sample_pay = 1500" "po_amount sample_pay = 10" "ra_expected sample_addr = 9"
  by (simp_all add: send_start_def escrow_start_def empty_world_def sample_addr_def sample_pay_def)

lemmas sample_fields = send_fields usdc_fields order_fields start_fields

lemma send_texts: "to_upper ''USDC'' = ''USDC''" "order_mode_of ''LP'' = Some Lp" "\<not> IsNativeSui (SuiUSDCCoinType mainnet)"
    "to_upper (trim_space '''') = ''''" "to_upper (trim_space ''ngn'') = ''NGN''" "list_all is_digit ''0123456789''" "prefix ''sui-'' ''sui-mainnet''"
  by code_simp+

lemma sample_fee: "round_away 16 (1 / 200) = 1 / 200" "round_away 16 (199 / 200) = 199 / 200" "round_away 6 (round_away 16 (2985 / (2985 / 2))) = 2"
    "round_away 6 (round_away 16 (2985 / 1500)) = 199 / 100" "round_away 4 0 = 0" "round_away 16 0 = 0"
  by code_simp+

text \<open>Ten USDC: 1492.5 naira for each, after the fee of half a percent.\<close>

lemma sample_quote: "0 < a \<Longrightarrow> QuoteSuiTokenToNgn quote_calm a (SuiUSDCCoinType mainnet) 6 =
    Quoted \<lparr>cr_rate = 2985 / 2, cr_usdc = a, cr_usdc_rate = 1500, cr_bridged = a, cr_via = ''cctp''\<rparr>"
  by (simp add: QuoteSuiTokenToNgn_def Let_def quote_bridged_def quote_delivery_def cctpQuoteAvailable_def ForBaseChainID_def
      send_texts quote_calm_def sample_conf_def std_dec_def sample_fee)

lemmas create_defs = create_def save_address_def persist_order_def tx_fails_def detail_ok_def bare_detail_def new_payment_def

lemma send_route: "\<exists>w. run_state (InitiateRouteAOrder send_calm (Some (sample_order 10, ''LP''))) send_start = (Created 9, w)"
  by (simp add: InitiateRouteAOrder_def send_texts only_row_def sample_fields sample_quote create_defs)

section \<open>Witnesses\<close>

lemma route_order_created_witness:
  "\<exists>w'. run_state (InitiateRouteAOrder send_calm (Some (sample_order 10, ''LP''))) send_start = (Created 9, w') \<and>
     map bridge_provider (all_routes w') = [''cctp''] \<and> map po_rate (all_pays w') = [1500, 2985 / 2]"
proof -
  obtain w' where w': "run_state (InitiateRouteAOrder send_calm (Some (sample_order 10, ''LP''))) send_start = (Created 9, w')"
    using send_route by (elim exE)
  have "map bridge_provider (all_routes w') = [''cctp''] \<and> map po_rate (all_pays w') = [1500, 2985 / 2]"
    using route_order_created [OF w']
  proof (elim exE conjE)
    fix m s t r a
    assume t: "t \<in> set (sn_tokens send_calm)"
      "QuoteSuiTokenToNgn (sn_quote send_calm) (np_amount (sample_order 10)) (tok_contract (tr_token t)) (tok_decimals (tr_token t)) = Quoted r"
      and w: "w' = ordered (new_address send_calm a (tr_token t) (np_amount (sample_order 10)) (Some (sn_now send_calm + sn_validity send_calm)))
        (new_payment send_calm s (tr_token t) (np_amount (sample_order 10)) (cr_rate r) (np_recipient (sample_order 10)))
        (bare_detail (np_return_address (sample_order 10)) (np_reference (sample_order 10))) [new_route send_calm m (BridgeProvider r)] send_start"
    from t(1) have "tr_token t = sui_usdc" by (simp add: sample_fields)
    with t(2) sample_quote [of 10] have "r = \<lparr>cr_rate = 2985 / 2, cr_usdc = 10, cr_usdc_rate = 1500, cr_bridged = 10, cr_via = ''cctp''\<rparr>"
      by (simp add: sample_fields)
    then show ?thesis
      by (simp add: w ordered_def all_routes_def all_pays_def new_route_def new_payment_def BridgeProvider_def start_fields)
  qed
  with w' show ?thesis by (intro exI [of _ w'] conjI) simp_all
qed

lemma refused_creates_nothing_witness:
  "\<exists>w'. run_state (send_perform send_calm (RPlain None)) send_start = (Refused 400, w') \<and> all_pays w' = all_pays send_start"
proof -
  obtain w' where r: "run_state (send_perform send_calm (RPlain None)) send_start = (Refused 400, w')"
    by (simp add: send_perform_def InitiatePaymentOrder_def)
  from refused_creates_nothing [OF _ r] have "all_pays w' = all_pays send_start"
    by (simp add: creates_def send_calm_def)
  with r show ?thesis by blast
qed

definition saved_bank :: merchant_bank where
  "saved_bank = \<lparr>mb_currency = ''ngn'', mb_code = ''044'', mb_number = ''0123456789'', mb_name = ''A Shop'', mb_verified = 0\<rparr>"

definition banked :: send_world where
  "banked = snd (run_state (SaveMerchantBankAccount send_calm (Some saved_bank)) send_start)"

lemma bank_run: "run_state (SaveMerchantBankAccount send_calm (Some saved_bank)) send_start =
    (Saved, send_start\<lparr>sw_banks := [(3, saved_bank\<lparr>mb_currency := ''NGN''\<rparr>)]\<rparr>)"
  using send_texts(5,6)
  by (simp add: SaveMerchantBankAccount_def Let_def only_if_def saved_bank_def sample_fields del: list.pred_inject)
    (simp add: send_start_def)

lemma tap_quote: "QuoteSuiTokenAmountForFiat quote_calm 2985 1500 (SuiUSDCCoinType mainnet) 6 =
    (Quoted \<lparr>cr_rate = 2985 / 2, cr_usdc = 2, cr_usdc_rate = 1500, cr_bridged = 2, cr_via = ''cctp''\<rparr>, 2)"
proof -
  have "round_away 6 (dl_div std_dec 2985 1500) = 199 / 100" "round_away 6 (dl_div std_dec 2985 (2985 / 2)) = 2"
    using sample_fee by (simp_all add: std_dec_def)
  then show ?thesis
    by (simp add: QuoteSuiTokenAmountForFiat_def send_fields sample_quote numeral_2_eq_2)
qed

lemma tap_run: "\<exists>w. run_state (InitiateTapPayment send_calm (Some \<lparr>tp_amount = 2985, tp_currency = '''', tp_memo = ''''\<rparr>))
    (send_start\<lparr>sw_banks := [(3, saved_bank\<lparr>mb_currency := ''NGN''\<rparr>)]\<rparr>) = (Created 9, w)"
  by (simp add: InitiateTapPayment_def Let_def bank_of_def saved_bank_def send_texts tap_token_def sample_fields tap_quote create_defs)

lemma tap_payment_terms_witness:
  "\<exists>w1 w2 (x :: payment_order) (t :: token_row). run_state (SaveMerchantBankAccount send_calm (Some saved_bank)) send_start = (Saved, w1) \<and>
     run_state (InitiateTapPayment send_calm (Some \<lparr>tp_amount = 2985, tp_currency = '''', tp_memo = ''''\<rparr>)) w1 = (Created 9, w2) \<and>
     po_id x = 9 \<and> map rcpt_account (case po_recipient x of None \<Rightarrow> [] | Some r \<Rightarrow> [r]) = [''0123456789'']"
proof -
  obtain w2 where t: "run_state (InitiateTapPayment send_calm (Some \<lparr>tp_amount = 2985, tp_currency = '''', tp_memo = ''''\<rparr>))
      (send_start\<lparr>sw_banks := [(3, saved_bank\<lparr>mb_currency := ''NGN''\<rparr>)]\<rparr>) = (Created 9, w2)" using tap_run by blast
  have D: "declib_ok (c_dec (qe_conf (sn_quote send_calm)))" using std_dec_ok by (simp add: sample_fields)
  from tap_payment_terms [OF bank_run send_fields(3) t send_fields(3) refl D] obtain x :: payment_order where "po_id x = 9"
    "po_recipient x = Some \<lparr>rcpt_institution = mb_code saved_bank, rcpt_account = mb_number saved_bank, rcpt_name = mb_name saved_bank, rcpt_memo = '''', rcpt_provider = ''''\<rparr>"
    by auto
  with bank_run t show ?thesis by (auto simp: saved_bank_def)
qed

lemma cctp_quote_dispatches_witness:
  "dispatch_amounts 50 10000000 9950000 None = Inr (9950000, 49750)"
proof -
  have "unshift (of_int 10000000) 6 = (10 :: decimal)" by (simp add: unshift_def)
  moreover have "decimalToSubunit (dl_div std_dec (10 * (2985 / 2)) 1500) 6 = 9950000"
    by code_simp
  ultimately show ?thesis
    using cctp_quote_dispatches [of std_dec quote_calm 50 10000000 "SuiUSDCCoinType mainnet" _ 1500 9950000 None, OF std_dec_ok] sample_quote [of 10] send_texts
    by (simp add: sample_fields)
qed

lemma deposits_forward_once_witness:
  "forwards_of 1 (pass escrow_calm (sw_escrow (snd (run_state (send_perform send_calm (RRouteA (Some (sample_order 10, ''LP'')))) send_start)))) \<le> 1"
proof -
  let ?w = "snd (run_state (send_perform send_calm (RRouteA (Some (sample_order 10, ''LP'')))) send_start)"
  have "forwards_saved escrow_calm" by (simp add: forwards_saved_def escrow_calm_def)
  from gateway_run [OF CheckDeposits_run [of forwards_saved, OF this, of "sw_escrow ?w"]]
  have "send_run forwards_saved send_start (?w\<lparr>sw_escrow := pass escrow_calm (sw_escrow ?w)\<rparr>)"
    unfolding pass_def by (rule converse_rtranclp_into_rtranclp [rotated]) (rule send_step.request)
  from deposits_forward_once [OF this] show ?thesis by (simp add: send_start_def escrow_start_def)
qed

section \<open>Executions that go wrong\<close>

definition lifi_send :: send_env where
  "lifi_send = send_calm\<lparr>sn_quote := quote_calm\<lparr>qe_conf := sample_conf, qe_lifi := (\<lambda>_ _ _. Some ''1000000'')\<rparr>,
     sn_tokens := [\<lparr>tr_id = 1, tr_token = usdc, tr_network = ''sui-mainnet'', tr_enabled = True\<rparr>]\<rparr>"

definition send_empty :: send_world where
  "send_empty = \<lparr>sw_escrow = escrow_start (empty_world\<lparr>pays := []\<rparr>) [], sw_details = [], sw_banks = []\<rparr>"

lemma lifi_fields:
  "sn_fault lifi_send x = DbOk" "sn_sender lifi_send = Some \<lparr>sp_id = 3, sp_active = True, sp_partner = False\<rparr>"
  "sn_tokens lifi_send = [\<lparr>tr_id = 1, tr_token = usdc, tr_network = ''sui-mainnet'', tr_enabled = True\<rparr>]"
  "sn_key lifi_send = Some ''0xnew''" "sn_new_payment lifi_send = 9" "sn_new_route lifi_send = 19" "c_signer (qe_conf (sn_quote lifi_send))" "sn_now lifi_send = 0"
  by (simp_all add: lifi_send_def send_calm_def sample_conf_def)

lemma lifi_quote: "QuoteSuiTokenToNgn (sn_quote lifi_send) 1 ''0xusdc'' 6 =
    Quoted \<lparr>cr_rate = 2985 / 2, cr_usdc = 1, cr_usdc_rate = 1500, cr_bridged = 1, cr_via = ''lifi''\<rparr>"
proof -
  have tok: "\<not> IsNativeSui ''0xusdc''" by (simp add: IsNativeSui_def NativeSuiCoinType_def)
  have "parse_int ''1000000'' = Some 1000000" by (simp add: parse_int_def parse_digits_def is_digit_def digits_val_def)
  then have "quote_delivery (sn_quote lifi_send) ''0xusdc'' 6 1 = Some (1, ''lifi'')"
    by (simp add: quote_delivery_def cctpQuoteAvailable_def lifi_send_def sample_conf_def unshift_def)
  moreover have "quote_bridged ''0xusdc'' 1 = Some 1" by (simp add: quote_bridged_def tok)
  ultimately show ?thesis
    by (simp add: QuoteSuiTokenToNgn_def Let_def) (simp add: lifi_send_def quote_calm_def sample_conf_def std_dec_def sample_fee)
qed

abbreviation lifi_payment :: payment_order where
  "lifi_payment \<equiv> new_payment lifi_send \<lparr>sp_id = 3, sp_active = True, sp_partner = False\<rparr> usdc 1 (2985 / 2) merchant"

definition undeposited :: send_world where
  "undeposited = ordered (new_address lifi_send ''0xnew'' usdc 1 (Some (sn_validity lifi_send))) lifi_payment (bare_detail '''' '''')
     [new_route lifi_send Lp ''lifi''] send_empty"

lemma undeposited_run: "run_state (InitiateRouteAOrder lifi_send (Some (sample_order 1, ''LP''))) send_empty = (Created 9, undeposited)"
proof -
  have usdc: "tok_symbol usdc = ''USDC''" "tok_contract usdc = ''0xusdc''" "tok_decimals usdc = 6" by (simp_all add: usdc_def)
  have empty: "ew_addrs (sw_escrow send_empty) = []" "pays (ew_routes (sw_escrow send_empty)) = []"
    by (simp_all add: send_empty_def escrow_start_def)
  show ?thesis
    by (simp add: InitiateRouteAOrder_def send_texts only_row_def order_fields lifi_fields usdc lifi_quote BridgeProvider_def create_defs empty)
      (simp add: undeposited_def add_order_def ordered_def all_pays_def all_routes_def new_address_def new_payment_def bare_detail_def empty lifi_fields)
qed

lemma undeposited_routes: "ew_routes (sw_escrow undeposited) = empty_world\<lparr>pays := [lifi_payment], orders := [new_route lifi_send Lp ''lifi'']\<rparr>"
  by (simp add: undeposited_def ordered_def send_empty_def escrow_start_def all_pays_def all_routes_def empty_world_def)

lemma undeposited_tick: "calls (after pooled (empty_world\<lparr>pays := [lifi_payment], orders := [new_route lifi_send Lp ''lifi'']\<rparr>)) = [CallBridge 19 (Done ''Dg'')]"
proof -
  have "trunc (shift 1 6) = 1000000" by (simp add: trunc_def shift_def)
  then show ?thesis
    by (simp add: running pooled_def new_route_def new_payment_def lifi_fields sample_values split del: if_split)
qed

text \<open>C8. A Route A order needs no deposit: the row is pending from its creation, and the next tick bridges
  its amount from the pooled balance of the aggregator, to be paid to the bank account the sender
  named.\<close>

theorem undeposited_order_bridged:
  "\<exists>w. run_state (InitiateRouteAOrder lifi_send (Some (sample_order 1, ''LP''))) send_empty = (Created 9, w) \<and>
     map ra_status (ew_addrs (sw_escrow w)) = [RcUnused] \<and>
     calls (after pooled (ew_routes (sw_escrow w))) = [CallBridge 19 (Done ''Dg'')]"
proof -
  have "map ra_status (ew_addrs (sw_escrow undeposited)) = [RcUnused]"
    by (simp add: undeposited_def ordered_def send_empty_def escrow_start_def new_address_def)
  with undeposited_run undeposited_tick show ?thesis by (simp add: undeposited_routes)
qed

text \<open>C28. The deposit of a cancelled order is stranded: the watcher notices it, marks the address as
  forwarded without a call, and no later pass looks at it again.\<close>

theorem cancelled_deposit_stranded:
  "\<exists>w. run_state (CancelOrder_sender send_calm ''1'') send_start = (Answer PoCancelled, w) \<and>
     map po_status (all_pays w) = [PoCancelled] \<and>
     (let v = pass escrow_calm (sw_escrow w) in ew_calls v = [] \<and> map ra_status (ew_addrs v) = [RcForwarded] \<and>
       map ra_forward_tx (ew_addrs v) = [''''] \<and> map ra_deposit_tx (ew_addrs v) = [''tx''])"
proof -
  let ?w = "on_payment 1 (\<lambda>p. p\<lparr>po_status := PoCancelled\<rparr>) send_start"
  have "po_sender sample_pay = Some 3" "po_status sample_pay = PoInitiated" by (simp_all add: sample_pay_def)
  then have "run_state (CancelOrder_sender send_calm ''1'') send_start = (Answer PoCancelled, ?w)"
    by (simp add: CancelOrder_sender_def only_if_def sample_fields)
  moreover have "map po_status (all_pays ?w) = [PoCancelled]"
    by (simp add: on_payment_def all_pays_def start_fields)
  moreover have "sw_escrow ?w = escrow_start (empty_world\<lparr>pays := [sample_pay\<lparr>po_status := PoCancelled\<rparr>]\<rparr>) [sample_addr]"
    by (simp add: on_payment_def send_start_def escrow_start_def empty_world_def start_fields)
  moreover have "let v = pass escrow_calm (escrow_start (empty_world\<lparr>pays := [sample_pay\<lparr>po_status := PoCancelled\<rparr>]\<rparr>) [sample_addr]) in
      ew_calls v = [] \<and> map ra_status (ew_addrs v) = [RcForwarded] \<and> map ra_forward_tx (ew_addrs v) = [''''] \<and> map ra_deposit_tx (ew_addrs v) = [''tx'']"
    by (simp add: pass_defs escrow_sample_defs sample_parse sample_type)
  ultimately show ?thesis by auto
qed

text \<open>An order of a negative amount is taken: its address expects the positive amount.\<close>

theorem negative_order_created:
  "\<exists>w. run_state (InitiatePaymentOrder send_calm (Some (sample_order (- 5)))) send_start = (Created 9, w) \<and>
     map po_amount (all_pays w) = [10, - 5] \<and> map ra_expected (ew_addrs (sw_escrow w)) = [9, 5000000]"
proof -
  have "first_error [reference_check send_calm (np_reference (sample_order (- 5))) send_start,
      institution_check send_calm (rcpt_institution (np_recipient (sample_order (- 5)))), payee_check send_calm (sample_order (- 5)) ''sui-mainnet''] = None"
    by (simp add: first_error_def reference_check_def institution_check_def payee_check_def send_calm_def sample_order_def merchant_def)
  then show ?thesis
    by (simp add: InitiatePaymentOrder_def order_token_def only_row_def sender_settings_def fee_terms_def return_terms_def
        create_defs add_order_def new_address_def ToSubunit_def shift_def big_uint64_def all_pays_def order_until_def sample_pay_def send_sample_defs)
qed

end
