(* ===== verification/Adm_Store.thy ===== *)
theory Adm_Store imports Acc_Auth Snd_Orders begin

text \<open>
  What the operators' console works on (controllers/admin): the tables of the other components, the
  configuration rows, the switches in Redis, the webhook queue, the transfers it orders and its
  append-only audit log (audit.go); and one request's environment.
\<close>

section \<open>The audit log\<close>

datatype adm_value = VText string | VBool bool | VNat nat | VDecimal decimal | VTime "instant option"

type_synonym adm_detail = "(string \<times> adm_value) list"

record audit_row =
  ad_actor :: string
  ad_action :: string
  ad_target :: string
  ad_detail :: adm_detail

section \<open>Rows\<close>

record currency_row =
  cu_id :: nat
  cu_market :: decimal
  cu_enabled :: bool

record listed_token =
  lt_id :: int
  lt_enabled :: bool

datatype attempt_status = WhSuccess | WhFailed | WhExpired

record webhook_attempt =
  wh_id :: int
  wh_url :: string
  wh_status :: attempt_status
  wh_attempts :: int
  wh_next :: instant

record admin_transfer =
  at_debit :: string
  at_bank :: string
  at_account :: string
  at_amount :: decimal
  at_reference :: string
  at_enquiry :: string

text \<open>\<open>cw_default\<close> is the rail of the live process.\<close>

record console =
  cw_send :: send_world
  cw_acc :: acc_world
  cw_currencies :: "currency_row list"
  cw_tokens :: "listed_token list"
  cw_webhooks :: "webhook_attempt list"
  cw_redis :: "string \<Rightarrow> string"
  cw_default :: "string option"
  cw_transfers :: "(admin_transfer \<times> outcome) list"
  cw_audit :: "audit_row list"

section \<open>Environment\<close>

datatype adm_site = DLoad | DUpdate | DAudit | DEvent | DGet | DSet string | DKeyDelete | DProfile

record adm_env =
  d_now :: instant
  d_ip :: string
  d_fault :: "adm_site \<Rightarrow> db_fault"
  d_acc :: acc_env
  d_show :: "nat \<Rightarrow> string"
  d_show_int :: "int \<Rightarrow> string"
  d_show_decimal :: "decimal \<Rightarrow> string"
  d_parse_dec :: "string \<Rightarrow> decimal option"
  d_redis :: bool
  d_keys :: "string \<Rightarrow> bool"
  d_cap :: decimal
  d_debit :: string
  d_enquiry :: "string \<Rightarrow> string \<Rightarrow> (string \<times> string) option"
  d_transfer :: "admin_transfer \<Rightarrow> outcome"
  d_float :: "string option"
  d_create_float :: "string \<Rightarrow> string \<Rightarrow> string option"
  d_post :: "webhook_attempt \<Rightarrow> nat option"

abbreviation dfails :: "adm_env \<Rightarrow> adm_site \<Rightarrow> bool" where
  "dfails e s \<equiv> d_fault e s \<noteq> DbOk"

text \<open>Replies: refused with a status, done, or answered with success although there was nothing to do.\<close>

datatype adm_reply = AdmRefused nat | AdmDone nat | AdmNoted

section \<open>Statements\<close>

text \<open>\<open>writeAudit\<close>: a row that cannot be written is only logged.\<close>

definition writeAudit :: "adm_env \<Rightarrow> string \<Rightarrow> string \<Rightarrow> adm_detail \<Rightarrow> (console, unit) state" where
  "writeAudit e action target detail = only_if (d_fault e DAudit \<noteq> DbFail) (modify (\<lambda>w. w\<lparr>cw_audit := cw_audit w @
     [\<lparr>ad_actor = d_ip e, ad_action = action, ad_target = target, ad_detail = detail @ [(''remote_addr'', VText (d_ip e))]\<rparr>]\<rparr>))"

text \<open>An update by id: of a row that exists, or not found.\<close>

definition save_row :: "adm_env \<Rightarrow> bool \<Rightarrow> (console \<Rightarrow> console) \<Rightarrow> (console, saved) state" where
  "save_row e found f = (if d_fault e DUpdate = DbFail then return DbErr
     else if \<not> found then return Stale
     else do { modify f; return (if d_fault e DUpdate = DbOk then saved.Saved else DbErr) })"

text \<open>The common end of the console's updates: not found, failed, or written to the audit log.\<close>

definition save_audited :: "adm_env \<Rightarrow> bool \<Rightarrow> (console \<Rightarrow> console) \<Rightarrow> string \<Rightarrow> string \<Rightarrow> adm_detail \<Rightarrow> (console, adm_reply) state" where
  "save_audited e found f action target detail = do {
     s \<leftarrow> save_row e found f;
     case s of saved.Saved \<Rightarrow> do { writeAudit e action target detail; return (AdmDone 200) }
     | Stale \<Rightarrow> return (AdmRefused 404)
     | DbErr \<Rightarrow> return (AdmRefused 500)
   }"

text \<open>The switches: without Redis a write is skipped and succeeds.\<close>

definition redisGet :: "adm_env \<Rightarrow> string \<Rightarrow> console \<Rightarrow> string" where
  "redisGet e key w = (if \<not> d_redis e \<or> dfails e DGet then '''' else cw_redis w key)"

definition redisSet :: "adm_env \<Rightarrow> string \<Rightarrow> string \<Rightarrow> (console, bool) state" where
  "redisSet e key v = (if \<not> d_redis e then return True
     else do {
       only_if (d_fault e (DSet key) \<noteq> DbFail) (modify (\<lambda>w. w\<lparr>cw_redis := (cw_redis w)(key := v)\<rparr>));
       return (d_fault e (DSet key) = DbOk)
     })"

text \<open>The parts of the console's state that belong to other components.\<close>

definition on_account :: "(acc_world \<Rightarrow> acc_world) \<Rightarrow> console \<Rightarrow> console" where
  "on_account f w = w\<lparr>cw_acc := f (cw_acc w)\<rparr>"

definition on_gateway :: "(escrow_world \<Rightarrow> escrow_world) \<Rightarrow> console \<Rightarrow> console" where
  "on_gateway f w = w\<lparr>cw_send := (cw_send w)\<lparr>sw_escrow := f (sw_escrow (cw_send w))\<rparr>\<rparr>"

definition console_match :: "console \<Rightarrow> match_world" where
  "console_match w = ew_match (sw_escrow (cw_send w))"

definition console_routes :: "console \<Rightarrow> world" where
  "console_routes w = ew_routes (sw_escrow (cw_send w))"

definition on_providers :: "(provider \<Rightarrow> provider) \<Rightarrow> console \<Rightarrow> console" where
  "on_providers f = on_gateway (\<lambda>v. v\<lparr>ew_match := (ew_match v)\<lparr>mw_providers := map f (mw_providers (ew_match v))\<rparr>\<rparr>)"

definition run_account :: "(acc_world, 'a) state \<Rightarrow> (console, 'a) state" where
  "run_account m = do {
     w \<leftarrow> fetch;
     let (x, v) = run_state m (cw_acc w);
     modify (\<lambda>w. w\<lparr>cw_acc := v\<rparr>);
     return x
   }"

definition run_routes :: "(world, 'a) state \<Rightarrow> (console, 'a) state" where
  "run_routes m = do {
     w \<leftarrow> fetch;
     let (x, v) = run_state m (console_routes w);
     modify (on_gateway (\<lambda>g. g\<lparr>ew_routes := v\<rparr>));
     return x
   }"

end
