(* ===== verification/Adm_Config.thy ===== *)
theory Adm_Config imports Adm_Store begin

text \<open>
  The console's configuration endpoints (controllers/admin/config.go) and the switches they set
  (services/settle_mode.go, rail_switch.go): currencies, tokens, providers, the settlement route of
  card taps, and the payment rails. A request body is \<open>None\<close> when it does not parse.
\<close>

section \<open>Rows\<close>

definition UpdateCurrency :: "adm_env \<Rightarrow> nat option \<Rightarrow> (string option \<times> bool option) option \<Rightarrow> (console, adm_reply) state" where
  "UpdateCurrency e i body = (case (i, body) of
     (Some i, Some (rate, enabled)) \<Rightarrow>
       if rate \<noteq> None \<and> d_parse_dec e (the rate) = None then return (AdmRefused 400)
       else if rate = None \<and> enabled = None then return (AdmRefused 400)
       else do {
         w \<leftarrow> fetch;
         let market = Option.bind rate (d_parse_dec e);
         save_audited e (i \<in> cu_id ` set (cw_currencies w))
           (\<lambda>w. w\<lparr>cw_currencies := map (\<lambda>r. if cu_id r = i then r\<lparr>cu_market := case_option (cu_market r) id market,
               cu_enabled := case_option (cu_enabled r) id enabled\<rparr> else r) (cw_currencies w)\<rparr>)
           ''config.currency.update'' (d_show e i)
           (case_option [] (\<lambda>m. [(''market_rate'', VText (d_show_decimal e m))]) market @
            case_option [] (\<lambda>b. [(''is_enabled'', VBool b)]) enabled)
       }
   | _ \<Rightarrow> return (AdmRefused 400))"

definition UpdateToken :: "adm_env \<Rightarrow> int option \<Rightarrow> bool option \<Rightarrow> (console, adm_reply) state" where
  "UpdateToken e i body = (case (i, body) of
     (Some i, Some b) \<Rightarrow> do {
       w \<leftarrow> fetch;
       save_audited e (i \<in> lt_id ` set (cw_tokens w))
         (\<lambda>w. w\<lparr>cw_tokens := map (\<lambda>r. if lt_id r = i then r\<lparr>lt_enabled := b\<rparr> else r) (cw_tokens w)\<rparr>)
         ''config.token.update'' (d_show_int e i) [(''is_enabled'', VBool b)]
     }
   | _ \<Rightarrow> return (AdmRefused 400))"

record provider_patch =
  pp_active :: "bool option"
  pp_kyb :: "bool option"
  pp_account :: "string option"

definition patch_provider :: "provider_patch \<Rightarrow> provider \<Rightarrow> provider" where
  "patch_provider p r = r\<lparr>pv_active := case_option (pv_active r) id (pp_active p),
     pv_kyb := case_option (pv_kyb r) id (pp_kyb p), pv_account_number := case_option (pv_account_number r) id (pp_account p)\<rparr>"

definition provider_detail :: "provider_patch \<Rightarrow> adm_detail" where
  "provider_detail p = case_option [] (\<lambda>b. [(''is_active'', VBool b)]) (pp_active p) @
     case_option [] (\<lambda>b. [(''is_kyb_verified'', VBool b)]) (pp_kyb p) @
     case_option [] (\<lambda>s. [(''safehaven_account_number'', VText s)]) (pp_account p)"

definition UpdateProvider :: "adm_env \<Rightarrow> string \<Rightarrow> provider_patch option \<Rightarrow> (console, adm_reply) state" where
  "UpdateProvider e i body = (case body of None \<Rightarrow> return (AdmRefused 400)
   | Some p \<Rightarrow> if provider_detail p = [] then return (AdmRefused 400)
     else do {
       w \<leftarrow> fetch;
       save_audited e (i \<in> pv_id ` set (mw_providers (console_match w)))
         (on_providers (\<lambda>r. if pv_id r = i then patch_provider p r else r))
         ''config.provider.update'' i (provider_detail p)
     })"

section \<open>The settlement route of card taps\<close>

definition settleModeKey :: string where "settleModeKey = ''rails:settle_mode''"

definition ValidSettleMode :: "string \<Rightarrow> bool \<times> bool" where
  "ValidSettleMode m = (if to_lower (trim_space m) \<in> {''bridge'', ''float'', ''lp_network''} then (True, True) else (False, False))"

definition CurrentSettleMode :: "adm_env \<Rightarrow> console \<Rightarrow> string" where
  "CurrentSettleMode e w = (if redisGet e settleModeKey w \<noteq> '''' then redisGet e settleModeKey w else ''bridge'')"

definition SetSettleMode :: "adm_env \<Rightarrow> string option \<Rightarrow> (console, adm_reply) state" where
  "SetSettleMode e body = (case body of None \<Rightarrow> return (AdmRefused 400)
   | Some m \<Rightarrow>
       if m = '''' \<or> \<not> fst (ValidSettleMode m) then return (AdmRefused 400)
       else if \<not> snd (ValidSettleMode m) then return (AdmRefused 409)
       else do {
         w \<leftarrow> fetch;
         let prev = CurrentSettleMode e w;
         ok \<leftarrow> redisSet e settleModeKey (to_lower (trim_space m));
         if \<not> ok then return (AdmRefused 500)
         else do {
           writeAudit e ''config.settle_mode'' m [(''from'', VText prev), (''to'', VText m)];
           return (AdmDone 200)
         }
       })"

section \<open>Payment rails\<close>

definition floatRailKey :: string where "floatRailKey = ''rails:float_rail''"
definition baasProviderKey :: string where "baasProviderKey = ''rails:baas_provider''"
definition fintavaFloatBankKey :: string where "fintavaFloatBankKey = ''rails:fintava_float_institution''"

definition RailConfigured :: "adm_env \<Rightarrow> string \<Rightarrow> console \<Rightarrow> bool" where
  "RailConfigured e name w = (let n = to_lower name in
     if n \<in> {''korapay'', ''fintava'', ''safehaven''} then d_keys e n
     else n = ''default'' \<and> cw_default w \<noteq> None)"

text \<open>The name of the adapter that is built.\<close>

definition BuildRail :: "adm_env \<Rightarrow> string \<Rightarrow> string option" where
  "BuildRail e name = (let n = to_lower name in
     if n \<in> {''korapay'', ''fintava''} \<and> d_keys e n then Some n else None)"

record rails_patch =
  rp_provider :: "string option"
  rp_float :: "string option"
  rp_institution :: "string option"

text \<open>Each part of the request is applied, or ends the request with a status.\<close>

definition set_float_rail :: "adm_env \<Rightarrow> string \<Rightarrow> (console, nat option) state" where
  "set_float_rail e s = do {
     w \<leftarrow> fetch;
     let rail = to_lower (trim_space s);
     if rail \<noteq> ''default'' \<and> \<not> RailConfigured e rail w then return (Some 400)
     else do { ok \<leftarrow> redisSet e floatRailKey (to_lower (trim_space rail)); return (if ok then None else Some 500) }
   }"

definition set_provider :: "adm_env \<Rightarrow> string \<Rightarrow> (console, nat option) state" where
  "set_provider e s = (let name = to_lower (trim_space s) in case BuildRail e name of None \<Rightarrow> return (Some 400)
   | Some adapter \<Rightarrow> do {
       modify (\<lambda>w. w\<lparr>cw_default := Some adapter\<rparr>);
       ok \<leftarrow> redisSet e baasProviderKey (to_lower (trim_space name));
       return (if ok then None else Some 500)
     })"

definition set_institution :: "adm_env \<Rightarrow> string \<Rightarrow> (console, nat option) state" where
  "set_institution e s = do { ok \<leftarrow> redisSet e fintavaFloatBankKey (trim_space (trim_space s)); return (if ok then None else Some 500) }"

definition part :: "string option \<Rightarrow> (string \<Rightarrow> (console, nat option) state) \<Rightarrow> (console, adm_reply) state \<Rightarrow> (console, adm_reply) state" where
  "part s f next = (case s of None \<Rightarrow> next
   | Some s \<Rightarrow> do { r \<leftarrow> f s; case r of None \<Rightarrow> next | Some st \<Rightarrow> return (AdmRefused st) })"

definition applied :: "rails_patch \<Rightarrow> adm_detail" where
  "applied p = case_option [] (\<lambda>s. [(''float_rail'', VText (to_lower (trim_space s)))]) (rp_float p) @
     case_option [] (\<lambda>s. [(''baas_provider'', VText (to_lower (trim_space s)))]) (rp_provider p) @
     case_option [] (\<lambda>s. [(''fintava_float_institution'', VText (trim_space s))]) (rp_institution p)"

definition SetRails :: "adm_env \<Rightarrow> rails_patch option \<Rightarrow> (console, adm_reply) state" where
  "SetRails e body = (case body of None \<Rightarrow> return (AdmRefused 400)
   | Some p \<Rightarrow>
       part (rp_float p) (set_float_rail e) (
       part (rp_provider p) (set_provider e) (
       part (rp_institution p) (set_institution e) (
         if applied p = [] then return (AdmRefused 400)
         else do { writeAudit e ''config.rails'' ''payment-rails'' (applied p); return (AdmDone 200) }))))"

end
