(* ===== verification/Adm_Console.thy ===== *)
theory Adm_Console imports Adm_Config begin

text \<open>
  The console's actions on people, orders and money (controllers/admin: users.go, users_extended.go,
  integrators.go, refunds.go, deposit_addresses.go, route_a.go, funding_actions.go, treasury.go,
  webhooks.go). A path parameter is \<open>None\<close> when it does not parse, a body when it does not bind.
\<close>

section \<open>Users\<close>

definition email_of :: "nat \<Rightarrow> console \<Rightarrow> string" where
  "email_of i w = (case find_user (\<lambda>x. us_id x = i) (cw_acc w) of None \<Rightarrow> '''' | Some x \<Rightarrow> us_email x)"

definition UpdateEarlyAccess :: "adm_env \<Rightarrow> nat option \<Rightarrow> bool option \<Rightarrow> (console, adm_reply) state" where
  "UpdateEarlyAccess e i body = (case (i, body) of
     (Some i, Some b) \<Rightarrow> do {
       w \<leftarrow> fetch;
       save_audited e (i \<in> us_id ` set (aw_users (cw_acc w))) (on_account (map_user i (\<lambda>x. x\<lparr>us_early := b\<rparr>)))
         ''user.early_access.update'' (email_of i w) [(''has_early_access'', VBool b)]
     }
   | _ \<Rightarrow> return (AdmRefused 400))"

record user_patch =
  up_scope :: "string option"
  up_verified :: "bool option"
  up_early :: "bool option"

definition patch_user :: "user_patch \<Rightarrow> user \<Rightarrow> user" where
  "patch_user p x = x\<lparr>us_scope := case_option (us_scope x) trim_space (up_scope p),
     us_verified := case_option (us_verified x) id (up_verified p), us_early := case_option (us_early x) id (up_early p)\<rparr>"

definition user_detail :: "user_patch \<Rightarrow> adm_detail" where
  "user_detail p = case_option [] (\<lambda>s. [(''scope'', VText (trim_space s))]) (up_scope p) @
     case_option [] (\<lambda>b. [(''is_email_verified'', VBool b)]) (up_verified p) @
     case_option [] (\<lambda>b. [(''has_early_access'', VBool b)]) (up_early p)"

definition UpdateUser :: "adm_env \<Rightarrow> nat option \<Rightarrow> user_patch option \<Rightarrow> (console, adm_reply) state" where
  "UpdateUser e i body = (case (i, body) of
     (Some i, Some p) \<Rightarrow> if user_detail p = [] then return (AdmRefused 400)
       else do {
         w \<leftarrow> fetch;
         save_audited e (i \<in> us_id ` set (aw_users (cw_acc w))) (on_account (map_user i (patch_user p)))
           ''user.update'' (d_show e i) (user_detail p)
       }
   | _ \<Rightarrow> return (AdmRefused 400))"

text \<open>An unknown user has no tokens.\<close>

definition RevokeSessions :: "adm_env \<Rightarrow> nat option \<Rightarrow> (console, adm_reply) state" where
  "RevokeSessions e i = (case i of None \<Rightarrow> return (AdmRefused 400)
   | Some i \<Rightarrow> do {
       w \<leftarrow> fetch;
       let n = length (filter (\<lambda>t. rt_owner t = i \<and> live t) (aw_tokens (cw_acc w)));
       ok \<leftarrow> run_account (RevokeAllForUser (d_acc e) i);
       if \<not> ok then return (AdmRefused 500)
       else do { writeAudit e ''user.revoke_sessions'' (d_show e i) [(''revoked'', VNat n)]; return (AdmDone 200) }
     })"

section \<open>Integrators\<close>

record new_integrator =
  ni_email :: string
  ni_password :: string

definition integrator_tx :: "acc_env \<Rightarrow> new_integrator \<Rightarrow> acc_world \<Rightarrow> tx" where
  "integrator_tx e r w = (let m = to_lower (trim_space (ni_email r)) in
     if afails e ATxBegin \<or> afails e AUserQuery then Inl 500
     else if m \<in> us_email ` set (aw_users w) then Inl 400
     else (case a_bcrypt e (ni_password r) of None \<Rightarrow> Inl 400
       | Some h \<Rightarrow> if afails e AUserCreate \<or> afails e AProfileCreate then Inl 400
           else then_tx (add_user e \<lparr>us_id = a_new_user e, us_email = m, us_password = h, us_scope = ''sender'',
               us_verified = False, us_early = False, us_wallet = False\<rparr> w) (add_profile e SenderProfile (a_new_user e))))"

definition CreateIntegrator :: "adm_env \<Rightarrow> new_integrator option \<Rightarrow> (console, adm_reply) state" where
  "CreateIntegrator e body = (case body of None \<Rightarrow> return (AdmRefused 400)
   | Some r \<Rightarrow> do {
       s \<leftarrow> run_account (run_tx (d_acc e) (integrator_tx (d_acc e) r));
       case s of Some st \<Rightarrow> return (AdmRefused st)
       | None \<Rightarrow> do {
           writeAudit e ''integrator.create'' (d_show e (a_new_user (d_acc e)))
             [(''api_key_id'', VText (d_show e (a_new_key (d_acc e) SenderProfile))), (''email'', VText (to_lower (trim_space (ni_email r))))];
           return (AdmDone 201)
         }
     })"

definition key_of :: "profile_kind \<Rightarrow> nat \<Rightarrow> acc_world \<Rightarrow> api_key option" where
  "key_of k i w = find (\<lambda>x. ak_kind x = Some k \<and> ak_user x = i) (aw_keys w)"

definition drop_key :: "api_key \<Rightarrow> acc_world \<Rightarrow> acc_world" where
  "drop_key k w = w\<lparr>aw_keys := filter (\<lambda>x. ak_id x \<noteq> ak_id k) (aw_keys w)\<rparr>"

text \<open>The old key and the new one, in one transaction.\<close>

definition rotate_tx :: "adm_env \<Rightarrow> profile_kind \<Rightarrow> nat \<Rightarrow> acc_world \<Rightarrow> tx" where
  "rotate_tx e k i w = (let a = d_acc e in
     if dfails e DProfile \<or> (i, k) \<notin> set (aw_profiles w) then Inl 404
     else if key_of k i w \<noteq> None \<and> dfails e DKeyDelete then Inl 500
     else (case a_key_secret a of None \<Rightarrow> Inl 500
       | Some secret \<Rightarrow> if afails a AKeyCreate then Inl 500
           else (let v = case_option w (\<lambda>x. drop_key x w) (key_of k i w) in
             Inr (v\<lparr>aw_keys := aw_keys v @ [\<lparr>ak_id = a_new_key a k, ak_secret = secret, ak_kind = Some k, ak_user = i\<rparr>]\<rparr>))))"

definition kind_of :: "string \<Rightarrow> profile_kind option" where
  "kind_of s = (let k = to_lower (trim_space s) in
     if k = ''sender'' then Some SenderProfile else if k = ''provider'' then Some ProviderProfile else None)"

definition RotateAPIKey :: "adm_env \<Rightarrow> string \<Rightarrow> nat option \<Rightarrow> string \<Rightarrow> (console, adm_reply) state" where
  "RotateAPIKey e kind i reason = (if afails (d_acc e) ATxBegin then return (AdmRefused 500)
   else (case (kind_of kind, i) of
     (None, _) \<Rightarrow> return (AdmRefused 400)
   | (Some SenderProfile, None) \<Rightarrow> return (AdmRefused 400)
   | (Some ProviderProfile, None) \<Rightarrow> return (AdmRefused 404)
   | (Some k, Some i) \<Rightarrow> do {
       s \<leftarrow> run_account (run_tx (d_acc e) (rotate_tx e k i));
       case s of Some st \<Rightarrow> return (AdmRefused st)
       | None \<Rightarrow> do {
           writeAudit e ''integrator.api_key.rotate'' (d_show e i) [(''kind'', VText (to_lower (trim_space kind))),
             (''reason'', VText reason), (''api_key_id'', VText (d_show e (a_new_key (d_acc e) k)))];
           return (AdmDone 200)
         }
     }))"

section \<open>Orders\<close>

fun po_status_text :: "po_status \<Rightarrow> string" where
  "po_status_text PoInitiated = ''initiated''" | "po_status_text PoPending = ''pending''"
| "po_status_text PoExpired = ''expired''" | "po_status_text PoCancelled = ''cancelled''"
| "po_status_text PoSettled = ''settled''" | "po_status_text PoRefunded = ''refunded''"

definition console_payment :: "nat \<Rightarrow> (payment_order \<Rightarrow> payment_order) \<Rightarrow> console \<Rightarrow> console" where
  "console_payment i f w = w\<lparr>cw_send := on_payment i f (cw_send w)\<rparr>"

text \<open>The body is the justification, which must not be empty, and the confirmation. Any status that is
  not refunded yet is overwritten, by the order's id.\<close>

definition RefundOrder_admin :: "adm_env \<Rightarrow> nat option \<Rightarrow> (string \<times> bool) option \<Rightarrow> (console, adm_reply) state" where
  "RefundOrder_admin e i body = (case (i, body) of
     (Some i, Some (why, confirm)) \<Rightarrow>
       if why = '''' then return (AdmRefused 400)
       else if dfails e DLoad then return (AdmRefused 500)
       else do {
         w \<leftarrow> fetch;
         case find_pay i (console_routes w) of None \<Rightarrow> return (AdmRefused 404)
         | Some p \<Rightarrow> if po_status p = PoRefunded then return AdmNoted
             else if \<not> confirm then return AdmNoted
             else save_audited e True (console_payment i (\<lambda>p. p\<lparr>po_status := PoRefunded\<rparr>)) ''order.refund'' (d_show e i)
               [(''previous_status'', VText (po_status_text (po_status p))), (''justification'', VText why)]
       }
   | _ \<Rightarrow> return (AdmRefused 400))"

fun recv_text :: "recv_status \<Rightarrow> string" where
  "recv_text RcUnused = ''unused''" | "recv_text RcDeposited = ''deposited''" | "recv_text RcForwarded = ''forwarded''"
| "recv_text RcSettled = ''settled''" | "recv_text RcExpired = ''expired''"

text \<open>The minutes are multiplied as an \<open>int64\<close> of nanoseconds. A body that does not bind counts as one
  without fields.\<close>

definition extension :: "int \<Rightarrow> duration" where
  "extension n = int64 ((if n \<le> 0 then 60 else n) * minute)"

definition extend_row :: "adm_env \<Rightarrow> int \<Rightarrow> bool \<Rightarrow> recv_addr \<Rightarrow> recv_addr" where
  "extend_row e n reactivate a = a\<lparr>ra_until := Some (d_now e + extension n), ra_status := (if reactivate then RcUnused else ra_status a)\<rparr>"

definition ExtendAddress :: "adm_env \<Rightarrow> string \<Rightarrow> int \<Rightarrow> bool \<Rightarrow> (console, adm_reply) state" where
  "ExtendAddress e s n reactivate = (if dfails e DLoad then return (AdmRefused 500)
   else do {
     w \<leftarrow> fetch;
     case only_row (filter (\<lambda>a. ra_address a = trim_space s) (ew_addrs (sw_escrow (cw_send w)))) of
       None \<Rightarrow> return (AdmRefused (if trim_space s \<in> ra_address ` set (ew_addrs (sw_escrow (cw_send w))) then 500 else 404))
     | Some a \<Rightarrow> if reactivate \<and> ra_status a \<noteq> RcExpired then return (AdmRefused 409)
         else save_audited e True (on_gateway (put_addr (ra_address a) (extend_row e n reactivate))) ''deposit_address.extend'' (ra_address a)
           ([(''previous_status'', VText (recv_text (ra_status a))), (''previous_valid_until'', VTime (ra_until a)),
             (''new_valid_until'', VTime (Some (d_now e + extension n)))] @ (if reactivate then [(''reactivated'', VBool True)] else []))
   })"

section \<open>Route A orders\<close>

fun bridge_status_text :: "bridge_status \<Rightarrow> string" where
  "bridge_status_text Pending = ''pending''" | "bridge_status_text AwaitingFunds = ''awaiting_funds''"
| "bridge_status_text Bridging = ''bridging''" | "bridge_status_text BridgeUncertain = ''bridge_uncertain''"
| "bridge_status_text Bridged = ''bridged''" | "bridge_status_text Dispatching = ''dispatching''"
| "bridge_status_text Settled = ''settled''" | "bridge_status_text Failed = ''failed''"
| "bridge_status_text Refunded = ''refunded''"

definition parseBridgeStatus :: "string \<Rightarrow> bridge_status option" where
  "parseBridgeStatus s = find (\<lambda>b. bridge_status_text b = s)
     [Pending, AwaitingFunds, Bridging, BridgeUncertain, Bridged, Dispatching, Settled, Failed, Refunded]"

definition writeManualOverrideEvent :: "adm_env \<Rightarrow> nat \<Rightarrow> (world, unit) state" where
  "writeManualOverrideEvent e i = only_if (d_fault e DEvent \<noteq> DbFail)
     (modify (\<lambda>w. w\<lparr>events := events w @ [\<lparr>ev_order = i, ev_step = ManualOverride, ev_status = Succeeded\<rparr>]\<rparr>))"

definition override_reason :: "string \<Rightarrow> reason" where
  "override_reason why = Text (''manual override: '' @ why)"

text \<open>By the order's id alone: the update asks for no status.\<close>

definition ForceState :: "adm_env \<Rightarrow> int option \<Rightarrow> (string \<times> string) option \<Rightarrow> (world, adm_reply) state" where
  "ForceState e i body = (case (i, body) of
     (Some i, Some (state, why)) \<Rightarrow>
       if state = '''' \<or> why = '''' then return (AdmRefused 400)
       else (case parseBridgeStatus state of None \<Rightarrow> return (AdmRefused 400)
         | Some b \<Rightarrow> if dfails e DLoad then return (AdmRefused 500)
             else do {
               w \<leftarrow> fetch;
               case find (\<lambda>r. int (ord_id r) = i) (orders w) of None \<Rightarrow> return (AdmRefused 404)
               | Some r \<Rightarrow> if d_fault e DUpdate = DbFail then return (AdmRefused 500)
                   else do {
                     modify (put_order (d_now e) (ord_id r) (\<lambda>_. True)
                       (\<lambda>r. r\<lparr>bridge_status := b, failure_reason := override_reason why\<rparr>));
                     if d_fault e DUpdate \<noteq> DbOk then return (AdmRefused 500)
                     else do { writeManualOverrideEvent e (ord_id r); return (AdmDone 200) }
                   }
             })
   | _ \<Rightarrow> return (AdmRefused 400))"

section \<open>Money\<close>

record transfer_body =
  tb_debit :: string
  tb_bank :: string
  tb_account :: string
  tb_amount :: string
  tb_reference :: string
  tb_confirm :: bool

definition transfer_plan :: "adm_env \<Rightarrow> admin_transfer \<Rightarrow> string \<Rightarrow> adm_detail" where
  "transfer_plan e t name = [(''debit_account'', VText (at_debit t)), (''beneficiary_account'', VText (at_account t)),
     (''beneficiary_name'', VText name), (''beneficiary_bank'', VText (at_bank t)),
     (''amount'', VText (d_show_decimal e (at_amount t))), (''reference'', VText (at_reference t))]"

text \<open>The transfer of a plan: the rail's answer is an error, or a session.\<close>

definition send_transfer :: "adm_env \<Rightarrow> admin_transfer \<Rightarrow> string \<Rightarrow> (console, adm_reply) state" where
  "send_transfer e t name = do {
     modify (\<lambda>w. w\<lparr>cw_transfers := cw_transfers w @ [(t, d_transfer e t)]\<rparr>);
     case d_transfer e t of
       Done s \<Rightarrow> do {
         writeAudit e ''funding.transfer'' (at_account t) (transfer_plan e t name @ [(''session_id'', VText s)]);
         return (AdmDone 200) }
     | _ \<Rightarrow> do {
         writeAudit e ''funding.transfer.failed'' (at_account t) (transfer_plan e t name);
         return (AdmRefused 502) }
   }"

definition transfer_bound :: "transfer_body \<Rightarrow> bool" where
  "transfer_bound b \<longleftrightarrow> tb_bank b \<noteq> '''' \<and> tb_account b \<noteq> '''' \<and> tb_amount b \<noteq> '''' \<and> tb_reference b \<noteq> ''''"

definition debit_account :: "adm_env \<Rightarrow> transfer_body \<Rightarrow> string" where
  "debit_account e b = (if tb_debit b = '''' then d_debit e else tb_debit b)"

text \<open>A cap that is not positive is none.\<close>

definition Transfer :: "adm_env \<Rightarrow> transfer_body option \<Rightarrow> (console, adm_reply) state" where
  "Transfer e body = (case body of None \<Rightarrow> return (AdmRefused 400)
   | Some b \<Rightarrow> if \<not> transfer_bound b then return (AdmRefused 400)
     else (case d_parse_dec e (tb_amount b) of None \<Rightarrow> return (AdmRefused 400)
       | Some x \<Rightarrow> if x \<le> 0 \<or> 0 < d_cap e \<and> d_cap e < x then return (AdmRefused 400)
           else do {
             w \<leftarrow> fetch;
             if cw_default w = None then return (AdmRefused 503)
             else if debit_account e b = '''' then return (AdmRefused 400)
             else (case d_enquiry e (tb_bank b) (tb_account b) of None \<Rightarrow> return (AdmRefused 502)
               | Some (enquiry, name) \<Rightarrow> if \<not> tb_confirm b then return AdmNoted
                   else send_transfer e \<lparr>at_debit = debit_account e b, at_bank = tb_bank b, at_account = tb_account b,
                     at_amount = x, at_reference = ''admin-'' @ tb_reference b, at_enquiry = enquiry\<rparr> name)
           }))"

text \<open>The float account is created at Korapay, if it has none yet; the body is the account's name and the
  bank verification number.\<close>

definition ProvisionFloatAccount :: "adm_env \<Rightarrow> (string \<times> string) option \<Rightarrow> (console, adm_reply) state" where
  "ProvisionFloatAccount e body = do {
     w \<leftarrow> fetch;
     let rail = (if redisGet e floatRailKey w \<noteq> '''' then redisGet e floatRailKey w else ''korapay'');
     if rail = ''fintava'' then return (AdmRefused 400)
     else if \<not> d_keys e ''korapay'' then return (AdmRefused 503)
     else if d_float e \<noteq> None then return AdmNoted
     else (case body of None \<Rightarrow> return (AdmRefused 400)
       | Some (name, bvn) \<Rightarrow>
           if name = '''' \<or> length bvn \<noteq> 11 \<or> \<not> list_all is_digit bvn then return (AdmRefused 400)
           else (case d_create_float e name bvn of None \<Rightarrow> return (AdmRefused 502)
             | Some number \<Rightarrow> do {
                 writeAudit e ''treasury.float_account.provision'' ''platform-float'' [(''account_number'', VText number)];
                 return (AdmDone 201) }))
   }"

section \<open>Webhooks\<close>

definition set_webhook :: "int \<Rightarrow> (webhook_attempt \<Rightarrow> webhook_attempt) \<Rightarrow> console \<Rightarrow> console" where
  "set_webhook i f w = w\<lparr>cw_webhooks := map (\<lambda>a. if wh_id a = i then f a else a) (cw_webhooks w)\<rparr>"

definition delivered :: "nat option \<Rightarrow> bool" where
  "delivered status \<longleftrightarrow> (case status of None \<Rightarrow> False | Some c \<Rightarrow> c < 205)"

text \<open>An attempt that cannot be written back is only logged.\<close>

definition RetryWebhook :: "adm_env \<Rightarrow> int option \<Rightarrow> (console, adm_reply) state" where
  "RetryWebhook e i = (case i of None \<Rightarrow> return (AdmRefused 400)
   | Some i \<Rightarrow> if dfails e DLoad then return (AdmRefused 500)
     else do {
       w \<leftarrow> fetch;
       case find (\<lambda>a. wh_id a = i) (cw_webhooks w) of None \<Rightarrow> return (AdmRefused 404)
       | Some a \<Rightarrow> do {
           let ok = delivered (d_post e a);
           _ \<leftarrow> save_row e True (set_webhook i (\<lambda>x. if ok then x\<lparr>wh_attempts := wh_attempts x + 1, wh_status := WhSuccess\<rparr>
             else x\<lparr>wh_attempts := wh_attempts x + 1, wh_status := WhFailed, wh_next := d_now e\<rparr>));
           writeAudit e ''webhook.retry'' (d_show_int e i)
             ([(''webhook_url'', VText (wh_url a)), (''delivered'', VBool ok)] @ case_option [] (\<lambda>c. [(''status_code'', VNat c)]) (d_post e a));
           return (if ok then AdmDone 200 else AdmRefused 502)
         }
     })"

end
