(* ===== verification/Adm_Results.thy ===== *)
theory Adm_Results imports Adm_Console Acc_Results Snd_Results begin

text \<open>
  Properties of the console: what the audit log accounts for, which transfers it can order, and what
  revoking sessions and rotating keys takes away.
\<close>

section \<open>Requests\<close>

datatype adm_request =
    QCurrency "nat option" "(string option \<times> bool option) option"
  | QToken "int option" "bool option"
  | QProvider string "provider_patch option"
  | QSettleMode "string option"
  | QRails "rails_patch option"
  | QEarly "nat option" "bool option"
  | QUser "nat option" "user_patch option"
  | QRevoke "nat option"
  | QIntegrator "new_integrator option"
  | QRotate string "nat option" string
  | QRefund "nat option" "(string \<times> bool) option"
  | QExtend string int bool
  | QForce "int option" "(string \<times> string) option"
  | QTransfer "transfer_body option"
  | QFloat "(string \<times> string) option"
  | QWebhook "int option"

definition console_perform :: "adm_env \<Rightarrow> adm_request \<Rightarrow> (console, adm_reply) state" where
  "console_perform e q = (case q of
     QCurrency i b \<Rightarrow> UpdateCurrency e i b | QToken i b \<Rightarrow> UpdateToken e i b | QProvider i b \<Rightarrow> UpdateProvider e i b
   | QSettleMode m \<Rightarrow> SetSettleMode e m | QRails b \<Rightarrow> SetRails e b | QEarly i b \<Rightarrow> UpdateEarlyAccess e i b
   | QUser i b \<Rightarrow> UpdateUser e i b | QRevoke i \<Rightarrow> RevokeSessions e i | QIntegrator b \<Rightarrow> CreateIntegrator e b
   | QRotate k i s \<Rightarrow> RotateAPIKey e k i s | QRefund i b \<Rightarrow> RefundOrder_admin e i b | QExtend s n b \<Rightarrow> ExtendAddress e s n b
   | QForce i b \<Rightarrow> run_routes (ForceState e i b) | QTransfer b \<Rightarrow> Transfer e b | QFloat b \<Rightarrow> ProvisionFloatAccount e b
   | QWebhook i \<Rightarrow> RetryWebhook e i)"

text \<open>The action a request is filed under, and the one it is filed under when it fails.\<close>

definition action_of :: "adm_request \<Rightarrow> string option" where
  "action_of q = (case q of
     QCurrency _ _ \<Rightarrow> Some ''config.currency.update'' | QToken _ _ \<Rightarrow> Some ''config.token.update''
   | QProvider _ _ \<Rightarrow> Some ''config.provider.update'' | QSettleMode _ \<Rightarrow> Some ''config.settle_mode''
   | QRails _ \<Rightarrow> None | QEarly _ _ \<Rightarrow> Some ''user.early_access.update'' | QUser _ _ \<Rightarrow> Some ''user.update''
   | QRevoke _ \<Rightarrow> Some ''user.revoke_sessions'' | QIntegrator _ \<Rightarrow> Some ''integrator.create''
   | QRotate _ _ _ \<Rightarrow> Some ''integrator.api_key.rotate'' | QRefund _ _ \<Rightarrow> Some ''order.refund''
   | QExtend _ _ _ \<Rightarrow> Some ''deposit_address.extend'' | QForce _ _ \<Rightarrow> None | QTransfer _ \<Rightarrow> Some ''funding.transfer''
   | QFloat _ \<Rightarrow> Some ''treasury.float_account.provision'' | QWebhook _ \<Rightarrow> Some ''webhook.retry'')"

definition failure_of :: "adm_request \<Rightarrow> string option" where
  "failure_of q = (case q of QTransfer _ \<Rightarrow> Some ''funding.transfer.failed'' | QWebhook _ \<Rightarrow> Some ''webhook.retry'' | _ \<Rightarrow> None)"

section \<open>The audit log\<close>

definition audited :: "adm_env \<Rightarrow> string \<Rightarrow> console \<Rightarrow> console \<Rightarrow> bool" where
  "audited e a w w' \<longleftrightarrow> (\<exists>r. cw_audit w' = cw_audit w @ [r] \<and> ad_actor r = d_ip e \<and> ad_action r = a)"

definition accounted_for :: "adm_env \<Rightarrow> string \<Rightarrow> string option \<Rightarrow> console \<Rightarrow> adm_reply \<Rightarrow> console \<Rightarrow> bool" where
  "accounted_for e a f w r w' \<longleftrightarrow> (case r of AdmDone _ \<Rightarrow> audited e a w w' | AdmNoted \<Rightarrow> w' = w
     | AdmRefused _ \<Rightarrow> w' = w \<or> (\<exists>b. f = Some b \<and> audited e b w w'))"

definition accounted :: "adm_env \<Rightarrow> string \<Rightarrow> string option \<Rightarrow> (console, adm_reply) state \<Rightarrow> bool" where
  "accounted e a f m \<longleftrightarrow> (\<forall>w. accounted_for e a f w (fst (run_state m w)) (snd (run_state m w)))"

text \<open>Every statement has an answer, and the audit log can be written.\<close>

definition answered :: "adm_env \<Rightarrow> bool" where
  "answered e \<longleftrightarrow> (\<forall>s. d_fault e s \<noteq> DbLostAck) \<and> (\<forall>s. a_fault (d_acc e) s \<noteq> DbLostAck) \<and> d_fault e DAudit = DbOk"

named_theorems account_intros \<open>requests the audit log accounts for\<close>

lemma accounted_return [account_intros]: "accounted e a f (return (AdmRefused s))" "accounted e a f (return AdmNoted)"
  by (simp_all add: accounted_def accounted_for_def)

lemma accounted_fetch [account_intros]: "(\<And>v. accounted e a f (g v)) \<Longrightarrow> accounted e a f (fetch \<bind> g)"
  by (simp add: accounted_def)

lemma accounted_if [account_intros]: "(c \<Longrightarrow> accounted e a f m) \<Longrightarrow> (\<not> c \<Longrightarrow> accounted e a f n) \<Longrightarrow> accounted e a f (if c then m else n)"
  by simp

lemma accounted_option [account_intros]:
  "(x = None \<Longrightarrow> accounted e a f m) \<Longrightarrow> (\<And>y. x = Some y \<Longrightarrow> accounted e a f (g y)) \<Longrightarrow>
   accounted e a f (case x of None \<Rightarrow> m | Some y \<Rightarrow> g y)"
  by (cases x) simp_all

lemma accounted_prod [account_intros]: "(\<And>x y. accounted e a f (g x y)) \<Longrightarrow> accounted e a f (case p of (x, y) \<Rightarrow> g x y)"
  by (cases p) simp

lemma audited_row:
  "audited e a w (v\<lparr>cw_audit := cw_audit w @ [\<lparr>ad_actor = d_ip e, ad_action = a, ad_target = t, ad_detail = d\<rparr>]\<rparr>)"
  by (simp add: audited_def)

lemma accounted_save [account_intros]:
  "answered e \<Longrightarrow> (\<And>w. cw_audit (g w) = cw_audit w) \<Longrightarrow> accounted e a f (save_audited e found g a t d)"
  by (auto simp: accounted_def accounted_for_def save_audited_def save_row_def answered_def writeAudit_def only_if_def audited_def)
    (metis db_fault.exhaust)

text \<open>A transaction of the accounts either takes effect and is known to, or leaves nothing.\<close>

lemma accounted_tx:
  assumes "answered e"
  shows "accounted e a f (do { s \<leftarrow> run_account (run_tx (d_acc e) g); case s of Some st \<Rightarrow> return (AdmRefused st)
     | None \<Rightarrow> do { writeAudit e a t d; return (AdmDone n) } })"
proof -
  have "a_fault (d_acc e) ACommit \<in> {DbOk, DbFail}" using assms by (cases "a_fault (d_acc e) ACommit") (auto simp: answered_def)
  with assms show ?thesis
    by (auto simp: accounted_def accounted_for_def run_account_def run_tx_def commit_def exec_def only_if_def answered_def
        writeAudit_def audited_def split: sum.splits)
qed

lemma accounted_redis:
  assumes "answered e"
  shows "accounted e a f (do { ok \<leftarrow> redisSet e key v; if \<not> ok then return (AdmRefused s)
     else do { writeAudit e a t d; return (AdmDone n) } })"
proof -
  have "d_fault e (DSet key) \<in> {DbOk, DbFail}" using assms by (cases "d_fault e (DSet key)") (auto simp: answered_def)
  with assms show ?thesis
    by (auto simp: accounted_def accounted_for_def redisSet_def only_if_def answered_def writeAudit_def audited_def)
qed

lemma accounted_revoke [account_intros]: "answered e \<Longrightarrow> accounted e ''user.revoke_sessions'' f (RevokeSessions e i)"
  by (auto simp: accounted_def accounted_for_def RevokeSessions_def run_account_def RevokeAllForUser_def exec_def only_if_def
      answered_def writeAudit_def audited_def split: option.splits) (metis db_fault.exhaust)+

lemma accounted_transfer [account_intros]: "answered e \<Longrightarrow> accounted e ''funding.transfer'' (Some ''funding.transfer.failed'') (send_transfer e t name)"
  by (auto simp: accounted_def accounted_for_def send_transfer_def answered_def writeAudit_def only_if_def audited_def split: outcome.splits)

lemma accounted_webhook [account_intros]: "answered e \<Longrightarrow> accounted e ''webhook.retry'' (Some ''webhook.retry'') (RetryWebhook e i)"
  by (auto simp: accounted_def accounted_for_def RetryWebhook_def save_row_def set_webhook_def Let_def answered_def writeAudit_def
      only_if_def audited_def split: option.splits)

lemma audit_frames [simp]:
  "cw_audit (on_account h w) = cw_audit w" "cw_audit (on_gateway g w) = cw_audit w" "cw_audit (on_providers p w) = cw_audit w"
  "cw_audit (console_payment i k w) = cw_audit w"
  by (simp_all add: on_account_def on_gateway_def on_providers_def console_payment_def)

lemma accounted_config:
  assumes "answered e"
  shows "accounted e ''config.currency.update'' f (UpdateCurrency e i b)"
    and "accounted e ''config.token.update'' f (UpdateToken e j c)"
    and "accounted e ''config.provider.update'' f (UpdateProvider e s p)"
    and "accounted e ''config.settle_mode'' f (SetSettleMode e m)"
  unfolding UpdateCurrency_def UpdateToken_def UpdateProvider_def SetSettleMode_def Let_def
  by (intro account_intros assms accounted_redis; simp)+

lemma accounted_people:
  assumes "answered e"
  shows "accounted e ''user.early_access.update'' f (UpdateEarlyAccess e i b)"
    and "accounted e ''user.update'' f (UpdateUser e i p)"
    and "accounted e ''integrator.create'' f (CreateIntegrator e n)"
    and "accounted e ''integrator.api_key.rotate'' f (RotateAPIKey e k i s)"
proof -
  show "accounted e ''integrator.api_key.rotate'' f (RotateAPIKey e k i s)"
  proof (cases "kind_of k")
    case (Some x)
    then show ?thesis
      unfolding RotateAPIKey_def
      by (cases i; cases x) (auto intro!: account_intros accounted_tx assms)
  qed (auto simp: RotateAPIKey_def intro!: account_intros)
qed (unfold UpdateEarlyAccess_def UpdateUser_def CreateIntegrator_def,
    (intro account_intros assms accounted_tx; simp)+)

lemma accounted_money:
  assumes "answered e"
  shows "accounted e ''order.refund'' f (RefundOrder_admin e i b)"
    and "accounted e ''deposit_address.extend'' f (ExtendAddress e s n r)"
    and "accounted e ''funding.transfer'' (Some ''funding.transfer.failed'') (Transfer e t)"
    and "accounted e ''treasury.float_account.provision'' f (ProvisionFloatAccount e x)"
proof -
  have "accounted e ''treasury.float_account.provision'' f
      (do { writeAudit e ''treasury.float_account.provision'' ''platform-float'' d; return (AdmDone 201) })" for d
    using assms by (simp add: accounted_def accounted_for_def writeAudit_def only_if_def answered_def audited_def)
  then show "accounted e ''treasury.float_account.provision'' f (ProvisionFloatAccount e x)"
    unfolding ProvisionFloatAccount_def Let_def by (intro account_intros)
qed (unfold RefundOrder_admin_def ExtendAddress_def Transfer_def Let_def, (intro account_intros assms; simp)+)

lemma request_accounted:
  assumes "answered e" "action_of q = Some a"
  shows "accounted e a (failure_of q) (console_perform e q)"
  using assms(2)
  by (cases q) (auto simp: action_of_def failure_of_def console_perform_def
      intro: account_intros assms(1) accounted_config accounted_people accounted_money)


section \<open>Transfers\<close>

inductive console_step :: "decimal \<Rightarrow> console \<Rightarrow> console \<Rightarrow> bool" for cap where
  "d_cap e = cap \<Longrightarrow> console_step cap w (snd (run_state (console_perform e q) w))"

abbreviation console_run :: "decimal \<Rightarrow> console \<Rightarrow> console \<Rightarrow> bool" where
  "console_run cap \<equiv> (console_step cap)\<^sup>*\<^sup>*"

definition capped :: "decimal \<Rightarrow> console \<Rightarrow> bool" where
  "capped cap w \<longleftrightarrow> (\<forall>(t, oc) \<in> set (cw_transfers w). 0 < at_amount t \<and> (0 < cap \<longrightarrow> at_amount t \<le> cap) \<and>
     at_debit t \<noteq> '''' \<and> prefix ''admin-'' (at_reference t))"

text \<open>What every request but a transfer keeps: anything that depends on the senders' tables and on the
  transfers ordered, and survives the updates the console makes there.\<close>

locale console_frame =
  fixes J :: "console \<Rightarrow> bool"
  assumes frame: "cw_send v = cw_send w \<Longrightarrow> cw_transfers v = cw_transfers w \<Longrightarrow> J w \<Longrightarrow> J v"
    and providers: "J w \<Longrightarrow> J (on_providers f w)"
    and routes: "J w \<Longrightarrow> J (on_gateway (\<lambda>g. g\<lparr>ew_routes := r\<rparr>) w)"
    and payment: "J w \<Longrightarrow> J (console_payment i h w)"
    and address: "gentle k \<Longrightarrow> J w \<Longrightarrow> J (on_gateway (put_addr a k) w)"
begin

lemma audit_kept: "keeps J (writeAudit e a t d)"
  unfolding writeAudit_def by (intro keeps_intros keeps_update) (rule frame; simp)

lemma redis_kept: "keeps J (redisSet e key v)"
  unfolding redisSet_def by (intro keeps_intros keeps_update) (rule frame; simp)

lemma account_kept: "keeps J (run_account m)"
  unfolding run_account_def Let_def by (intro keeps_intros keeps_update) (rule frame; simp)

lemma routes_kept: "keeps J (run_routes m)"
  unfolding run_routes_def Let_def by (intro keeps_intros keeps_update routes)

lemma row_kept: "(\<And>w. J w \<Longrightarrow> J (f w)) \<Longrightarrow> keeps J (save_row e b f)"
  unfolding save_row_def by (intro keeps_intros keeps_update)

lemma save_kept: "(\<And>w. J w \<Longrightarrow> J (f w)) \<Longrightarrow> keeps J (save_audited e b f a t d)"
  unfolding save_audited_def
  by (intro keeps_bind row_kept) (auto split: saved.split intro!: keeps_intros audit_kept)

lemma part_kept: "(\<And>s. keeps J (f s)) \<Longrightarrow> keeps J m \<Longrightarrow> keeps J (part x f m)"
  unfolding part_def by (intro keeps_intros)

lemmas small_kept = audit_kept redis_kept account_kept save_kept part_kept row_kept

lemma rails_kept: "keeps J (set_float_rail e s)" "keeps J (set_provider e s)" "keeps J (set_institution e s)"
  unfolding set_float_rail_def set_provider_def set_institution_def Let_def
  by (intro keeps_intros small_kept keeps_update, (rule frame; simp)?)+

lemma config_kept:
  "keeps J (UpdateCurrency e i b)" "keeps J (UpdateToken e j c)" "keeps J (UpdateProvider e s p)"
  "keeps J (SetSettleMode e m)" "keeps J (SetRails e r)"
  unfolding UpdateCurrency_def UpdateToken_def UpdateProvider_def SetSettleMode_def SetRails_def Let_def
  by (intro keeps_intros small_kept rails_kept providers, (assumption | (rule frame; simp))?)+

lemma rotate_kept: "keeps J (RotateAPIKey e k i s)"
proof (cases "kind_of k")
  case (Some x)
  then show ?thesis
    unfolding RotateAPIKey_def by (cases i; cases x) (auto intro!: keeps_intros small_kept)
qed (auto simp: RotateAPIKey_def intro!: keeps_intros)

lemma account_frame: "J w \<Longrightarrow> J (on_account h w)"
  by (rule frame [of _ w]) (simp_all add: on_account_def)

lemma people_kept:
  "keeps J (UpdateEarlyAccess e i b)" "keeps J (UpdateUser e i p)" "keeps J (RevokeSessions e i)" "keeps J (CreateIntegrator e n)"
  unfolding UpdateEarlyAccess_def UpdateUser_def RevokeSessions_def CreateIntegrator_def Let_def
  by (intro keeps_intros small_kept account_frame, assumption?)+

lemma extend_gentle: "gentle (extend_row e n r)"
  by (simp add: gentle_def extend_row_def)

lemma webhook_frame: "J w \<Longrightarrow> J (set_webhook i f w)"
  by (rule frame [of _ w]) (simp_all add: set_webhook_def)

lemma orders_kept:
  "keeps J (RefundOrder_admin e i b)" "keeps J (ExtendAddress e s n r)" "keeps J (ProvisionFloatAccount e x)" "keeps J (RetryWebhook e j)"
  unfolding RefundOrder_admin_def ExtendAddress_def ProvisionFloatAccount_def RetryWebhook_def Let_def
  by (intro keeps_intros small_kept payment address extend_gentle webhook_frame, assumption?)+

lemma request_kept: "(\<And>b. q \<noteq> QTransfer b) \<Longrightarrow> keeps J (console_perform e q)"
  by (cases q) (auto simp: console_perform_def intro: config_kept people_kept rotate_kept orders_kept routes_kept)

end

interpretation capped: console_frame "capped cap" for cap
  by unfold_locales
    (simp_all add: capped_def on_gateway_def on_providers_def console_payment_def)

lemma send_capped:
  assumes "0 < at_amount t" "0 < cap \<longrightarrow> at_amount t \<le> cap" "at_debit t \<noteq> ''''" "prefix ''admin-'' (at_reference t)"
  shows "keeps (capped cap) (send_transfer e t name)"
proof -
  have add: "keeps (capped cap) (modify (\<lambda>w. w\<lparr>cw_transfers := cw_transfers w @ [(t, d_transfer e t)]\<rparr>))"
    using assms by (intro keeps_update) (auto simp: capped_def)
  show ?thesis
    unfolding send_transfer_def
    by (intro keeps_bind add) (auto split: outcome.split intro!: keeps_intros capped.audit_kept)
qed

lemma Transfer_capped: "keeps (capped (d_cap e)) (Transfer e b)"
  unfolding Transfer_def
  by (intro keeps_intros send_capped keeps_option_eq) auto

lemma request_capped: "keeps (capped (d_cap e)) (console_perform e q)"
proof (cases "\<exists>b. q = QTransfer b")
  case True
  then show ?thesis by (auto simp: console_perform_def Transfer_capped)
next
  case False
  then show ?thesis by (intro capped.request_kept) blast
qed

text \<open>C38. No request of the console, in any sequence of them and whatever the rail answers, orders a
  transfer of a non-positive amount or of more than the configured cap (where there is one), without a
  debit account, or under a reference outside the console's own.\<close>

theorem console_transfers_capped:
  assumes "console_run cap w w'" "cw_transfers w = []" "(t, oc) \<in> set (cw_transfers w')"
  shows "0 < at_amount t \<and> (0 < cap \<longrightarrow> at_amount t \<le> cap) \<and> at_debit t \<noteq> '''' \<and> prefix ''admin-'' (at_reference t)"
proof -
  have "capped cap w" using assms(2) by (simp add: capped_def)
  with assms(1) have "capped cap w'"
  proof (induction rule: rtranclp_induct)
    case (step v u)
    from step.hyps(2) step.IH [OF step.prems] show ?case by (cases rule: console_step.cases) (auto intro: keepsD [OF request_capped])
  qed
  with assms(3) show ?thesis by (auto simp: capped_def)
qed

section \<open>Sessions and keys\<close>

lemma revoked_tokens:
  assumes "run_state (RevokeSessions e (Some i)) w = (AdmDone s, w')"
  shows "aw_tokens (cw_acc w') = revoked (\<lambda>t. rt_owner t = i) (a_now (d_acc e)) (aw_tokens (cw_acc w))"
  using assms
  by (auto simp: RevokeSessions_def run_account_def RevokeAllForUser_def exec_def only_if_def writeAudit_def map_tokens_def
      revoked_def revoke_row_def split: if_splits)

text \<open>C39. Revoking a user's sessions ends them for good: after a request that is done, no token of a family
  of that user is accepted again, in any run of requests that follows. New logins open new families.\<close>

theorem revoked_sessions_stay_ended:
  assumes "run_state (RevokeSessions e (Some i)) w = (AdmDone s, w')" "acc_run (cw_acc w') v"
    "t \<in> set (aw_tokens (cw_acc w))" "\<forall>x \<in> set (aw_tokens (cw_acc w)). rt_family x = rt_family t \<longrightarrow> rt_owner x = i"
    "y \<in> set (aw_tokens v)" "rt_family y = rt_family t"
  shows "\<not> live y"
proof -
  let ?ts = "revoked (\<lambda>t. rt_owner t = i) (a_now (d_acc e)) (aw_tokens (cw_acc w))"
  have ids: "rt_family ` set ?ts = rt_family ` set (aw_tokens (cw_acc w))" by (rule same_families) (rule revoked_ids)
  have "\<not> live x" if "x \<in> set ?ts" "rt_family x = rt_family t" for x
    using revoked_live [OF that(1)] that(2) assms(4) by blast
  then have "ended (rt_family t) (aw_tokens (cw_acc w'))"
    using ids assms(3) by (auto simp: ended_def revoked_tokens [OF assms(1)])
  from stopped.run_keeps [OF assms(2) this] assms(5,6) show ?thesis by (simp add: ended_def)
qed

lemma rotated_keys:
  assumes "run_state (RotateAPIKey e kind (Some i) why) w = (AdmDone s, w')"
  shows "\<exists>k secret. kind_of kind = Some k \<and> a_key_secret (d_acc e) = Some secret \<and>
    aw_keys (cw_acc w') = aw_keys (case_option (cw_acc w) (\<lambda>x. drop_key x (cw_acc w)) (key_of k i (cw_acc w))) @
      [\<lparr>ak_id = a_new_key (d_acc e) k, ak_secret = secret, ak_kind = Some k, ak_user = i\<rparr>]"
proof -
  from assms obtain k where k: "kind_of kind = Some k" by (cases "kind_of kind") (auto simp: RotateAPIKey_def split: if_splits)
  have "run_state (do { s \<leftarrow> run_account (run_tx (d_acc e) (rotate_tx e k i)); case s of Some st \<Rightarrow> return (AdmRefused st)
      | None \<Rightarrow> do { writeAudit e ''integrator.api_key.rotate'' (d_show e i) [(''kind'', VText (to_lower (trim_space kind))),
             (''reason'', VText why), (''api_key_id'', VText (d_show e (a_new_key (d_acc e) k)))];
           return (AdmDone 200) } }) w = (AdmDone s, w')"
    using assms k by (cases k) (auto simp: RotateAPIKey_def split: if_splits)
  with k show ?thesis
    by (auto simp: run_account_def run_tx_def commit_def exec_def only_if_def writeAudit_def rotate_tx_def Let_def
        split: sum.splits if_splits option.splits)
qed

lemma find_dropped:
  "find (\<lambda>x. ak_id x = j) (filter (\<lambda>x. ak_id x \<noteq> i) xs) = (if j = i then None else find (\<lambda>x. ak_id x = j) xs)"
  by (induction xs) auto

lemma api_key_kept: "aw_keys (drop_key k w) = filter (\<lambda>x. ak_id x \<noteq> ak_id k) (aw_keys w)"
  by (simp add: drop_key_def)

text \<open>Rotating the key of an integrator takes the old one away and issues one of the same profile: after a
  request that is done, a request under the old key's identifier finds no key, and the new identifier
  gives the profile. Every other key stays as it was.\<close>

theorem rotated_key_replaces:
  assumes "run_state (RotateAPIKey e kind (Some i) why) w = (AdmDone s, w')" "kind_of kind = Some k"
    "key_of k i (cw_acc w) = Some old" "a_new_key (d_acc e) k \<notin> ak_id ` set (aw_keys (cw_acc w))"
  shows "key_row g (ak_id old) (cw_acc w') = None \<and>
    map_option key_ctx (key_row g (a_new_key (d_acc e) k) (cw_acc w')) = Some (key_ctx old) \<and>
    (\<forall>j. j \<noteq> ak_id old \<and> j \<noteq> a_new_key (d_acc e) k \<longrightarrow> key_row g j (cw_acc w') = key_row g j (cw_acc w))"
proof -
  let ?new = "a_new_key (d_acc e) k"
  obtain secret where "aw_keys (cw_acc w') = aw_keys (case_option (cw_acc w) (\<lambda>x. drop_key x (cw_acc w)) (key_of k i (cw_acc w))) @
      [\<lparr>ak_id = ?new, ak_secret = secret, ak_kind = Some k, ak_user = i\<rparr>]"
    using rotated_keys [OF assms(1)] unfolding assms(2) option.inject by blast
  then have keys: "aw_keys (cw_acc w') = filter (\<lambda>x. ak_id x \<noteq> ak_id old) (aw_keys (cw_acc w)) @
      [\<lparr>ak_id = ?new, ak_secret = secret, ak_kind = Some k, ak_user = i\<rparr>]"
    by (simp only: assms(3) option.case api_key_kept)
  have old: "old \<in> set (aw_keys (cw_acc w))" "ak_kind old = Some k" "ak_user old = i"
    using assms(3) by (auto simp: key_of_def find_Some_iff)
  have other: "ak_id x \<noteq> ?new" if "x \<in> set (aw_keys (cw_acc w))" for x
    using imageI [OF that, of ak_id] assms(4) by metis
  then have none: "find (\<lambda>x. ak_id x = ?new) (aw_keys (cw_acc w)) = None" by (auto simp: find_None_iff)
  have new: "ak_id old \<noteq> ?new" by (rule other [OF old(1)])
  have "key_row g ?new (cw_acc w') = Some \<lparr>ak_id = ?new, ak_secret = secret, ak_kind = Some k, ak_user = i\<rparr>"
    using new by (simp add: key_row_def keys find_append find_dropped none)
  moreover have "key_row g j (cw_acc w') = (if j = ak_id old then None else key_row g j (cw_acc w))" if "j \<noteq> ?new" for j
    using that by (simp add: key_row_def keys find_append find_dropped split: option.split)
  moreover have "key_ctx old = key_ctx \<lparr>ak_id = ?new, ak_secret = secret, ak_kind = Some k, ak_user = i\<rparr>"
    using old(2,3) by (simp add: key_ctx_def split: profile_kind.split)
  ultimately show ?thesis using new by simp
qed

end
