(* ===== verification/Adm_Runs.thy ===== *)
theory Adm_Runs imports Adm_Results Route_Once begin

text \<open>
  Operators beside the machines: the dispatcher's order log and its bridging when states are forced
  between ticks, and the escrow gateway's deposits when the console is used between its steps.
\<close>

section \<open>Forced states\<close>

text \<open>The row an operator leaves.\<close>

definition forced :: "bridge_status \<Rightarrow> string \<Rightarrow> instant \<Rightarrow> route_order \<Rightarrow> route_order" where
  "forced b why t r = r\<lparr>bridge_status := b, failure_reason := override_reason why, updated_at := t\<rparr>"

lemma forced_simps [simp]:
  "ord_id (forced b why t r) = ord_id r" "ord_mode (forced b why t r) = ord_mode r" "bridge_status (forced b why t r) = b"
  by (simp_all add: forced_def)

definition with_forced :: "nat \<Rightarrow> bridge_status \<Rightarrow> string \<Rightarrow> instant \<Rightarrow> world \<Rightarrow> world" where
  "with_forced i b why t w = w\<lparr>orders := map (\<lambda>r. if ord_id r = i then forced b why t r else r) (orders w)\<rparr>"

lemma put_forced:
  "put_order t i (\<lambda>_. True) (\<lambda>r. r\<lparr>bridge_status := b, failure_reason := override_reason why\<rparr>) w = with_forced i b why t w"
  by (simp add: put_order_def with_forced_def forced_def)

lemma findSomeD: "find P xs = Some x \<Longrightarrow> P x"
  by (induction xs) (auto split: if_splits)

lemma parse_status_text [simp]: "parseBridgeStatus (bridge_status_text b) = Some b"
  by (cases b) (simp_all add: parseBridgeStatus_def)

lemma parse_status_iff: "parseBridgeStatus s = Some b \<longleftrightarrow> s = bridge_status_text b"
proof
  assume "parseBridgeStatus s = Some b"
  then show "s = bridge_status_text b" by (auto simp: parseBridgeStatus_def simp del: find.simps dest: findSomeD)
qed simp

lemma find_int: "find (\<lambda>r. int (ord_id r) = i) rs = (if 0 \<le> i then find (\<lambda>r. ord_id r = nat i) rs else None)"
  by (induction rs) auto

text \<open>What an override does, on every branch.\<close>

lemma ForceState_cases:
  assumes "run_state (ForceState e i body) w = (r, w')"
  obtains (refused) s where "r = AdmRefused s" "w' = w"
  | (silent) j b why x where "r = AdmRefused 500" "i = Some (int j)" "body = Some (bridge_status_text b, why)" "find_order j w = Some x"
      "w' = with_forced j b why (d_now e) w" "d_fault e DUpdate = DbLostAck"
  | (accepted) j b why x where "r = AdmDone 200" "i = Some (int j)" "body = Some (bridge_status_text b, why)" "find_order j w = Some x" "why \<noteq> ''''"
      "w' = (with_forced j b why (d_now e) w)\<lparr>events := events w @
        (if d_fault e DEvent = DbFail then [] else [\<lparr>ev_order = j, ev_step = ManualOverride, ev_status = Succeeded\<rparr>])\<rparr>"
proof -
  have same: "find (\<lambda>r. ord_id r = j) (orders w) = Some x \<Longrightarrow> ord_id x = j" for j x by (auto simp: find_Some_iff)
  have ev: "events (with_forced j b why t w) = events w" for j b why t by (simp add: with_forced_def)
  show thesis
  proof (cases "\<exists>j b why. i = Some (int j) \<and> body = Some (bridge_status_text b, why) \<and> why \<noteq> '''' \<and> \<not> dfails e DLoad \<and>
      find_order j w \<noteq> None \<and> d_fault e DUpdate \<noteq> DbFail")
    case True
    then obtain j b why x where req: "i = Some (int j)" "body = Some (bridge_status_text b, why)" "why \<noteq> ''''" "\<not> dfails e DLoad"
      "find_order j w = Some x" "d_fault e DUpdate \<noteq> DbFail" by blast
    have named: "bridge_status_text b \<noteq> ''''" by (cases b) simp_all
    have run: "run_state (ForceState e i body) w = (if d_fault e DUpdate \<noteq> DbOk then (AdmRefused 500, with_forced j b why (d_now e) w)
      else (AdmDone 200, (with_forced j b why (d_now e) w)\<lparr>events := events w @
        (if d_fault e DEvent = DbFail then [] else [\<lparr>ev_order = j, ev_step = ManualOverride, ev_status = Succeeded\<rparr>])\<rparr>))"
      using req named same [of j x]
      by (simp add: ForceState_def find_int find_order_def put_forced writeManualOverrideEvent_def only_if_def ev)
    show thesis
    proof (cases "d_fault e DUpdate = DbOk")
      case True
      with run assms have "r = AdmDone 200" "w' = (with_forced j b why (d_now e) w)\<lparr>events := events w @
        (if d_fault e DEvent = DbFail then [] else [\<lparr>ev_order = j, ev_step = ManualOverride, ev_status = Succeeded\<rparr>])\<rparr>" by simp_all
      from accepted [OF this(1) req(1,2,5,3) this(2)] show thesis .
    next
      case False
      with req(6) have lost: "d_fault e DUpdate = DbLostAck" by (cases "d_fault e DUpdate") simp_all
      with run assms have "r = AdmRefused 500" "w' = with_forced j b why (d_now e) w" by simp_all
      from silent [OF this(1) req(1,2,5) this(2) lost] show thesis .
    qed
  next
    case False
    have "\<exists>s. run_state (ForceState e i body) w = (AdmRefused s, w)"
    proof (cases "i = None \<or> body = None")
      case True
      then show ?thesis by (cases i; cases body) (auto simp: ForceState_def split: prod.split)
    next
      case some: False
      then obtain n state why where req: "i = Some n" "body = Some (state, why)" by auto
      show ?thesis
      proof (cases "parseBridgeStatus state")
        case None
        with req show ?thesis by (simp add: ForceState_def)
      next
        case (Some b)
        have "why = '''' \<or> dfails e DLoad \<or> find (\<lambda>r. int (ord_id r) = n) (orders w) = None \<or> d_fault e DUpdate = DbFail"
        proof (rule ccontr)
          assume a: "\<not> ?thesis"
          then have "0 \<le> n" "find_order (nat n) w \<noteq> None" by (auto simp: find_int find_order_def split: if_splits)
          with a req Some False show False by (metis int_nat_eq parse_status_iff)
        qed
        with req Some show ?thesis by (auto simp: ForceState_def split: option.split)
      qed
    qed
    with assms show thesis by (auto intro: refused)
  qed
qed

text \<open>An operator's override asks for nothing: on an order in any state, settled or refunded ones included,
  it is done if the database answers, replaces status and reason of that order only, leaves its digests,
  references and payouts as they are, and appends one row to the order's log if that row can be written.
  A refused override changed nothing, unless the answer of its update was lost: then the state is changed
  without any row.\<close>

theorem ForceState_result:
  assumes "run_state (ForceState e i body) w = (r, w')"
  shows "(\<exists>s. r = AdmRefused s \<and> (w' = w \<or>
      d_fault e DUpdate = DbLostAck \<and> (\<exists>j b why. i = Some (int j) \<and> w' = with_forced j b why (d_now e) w))) \<or>
    (\<exists>j b why. r = AdmDone 200 \<and> i = Some (int j) \<and> body = Some (bridge_status_text b, why) \<and> why \<noteq> '''' \<and>
      w' = (with_forced j b why (d_now e) w)\<lparr>events := events w @
        (if d_fault e DEvent = DbFail then [] else [\<lparr>ev_order = j, ev_step = ManualOverride, ev_status = Succeeded\<rparr>])\<rparr>)"
  by (rule ForceState_cases [OF assms]) blast+

section \<open>Bridging under overrides\<close>

text \<open>Runs of the dispatcher with overrides between its ticks. No order that was bridged is sent back to
  the start.\<close>

inductive operated_run :: "world \<Rightarrow> bool" where
  init: "orders w = [] \<Longrightarrow> calls w = [] \<Longrightarrow> operated_run w"
| create: "operated_run w \<Longrightarrow> bridge_status r = Pending \<Longrightarrow> gateway_order_id r = '''' \<Longrightarrow>
    find_order (ord_id r) w = None \<Longrightarrow> trace (ord_id r) w = [] \<Longrightarrow> operated_run (w\<lparr>orders := orders w @ [r]\<rparr>)"
| tick: "operated_run w \<Longrightarrow> operated_run (snd (run_state (Tick E) w))"
| outside: "operated_run w \<Longrightarrow> orders w' = orders w \<Longrightarrow> calls w' = calls w \<Longrightarrow> operated_run w'"
| override: "operated_run w \<Longrightarrow> (b \<in> {Pending, AwaitingFunds} \<longrightarrow> bridged_times (trace (nat i) w) = 0) \<Longrightarrow>
    operated_run (snd (run_state (ForceState e (Some i) (Some (bridge_status_text b, why))) w))"

lemma forced_view [simp]:
  "find_order i (with_forced j b why t w) = map_option (\<lambda>r. if ord_id r = j then forced b why t r else r) (find_order i w)"
  "trace i (with_forced j b why t w) = trace i w"
  "map ord_id (orders (with_forced j b why t w)) = map ord_id (orders w)"
proof -
  show "find_order i (with_forced j b why t w) = map_option (\<lambda>r. if ord_id r = j then forced b why t r else r) (find_order i w)"
    unfolding find_order_def with_forced_def by (simp add: find_map_same)
qed (auto simp: with_forced_def trace_def)

lemma forced_once:
  assumes "bridging.all_orders w" "b \<in> {Pending, AwaitingFunds} \<longrightarrow> bridged_times (trace j w) = 0"
  shows "bridging.all_orders (with_forced j b why t w)"
proof -
  have "bridged_once i (with_forced j b why t w)" for i
  proof -
    have "bridged_once i w" using assms(1) by (simp add: bridging.all_orders_def)
    then show ?thesis
      using assms(2)
      by (cases "find_order i w") (auto simp: bridged_once_def at_order_def bridge_safe_def waiting_def dest: find_order_id)
  qed
  with assms(1) show ?thesis by (simp add: bridging.all_orders_def uniq_def)
qed

lemma override_once:
  assumes "bridging.all_orders w" "b \<in> {Pending, AwaitingFunds} \<longrightarrow> bridged_times (trace (nat i) w) = 0"
  shows "bridging.all_orders (snd (run_state (ForceState e (Some i) (Some (bridge_status_text b, why))) w))"
proof -
  obtain r w' where run: "run_state (ForceState e (Some i) (Some (bridge_status_text b, why))) w = (r, w')" by fastforce
  have same: "bridge_status_text b = bridge_status_text b' \<Longrightarrow> b' = b" for b' by (metis option.inject parse_status_text)
  from run have "bridging.all_orders w'"
  proof (cases rule: ForceState_cases)
    case refused
    with assms(1) show ?thesis by simp
  next
    case (silent j b' why' x)
    with assms same show ?thesis by (auto intro!: forced_once)
  next
    case (accepted j b' why' x)
    let ?v = "with_forced j b' why' (d_now e) w"
    from accepted assms same have "bridging.all_orders ?v" by (auto intro!: forced_once)
    moreover have "orders w' = orders ?v" "calls w' = calls ?v" using accepted by simp_all
    ultimately show ?thesis using bridging.frame_orders by blast
  qed
  with run show ?thesis by simp
qed

text \<open>C35. Operators may force orders into any state between ticks, whatever the services answer and the
  database fails: as long as no order that may have been bridged is sent back to pending or
  awaiting_funds, the customer's funds are still bridged at most once.\<close>

theorem operated_run_bridges_once:
  assumes "operated_run w" "find_order i w = Some r"
  shows "bridged_times (trace i w) \<le> 1 \<and> (waiting r \<or> ord_mode r = LpNetwork \<longrightarrow> bridged_times (trace i w) = 0)"
proof -
  from assms(1) have "bridging.all_orders w"
  proof (induction rule: operated_run.induct)
    case (init w)
    then show ?case by (intro bridging.run dispatcher_run.init)
  next
    case (create w r)
    then show ?case by (intro bridging.new_order)
  next
    case (tick w E)
    then show ?case using bridging.tick_keeps [of E] by (simp add: keeps_def)
  next
    case (outside w w')
    then show ?case using bridging.frame_orders by blast
  qed (simp_all add: override_once)
  with assms(2) have "bridged_once i w" by (simp add: bridging.all_orders_def)
  with assms(2) show ?thesis by (simp add: bridged_once_def at_order_def bridge_safe_def)
qed

section \<open>Deposits beside the console\<close>

definition deposit_ok :: "nat \<Rightarrow> console \<Rightarrow> bool" where
  "deposit_ok i w \<longleftrightarrow> forwarded_ok i (sw_escrow (cw_send w))"

interpretation deposits: console_frame "deposit_ok i" for i
proof
  fix v w :: console and f r h k and j :: nat and a :: string
  show "deposit_ok i v" if "cw_send v = cw_send w" "cw_transfers v = cw_transfers w" "deposit_ok i w"
    using that by (simp add: deposit_ok_def)
  show "deposit_ok i (on_providers f w)" if "deposit_ok i w"
    using that once.frame [of "sw_escrow (cw_send (on_providers f w))" "sw_escrow (cw_send w)"]
    by (simp add: deposit_ok_def on_providers_def on_gateway_def)
  show "deposit_ok i (on_gateway (\<lambda>g. g\<lparr>ew_routes := r\<rparr>) w)" if "deposit_ok i w"
    using that once.frame [of "sw_escrow (cw_send (on_gateway (\<lambda>g. g\<lparr>ew_routes := r\<rparr>) w))" "sw_escrow (cw_send w)"]
    by (simp add: deposit_ok_def on_gateway_def)
  show "deposit_ok i (console_payment j h w)" if "deposit_ok i w"
    using that once.frame [of "sw_escrow (cw_send (console_payment j h w))" "sw_escrow (cw_send w)"]
    by (simp add: deposit_ok_def console_payment_def on_payment_def)
  show "deposit_ok i (on_gateway (put_addr a k) w)" if "gentle k" "deposit_ok i w"
    using that put_addr_ok by (simp add: deposit_ok_def on_gateway_def)
qed

lemma transfer_deposits: "keeps (deposit_ok i) (Transfer e b)"
proof -
  have "keeps (deposit_ok i) (send_transfer e t name)" for t name
    unfolding send_transfer_def
    by (intro keeps_bind keeps_update)
      (auto simp: deposit_ok_def split: outcome.split intro!: keeps_intros deposits.audit_kept)
  then show ?thesis unfolding Transfer_def by (intro keeps_intros)
qed

lemma console_deposits: "keeps (deposit_ok i) (console_perform e q)"
proof (cases "\<exists>b. q = QTransfer b")
  case True
  then show ?thesis by (auto simp: console_perform_def transfer_deposits)
next
  case False
  then show ?thesis by (intro deposits.request_kept) blast
qed

text \<open>The steps of the whole platform that touch deposits: senders and the gateway, and the console.\<close>

inductive platform_step :: "(escrow_env \<Rightarrow> bool) \<Rightarrow> console \<Rightarrow> console \<Rightarrow> bool" for G where
  senders: "send_step G (cw_send w) v \<Longrightarrow> platform_step G w (w\<lparr>cw_send := v\<rparr>)"
| accounts: "platform_step G w (w\<lparr>cw_acc := a\<rparr>)"
| operators: "platform_step G w (snd (run_state (console_perform e q) w))"

abbreviation platform_run :: "(escrow_env \<Rightarrow> bool) \<Rightarrow> console \<Rightarrow> console \<Rightarrow> bool" where
  "platform_run G \<equiv> (platform_step G)\<^sup>*\<^sup>*"


end
