(* ===== verification/Adm_Samples.thy ===== *)
theory Adm_Samples imports Adm_Runs Acc_Samples Snd_Samples begin

text \<open>
  Concrete uses of the console: they show that the properties' hypotheses can hold, and the executions
  in which a switch of the rails leaves no audit row, an order that was bridged is bridged again, and an
  order marked refunded is paid out all the same.
\<close>

section \<open>One operator\<close>

definition adm_calm :: adm_env where
  "adm_calm = \<lparr>d_now = 0, d_ip = ''10.0.0.1'', d_fault = (\<lambda>_. DbOk), d_acc = acc_calm, d_show = (\<lambda>_. ''id''), d_show_int = (\<lambda>_. ''n''),
     d_show_decimal = (\<lambda>_. ''x''), d_parse_dec = (\<lambda>s. map_option of_int (parse_int s)), d_redis = True, d_keys = (\<lambda>n. n = ''korapay''),
     d_cap = 1000000, d_debit = ''0011'', d_enquiry = (\<lambda>_ _. Some (''enq'', ''A Shop'')), d_transfer = (\<lambda>_. Done ''s1''), d_float = None,
     d_create_float = (\<lambda>_ _. Some ''9900''), d_post = (\<lambda>_. Some 200)\<rparr>"

definition old_key :: api_key where
  "old_key = \<lparr>ak_id = 50, ak_secret = ''old'', ak_kind = Some SenderProfile, ak_user = 7\<rparr>"

definition console_start :: console where
  "console_start = \<lparr>cw_send = send_start, cw_acc = one_account\<lparr>aw_tokens := [bob_token 2 ''new'' None], aw_keys := [old_key]\<rparr>,
     cw_currencies = [], cw_tokens = [\<lparr>lt_id = 3, lt_enabled = True\<rparr>], cw_webhooks = [], cw_redis = (\<lambda>_. ''''), cw_default = Some ''korapay'',
     cw_transfers = [], cw_audit = []\<rparr>"

lemma adm_fields:
  "d_now adm_calm = 0" "d_ip adm_calm = ''10.0.0.1''" "d_fault adm_calm s = DbOk" "d_acc adm_calm = acc_calm" "d_redis adm_calm"
  "d_keys adm_calm n \<longleftrightarrow> n = ''korapay''" "d_cap adm_calm = 1000000" "d_debit adm_calm = ''0011''"
  "d_enquiry adm_calm b a = Some (''enq'', ''A Shop'')" "d_transfer adm_calm t = Done ''s1''" "d_show adm_calm i = ''id''"
  "d_show_int adm_calm j = ''n''" "d_show_decimal adm_calm x = ''x''" "d_parse_dec adm_calm p = map_option of_int (parse_int p)"
  by (simp_all add: adm_calm_def)

lemma console_fields:
  "cw_tokens console_start = [\<lparr>lt_id = 3, lt_enabled = True\<rparr>]" "cw_default console_start = Some ''korapay''" "cw_transfers console_start = []"
  "cw_audit console_start = []" "cw_redis console_start k = ''''" "cw_send console_start = send_start"
  "aw_keys (cw_acc console_start) = [old_key]" "aw_tokens (cw_acc console_start) = [bob_token 2 ''new'' None]"
  "aw_profiles (cw_acc console_start) = [(7, SenderProfile)]"
  by (simp_all add: console_start_def one_account_def no_accounts_def)

lemma adm_texts: "to_lower (trim_space ''sender'') = ''sender''" "to_lower (trim_space ''default'') = ''default''"
    "to_lower (trim_space ''paystack'') = ''paystack''" "parse_int ''500'' = Some 500" "floatRailKey = ''rails:float_rail''"
    "to_lower (to_lower (trim_space ''paystack'')) = ''paystack''" "to_lower (trim_space (to_lower (trim_space ''default''))) = ''default''"
  by code_simp+

lemma adm_answered: "answered adm_calm"
  by (simp add: answered_def adm_fields) (simp add: acc_calm_def)

section \<open>Witnesses\<close>


definition sample_transfer :: transfer_body where
  "sample_transfer = \<lparr>tb_debit = '''', tb_bank = ''044'', tb_account = ''0123456789'', tb_amount = ''500'', tb_reference = ''r7'', tb_confirm = True\<rparr>"

lemma sample_transfer_run: "cw_transfers (snd (run_state (console_perform adm_calm (QTransfer (Some sample_transfer))) console_start)) =
    [(\<lparr>at_debit = ''0011'', at_bank = ''044'', at_account = ''0123456789'', at_amount = 500, at_reference = ''admin-r7'', at_enquiry = ''enq''\<rparr>, Done ''s1'')]"
  by (simp add: console_perform_def Transfer_def transfer_bound_def debit_account_def send_transfer_def writeAudit_def only_if_def sample_transfer_def
      adm_fields console_fields adm_texts)

lemma console_transfers_capped_witness:
  "\<exists>w' t. console_run 1000000 console_start w' \<and> cw_transfers w' = [t] \<and> 0 < at_amount (fst t) \<and> at_amount (fst t) \<le> 1000000"
proof -
  let ?w = "snd (run_state (console_perform adm_calm (QTransfer (Some sample_transfer))) console_start)"
  have run: "console_run 1000000 console_start ?w"
    by (rule r_into_rtranclp) (rule console_step.intros, simp add: adm_fields)
  obtain t oc where t: "cw_transfers ?w = [(t, oc)]" using sample_transfer_run by simp
  from console_transfers_capped [OF run, of t oc] t have "0 < at_amount t" "at_amount t \<le> 1000000" by (simp_all add: console_fields)
  with run t show ?thesis by (intro exI [of _ ?w] exI [of _ "(t, oc)"]) simp
qed

lemma revoked_sessions_stay_ended_witness:
  "\<exists>w' y. run_state (RevokeSessions adm_calm (Some 7)) console_start = (AdmDone 200, w') \<and> aw_tokens (cw_acc w') = [y] \<and> \<not> live y"
proof -
  obtain w' where r: "run_state (RevokeSessions adm_calm (Some 7)) console_start = (AdmDone 200, w')"
    by (simp add: RevokeSessions_def run_account_def RevokeAllForUser_def exec_run writeAudit_def only_if_def adm_fields acc_calm_def)
  obtain y where y: "aw_tokens (cw_acc w') = [y]" "rt_family y = 21"
    using revoked_tokens [OF r] by (auto simp: console_fields revoked_def bob_token_def revoke_row_def)
  have "\<not> live y"
    by (rule revoked_sessions_stay_ended [OF r, of "cw_acc w'" "bob_token 2 ''new'' None"])
      (simp_all add: y console_fields bob_token_def)
  with r y show ?thesis by blast
qed

lemma rotate_run: "\<exists>w'. run_state (RotateAPIKey adm_calm ''sender'' (Some 7) ''lost'') console_start = (AdmDone 200, w')"
  by (simp add: RotateAPIKey_def kind_of_def adm_texts run_account_def run_tx_def rotate_tx_def commit_def exec_run writeAudit_def only_if_def Let_def
      adm_fields console_fields key_of_def old_key_def acc_calm_def)

lemma rotated_key_replaces_witness:
  "\<exists>w'. run_state (RotateAPIKey adm_calm ''sender'' (Some 7) ''lost'') console_start = (AdmDone 200, w') \<and>
     key_row gate_calm 50 (cw_acc w') = None \<and> key_row gate_calm 51 (cw_acc w') \<noteq> None"
proof -
  obtain w' where r: "run_state (RotateAPIKey adm_calm ''sender'' (Some 7) ''lost'') console_start = (AdmDone 200, w')"
    using rotate_run by blast
  have "key_row gate_calm (ak_id old_key) (cw_acc w') = None \<and>
      map_option key_ctx (key_row gate_calm (a_new_key (d_acc adm_calm) SenderProfile) (cw_acc w')) = Some (key_ctx old_key) \<and>
      (\<forall>j. j \<noteq> ak_id old_key \<and> j \<noteq> a_new_key (d_acc adm_calm) SenderProfile \<longrightarrow>
        key_row gate_calm j (cw_acc w') = key_row gate_calm j (cw_acc console_start))"
    by (rule rotated_key_replaces [OF r])
      (simp_all add: kind_of_def adm_texts key_of_def console_fields old_key_def adm_fields acc_calm_def)
  then have "key_row gate_calm 50 (cw_acc w') = None" "key_row gate_calm 51 (cw_acc w') \<noteq> None"
    by (auto simp: old_key_def adm_fields acc_calm_def)
  with r show ?thesis by blast
qed


section \<open>Forced states\<close>

text \<open>The order of \<open>sent\<close> was bridged in transaction B1 and is in status bridging.\<close>

abbreviation forced_to :: "string \<Rightarrow> world" where
  "forced_to s \<equiv> snd (run_state (ForceState adm_calm (Some 7) (Some (s, ''stuck''))) sent)"

lemma sent_found: "\<exists>x. find_order 7 sent = Some x \<and> ord_mode x = Treasury \<and> bridge_status x = Bridging"
  using sent_row by auto

lemma forced_to_world: "forced_to (bridge_status_text b) = (with_forced 7 b ''stuck'' 0 sent)\<lparr>events := events sent @
    [\<lparr>ev_order = 7, ev_step = ManualOverride, ev_status = Succeeded\<rparr>]\<rparr>"
proof -
  obtain x where x: "find (\<lambda>r. ord_id r = 7) (orders sent) = Some x" using sent_found by (auto simp: find_order_def)
  then have "ord_id x = 7" by (auto simp: find_Some_iff)
  moreover have "bridge_status_text b \<noteq> ''''" by (cases b) simp_all
  ultimately show ?thesis
    using x by (simp add: ForceState_def find_int put_forced writeManualOverrideEvent_def only_if_def adm_fields)
      (simp add: with_forced_def)
qed

lemma ForceState_result_witness:
  "events (forced_to ''settled'') = events sent @ [\<lparr>ev_order = 7, ev_step = ManualOverride, ev_status = Succeeded\<rparr>]"
proof -
  obtain r w' where run: "run_state (ForceState adm_calm (Some 7) (Some (''settled'', ''stuck''))) sent = (r, w')" by fastforce
  have e: "events (with_forced j b why t sent) = events sent" for j b why t by (simp add: with_forced_def)
  have w: "w' = (with_forced 7 Settled ''stuck'' 0 sent)\<lparr>events := events sent @ [\<lparr>ev_order = 7, ev_step = ManualOverride, ev_status = Succeeded\<rparr>]\<rparr>"
    using forced_to_world [of Settled] run by simp
  from ForceState_result [OF run] show ?thesis
    using run w by (auto simp: adm_fields e)
qed

lemma operated_run_bridges_once_witness:
  "operated_run (forced_to ''failed'') \<and> bridged_times (trace 7 (forced_to ''failed'')) \<le> 1"
proof
  have "dispatcher_run ok w \<Longrightarrow> operated_run w" for ok w
    by (induction rule: dispatcher_run.induct) (auto intro: operated_run.intros)
  moreover have "dispatcher_run (\<lambda>_. True) sent" by (intro dispatcher_run.tick with_order_run) simp
  ultimately have "operated_run sent" by blast
  then show run: "operated_run (forced_to ''failed'')"
    using operated_run.override [of sent Failed 7 adm_calm "''stuck''"] by simp
  obtain x where x: "find_order 7 sent = Some x" using sent_found by blast
  have "find_order 7 (forced_to ''failed'') = find_order 7 (with_forced 7 Failed ''stuck'' 0 sent)"
    using forced_to_world [of Failed] by (simp add: find_order_def)
  also have "\<dots> = Some (if ord_id x = 7 then forced Failed ''stuck'' 0 x else x)" by (simp add: x)
  finally show "bridged_times (trace 7 (forced_to ''failed'')) \<le> 1"
    using operated_run_bridges_once [OF run] by blast
qed

section \<open>Executions that go wrong\<close>

text \<open>C40. A request to the rails switch whose second part is refused (here an adapter that cannot be built)
  answers an error, although its first part is in force: the float rail has changed, and no audit row
  says so.\<close>

theorem rails_change_unaudited:
  "\<exists>w'. run_state (console_perform adm_calm (QRails (Some \<lparr>rp_provider = Some ''paystack'', rp_float = Some ''default'', rp_institution = None\<rparr>)))
       console_start = (AdmRefused 400, w') \<and>
     cw_redis console_start floatRailKey = '''' \<and> cw_redis w' floatRailKey = ''default'' \<and> cw_audit w' = cw_audit console_start"
proof -
  have "BuildRail adm_calm ''paystack'' = None"
    using adm_texts(6) by (simp add: BuildRail_def Let_def adm_texts(3))
  then show ?thesis
    by (simp add: console_perform_def SetRails_def part_def set_float_rail_def set_provider_def redisSet_def only_if_def Let_def
        adm_fields console_fields adm_texts)
qed

text \<open>C36. An override that sends an order back to pending after its bridge transaction was submitted has it
  bridged a second time at the next tick: neither the override nor the claim looks at the digest, which
  is still on the row.\<close>

theorem forced_order_bridged_twice:
  "dispatcher_run (\<lambda>_. True) sent \<and> bridged_times (trace 7 sent) = 1 \<and>
   map bridge_tx_sui (orders (forced_to ''pending'')) = [''B1''] \<and>
   bridged_times (trace 7 (after bridging_env (forced_to ''pending''))) = 2"
proof (intro conjI)
  show "dispatcher_run (\<lambda>_. True) sent" by (intro dispatcher_run.tick with_order_run) simp
  show "bridged_times (trace 7 sent) = 1" using sent_row by (simp add: trace_def bridged_times_def)
  have f: "forced_to ''pending'' = (with_forced 7 Pending ''stuck'' 0 sent)\<lparr>events := events sent @
      [\<lparr>ev_order = 7, ev_step = ManualOverride, ev_status = Succeeded\<rparr>]\<rparr>"
    using forced_to_world [of Pending] by simp
  show "map bridge_tx_sui (orders (forced_to ''pending'')) = [''B1'']"
    unfolding f by (simp add: with_forced_def forced_def running bridging_env_def split del: if_split)
  show "bridged_times (trace 7 (after bridging_env (forced_to ''pending''))) = 2"
    unfolding f
    by (simp add: with_forced_def forced_def override_reason_def running bridging_env_def bridged_times_def trace_def split del: if_split)
qed

text \<open>An order that an operator marks refunded is paid to the merchant at the next tick all the same: the
  refund is recorded on the payment order alone, and the dispatcher does not look there.\<close>

definition network_console :: console where
  "network_console = console_start\<lparr>cw_send := send_start\<lparr>sw_escrow := escrow_start (with_order LpNetwork) [sample_addr]\<rparr>\<rparr>"

abbreviation refunded_console :: console where
  "refunded_console \<equiv> snd (run_state (console_perform adm_calm (QRefund (Some 1) (Some (''returned'', True)))) network_console)"

lemma refunded_run:
  "fst (run_state (console_perform adm_calm (QRefund (Some 1) (Some (''returned'', True)))) network_console) = AdmDone 200 \<and>
   console_routes refunded_console = (with_order LpNetwork)\<lparr>pays := [sample_pay\<lparr>po_status := PoRefunded\<rparr>]\<rparr>"
  by (simp add: console_perform_def RefundOrder_admin_def network_console_def console_routes_def escrow_start_def find_pay_def with_order_def
      empty_world_def sample_pay_def save_audited_def save_row_def writeAudit_def only_if_def adm_fields console_payment_def on_payment_def)

theorem refunded_order_still_paid:
  "map po_status (pays (console_routes refunded_console)) = [PoRefunded] \<and>
   calls (after funded (console_routes refunded_console)) = [CallTransfer 7 ''rbpay-7-1'' 15000 (Done ''rbpay-7-1'')]"
  unfolding refunded_run [THEN conjunct2]
  by (simp add: running funded_def split del: if_split)

end
